(* ===== verification/Prelude.thy ===== *)
theory Prelude
  imports Main
begin

text \<open>
  The vocabulary every component theory shares.

  \<^item> Results: a JavaScript computation that may throw is a value of \<open>'e + 'a\<close> (\<open>Inl\<close>
    the thrown error); an asynchronous one that also talks to the outside is a state
    transformer \<open>('e, 's, 'a) io\<close> over the state \<open>'s\<close> of everything outside the program.
    An \<open>await\<close> is \<open>bindIO\<close>, a \<open>throw\<close> is \<open>throwIO\<close>, a \<open>try\<close>/\<open>catch\<close> is \<open>catchIO\<close>.
  \<^item> Strings: a JavaScript string is a list of code units; the model uses \<^typ>\<open>char\<close>, which
    has the code units 0 to 255 (Latin-1). The one code unit above 255 that the modelled code
    writes itself, the dash U+2014, is the constant \<open>em_dash\<close>.
  \<^item> Decimal numerals: printing and reading of natural numbers and integers.

  The collection \<open>js_simps\<close> holds the rules with which the simplifier evaluates these
  operations on literals; \<open>io_defs\<close> holds the definitions of the effect operations.
\<close>

named_theorems js_simps "evaluation of the JavaScript vocabulary on literals"
named_theorems io_defs "definitions of the effect operations"

subsection \<open>Results\<close>

definition bindE :: "'e + 'a \<Rightarrow> ('a \<Rightarrow> 'e + 'b) \<Rightarrow> 'e + 'b" where
  "bindE m f = (case m of Inl e \<Rightarrow> Inl e | Inr x \<Rightarrow> f x)"

lemma bindE_simps [simp]:
  "bindE (Inl e) f = Inl e"
  "bindE (Inr x) f = f x"
  by (simp_all add: bindE_def)

lemma bindE_eq_Inr: "bindE m f = Inr y \<longleftrightarrow> (\<exists>x. m = Inr x \<and> f x = Inr y)"
  by (cases m) auto

lemma bindE_eq_Inl: "bindE m f = Inl e \<longleftrightarrow> m = Inl e \<or> (\<exists>x. m = Inr x \<and> f x = Inl e)"
  by (cases m) auto

text \<open>\<open>xs.map(f)\<close> where \<open>f\<close> may throw: the first throw wins.\<close>

fun mapE :: "('a \<Rightarrow> 'e + 'b) \<Rightarrow> 'a list \<Rightarrow> 'e + 'b list" where
  "mapE f [] = Inr []"
| "mapE f (x # xs) = bindE (f x) (\<lambda>y. bindE (mapE f xs) (\<lambda>ys. Inr (y # ys)))"

lemma mapE_eq_Inr: "mapE f xs = Inr ys \<longleftrightarrow> list_all2 (\<lambda>x y. f x = Inr y) xs ys"
proof (induction xs arbitrary: ys)
  case Nil
  then show ?case by (cases ys) auto
next
  case (Cons x xs)
  then show ?case by (cases ys) (auto simp: bindE_eq_Inr)
qed

lemma mapE_length: "mapE f xs = Inr ys \<Longrightarrow> length ys = length xs"
  by (auto simp: mapE_eq_Inr dest: list_all2_lengthD)

subsection \<open>Effects\<close>

type_synonym ('e, 's, 'a) io = "'s \<Rightarrow> ('e + 'a) \<times> 's"

definition returnIO :: "'a \<Rightarrow> ('e, 's, 'a) io" where
  "returnIO x = (\<lambda>s. (Inr x, s))"

definition throwIO :: "'e \<Rightarrow> ('e, 's, 'a) io" where
  "throwIO e = (\<lambda>s. (Inl e, s))"

definition bindIO :: "('e, 's, 'a) io \<Rightarrow> ('a \<Rightarrow> ('e, 's, 'b) io) \<Rightarrow> ('e, 's, 'b) io" where
  "bindIO m f = (\<lambda>s. case m s of (Inl e, s') \<Rightarrow> (Inl e, s') | (Inr x, s') \<Rightarrow> f x s')"

definition catchIO :: "('e, 's, 'a) io \<Rightarrow> ('e \<Rightarrow> ('e, 's, 'a) io) \<Rightarrow> ('e, 's, 'a) io" where
  "catchIO m h = (\<lambda>s. case m s of (Inl e, s') \<Rightarrow> h e s' | (Inr x, s') \<Rightarrow> (Inr x, s'))"

text \<open>A pure computation that may throw, run inside an effectful one.\<close>

definition liftE :: "'e + 'a \<Rightarrow> ('e, 's, 'a) io" where
  "liftE r = (\<lambda>s. (r, s))"

text \<open>An effect on the state that yields nothing.\<close>

definition modifyIO :: "('s \<Rightarrow> 's) \<Rightarrow> ('e, 's, unit) io" where
  "modifyIO f = (\<lambda>s. (Inr (), f s))"

lemmas [io_defs] = returnIO_def throwIO_def bindIO_def catchIO_def liftE_def modifyIO_def

lemma bindIO_return [simp]: "bindIO (returnIO x) f = f x"
  by (simp add: io_defs)

lemma bindIO_throw [simp]: "bindIO (throwIO e) f = throwIO e"
  by (simp add: io_defs fun_eq_iff)

lemma bindIO_assoc: "bindIO (bindIO m f) g = bindIO m (\<lambda>x. bindIO (f x) g)"
  by (auto simp: io_defs fun_eq_iff split: prod.splits sum.splits)

lemma bindIO_liftE [simp]:
  "bindIO (liftE (Inl e)) f = throwIO e"
  "bindIO (liftE (Inr x)) f = f x"
  by (simp_all add: io_defs fun_eq_iff)

lemma bindIO_Inr:
  "m s = (Inr x, s') \<Longrightarrow> bindIO m f s = f x s'"
  by (simp add: io_defs)

lemma bindIO_Inl:
  "m s = (Inl e, s') \<Longrightarrow> bindIO m f s = (Inl e, s')"
  by (simp add: io_defs)

lemma bindIO_eq_Inr:
  "bindIO m f s = (Inr y, t) \<longleftrightarrow> (\<exists>x s'. m s = (Inr x, s') \<and> f x s' = (Inr y, t))"
  by (auto simp: io_defs split: prod.splits sum.splits)

lemma returnIO_apply: "returnIO x s = (Inr x, s)"
  by (simp add: io_defs)

lemma throwIO_apply: "throwIO e s = (Inl e, s)"
  by (simp add: io_defs)

text \<open>
  A property of the state that every step of a computation keeps is kept by the whole of it.
  \<open>preserves I m\<close> is the invariant rule of the effect operations.
\<close>

definition preserves :: "('s \<Rightarrow> 's \<Rightarrow> bool) \<Rightarrow> ('e, 's, 'a) io \<Rightarrow> bool" where
  "preserves R m \<longleftrightarrow> (\<forall>s. R s (snd (m s)))"

lemma preservesI: "(\<And>s. R s (snd (m s))) \<Longrightarrow> preserves R m"
  by (simp add: preserves_def)

lemma preservesD: "preserves R m \<Longrightarrow> R s (snd (m s))"
  by (simp add: preserves_def)

lemma preserves_return [intro, simp]: "reflp R \<Longrightarrow> preserves R (returnIO x)"
  by (simp add: preserves_def returnIO_apply reflpD)

lemma preserves_throw [intro, simp]: "reflp R \<Longrightarrow> preserves R (throwIO e)"
  by (simp add: preserves_def throwIO_apply reflpD)

lemma preserves_liftE [intro, simp]: "reflp R \<Longrightarrow> preserves R (liftE r)"
  by (simp add: preserves_def reflpD liftE_def)

lemma preserves_bind [intro]:
  assumes "transp R" and "preserves R m" and "\<And>x. preserves R (f x)"
  shows "preserves R (bindIO m f)"
proof (rule preservesI)
  fix s
  obtain r s' where m: "m s = (r, s')" by (cases "m s")
  have "R s s'" using preservesD [OF assms(2), of s] m by simp
  moreover have "r = Inr x \<Longrightarrow> R s' (snd (f x s'))" for x
    using preservesD [OF assms(3)] .
  ultimately show "R s (snd (bindIO m f s))"
    using m by (cases r) (auto simp: bindIO_def intro: transpD [OF assms(1)])
qed

lemma preserves_catch [intro]:
  assumes "transp R" and "preserves R m" and "\<And>e. preserves R (h e)"
  shows "preserves R (catchIO m h)"
proof (rule preservesI)
  fix s
  obtain r s' where m: "m s = (r, s')" by (cases "m s")
  have "R s s'" using preservesD [OF assms(2), of s] m by simp
  moreover have "r = Inl e \<Longrightarrow> R s' (snd (h e s'))" for e
    using preservesD [OF assms(3)] .
  ultimately show "R s (snd (catchIO m h s))"
    using m by (cases r) (auto simp: catchIO_def intro: transpD [OF assms(1)])
qed

subsection \<open>Strings\<close>

abbreviation code_unit :: "char \<Rightarrow> nat" where
  "code_unit c \<equiv> of_char c"

text \<open>
  The dash U+2014. It is one code unit in JavaScript, so it is one character here; 0x97 is a
  C1 control code that no other string of the program contains.
\<close>

definition em_dash :: string where
  "em_dash = [char_of (151 :: nat)]"

text \<open>The line terminators and white space of ECMAScript among the code units 0 to 255.\<close>

definition js_space :: "char \<Rightarrow> bool" where
  "js_space c \<longleftrightarrow> code_unit c \<in> {9, 10, 11, 12, 13, 32, 160}"

definition js_trimStart :: "string \<Rightarrow> string" where
  "js_trimStart s = dropWhile js_space s"

definition js_trimEnd :: "string \<Rightarrow> string" where
  "js_trimEnd s = rev (dropWhile js_space (rev s))"

definition js_trim :: "string \<Rightarrow> string" where
  "js_trim s = js_trimEnd (js_trimStart s)"

text \<open>\<open>toLowerCase\<close> on Latin-1: the ASCII letters and the accented letters 0xC0 to 0xDE.\<close>

definition lower_char :: "char \<Rightarrow> char" where
  "lower_char c =
     (let n = code_unit c
      in if (65 \<le> n \<and> n \<le> 90) \<or> (192 \<le> n \<and> n \<le> 222 \<and> n \<noteq> 215)
         then char_of (n + 32) else c)"

definition js_toLowerCase :: "string \<Rightarrow> string" where
  "js_toLowerCase s = map lower_char s"

text \<open>\<open>toUpperCase\<close> is only ever applied to ASCII text.\<close>

definition upper_char :: "char \<Rightarrow> char" where
  "upper_char c =
     (let n = code_unit c in if 97 \<le> n \<and> n \<le> 122 then char_of (n - 32) else c)"

definition js_toUpperCase :: "string \<Rightarrow> string" where
  "js_toUpperCase s = map upper_char s"

definition js_startsWith :: "string \<Rightarrow> string \<Rightarrow> bool" where
  "js_startsWith s p \<longleftrightarrow> take (length p) s = p"

fun js_includes :: "string \<Rightarrow> string \<Rightarrow> bool" where
  "js_includes [] p \<longleftrightarrow> p = []"
| "js_includes (c # cs) p \<longleftrightarrow> js_startsWith (c # cs) p \<or> js_includes cs p"

text \<open>\<open>s.slice(0, n)\<close>, and \<open>s.slice(-n)\<close> for a positive \<open>n\<close>.\<close>

definition js_slice0 :: "nat \<Rightarrow> string \<Rightarrow> string" where
  "js_slice0 n s = take n s"

definition js_slice_last :: "nat \<Rightarrow> string \<Rightarrow> string" where
  "js_slice_last n s = drop (length s - n) s"

definition js_padStart :: "nat \<Rightarrow> char \<Rightarrow> string \<Rightarrow> string" where
  "js_padStart n c s = replicate (n - length s) c @ s"

definition js_padEnd :: "nat \<Rightarrow> char \<Rightarrow> string \<Rightarrow> string" where
  "js_padEnd n c s = s @ replicate (n - length s) c"

fun js_join :: "string \<Rightarrow> string list \<Rightarrow> string" where
  "js_join sep [] = []"
| "js_join sep [x] = x"
| "js_join sep (x # y # xs) = x @ sep @ js_join sep (y # xs)"

text \<open>\<open>s.split(c)\<close> for a one-character separator; never empty.\<close>

fun js_split :: "char \<Rightarrow> string \<Rightarrow> string list" where
  "js_split d [] = [[]]"
| "js_split d (c # cs) =
     (if c = d then [] # js_split d cs
      else (case js_split d cs of [] \<Rightarrow> [[c]] | w # ws \<Rightarrow> (c # w) # ws))"

lemma js_split_not_Nil [simp]: "js_split d s \<noteq> []"
  by (cases s) (auto split: list.split)

lemma js_split_no_sep: "d \<notin> set s \<Longrightarrow> js_split d s = [s]"
  by (induction s) auto

lemma js_split_one_sep:
  "d \<notin> set a \<Longrightarrow> d \<notin> set b \<Longrightarrow> js_split d (a @ d # b) = [a, b]"
  by (induction a) (auto simp: js_split_no_sep)

lemma js_padEnd_length: "length (js_padEnd n c s) = max n (length s)"
  by (simp add: js_padEnd_def)

lemma js_padStart_length: "length (js_padStart n c s) = max n (length s)"
  by (simp add: js_padStart_def)

lemma js_startsWith_append [simp]: "js_startsWith (p @ b) p"
  by (simp add: js_startsWith_def)

lemma js_includes_startsWith: "js_startsWith s p \<Longrightarrow> js_includes s p"
  by (cases s) (auto simp: js_startsWith_def)

lemma js_includes_append: "js_includes (a @ p @ b) p"
  by (induction a) (auto simp: js_includes_startsWith)

lemma js_trim_id:
  assumes "s = [] \<or> (\<not> js_space (hd s) \<and> \<not> js_space (last s))"
  shows "js_trim s = s"
proof (cases s)
  case Nil
  then show ?thesis by (simp add: js_trim_def js_trimStart_def js_trimEnd_def)
next
  case (Cons c cs)
  then have "dropWhile js_space s = s" using assms by simp
  moreover have "dropWhile js_space (rev s) = rev s"
    using assms Cons by (cases "rev s") (auto simp: hd_rev simp flip: hd_rev)
  ultimately show ?thesis by (simp add: js_trim_def js_trimStart_def js_trimEnd_def)
qed

subsection \<open>Decimal numerals\<close>

definition is_digit :: "char \<Rightarrow> bool" where
  "is_digit c \<longleftrightarrow> 48 \<le> code_unit c \<and> code_unit c \<le> 57"

definition digit_char :: "nat \<Rightarrow> char" where
  "digit_char n = char_of (48 + n)"

definition digit_val :: "char \<Rightarrow> nat" where
  "digit_val c = code_unit c - 48"

fun show_nat :: "nat \<Rightarrow> string" where
  "show_nat n = (if n < 10 then [digit_char n] else show_nat (n div 10) @ [digit_char (n mod 10)])"

declare show_nat.simps [simp del]

definition show_int :: "int \<Rightarrow> string" where
  "show_int i = (if i < 0 then ''-'' @ show_nat (nat (- i)) else show_nat (nat i))"

text \<open>The value of a string of digits, most significant first.\<close>

definition read_nat :: "string \<Rightarrow> nat" where
  "read_nat s = foldl (\<lambda>a c. 10 * a + digit_val c) 0 s"

lemma code_unit_char_of [simp]: "n < 256 \<Longrightarrow> code_unit (char_of n) = n"
  by (simp add: of_char_of)

text \<open>Evaluation of the printing functions on numerals by the simplifier.\<close>

lemma digit_char_literal [simp]:
  "digit_char 0 = CHR ''0''" "digit_char (Suc 0) = CHR ''1''" "digit_char 1 = CHR ''1''"
  "digit_char 2 = CHR ''2''" "digit_char 3 = CHR ''3''" "digit_char 4 = CHR ''4''"
  "digit_char 5 = CHR ''5''" "digit_char 6 = CHR ''6''" "digit_char 7 = CHR ''7''"
  "digit_char 8 = CHR ''8''" "digit_char 9 = CHR ''9''"
  by (simp_all add: digit_char_def char_of_def bit_Suc_0_iff)

lemmas [js_simps] =
  js_trim_def js_trimStart_def js_trimEnd_def js_space_def js_toLowerCase_def lower_char_def
  js_toUpperCase_def upper_char_def js_startsWith_def js_slice0_def js_slice_last_def
  js_padStart_def js_padEnd_def is_digit_def digit_val_def read_nat_def char_of_def bit_Suc_0_iff

lemma show_nat_numeral [js_simps]:
  "show_nat (numeral k) =
     (if numeral k < (10 :: nat) then [digit_char (numeral k)]
      else show_nat (numeral k div 10) @ [digit_char (numeral k mod 10)])"
  by (rule show_nat.simps)

lemma show_nat_small [simp]: "show_nat 0 = ''0''" "show_nat (Suc 0) = ''1''" "show_nat 1 = ''1''"
  by (simp_all add: show_nat.simps)

lemma digit_char_is_digit [simp]: "n < 10 \<Longrightarrow> is_digit (digit_char n)"
  by (simp add: is_digit_def digit_char_def)

lemma digit_val_digit_char [simp]: "n < 10 \<Longrightarrow> digit_val (digit_char n) = n"
  by (simp add: digit_val_def digit_char_def)

lemma digit_char_digit_val: "is_digit c \<Longrightarrow> digit_char (digit_val c) = c"
  by (simp add: digit_char_def digit_val_def is_digit_def)

lemma digit_val_less: "is_digit c \<Longrightarrow> digit_val c < 10"
  by (auto simp: is_digit_def digit_val_def)

lemma foldl_digits:
  "foldl (\<lambda>a c. 10 * a + digit_val c) k s = k * 10 ^ length s + read_nat s"
proof (induction s arbitrary: k)
  case Nil
  then show ?case by (simp add: read_nat_def)
next
  case (Cons c s)
  have "read_nat (c # s) = foldl (\<lambda>a c. 10 * a + digit_val c) (digit_val c) s"
    by (simp add: read_nat_def)
  then show ?case
    using Cons.IH [of "10 * k + digit_val c"] Cons.IH [of "digit_val c"]
    by (simp add: algebra_simps)
qed

lemma read_nat_append: "read_nat (s @ t) = read_nat s * 10 ^ length t + read_nat t"
proof -
  have "read_nat (s @ t) = foldl (\<lambda>a c. 10 * a + digit_val c) (read_nat s) t"
    by (simp add: read_nat_def)
  then show ?thesis by (simp only: foldl_digits)
qed

lemma read_nat_Nil [simp]: "read_nat [] = 0"
  by (simp add: read_nat_def)

lemma read_nat_single [simp]: "read_nat [c] = digit_val c"
  by (simp add: read_nat_def)

lemma read_nat_zeros [simp]: "read_nat (replicate n (CHR ''0'')) = 0"
proof (induction n)
  case (Suc n)
  have "read_nat (replicate (Suc n) (CHR ''0'')) = read_nat ([CHR ''0''] @ replicate n (CHR ''0''))"
    by simp
  also have "\<dots> = 0"
    unfolding read_nat_append using Suc by (simp add: digit_val_def)
  finally show ?case .
qed simp

lemma read_show_nat [simp]: "read_nat (show_nat n) = n"
proof (induction n rule: show_nat.induct)
  case (1 n)
  show ?case
  proof (cases "n < 10")
    case True
    then show ?thesis by (simp add: show_nat.simps [of n])
  next
    case False
    with 1 show ?thesis by (simp add: show_nat.simps [of n] read_nat_append)
  qed
qed

lemma show_nat_digits: "\<forall>c \<in> set (show_nat n). is_digit c"
proof (induction n rule: show_nat.induct)
  case (1 n)
  then show ?case by (cases "n < 10") (auto simp: show_nat.simps [of n])
qed

lemma show_nat_not_Nil [simp]: "show_nat n \<noteq> []"
  by (simp add: show_nat.simps [of n])

lemma show_nat_inj: "show_nat m = show_nat n \<longleftrightarrow> m = n"
  by (metis read_show_nat)

lemma show_nat_length: "n < 10 ^ k \<Longrightarrow> 0 < k \<Longrightarrow> length (show_nat n) \<le> k"
proof (induction n arbitrary: k rule: show_nat.induct)
  case (1 n)
  show ?case
  proof (cases "n < 10")
    case True
    with 1 show ?thesis by (simp add: show_nat.simps [of n])
  next
    case False
    then have k: "1 < k" using 1 by (cases "k = 1") auto
    then have "n div 10 < 10 ^ (k - 1)"
      using 1(2) by (simp add: less_mult_imp_div_less flip: power_Suc2)
    then have "length (show_nat (n div 10)) \<le> k - 1" using 1(1) False k by simp
    then show ?thesis using False k by (simp add: show_nat.simps [of n])
  qed
qed

lemma read_nat_bound: "\<forall>c \<in> set s. is_digit c \<Longrightarrow> read_nat s < 10 ^ length s"
proof (induction s rule: rev_induct)
  case Nil
  then show ?case by simp
next
  case (snoc c s)
  then have "read_nat s < 10 ^ length s" and "digit_val c < 10"
    by (auto intro: digit_val_less)
  then show ?case by (simp add: read_nat_append)
qed

lemma is_digit_not_special [simp]:
  "\<not> is_digit (CHR ''.'')" "\<not> is_digit (CHR ''-'')" "is_digit (CHR ''0'')"
  by (simp_all add: is_digit_def)

lemma is_digit_not_space: "is_digit c \<Longrightarrow> \<not> js_space c"
  by (auto simp: is_digit_def js_space_def)

end
