(* ===== verification/JsNumber.thy ===== *)
theory JsNumber
  imports Prelude Complex_Main "HOL-Library.Log_Nat"
begin

text \<open>
  The JavaScript type \<open>number\<close>: IEEE 754 double precision, as far as the program uses it.

  A finite double is the rational number it denotes; \<open>fl\<close> rounds an exact rational to the
  nearest double (ties to even, overflow to an infinity, gradual underflow), so that
  \<open>a * b\<close> of the source is \<open>fl (a * b)\<close> here. The two zeros are one value: no modelled code
  divides by a variable or prints a zero's sign in a way that could tell them apart.

  The theory also has the conversions of the standard library between numbers and strings:
  \<open>Number::toString\<close>, \<open>toFixed\<close>, \<open>toLocaleString\<close> with two decimals, \<open>Number(s)\<close>,
  \<open>parseFloat\<close> and \<open>parseInt\<close>.
\<close>

datatype jsnum = NaN | PosInf | NegInf | Fin rat

subsection \<open>Rounding\<close>

text \<open>Round to an integer, ties to even.\<close>

definition round_even :: "rat \<Rightarrow> int" where
  "round_even q =
     (let f = \<lfloor>q\<rfloor>; r = q - of_int f
      in if r < 1 / 2 then f else if 1 / 2 < r then f + 1 else if even f then f else f + 1)"

definition pow2 :: "int \<Rightarrow> rat" where
  "pow2 e = (if 0 \<le> e then 2 ^ nat e else 1 / 2 ^ nat (- e))"

text \<open>
  The exponent of the unit in the last place of the double nearest to a positive \<open>q\<close>: the
  quotient \<open>q / pow2 e\<close> has 53 binary digits, or fewer where \<open>q\<close> is below the normal range.
\<close>

definition ulp_exp :: "rat \<Rightarrow> int" where
  "ulp_exp q =
     (let (n, d) = quotient_of q;
          e = bitlen n - bitlen d - 53
      in max (- 1074) (if 2 ^ 53 \<le> q / pow2 e then e + 1 else e))"

definition fl_abs :: "rat \<Rightarrow> rat" where
  "fl_abs q = of_int (round_even (q / pow2 (ulp_exp q))) * pow2 (ulp_exp q)"

definition fl :: "rat \<Rightarrow> jsnum" where
  "fl q =
     (if q = 0 then Fin 0
      else let v = fl_abs \<bar>q\<bar>
           in if 2 ^ 1024 \<le> v then (if q < 0 then NegInf else PosInf)
              else Fin (if q < 0 then - v else v))"

text \<open>For evaluation: most numbers are far from the overflow threshold.\<close>

lemma fl_code [code]:
  "fl q =
     (if q = 0 then Fin 0
      else let v = fl_abs \<bar>q\<bar>
           in if v < 18446744073709551616 then Fin (if q < 0 then - v else v)
              else if 2 ^ 1024 \<le> v then (if q < 0 then NegInf else PosInf)
              else Fin (if q < 0 then - v else v))"
proof -
  have "(2 :: rat) ^ 64 \<le> 2 ^ 1024" by (rule power_increasing) simp_all
  then have "v < 18446744073709551616 \<Longrightarrow> \<not> 2 ^ 1024 \<le> (v :: rat)" for v by simp
  then show ?thesis by (simp add: fl_def Let_def)
qed

text \<open>\<open>Number(b)\<close> of a bigint.\<close>

definition num_of_int :: "int \<Rightarrow> jsnum" where
  "num_of_int i = fl (of_int i)"

lemma round_even_of_int [simp]: "round_even (of_int i) = i"
  by (simp add: round_even_def)

lemma pow2_pos [simp]: "0 < pow2 e"
  by (simp add: pow2_def)

lemma fl_abs_integral:
  assumes "q / pow2 (ulp_exp q) = of_int i"
  shows "fl_abs q = q"
proof -
  have "fl_abs q = of_int i * pow2 (ulp_exp q)"
    by (simp add: fl_abs_def assms)
  also have "\<dots> = q"
    using assms pow2_pos [of "ulp_exp q"] by (simp add: field_simps)
  finally show ?thesis .
qed

lemma ulp_exp_int_small:
  assumes "0 < i" and "i < 2 ^ 53"
  shows "ulp_exp (of_int i) \<le> 0"
proof -
  have "bitlen i \<le> 53"
    using assms bitlen_bounds [of i] bitlen_le_iff_power [of i 53] by simp
  moreover have "bitlen 1 = 1" by code_simp
  ultimately show ?thesis by (simp add: ulp_exp_def Let_def)
qed

lemma fl_abs_int:
  assumes "0 < i" and "i \<le> 2 ^ 53"
  shows "fl_abs (of_int i) = of_int i"
proof (cases "i = 2 ^ 53")
  case True
  then show ?thesis by (simp add: fl_abs_def) (code_simp)
next
  case False
  with assms have e: "ulp_exp (of_int i) \<le> 0"
    by (intro ulp_exp_int_small) auto
  have "of_int i / pow2 (ulp_exp (of_int i)) = of_int (i * 2 ^ nat (- ulp_exp (of_int i)))"
    using e by (simp add: pow2_def)
  then show ?thesis by (rule fl_abs_integral)
qed

text \<open>Integers up to \<open>2 ^ 53\<close> are represented exactly.\<close>

lemma fl_of_int: 
  assumes "\<bar>i\<bar> \<le> 2 ^ 53"
  shows "fl (of_int i) = Fin (of_int i)"
proof (cases "i = 0")
  case True
  then show ?thesis by (simp add: fl_def)
next
  case False
  have "fl_abs \<bar>of_int i\<bar> = \<bar>of_int i\<bar>"
    using fl_abs_int [of "\<bar>i\<bar>"] False assms by simp
  moreover have "(\<bar>of_int i\<bar> :: rat) < 2 ^ 1024"
  proof -
    have "\<bar>i\<bar> < 2 ^ 1024" using assms by (rule le_less_trans) simp
    then have "(of_int \<bar>i\<bar> :: rat) < of_int (2 ^ 1024)" by (simp only: of_int_less_iff)
    then show ?thesis by simp
  qed
  ultimately show ?thesis
    using False by (simp add: fl_def abs_if not_le)
qed

lemma num_of_int_exact: "\<bar>i\<bar> \<le> 2 ^ 53 \<Longrightarrow> num_of_int i = Fin (of_int i)"
  by (simp add: num_of_int_def fl_of_int)

subsection \<open>Arithmetic and comparison\<close>

fun num_neg :: "jsnum \<Rightarrow> jsnum" where
  "num_neg NaN = NaN"
| "num_neg PosInf = NegInf"
| "num_neg NegInf = PosInf"
| "num_neg (Fin q) = Fin (- q)"

fun num_add :: "jsnum \<Rightarrow> jsnum \<Rightarrow> jsnum" where
  "num_add (Fin a) (Fin b) = fl (a + b)"
| "num_add NaN y = NaN"
| "num_add x NaN = NaN"
| "num_add PosInf NegInf = NaN"
| "num_add NegInf PosInf = NaN"
| "num_add PosInf y = PosInf"
| "num_add NegInf y = NegInf"
| "num_add x PosInf = PosInf"
| "num_add x NegInf = NegInf"

definition num_sub :: "jsnum \<Rightarrow> jsnum \<Rightarrow> jsnum" where
  "num_sub x y = num_add x (num_neg y)"

text \<open>The product with a positive constant, and the quotient by one.\<close>

fun num_scale :: "jsnum \<Rightarrow> rat \<Rightarrow> jsnum" where
  "num_scale (Fin a) c = fl (a * c)"
| "num_scale NaN c = NaN"
| "num_scale PosInf c = PosInf"
| "num_scale NegInf c = NegInf"

fun num_over :: "jsnum \<Rightarrow> rat \<Rightarrow> jsnum" where
  "num_over (Fin a) c = fl (a / c)"
| "num_over NaN c = NaN"
| "num_over PosInf c = PosInf"
| "num_over NegInf c = NegInf"

text \<open>Every comparison with \<open>NaN\<close> is false.\<close>

fun num_less :: "jsnum \<Rightarrow> jsnum \<Rightarrow> bool" where
  "num_less (Fin a) (Fin b) \<longleftrightarrow> a < b"
| "num_less NaN y \<longleftrightarrow> False"
| "num_less x NaN \<longleftrightarrow> False"
| "num_less NegInf y \<longleftrightarrow> y \<noteq> NegInf"
| "num_less x PosInf \<longleftrightarrow> x \<noteq> PosInf"
| "num_less PosInf y \<longleftrightarrow> False"
| "num_less x NegInf \<longleftrightarrow> False"

definition num_eq :: "jsnum \<Rightarrow> jsnum \<Rightarrow> bool" where
  "num_eq x y \<longleftrightarrow> x = y \<and> x \<noteq> NaN"

definition num_le :: "jsnum \<Rightarrow> jsnum \<Rightarrow> bool" where
  "num_le x y \<longleftrightarrow> num_less x y \<or> num_eq x y"

fun num_isFinite :: "jsnum \<Rightarrow> bool" where
  "num_isFinite (Fin q) \<longleftrightarrow> True"
| "num_isFinite x \<longleftrightarrow> False"

fun num_isInteger :: "jsnum \<Rightarrow> bool" where
  "num_isInteger (Fin q) \<longleftrightarrow> of_int \<lfloor>q\<rfloor> = q"
| "num_isInteger x \<longleftrightarrow> False"

fun num_isSafeInteger :: "jsnum \<Rightarrow> bool" where
  "num_isSafeInteger (Fin q) \<longleftrightarrow> of_int \<lfloor>q\<rfloor> = q \<and> \<bar>q\<bar> \<le> 2 ^ 53 - 1"
| "num_isSafeInteger x \<longleftrightarrow> False"

text \<open>A number is falsy when it is zero or \<open>NaN\<close>.\<close>

fun num_truthy :: "jsnum \<Rightarrow> bool" where
  "num_truthy (Fin q) \<longleftrightarrow> q \<noteq> 0"
| "num_truthy NaN \<longleftrightarrow> False"
| "num_truthy x \<longleftrightarrow> True"

fun num_floor :: "jsnum \<Rightarrow> jsnum" where
  "num_floor (Fin q) = Fin (of_int \<lfloor>q\<rfloor>)"
| "num_floor x = x"

abbreviation num_int :: "int \<Rightarrow> jsnum" where
  "num_int i \<equiv> Fin (of_int i)"

lemma num_isInteger_int [simp]: "num_isInteger (num_int i)"
  by simp

lemma num_isInteger_iff: "num_isInteger x \<longleftrightarrow> (\<exists>i. x = num_int i)"
  by (cases x) (auto intro: exI [of _ "\<lfloor>q\<rfloor>" for q])

subsection \<open>Numbers as strings\<close>

text \<open>
  \<open>Number::toString\<close>. An integer of at most 53 bits is printed exactly. Otherwise the digits
  are the shortest ones, and among these the closest, that read back as the same number.
\<close>

definition pow10 :: "int \<Rightarrow> rat" where
  "pow10 e = (if 0 \<le> e then 10 ^ nat e else 1 / 10 ^ nat (- e))"

text \<open>The \<open>n\<close> with \<open>pow10 (n - 1) \<le> q < pow10 n\<close>.\<close>

definition dec_exp :: "rat \<Rightarrow> int" where
  "dec_exp q =
     (let (a, b) = quotient_of q;
          n = int (length (show_nat (nat a))) - int (length (show_nat (nat b)))
      in if pow10 n \<le> q then n + 1 else n)"

text \<open>Try \<open>k\<close>, \<open>k + 1\<close>, \<open>\<dots>\<close> digits; 17 digits determine a double, which bounds the search.\<close>

fun shortest_digits :: "nat \<Rightarrow> nat \<Rightarrow> rat \<Rightarrow> int \<Rightarrow> int \<times> nat" where
  "shortest_digits 0 k q n = (\<lfloor>q * pow10 (int k - n)\<rfloor>, k)"
| "shortest_digits (Suc fuel) k q n =
     (let x = q * pow10 (int k - n);
          lo = \<lfloor>x\<rfloor>;
          ok = (\<lambda>s. fl (of_int s * pow10 (n - int k)) = Fin q)
      in if ok lo \<and> ok (lo + 1)
         then (if x - of_int lo \<le> of_int (lo + 1) - x then (lo, k) else (lo + 1, k))
         else if ok lo then (lo, k)
         else if ok (lo + 1) then (lo + 1, k)
         else shortest_digits fuel (Suc k) q n)"

text \<open>The layout of the digits \<open>ds\<close> with the decimal point after position \<open>n\<close>.\<close>

definition layout_digits :: "string \<Rightarrow> int \<Rightarrow> string" where
  "layout_digits ds n =
     (let k = int (length ds);
          e = n - 1;
          ex = ''e'' @ (if 0 \<le> e then ''+'' else ''-'') @ show_nat (nat \<bar>e\<bar>)
      in if k \<le> n \<and> n \<le> 21 then ds @ replicate (nat (n - k)) (CHR ''0'')
         else if 0 < n \<and> n \<le> 21 then take (nat n) ds @ ''.'' @ drop (nat n) ds
         else if - 6 < n \<and> n \<le> 0 then ''0.'' @ replicate (nat (- n)) (CHR ''0'') @ ds
         else if k = 1 then ds @ ex
         else take 1 ds @ ''.'' @ drop 1 ds @ ex)"

definition show_pos :: "rat \<Rightarrow> string" where
  "show_pos q =
     (if of_int \<lfloor>q\<rfloor> = q \<and> q \<le> 2 ^ 53 then show_nat (nat \<lfloor>q\<rfloor>)
      else let n = dec_exp q;
               (s, k) = shortest_digits 17 1 q n;
               (s', n') = (if s = 10 ^ k then (1, n + 1) else (s, n))
           in layout_digits (show_nat (nat s')) n')"

fun num_toString :: "jsnum \<Rightarrow> string" where
  "num_toString NaN = ''NaN''"
| "num_toString PosInf = ''Infinity''"
| "num_toString NegInf = ''-Infinity''"
| "num_toString (Fin q) = (if q < 0 then ''-'' @ show_pos (- q) else show_pos q)"

lemma num_toString_int:
  assumes "\<bar>i\<bar> \<le> 2 ^ 53"
  shows "num_toString (num_int i) = show_int i"
proof -
  have "(of_int \<bar>i\<bar> :: rat) \<le> of_int (2 ^ 53)"
    using assms by (simp only: of_int_le_iff)
  then show ?thesis
    by (auto simp: show_pos_def show_int_def abs_if split: if_splits)
qed

text \<open>
  \<open>x.toFixed(f)\<close> below \<open>10 ^ 21\<close>: the integer nearest to \<open>x * 10 ^ f\<close>, the larger one of two, is
  printed with its last \<open>f\<close> digits after the point.
\<close>

definition fixed_digits :: "nat \<Rightarrow> nat \<Rightarrow> string" where
  "fixed_digits f n =
     (let ds = js_padStart (Suc f) (CHR ''0'') (show_nat n)
      in if f = 0 then ds
         else take (length ds - f) ds @ ''.'' @ drop (length ds - f) ds)"

fun num_toFixed :: "nat \<Rightarrow> jsnum \<Rightarrow> string" where
  "num_toFixed f (Fin q) =
     (if 10 ^ 21 \<le> \<bar>q\<bar> then num_toString (Fin q)
      else (if q < 0 then ''-'' else '''') @ fixed_digits f (nat \<lfloor>\<bar>q\<bar> * 10 ^ f + 1 / 2\<rfloor>))"
| "num_toFixed f x = num_toString x"

text \<open>The integer part in groups of three digits.\<close>

fun group3 :: "string \<Rightarrow> string" where
  "group3 ds =
     (if length ds \<le> 3 then ds
      else group3 (take (length ds - 3) ds) @ '','' @ drop (length ds - 3) ds)"

declare group3.simps [simp del]

text \<open>
  \<open>x.toLocaleString("en-US", ...)\<close> of a finite number with two fraction digits; half is rounded
  away from zero. (The infinities are never formatted: a bigint within the range of a double
  is.)
\<close>

fun num_toLocale2 :: "jsnum \<Rightarrow> string" where
  "num_toLocale2 (Fin q) =
     (let n = nat \<lfloor>\<bar>q\<bar> * 100 + 1 / 2\<rfloor>;
          ds = fixed_digits 2 n
      in (if q < 0 then ''-'' else '''') @ group3 (take (length ds - 3) ds) @ drop (length ds - 3) ds)"
| "num_toLocale2 x = num_toString x"

subsection \<open>Strings as numbers\<close>

text \<open>The optional exponent part after a mantissa.\<close>

definition scan_exp :: "string \<Rightarrow> int \<times> string" where
  "scan_exp s =
     (case s of
        [] \<Rightarrow> (0, s)
      | c # r \<Rightarrow>
          if c \<noteq> CHR ''e'' \<and> c \<noteq> CHR ''E'' then (0, s)
          else let neg = (r \<noteq> [] \<and> hd r = CHR ''-'');
                   r' = (if r \<noteq> [] \<and> (hd r = CHR ''-'' \<or> hd r = CHR ''+'') then tl r else r);
                   ds = takeWhile is_digit r'
               in if ds = [] then (0, s)
                  else ((if neg then - int (read_nat ds) else int (read_nat ds)),
                        dropWhile is_digit r'))"

text \<open>The longest decimal literal at the front of an unsigned string, and what follows it.\<close>

definition scan_decimal :: "string \<Rightarrow> (rat \<times> string) option" where
  "scan_decimal s =
     (let ip = takeWhile is_digit s;
          r = dropWhile is_digit s;
          pt = (r \<noteq> [] \<and> hd r = CHR ''.'');
          fp = (if pt then takeWhile is_digit (tl r) else []);
          r' = (if pt then dropWhile is_digit (tl r) else r)
      in if ip = [] \<and> fp = [] then None
         else let (e, r'') = scan_exp r'
              in Some (of_nat (read_nat (ip @ fp)) * pow10 (e - int (length fp)), r''))"

definition scan_number :: "string \<Rightarrow> (jsnum \<times> string) option" where
  "scan_number s =
     (let neg = (s \<noteq> [] \<and> hd s = CHR ''-'');
          u = (if s \<noteq> [] \<and> (hd s = CHR ''-'' \<or> hd s = CHR ''+'') then tl s else s)
      in if js_startsWith u ''Infinity'' then Some (if neg then NegInf else PosInf, drop 8 u)
         else map_option (\<lambda>(q, r). (fl (if neg then - q else q), r)) (scan_decimal u))"

definition js_parseFloat :: "string \<Rightarrow> jsnum" where
  "js_parseFloat s = (case scan_number (js_trimStart s) of None \<Rightarrow> NaN | Some (x, _) \<Rightarrow> x)"

text \<open>Digits in another base, for the literals \<open>0x\<close>, \<open>0o\<close> and \<open>0b\<close>.\<close>

definition base_digit :: "nat \<Rightarrow> char \<Rightarrow> nat option" where
  "base_digit b c =
     (let n = code_unit c;
          v = (if is_digit c then n - 48
               else if 97 \<le> n \<and> n \<le> 122 then n - 87
               else if 65 \<le> n \<and> n \<le> 90 then n - 55 else b)
      in if v < b then Some v else None)"

fun read_base :: "nat \<Rightarrow> nat \<Rightarrow> string \<Rightarrow> nat option" where
  "read_base b acc [] = Some acc"
| "read_base b acc (c # cs) =
     (case base_digit b c of None \<Rightarrow> None | Some d \<Rightarrow> read_base b (b * acc + d) cs)"

definition prefixed_nat :: "string \<Rightarrow> nat option" where
  "prefixed_nat s =
     (let p = js_toLowerCase (take 2 s);
          b = (if p = ''0x'' then 16 else if p = ''0o'' then 8 else if p = ''0b'' then 2 else 0)
      in if b = 0 \<or> length s \<le> 2 then None else read_base b 0 (drop 2 s))"

text \<open>\<open>Number(s)\<close>.\<close>

definition num_of_string :: "string \<Rightarrow> jsnum" where
  "num_of_string s =
     (let t = js_trim s
      in if t = [] then Fin 0
         else case prefixed_nat t of
           Some n \<Rightarrow> num_of_int (int n)
         | None \<Rightarrow> (case scan_number t of Some (x, []) \<Rightarrow> x | _ \<Rightarrow> NaN))"

text \<open>\<open>parseInt(s, 10)\<close>.\<close>

definition js_parseInt :: "string \<Rightarrow> jsnum" where
  "js_parseInt s =
     (let t = js_trimStart s;
          neg = (t \<noteq> [] \<and> hd t = CHR ''-'');
          u = (if t \<noteq> [] \<and> (hd t = CHR ''-'' \<or> hd t = CHR ''+'') then tl t else t);
          ds = takeWhile is_digit u
      in if ds = [] then NaN
         else num_of_int (if neg then - int (read_nat ds) else int (read_nat ds)))"

end
