(* ===== verification/JsValue.thy ===== *)
theory JsValue
  imports JsNumber
begin

text \<open>
  JavaScript values of the type \<open>unknown\<close>, the conversions between them that the program
  performs, and the errors it throws and catches.

  An object is the list of its own properties in insertion order. Property names that look like
  array indices, which JavaScript enumerates first, do not occur in the program's data.
\<close>

datatype jsval =
    JUndef
  | JNull
  | JBool bool
  | JNum jsnum
  | JBigInt int
  | JStr string
  | JObj "(string \<times> jsval) list"
  | JArr "jsval list"
  | JMap "(jsval \<times> jsval) list"
  | JBytes "nat list"

type_synonym jsobj = "(string \<times> jsval) list"

subsection \<open>Errors\<close>

datatype ErrorType = ENetwork | EContract | EValidation | EUnknown

datatype FreighterErrorCode = UserRejected | NotInstalled | UnknownCode

text \<open>
  Everything a \<open>catch\<close> clause can see: the error classes of the language and of the program, and
  \<open>Thrown v\<close> for a value that is not an \<open>Error\<close>. \<open>JsError m ps\<close> is \<open>new Error(m)\<close>, or an error
  of a class of the outside world, with its further own properties \<open>ps\<close>.
\<close>

datatype exn =
    JsError string jsobj
  | JsTypeError string
  | JsRangeError string
  | JsSyntaxError string
  | ZodError string
  | SimulationError string "string option"
  | MissingReturnValueError string
  | TransactionSendError string "string option"
  | TransactionFailedError string
  | TransactionTimeoutError string
  | TransactionTryAgainLaterError string string int
  | ListInvoicesError string
  | HorizonRateLimitError string
  | HorizonOperationsError "string list" exn
  | AppError ErrorType string string int exn
  | FreighterError FreighterErrorCode string
  | Thrown jsval

abbreviation new_Error :: "string \<Rightarrow> exn" where
  "new_Error m \<equiv> JsError m []"

fun is_Error :: "exn \<Rightarrow> bool" where
  "is_Error (Thrown v) \<longleftrightarrow> False"
| "is_Error e \<longleftrightarrow> True"

fun is_TypeError :: "exn \<Rightarrow> bool" where
  "is_TypeError (JsTypeError m) \<longleftrightarrow> True"
| "is_TypeError e \<longleftrightarrow> False"

subsection \<open>Objects\<close>

definition obj_get :: "jsobj \<Rightarrow> string \<Rightarrow> jsval" where
  "obj_get ob k = (case map_of ob k of None \<Rightarrow> JUndef | Some v \<Rightarrow> v)"

definition obj_has :: "jsobj \<Rightarrow> string \<Rightarrow> bool" where
  "obj_has ob k \<longleftrightarrow> k \<in> fst ` set ob"

text \<open>Assignment keeps the place of a property that exists and appends a new one.\<close>

fun obj_set :: "string \<Rightarrow> 'v \<Rightarrow> (string \<times> 'v) list \<Rightarrow> (string \<times> 'v) list" where
  "obj_set k v [] = [(k, v)]"
| "obj_set k v ((k', v') # ob) = (if k' = k then (k, v) # ob else (k', v') # obj_set k v ob)"

definition obj_assign :: "(string \<times> 'v) list \<Rightarrow> (string \<times> 'v) list \<Rightarrow> (string \<times> 'v) list" where
  "obj_assign target source = foldl (\<lambda>ob (k, v). obj_set k v ob) target source"

lemma map_of_obj_set [simp]: "map_of (obj_set k v ob) = (map_of ob)(k \<mapsto> v)"
  by (induction ob) (auto simp: fun_eq_iff)

lemma keys_obj_set: "fst ` set (obj_set k v ob) = insert k (fst ` set ob)"
  by (simp flip: dom_map_of_conv_image_fst)

lemma distinct_obj_set: "distinct (map fst ob) \<Longrightarrow> distinct (map fst (obj_set k v ob))"
proof (induction ob)
  case (Cons a ob)
  have "fst ` set (obj_set k v ob) = insert k (fst ` set ob)" by (rule keys_obj_set)
  with Cons show ?case by (cases a) auto
qed simp

lemma obj_get_obj_set [simp]: "obj_get (obj_set k v ob) j = (if j = k then v else obj_get ob j)"
  by (simp add: obj_get_def)

lemma map_of_obj_assign:
  "map_of (obj_assign target source) k =
     (case map_of (rev source) k of None \<Rightarrow> map_of target k | Some v \<Rightarrow> Some v)"
  unfolding obj_assign_def
  by (induction source arbitrary: target) (auto simp: map_add_def split: option.splits)

lemma set_obj_set: "set (obj_set k v ob) \<subseteq> insert (k, v) (set ob)"
  by (induction ob) (auto split: if_splits)

text \<open>New distinct keys are appended in order.\<close>

lemma obj_set_new: "k \<notin> fst ` set ob \<Longrightarrow> obj_set k v ob = ob @ [(k, v)]"
  by (induction ob) auto

lemma fold_set_distinct:
  assumes "distinct (map f (map fst kvs))" and "f ` fst ` set kvs \<inter> fst ` set ob = {}"
  shows "foldl (\<lambda>ob (k, v). obj_set (f k) v ob) ob kvs = ob @ map (\<lambda>(k, v). (f k, v)) kvs"
  using assms
proof (induction kvs arbitrary: ob)
  case (Cons a kvs)
  obtain k v where a: "a = (k, v)" by (cases a)
  have "obj_set (f k) v ob = ob @ [(f k, v)]" using Cons.prems a by (intro obj_set_new) auto
  moreover have "foldl (\<lambda>ob (k, v). obj_set (f k) v ob) (ob @ [(f k, v)]) kvs =
      (ob @ [(f k, v)]) @ map (\<lambda>(k, v). (f k, v)) kvs"
    using Cons.prems a by (intro Cons.IH) (auto simp: image_iff)
  ultimately show ?case by (simp add: a)
qed simp

lemma obj_assign_distinct: "distinct (map fst ob) \<Longrightarrow> obj_assign [] ob = ob"
  using fold_set_distinct [of id ob "[]"] by (simp add: obj_assign_def)

text \<open>The own enumerable properties that \<open>Object.assign\<close> copies.\<close>

fun own_entries :: "jsval \<Rightarrow> jsobj" where
  "own_entries (JObj ob) = ob"
| "own_entries (JArr xs) = zip (map show_nat [0..<length xs]) xs"
| "own_entries (JBytes bs) =
     zip (map show_nat [0..<length bs]) (map (\<lambda>b. JNum (num_int (int b))) bs)"
| "own_entries v = []"

subsection \<open>Conversions\<close>

fun truthy :: "jsval \<Rightarrow> bool" where
  "truthy JUndef \<longleftrightarrow> False"
| "truthy JNull \<longleftrightarrow> False"
| "truthy (JBool b) \<longleftrightarrow> b"
| "truthy (JNum x) \<longleftrightarrow> num_truthy x"
| "truthy (JBigInt i) \<longleftrightarrow> i \<noteq> 0"
| "truthy (JStr s) \<longleftrightarrow> s \<noteq> []"
| "truthy v \<longleftrightarrow> True"

text \<open>\<open>typeof v === "object"\<close>; \<open>null\<close> is an object in this sense.\<close>

fun typeof_object :: "jsval \<Rightarrow> bool" where
  "typeof_object (JObj ob) \<longleftrightarrow> True"
| "typeof_object (JArr xs) \<longleftrightarrow> True"
| "typeof_object (JMap m) \<longleftrightarrow> True"
| "typeof_object (JBytes bs) \<longleftrightarrow> True"
| "typeof_object JNull \<longleftrightarrow> True"
| "typeof_object v \<longleftrightarrow> False"

definition nullish :: "jsval \<Rightarrow> bool" where
  "nullish v \<longleftrightarrow> v = JUndef \<or> v = JNull"

text \<open>\<open>a ?? b\<close> and \<open>a || b\<close>.\<close>

definition coalesce :: "jsval \<Rightarrow> jsval \<Rightarrow> jsval" where
  "coalesce a b = (if nullish a then b else a)"

definition js_or :: "jsval \<Rightarrow> jsval \<Rightarrow> jsval" where
  "js_or a b = (if truthy a then a else b)"

text \<open>\<open>String(v)\<close>.\<close>

fun js_String :: "jsval \<Rightarrow> string" where
  "js_String JUndef = ''undefined''"
| "js_String JNull = ''null''"
| "js_String (JBool b) = (if b then ''true'' else ''false'')"
| "js_String (JNum x) = num_toString x"
| "js_String (JBigInt i) = show_int i"
| "js_String (JStr s) = s"
| "js_String (JObj ob) = ''[object Object]''"
| "js_String (JMap m) = ''[object Map]''"
| "js_String (JArr xs) = js_join '','' (map (\<lambda>v. if nullish v then [] else js_String v) xs)"
| "js_String (JBytes bs) = js_join '','' (map show_nat bs)"

text \<open>
  \<open>BigInt(s)\<close>: a decimal literal with an optional sign, or an unsigned literal with a base prefix,
  between white space; the empty string is zero; anything else throws.
\<close>

definition signed_nat :: "string \<Rightarrow> int option" where
  "signed_nat t =
     (let neg = (t \<noteq> [] \<and> hd t = CHR ''-'');
          u = (if t \<noteq> [] \<and> (hd t = CHR ''-'' \<or> hd t = CHR ''+'') then tl t else t)
      in if u \<noteq> [] \<and> list_all is_digit u
         then Some (if neg then - int (read_nat u) else int (read_nat u)) else None)"

definition bigint_of_string :: "string \<Rightarrow> exn + int" where
  "bigint_of_string s =
     (let t = js_trim s
      in if t = [] then Inr 0
         else case signed_nat t of
           Some i \<Rightarrow> Inr i
         | None \<Rightarrow> (case prefixed_nat t of
                     Some n \<Rightarrow> Inr (int n)
                   | None \<Rightarrow> Inl (JsSyntaxError (''Cannot convert '' @ s @ '' to a BigInt''))))"

text \<open>\<open>BigInt(x)\<close> of a number throws unless the number is an integer.\<close>

fun bigint_of_num :: "jsnum \<Rightarrow> exn + int" where
  "bigint_of_num (Fin q) =
     (if of_int \<lfloor>q\<rfloor> = q then Inr \<lfloor>q\<rfloor>
      else Inl (JsRangeError (''The number '' @ num_toString (Fin q) @
             '' cannot be converted to a BigInt because it is not an integer'')))"
| "bigint_of_num x =
     Inl (JsRangeError (''The number '' @ num_toString x @
            '' cannot be converted to a BigInt because it is not an integer''))"

lemma bigint_of_num_int [simp]: "bigint_of_num (num_int i) = Inr i"
  by simp

text \<open>\<open>Number(v)\<close> of any value.\<close>

fun js_Number :: "jsval \<Rightarrow> jsnum" where
  "js_Number JUndef = NaN"
| "js_Number JNull = Fin 0"
| "js_Number (JBool b) = (if b then Fin 1 else Fin 0)"
| "js_Number (JNum x) = x"
| "js_Number (JBigInt i) = num_of_int i"
| "js_Number (JStr s) = num_of_string s"
| "js_Number v = num_of_string (js_String v)"

lemma hd_digit_not_sign: "is_digit c \<Longrightarrow> c \<noteq> CHR ''-'' \<and> c \<noteq> CHR ''+''"
  by (auto simp: is_digit_def)

lemma signed_nat_digits:
  assumes "u \<noteq> []" and "\<forall>c \<in> set u. is_digit c"
  shows "signed_nat u = Some (int (read_nat u))"
    and "signed_nat (CHR ''-'' # u) = Some (- int (read_nat u))"
  using assms hd_digit_not_sign [of "hd u"]
  by (auto simp: signed_nat_def list_all_iff Let_def)

lemma js_trim_digits:
  assumes "u \<noteq> []" and "\<forall>c \<in> set u. is_digit c"
  shows "js_trim u = u" and "js_trim (CHR ''-'' # u) = CHR ''-'' # u"
proof -
  have "\<not> js_space (hd u)" and "\<not> js_space (last u)"
    using assms by (simp_all add: is_digit_not_space)
  then show "js_trim u = u" and "js_trim (CHR ''-'' # u) = CHR ''-'' # u"
    using assms by (auto intro!: js_trim_id simp: js_space_def)
qed

lemma bigint_of_digits:
  assumes "u \<noteq> []" and "\<forall>c \<in> set u. is_digit c"
  shows "bigint_of_string u = Inr (int (read_nat u))"
    and "bigint_of_string (CHR ''-'' # u) = Inr (- int (read_nat u))"
  using assms by (simp_all add: bigint_of_string_def js_trim_digits signed_nat_digits Let_def)

text \<open>The decimal rendering of a bigint reads back as the same bigint.\<close>

lemma bigint_of_show_int: "bigint_of_string (show_int i) = Inr i"
  using bigint_of_digits [OF show_nat_not_Nil show_nat_digits]
  by (simp add: show_int_def)

subsection \<open>Messages and properties of errors\<close>

fun freighter_code_string :: "FreighterErrorCode \<Rightarrow> string" where
  "freighter_code_string UserRejected = ''user_rejected''"
| "freighter_code_string NotInstalled = ''not_installed''"
| "freighter_code_string UnknownCode = ''unknown''"

text \<open>The property \<open>message\<close>; the constructors of the program's error classes build it.\<close>

fun exn_message :: "exn \<Rightarrow> string" where
  "exn_message (JsError m ps) = m"
| "exn_message (JsTypeError m) = m"
| "exn_message (JsRangeError m) = m"
| "exn_message (JsSyntaxError m) = m"
| "exn_message (ZodError m) = m"
| "exn_message (SimulationError f c) =
     (case c of
        Some m \<Rightarrow> if m \<noteq> [] then ''Simulation failed for '' @ f @ '': '' @ m
                   else ''Simulation failed for '' @ f
      | None \<Rightarrow> ''Simulation failed for '' @ f)"
| "exn_message (MissingReturnValueError f) = ''No return value from simulation for '' @ f"
| "exn_message (TransactionSendError f c) =
     (case c of
        Some m \<Rightarrow> if m \<noteq> [] then ''Send failed for '' @ f @ '': '' @ m
                   else ''Send failed for '' @ f
      | None \<Rightarrow> ''Send failed for '' @ f)"
| "exn_message (TransactionFailedError f) = ''Transaction failed on-chain for '' @ f"
| "exn_message (TransactionTimeoutError h) =
     ''Transaction confirmation timed out for hash: '' @ h"
| "exn_message (TransactionTryAgainLaterError f h n) =
     ''Send refused as TRY_AGAIN_LATER for '' @ f @ '' after '' @ show_int n @
     '' attempt(s): '' @ h"
| "exn_message (ListInvoicesError m) = m"
| "exn_message (HorizonRateLimitError m) = m"
| "exn_message (HorizonOperationsError hs e) =
     ''Failed to load Horizon operations for transaction'' @
     (if length hs = 1 then [] else ''s'') @ '' '' @ js_join '', '' hs @ ''.''"
| "exn_message (AppError t c m ts e) = m"
| "exn_message (FreighterError c m) = m"
| "exn_message (Thrown v) = []"

text \<open>The further own properties of an error that handlers look at.\<close>

fun exn_prop :: "exn \<Rightarrow> string \<Rightarrow> jsval" where
  "exn_prop (JsError m ps) k = obj_get ps k"
| "exn_prop (HorizonRateLimitError m) k =
     (if k = ''status'' then JNum (Fin 429) else JUndef)"
| "exn_prop (FreighterError c m) k =
     (if k = ''code'' then JStr (freighter_code_string c) else JUndef)"
| "exn_prop (Thrown v) k = (case v of JObj ob \<Rightarrow> obj_get ob k | _ \<Rightarrow> JUndef)"
| "exn_prop e k = JUndef"


subsection \<open>Tables of strings\<close>

text \<open>
  A constant \<open>Record<string, string>\<close> indexed by a string of the outside also answers for the
  names that every object inherits from \<open>Object.prototype\<close>; the answer is then a function or an
  object, which is true in a condition. \<open>Member k\<close> stands for that answer.
\<close>

datatype js_text = Text string | Member string

definition prototype_members :: "string list" where
  "prototype_members =
     [''constructor'', ''__defineGetter__'', ''__defineSetter__'', ''hasOwnProperty'',
      ''__lookupGetter__'', ''__lookupSetter__'', ''isPrototypeOf'', ''propertyIsEnumerable'',
      ''toString'', ''valueOf'', ''__proto__'', ''toLocaleString'']"

text \<open>\<open>table[key] || d\<close>.\<close>

definition table_or :: "(string \<times> string) list \<Rightarrow> string \<Rightarrow> string \<Rightarrow> js_text" where
  "table_or table key d =
     (case map_of table key of
        Some v \<Rightarrow> Text (if v \<noteq> [] then v else d)
      | None \<Rightarrow> if key \<in> set prototype_members then Member key else Text d)"

lemma table_or_Text:
  "table_or table key d = Text t \<longleftrightarrow>
     (\<exists>v. map_of table key = Some v \<and> t = (if v \<noteq> [] then v else d)) \<or>
     (map_of table key = None \<and> key \<notin> set prototype_members \<and> t = d)"
  by (auto simp: table_or_def split: option.splits)

end
