(* ===== verification/Amounts.thy ===== *)
theory Amounts
  imports JsValue
begin

text \<open>
  The amount conversions of the SDK (\<open>packages/sdk/src/amounts.ts\<close>): stroops, the integers the
  contracts use, to and from decimal USDC strings. One USDC is \<open>10 ^ 7\<close> stroops.
\<close>

definition STROOPS_PER_USDC :: int where
  "STROOPS_PER_USDC = 10000000"

definition toUsdc :: "int \<Rightarrow> string" where
  "toUsdc stroops =
     (let negative = stroops < 0;
          magnitude = (if negative then - stroops else stroops);
          whole = magnitude div STROOPS_PER_USDC;
          fraction = magnitude mod STROOPS_PER_USDC;
          fractionStr = js_slice0 2 (js_padStart 7 (CHR ''0'') (show_int fraction));
          isZero = (whole = 0 \<and> fractionStr = ''00'')
      in (if negative \<and> \<not> isZero then ''-'' else '''') @ show_int whole @ ''.'' @ fractionStr)"

text \<open>The pattern \<open>/^-?\d+(\.\d+)?$/\<close>.\<close>

definition usdc_pattern :: "string \<Rightarrow> bool" where
  "usdc_pattern s =
     (let u = (if js_startsWith s ''-'' then tl s else s);
          r = dropWhile is_digit u
      in takeWhile is_digit u \<noteq> [] \<and>
         (r = [] \<or> (hd r = CHR ''.'' \<and> tl r \<noteq> [] \<and> list_all is_digit (tl r))))"

definition fromUsdc :: "string \<Rightarrow> exn + int" where
  "fromUsdc usdc =
     (let trimmed = js_trim usdc
      in if \<not> usdc_pattern trimmed
         then Inl (new_Error (''Invalid USDC amount: \"'' @ usdc @ ''\"''))
         else let negative = js_startsWith trimmed ''-'';
                  magnitude = (if negative then tl trimmed else trimmed);
                  parts = js_split (CHR ''.'') magnitude;
                  intPart = hd parts;
                  fracPart = (if length parts < 2 then '''' else parts ! 1);
                  paddedFrac = js_slice0 7 (js_padEnd 7 (CHR ''0'') fracPart)
              in bindE (bigint_of_string (intPart @ paddedFrac))
                   (\<lambda>stroops. Inr (if negative then - stroops else stroops)))"

subsection \<open>Digit strings\<close>

abbreviation digits :: "string \<Rightarrow> bool" where
  "digits s \<equiv> \<forall>c \<in> set s. is_digit c"

text \<open>The fraction \<open>fracPart\<close> brought to seven digits, as a number.\<close>

definition frac_stroops :: "string \<Rightarrow> nat" where
  "frac_stroops f = read_nat (js_slice0 7 (js_padEnd 7 (CHR ''0'') f))"

lemma padded_frac_length [simp]: "length (js_slice0 7 (js_padEnd 7 c f)) = 7"
  by (simp add: js_slice0_def js_padEnd_def)

lemma padded_frac_digits: "digits f \<Longrightarrow> digits (js_slice0 7 (js_padEnd 7 (CHR ''0'') f))"
  by (auto simp: js_slice0_def js_padEnd_def dest: in_set_takeD)

lemma frac_stroops_bound: "digits f \<Longrightarrow> frac_stroops f < 10 ^ 7"
  using read_nat_bound [OF padded_frac_digits, of f] by (simp add: frac_stroops_def)

text \<open>Up to seven fraction digits count in full; further digits are dropped.\<close>

lemma frac_stroops_short: "length f \<le> 7 \<Longrightarrow> frac_stroops f = read_nat f * 10 ^ (7 - length f)"
  by (simp add: frac_stroops_def js_slice0_def js_padEnd_def read_nat_append)

lemma frac_stroops_long: "7 \<le> length f \<Longrightarrow> frac_stroops f = read_nat (take 7 f)"
  by (simp add: frac_stroops_def js_slice0_def js_padEnd_def)

lemma digits_no_dot: "digits u \<Longrightarrow> CHR ''.'' \<notin> set u"
  by auto

lemma digits_not_negative: "digits u \<Longrightarrow> u \<noteq> [] \<Longrightarrow> \<not> js_startsWith (u @ r) ''-''"
  by (cases u) (auto simp: js_startsWith_def)

lemma takeWhile_digits [simp]: "digits u \<Longrightarrow> takeWhile is_digit (u @ CHR ''.'' # f) = u"
  by (simp add: takeWhile_append2)

lemma dropWhile_digits [simp]: "digits u \<Longrightarrow> dropWhile is_digit (u @ CHR ''.'' # f) = CHR ''.'' # f"
  by (simp add: dropWhile_append2)

lemma trim_amount:
  assumes "digits u" "u \<noteq> []" "digits f" "f \<noteq> []"
  shows "js_trim (u @ ''.'' @ f) = u @ ''.'' @ f"
    and "js_trim (''-'' @ u @ ''.'' @ f) = ''-'' @ u @ ''.'' @ f"
proof -
  have "\<not> js_space (hd u)" and "\<not> js_space (last f)"
    using assms by (simp_all add: is_digit_not_space)
  moreover have "\<not> js_space (CHR ''-'')" by (simp add: js_space_def)
  ultimately show "js_trim (u @ ''.'' @ f) = u @ ''.'' @ f"
    and "js_trim (''-'' @ u @ ''.'' @ f) = ''-'' @ u @ ''.'' @ f"
    using assms by (auto intro!: js_trim_id)
qed

lemma trim_amount_int:
  assumes "digits u" "u \<noteq> []"
  shows "js_trim u = u" and "js_trim (''-'' @ u) = ''-'' @ u"
  using js_trim_digits [OF assms(2,1)] by simp_all

subsection \<open>The value of a decimal string\<close>

lemma bigint_of_amount:
  assumes "digits u" "u \<noteq> []" "digits f"
  shows "bigint_of_string (u @ js_slice0 7 (js_padEnd 7 (CHR ''0'') f)) =
           Inr (int (read_nat u) * 10 ^ 7 + int (frac_stroops f))"
proof -
  let ?p = "js_slice0 7 (js_padEnd 7 (CHR ''0'') f)"
  have "digits (u @ ?p)" using assms padded_frac_digits [of f] by auto
  then have "bigint_of_string (u @ ?p) = Inr (int (read_nat (u @ ?p)))"
    using assms(2) by (intro bigint_of_digits) auto
  then show ?thesis by (simp add: read_nat_append frac_stroops_def)
qed

lemma fromUsdc_decimal:
  assumes "digits u" "u \<noteq> []" "digits f" "f \<noteq> []"
  shows "fromUsdc (u @ ''.'' @ f) = Inr (int (read_nat u) * 10 ^ 7 + int (frac_stroops f))"
    and "fromUsdc (''-'' @ u @ ''.'' @ f) = Inr (- (int (read_nat u) * 10 ^ 7 + int (frac_stroops f)))"
proof -
  have split: "js_split (CHR ''.'') (u @ CHR ''.'' # f) = [u, f]"
    using assms by (intro js_split_one_sep digits_no_dot) auto
  have plain: "\<not> js_startsWith (u @ CHR ''.'' # f) ''-''"
    using assms digits_not_negative by blast
  have neg: "js_startsWith (CHR ''-'' # u @ CHR ''.'' # f) ''-''"
    by (simp add: js_startsWith_def)
  have pat: "usdc_pattern (u @ CHR ''.'' # f)" "usdc_pattern (CHR ''-'' # u @ CHR ''.'' # f)"
    using assms plain neg by (simp_all add: usdc_pattern_def list_all_iff)
  note trim = trim_amount [OF assms, simplified]
  note num = bigint_of_amount [OF assms(1-3)]
  show "fromUsdc (u @ ''.'' @ f) = Inr (int (read_nat u) * 10 ^ 7 + int (frac_stroops f))"
    using trim pat plain split num by (simp add: fromUsdc_def Let_def)
  show "fromUsdc (''-'' @ u @ ''.'' @ f) =
          Inr (- (int (read_nat u) * 10 ^ 7 + int (frac_stroops f)))"
    using trim pat neg split num by (simp add: fromUsdc_def Let_def)
qed

lemma fromUsdc_integer:
  assumes "digits u" "u \<noteq> []"
  shows "fromUsdc u = Inr (int (read_nat u) * 10 ^ 7)"
    and "fromUsdc (''-'' @ u) = Inr (- (int (read_nat u) * 10 ^ 7))"
proof -
  have split: "js_split (CHR ''.'') u = [u]"
    using assms by (intro js_split_no_sep digits_no_dot)
  have plain: "\<not> js_startsWith u ''-''" using assms digits_not_negative [of u "[]"] by simp
  have neg: "js_startsWith (CHR ''-'' # u) ''-''" by (simp add: js_startsWith_def)
  have pat: "usdc_pattern u" "usdc_pattern (CHR ''-'' # u)"
    using assms plain neg by (simp_all add: usdc_pattern_def takeWhile_eq_all_conv [THEN iffD2]
        dropWhile_eq_Nil_conv [THEN iffD2])
  note trim = trim_amount_int [OF assms, simplified]
  have num: "bigint_of_string (u @ js_slice0 7 (js_padEnd 7 (CHR ''0'') [])) =
               Inr (int (read_nat u) * 10 ^ 7)"
    using bigint_of_amount [OF assms, of "[]"] by (simp add: frac_stroops_short)
  show "fromUsdc u = Inr (int (read_nat u) * 10 ^ 7)"
    using trim pat plain split num by (simp add: fromUsdc_def Let_def)
  show "fromUsdc (''-'' @ u) = Inr (- (int (read_nat u) * 10 ^ 7))"
    using trim pat neg split num by (simp add: fromUsdc_def Let_def)
qed

lemma usdc_pattern_digits:
  assumes "usdc_pattern s"
  obtains u where "digits u" "u \<noteq> []" "s = u \<or> s = ''-'' @ u"
  | u f where "digits u" "u \<noteq> []" "digits f" "f \<noteq> []" "s = u @ ''.'' @ f \<or> s = ''-'' @ u @ ''.'' @ f"
proof -
  define m where "m = (if js_startsWith s ''-'' then tl s else s)"
  define u where "u = takeWhile is_digit m"
  define r where "r = dropWhile is_digit m"
  have pat: "u \<noteq> [] \<and> (r = [] \<or> (hd r = CHR ''.'' \<and> tl r \<noteq> [] \<and> list_all is_digit (tl r)))"
    using assms by (simp add: usdc_pattern_def Let_def m_def u_def r_def)
  have u: "digits u" by (auto simp: u_def dest: set_takeWhileD)
  have m: "m = u @ r" by (simp add: u_def r_def)
  have s: "s = m \<or> s = ''-'' @ m"
    by (cases s) (auto simp: m_def js_startsWith_def)
  show thesis
  proof (cases r)
    case Nil
    then show thesis using that(1) [of u] u pat m s by simp
  next
    case (Cons c f)
    then show thesis using that(2) [of u f] u pat m s by (simp add: list_all_iff)
  qed
qed

lemma js_trim_pattern: "usdc_pattern s \<Longrightarrow> js_trim s = s"
  by (erule usdc_pattern_digits) (metis trim_amount trim_amount_int)+

text \<open>Surrounding white space does not matter.\<close>

lemma fromUsdc_trim:
  assumes "usdc_pattern (js_trim s)"
  shows "fromUsdc s = fromUsdc (js_trim s)"
  using assms by (simp add: fromUsdc_def js_trim_pattern)

text \<open>Whatever does not match the pattern is refused, and everything that does is accepted.\<close>

lemma fromUsdc_accepts:
  assumes "usdc_pattern (js_trim s)"
  shows "\<exists>i. fromUsdc s = Inr i"
  using assms unfolding fromUsdc_trim [OF assms]
  by (rule usdc_pattern_digits) (metis fromUsdc_integer fromUsdc_decimal)+

lemma fromUsdc_refuses:
  "\<not> usdc_pattern (js_trim s) \<Longrightarrow>
     fromUsdc s = Inl (new_Error (''Invalid USDC amount: \"'' @ s @ ''\"''))"
  by (simp add: fromUsdc_def)

subsection \<open>Formatting\<close>

lemma read_padStart [simp]: "read_nat (js_padStart k (CHR ''0'') u) = read_nat u"
  by (simp add: js_padStart_def read_nat_append)

lemma digits_show_nat [simp]: "digits (show_nat n)"
  using show_nat_digits by blast

lemma digits_padStart: "digits u \<Longrightarrow> digits (js_padStart k (CHR ''0'') u)"
  by (auto simp: js_padStart_def)

text \<open>Two digit strings of the same length and the same value are the same.\<close>

lemma read_nat_inj:
  "digits u \<Longrightarrow> digits v \<Longrightarrow> length u = length v \<Longrightarrow> read_nat u = read_nat v \<Longrightarrow> u = v"
proof (induction u arbitrary: v rule: rev_induct)
  case Nil
  then show ?case by simp
next
  case (snoc c u)
  obtain w d where v: "v = w @ [d]" using snoc.prems(3) by (cases v rule: rev_cases) auto
  have "digit_val c < 10" "digit_val d < 10"
    using snoc.prems(1,2) v by (auto intro: digit_val_less)
  moreover have "read_nat u * 10 + digit_val c = read_nat w * 10 + digit_val d"
    using snoc.prems(4) v by (simp add: read_nat_append)
  ultimately have "read_nat u = read_nat w \<and> digit_val c = digit_val d" by arith
  then have val: "read_nat u = read_nat w" "digit_val c = digit_val d" by simp_all
  have "is_digit c" "is_digit d" using snoc.prems(1,2) v by simp_all
  then have "c = d" using val(2) digit_char_digit_val by metis
  moreover have "u = w" using snoc.prems v val(1) by (intro snoc.IH) simp_all
  ultimately show ?case by (simp add: v)
qed

lemma read_nat_take2:
  assumes "digits u" and "length u = 7"
  shows "read_nat (take 2 u) = read_nat u div 10 ^ 5"
proof -
  have "read_nat (drop 2 u) < 10 ^ length (drop 2 u)"
    using assms by (intro read_nat_bound) (auto dest: in_set_dropD)
  moreover have "read_nat u = read_nat (take 2 u) * 10 ^ length (drop 2 u) + read_nat (drop 2 u)"
    using read_nat_append [of "take 2 u" "drop 2 u"] by simp
  ultimately show ?thesis using assms(2) by simp
qed

text \<open>The cents of a fraction below one USDC.\<close>

lemma cents_digits:
  assumes "n < 10 ^ 7"
  shows "js_slice0 2 (js_padStart 7 (CHR ''0'') (show_nat n)) =
         js_padStart 2 (CHR ''0'') (show_nat (n div 10 ^ 5))"
proof (rule read_nat_inj)
  have seven: "length (js_padStart 7 (CHR ''0'') (show_nat n)) = 7"
    using show_nat_length [OF assms] by (simp add: js_padStart_length)
  have "n div 10 ^ 5 < 10 ^ 2" using assms by simp
  then have "length (show_nat (n div 10 ^ 5)) \<le> 2" by (rule show_nat_length) simp
  then show "length (js_slice0 2 (js_padStart 7 (CHR ''0'') (show_nat n))) =
        length (js_padStart 2 (CHR ''0'') (show_nat (n div 10 ^ 5)))"
    using seven by (simp add: js_slice0_def js_padStart_length)
  show "read_nat (js_slice0 2 (js_padStart 7 (CHR ''0'') (show_nat n))) =
        read_nat (js_padStart 2 (CHR ''0'') (show_nat (n div 10 ^ 5)))"
    using read_nat_take2 [OF digits_padStart [OF digits_show_nat] seven]
    by (simp add: js_slice0_def)
  show "digits (js_slice0 2 (js_padStart 7 (CHR ''0'') (show_nat n)))"
    using digits_padStart [OF digits_show_nat, of 7 n]
    by (auto simp: js_slice0_def dest: in_set_takeD)
  show "digits (js_padStart 2 (CHR ''0'') (show_nat (n div 10 ^ 5)))"
    by (rule digits_padStart) simp
qed

lemma padStart2_eq_00: "n < 100 \<Longrightarrow> js_padStart 2 (CHR ''0'') (show_nat n) = ''00'' \<longleftrightarrow> n = 0"
  by (metis One_nat_def js_padStart_def read_padStart read_show_nat append_Cons append_Nil
      diff_Suc_1 length_Cons list.size(3) numeral_2_eq_2 replicate.simps show_nat_small(1))

lemma toUsdc_decimal:
  "toUsdc s =
     (if s \<le> - 100000 then ''-'' else '''') @ show_nat (nat (\<bar>s\<bar> div 10 ^ 7)) @ ''.'' @
     js_padStart 2 (CHR ''0'') (show_nat (nat (\<bar>s\<bar> div 10 ^ 5 mod 100)))"
proof -
  let ?m = "\<bar>s\<bar>" and ?f = "nat (\<bar>s\<bar> mod 10 ^ 7)"
  let ?c = "nat (\<bar>s\<bar> div 10 ^ 5 mod 100)"
  have cents: "?f div 10 ^ 5 = ?c"
  proof -
    have "?m mod 10000000 = 100000 * (?m div 100000 mod 100) + ?m mod 100000"
      using zmod_zmult2_eq [of 100 ?m 100000] by simp
    moreover have "(100000 * a + ?m mod 100000) div 100000 = a" for a :: int
      using pos_mod_bound [of 100000 ?m] pos_mod_sign [of 100000 ?m]
      by (subst div_mult_self4) (simp_all add: div_pos_pos_trivial)
    ultimately have "?m mod 10000000 div 100000 = ?m div 100000 mod 100" by (simp only:)
    moreover have "nat (?m mod 10000000 div 100000) = nat (?m mod 10000000) div 100000"
      by (subst nat_div_distrib) simp_all
    moreover have "(10 :: int) ^ 7 = 10000000" "(10 :: int) ^ 5 = 100000" "(10 :: nat) ^ 5 = 100000"
      by simp_all
    ultimately show ?thesis by (simp only:)
  qed
  have "?f < 10 ^ 7" by (simp add: nat_less_iff)
  then have frac: "js_slice0 2 (js_padStart 7 (CHR ''0'') (show_nat ?f)) =
      js_padStart 2 (CHR ''0'') (show_nat ?c)"
    using cents_digits cents by metis
  have "?c < 100" by (simp add: nat_less_iff)
  then have zero: "js_padStart 2 (CHR ''0'') (show_nat ?c) = ''00'' \<longleftrightarrow> ?c = 0"
    by (rule padStart2_eq_00)
  have "?m div 10000000 = ?m div 100000 div 100"
    using zdiv_zmult2_eq [of 100 ?m 100000] by simp
  moreover have "?m div 100000 div 100 = 0 \<and> ?m div 100000 mod 100 = 0 \<longleftrightarrow> ?m div 100000 = 0"
    using div_mult_mod_eq [of "?m div 100000" 100] by auto
  moreover have "?m div 100000 = 0 \<longleftrightarrow> ?m < 100000"
    by (auto simp: zdiv_eq_0_iff)
  moreover have "?c = 0 \<longleftrightarrow> ?m div 100000 mod 100 = 0"
    using pos_mod_sign [of 100 "?m div 100000"] by (simp add: nat_eq_iff del: pos_mod_sign)
  ultimately have small: "?m div 10 ^ 7 = 0 \<and> ?c = 0 \<longleftrightarrow> ?m < 100000"
    by simp
  have sign: "s < 0 \<and> \<not> (?m div 10 ^ 7 = 0 \<and> js_padStart 2 (CHR ''0'') (show_nat ?c) = ''00'')
      \<longleftrightarrow> s \<le> - 100000"
    unfolding zero small by auto
  have nums: "show_int (?m mod 10 ^ 7) = show_nat ?f" "show_int (?m div 10 ^ 7) = show_nat (nat (?m div 10 ^ 7))"
    by (simp_all add: show_int_def)
  have mag: "(if s < 0 then - s else s) = ?m" by simp
  have ten: "(10000000 :: int) = 10 ^ 7" by simp
  show ?thesis
    unfolding toUsdc_def Let_def STROOPS_PER_USDC_def mag ten nums frac sign ..
qed

subsection \<open>Specification of parsing\<close>

text \<open>
  The abstract meaning of an accepted string: the decimal fraction it denotes, times \<open>10 ^ 7\<close>,
  truncated towards zero. It is defined without the padding and slicing of the code.
\<close>

definition usdc_value :: "string \<Rightarrow> int" where
  "usdc_value s =
     (let m = (if js_startsWith s ''-'' then tl s else s);
          u = takeWhile is_digit m;
          f = tl (dropWhile is_digit m)
      in (if js_startsWith s ''-'' then - 1 else 1) *
         int (read_nat (u @ f) * 10 ^ 7 div 10 ^ length f))"

lemma frac_stroops_floor:
  assumes "digits f"
  shows "frac_stroops f = read_nat f * 10 ^ 7 div 10 ^ length f"
proof (cases "length f \<le> 7")
  case True
  then have "(10 :: nat) ^ 7 = 10 ^ length f * 10 ^ (7 - length f)"
    by (simp flip: power_add)
  then have "read_nat f * 10 ^ 7 = 10 ^ length f * (read_nat f * 10 ^ (7 - length f))"
    by (metis mult.left_commute)
  then have "read_nat f * 10 ^ 7 div 10 ^ length f = read_nat f * 10 ^ (7 - length f)"
    by (simp only: nonzero_mult_div_cancel_left power_eq_0_iff) simp
  then show ?thesis using frac_stroops_short [OF True] by metis
next
  case False
  define k where "k = length f - 7"
  have len: "length (drop 7 f) = k" and "length f = 7 + k" using False by (simp_all add: k_def)
  then have pow: "(10 :: nat) ^ length f = 10 ^ 7 * 10 ^ k" by (metis power_add)
  have "read_nat (drop 7 f) < 10 ^ k"
    using read_nat_bound [of "drop 7 f"] assms len by (auto dest: in_set_dropD)
  moreover have "read_nat f = read_nat (take 7 f) * 10 ^ k + read_nat (drop 7 f)"
    using read_nat_append [of "take 7 f" "drop 7 f"] len by simp
  ultimately have "read_nat f div 10 ^ k = read_nat (take 7 f)" by simp
  moreover have "read_nat f * 10 ^ 7 div 10 ^ length f = read_nat f div 10 ^ k"
    unfolding pow by simp
  ultimately show ?thesis using frac_stroops_long [of f] False by simp
qed

lemma amount_floor:
  assumes "digits f"
  shows "read_nat (u @ f) * 10 ^ 7 div 10 ^ length f = read_nat u * 10 ^ 7 + frac_stroops f"
proof -
  have "read_nat (u @ f) * 10 ^ 7 = 10 ^ length f * (read_nat u * 10 ^ 7) + read_nat f * 10 ^ 7"
    by (simp add: read_nat_append algebra_simps)
  then show ?thesis using frac_stroops_floor [OF assms] by simp
qed

lemma usdc_value_decimal:
  assumes "digits u" "u \<noteq> []" "digits f"
  shows "usdc_value (u @ ''.'' @ f) = int (read_nat u) * 10 ^ 7 + int (frac_stroops f)"
    and "usdc_value (''-'' @ u @ ''.'' @ f) = - (int (read_nat u) * 10 ^ 7 + int (frac_stroops f))"
proof -
  have "\<not> js_startsWith (u @ CHR ''.'' # f) ''-''" using assms digits_not_negative by blast
  moreover have "js_startsWith (CHR ''-'' # u @ CHR ''.'' # f) ''-''"
    by (simp add: js_startsWith_def)
  ultimately show "usdc_value (u @ ''.'' @ f) = int (read_nat u) * 10 ^ 7 + int (frac_stroops f)"
    and "usdc_value (''-'' @ u @ ''.'' @ f) = - (int (read_nat u) * 10 ^ 7 + int (frac_stroops f))"
    using assms amount_floor [OF assms(3), of u] by (simp_all add: usdc_value_def Let_def)
qed

lemma usdc_value_integer:
  assumes "digits u" "u \<noteq> []"
  shows "usdc_value u = int (read_nat u) * 10 ^ 7"
    and "usdc_value (''-'' @ u) = - (int (read_nat u) * 10 ^ 7)"
proof -
  have "\<not> js_startsWith u ''-''" using assms digits_not_negative [of u "[]"] by simp
  moreover have "js_startsWith (CHR ''-'' # u) ''-''" by (simp add: js_startsWith_def)
  moreover have w: "dropWhile is_digit u = []" "takeWhile is_digit u = u"
    using assms(1) dropWhile_eq_Nil_conv takeWhile_eq_all_conv by blast+
  ultimately show "usdc_value u = int (read_nat u) * 10 ^ 7"
    and "usdc_value (''-'' @ u) = - (int (read_nat u) * 10 ^ 7)"
    unfolding usdc_value_def Let_def by (simp_all add: w del: takeWhile_eq_all_conv dropWhile_eq_Nil_conv)
qed

lemma fromUsdc_pattern: "usdc_pattern s \<Longrightarrow> fromUsdc s = Inr (usdc_value s)"
  by (erule usdc_pattern_digits)
    (metis fromUsdc_integer fromUsdc_decimal usdc_value_decimal usdc_value_integer)+

subsection \<open>Properties\<close>

text \<open>
  C8. \<open>fromUsdc\<close> is total: a string that, trimmed, matches the decimal pattern yields its exact
  decimal value in stroops truncated towards zero (so every fraction of up to seven digits is
  kept in full), and every other string is refused with the message that quotes it.
\<close>

theorem fromUsdc_spec:
  "fromUsdc s =
     (if usdc_pattern (js_trim s) then Inr (usdc_value (js_trim s))
      else Inl (new_Error (''Invalid USDC amount: \"'' @ s @ ''\"'')))"
  using fromUsdc_refuses [of s] fromUsdc_trim [of s] fromUsdc_pattern [of "js_trim s"] by simp

text \<open>
  C7. Formatting an amount and reading the result back loses exactly the part below one cent,
  towards zero, and keeps the sign: \<open>fromUsdc(toUsdc(s))\<close> never fails and is \<open>s\<close> truncated to
  whole cents (100000 stroops).
\<close>

theorem fromUsdc_toUsdc:
  "fromUsdc (toUsdc s) = Inr (sgn s * (\<bar>s\<bar> div 100000 * 100000))"
proof -
  let ?u = "show_nat (nat (\<bar>s\<bar> div 10 ^ 7))"
  let ?f = "js_padStart 2 (CHR ''0'') (show_nat (nat (\<bar>s\<bar> div 10 ^ 5 mod 100)))"
  have len: "length ?f = 2"
  proof -
    have "nat (\<bar>s\<bar> div 10 ^ 5 mod 100) < 10 ^ 2" by (simp add: nat_less_iff)
    then have "length (show_nat (nat (\<bar>s\<bar> div 10 ^ 5 mod 100))) \<le> 2"
      by (rule show_nat_length) simp
    then show ?thesis by (simp add: js_padStart_length)
  qed
  have f: "digits ?f" using digits_padStart [OF digits_show_nat] .
  have ne: "?f \<noteq> []" using len by auto
  have "frac_stroops ?f = nat (\<bar>s\<bar> div 10 ^ 5 mod 100) * 10 ^ 5"
    using frac_stroops_short [of ?f] len by (simp only: read_padStart read_show_nat) simp
  then have frac: "int (frac_stroops ?f) = \<bar>s\<bar> div 10 ^ 5 mod 100 * 10 ^ 5"
    by (simp only: of_nat_mult int_nat_eq) simp
  have val: "int (read_nat ?u) * 10 ^ 7 + int (frac_stroops ?f) = \<bar>s\<bar> div 100000 * 100000"
  proof -
    have "\<bar>s\<bar> div 10000000 = \<bar>s\<bar> div 100000 div 100"
      using zdiv_zmult2_eq [of 100 "\<bar>s\<bar>" 100000] by simp
    moreover have "c div 100 * 10000000 + c mod 100 * 100000 = c * 100000" for c :: int
      using div_mult_mod_eq [of c 100] by linarith
    moreover have "0 \<le> \<bar>s\<bar> div 100000 div 100" by simp
    ultimately show ?thesis using frac by simp
  qed
  have dec: "fromUsdc (?u @ ''.'' @ ?f) = Inr (\<bar>s\<bar> div 100000 * 100000)"
    "fromUsdc (''-'' @ ?u @ ''.'' @ ?f) = Inr (- (\<bar>s\<bar> div 100000 * 100000))"
    using fromUsdc_decimal [OF digits_show_nat show_nat_not_Nil f ne] val by metis+
  show ?thesis
  proof (cases "s \<le> - 100000")
    case True
    then have "toUsdc s = ''-'' @ ?u @ ''.'' @ ?f" by (simp add: toUsdc_decimal)
    then show ?thesis using dec(2) True by simp
  next
    case False
    then have "\<bar>s\<bar> div 100000 = sgn s * (\<bar>s\<bar> div 100000)"
      by (cases "s < 0") (auto simp: sgn_if)
    moreover have "toUsdc s = ?u @ ''.'' @ ?f" using False by (simp add: toUsdc_decimal)
    ultimately show ?thesis using dec(1) by (metis mult.assoc)
  qed
qed

end
