(* ===== verification/Assets.thy ===== *)
theory Assets
  imports JsValue
begin

text \<open>
  Amounts, discounts and addresses as the web application handles them: \<open>lib/assets.ts\<close>,
  \<open>lib/validation.ts\<close> and \<open>lib/format.ts\<close>. Amounts are bigints of stroops; the conversions to and
  from \<open>number\<close> round as IEEE 754 does.
\<close>

text \<open>Division of bigints truncates towards zero.\<close>

definition bigint_div :: "int \<Rightarrow> int \<Rightarrow> int" where
  "bigint_div a b = sgn a * sgn b * (\<bar>a\<bar> div \<bar>b\<bar>)"

lemma bigint_div_nonneg [simp]: "0 \<le> a \<Longrightarrow> 0 < b \<Longrightarrow> bigint_div a b = a div b"
  by (cases "a = 0") (simp_all add: bigint_div_def)

subsection \<open>Assets\<close>

datatype AssetType = USDC | XLM

fun asset_string :: "AssetType \<Rightarrow> string" where
  "asset_string USDC = ''USDC''"
| "asset_string XLM = ''XLM''"

record AssetInfo =
  ai_type :: AssetType
  ai_code :: string
  ai_label :: string
  ai_isNative :: bool
  ai_issuer :: "string option"
  ai_decimals :: nat

definition STROOP_DIVISOR :: int where
  "STROOP_DIVISOR = 10000000"

text \<open>The issuer of USDC comes from the environment.\<close>

fun ASSET_INFO :: "string \<Rightarrow> AssetType \<Rightarrow> AssetInfo" where
  "ASSET_INFO usdc_issuer USDC =
     \<lparr>ai_type = USDC, ai_code = ''USDC'', ai_label = ''USDC'', ai_isNative = False,
      ai_issuer = Some usdc_issuer, ai_decimals = 7\<rparr>"
| "ASSET_INFO usdc_issuer XLM =
     \<lparr>ai_type = XLM, ai_code = ''XLM'', ai_label = ''XLM'', ai_isNative = True,
      ai_issuer = None, ai_decimals = 7\<rparr>"

definition ASSET_OPTIONS :: "(AssetType \<times> string) list" where
  "ASSET_OPTIONS = [(USDC, ''USDC''), (XLM, ''XLM'')]"

subsection \<open>Amounts\<close>

definition stroopsToNumber :: "int \<Rightarrow> jsnum" where
  "stroopsToNumber amount = num_over (num_of_int amount) (of_int STROOP_DIVISOR)"

definition formatAmount :: "int option \<Rightarrow> AssetType \<Rightarrow> string" where
  "formatAmount amount asset =
     (case amount of
        None \<Rightarrow> ''0.00 '' @ asset_string asset
      | Some a \<Rightarrow>
          num_toLocale2 (num_over (num_of_int a) (of_int STROOP_DIVISOR)) @ '' '' @
          asset_string asset)"

definition numberToStroops :: "jsnum \<Rightarrow> exn + int" where
  "numberToStroops amount = bigint_of_num (num_floor (num_scale amount (of_int STROOP_DIVISOR)))"

definition BPS_DENOMINATOR :: int where
  "BPS_DENOMINATOR = 10000"

definition fundedValueStroops :: "int \<Rightarrow> jsnum \<Rightarrow> exn + int" where
  "fundedValueStroops faceValue discountBps =
     (if \<not> num_isInteger discountBps
      then Inl (JsTypeError (''discountBps must be a whole number of basis points, got '' @
                             num_toString discountBps))
      else bindE (bigint_of_num discountBps) (\<lambda>bps.
        let fee = bigint_div (faceValue * bps + BPS_DENOMINATOR - 1) BPS_DENOMINATOR
        in Inr (faceValue - fee)))"

subsection \<open>Validation and display\<close>

definition MAX_DISCOUNT_BPS :: int where
  "MAX_DISCOUNT_BPS = 5000"

definition validateDiscountBps :: "jsnum \<Rightarrow> bool" where
  "validateDiscountBps bps \<longleftrightarrow>
     num_isInteger bps \<and> num_less (Fin 0) bps \<and> num_le bps (num_int MAX_DISCOUNT_BPS)"

definition truncateAddress :: "string \<Rightarrow> string" where
  "truncateAddress addr =
     (if addr = [] then [] else js_slice0 6 addr @ ''...'' @ js_slice_last 4 addr)"

lemma truncateAddress_bound: "length (truncateAddress addr) \<le> 13"
  by (auto simp: truncateAddress_def js_slice0_def js_slice_last_def)

subsection \<open>Exactness of the integer conversions\<close>

lemma validateDiscountBps_iff:
  "validateDiscountBps bps \<longleftrightarrow> (\<exists>b. bps = num_int b \<and> 1 \<le> b \<and> b \<le> 5000)"
proof -
  have "num_le (num_int b) (num_int 5000) \<longleftrightarrow> b \<le> 5000" for b
    by (auto simp: num_le_def num_eq_def)
  then show ?thesis
    by (auto simp: validateDiscountBps_def num_isInteger_iff MAX_DISCOUNT_BPS_def)
qed

lemma numberToStroops_whole:
  assumes "\<bar>n * 10 ^ 7\<bar> \<le> 2 ^ 53"
  shows "numberToStroops (num_int n) = Inr (n * 10 ^ 7)"
proof -
  have "num_scale (num_int n) (of_int STROOP_DIVISOR) = num_int (n * 10 ^ 7)"
    using fl_of_int [OF assms] by (simp add: STROOP_DIVISOR_def)
  then show ?thesis by (simp only: numberToStroops_def num_floor.simps floor_of_int bigint_of_num_int)
qed

lemma stroopsToNumber_whole:
  assumes "\<bar>n * 10 ^ 7\<bar> \<le> 2 ^ 53"
  shows "stroopsToNumber (n * 10 ^ 7) = num_int n"
proof -
  have "\<bar>n\<bar> \<le> 2 ^ 53" using assms by (simp add: abs_mult)
  then show ?thesis
    using num_of_int_exact [OF assms] fl_of_int [of n]
    by (simp add: stroopsToNumber_def STROOP_DIVISOR_def)
qed

text \<open>The fee is the exact fee rounded up, so the payout is the exact payout rounded down.\<close>

lemma ceil_fee:
  fixes a :: int
  shows "(a + 10000 - 1) div 10000 = - (- a div 10000)"
proof -
  have "a + 10000 - 1 = 10000 * (a div 10000) + (a mod 10000 + 9999)"
    using div_mult_mod_eq [of a 10000] by linarith
  then have "(a + 10000 - 1) div 10000 = a div 10000 + (a mod 10000 + 9999) div 10000"
    by (simp only: div_mult_self4)
  moreover have "(a mod 10000 + 9999) div 10000 = (if a mod 10000 = 0 then 0 else 1)"
  proof (cases "a mod 10000 = 0")
    case False
    then have "0 < a mod 10000" "a mod 10000 < 10000"
      using pos_mod_sign [of 10000 a] by simp_all
    then show ?thesis using False by (simp add: int_div_pos_eq [of _ _ 1 "a mod 10000 - 1"])
  qed simp
  ultimately show ?thesis by (simp add: zdiv_zminus1_eq_if)
qed

lemma fundedValueStroops_int:
  assumes "0 \<le> f" and "0 \<le> b"
  shows "fundedValueStroops f (num_int b) = Inr (f * (10000 - b) div 10000)"
proof -
  have "0 \<le> f * b" using assms by simp
  then have "bigint_div (f * b + 10000 - 1) 10000 = - (- (f * b) div 10000)"
    by (simp add: ceil_fee [symmetric])
  moreover have "f * (10000 - b) div 10000 = f + - (f * b) div 10000"
  proof -
    have "f * (10000 - b) = f * 10000 + - (f * b)" by (simp add: algebra_simps)
    then show ?thesis by (simp only: div_mult_self3)
  qed
  ultimately show ?thesis by (simp add: fundedValueStroops_def BPS_DENOMINATOR_def Let_def)
qed

subsection \<open>Properties\<close>

text \<open>
  C6. For a face value that is not negative and any discount the validator accepts,
  \<open>fundedValueStroops\<close> returns the exact payout \<open>face - face * bps / 10000\<close> rounded down to a
  stroop, at every magnitude, and the payout lies between half the face value and the face
  value.
\<close>

theorem fundedValueStroops_exact:
  assumes "0 \<le> face" and "validateDiscountBps bps" and "bps = Fin q"
  shows "\<exists>v. fundedValueStroops face bps = Inr v \<and>
             v = \<lfloor>of_int face - of_int face * q / 10000\<rfloor> \<and> face div 2 \<le> v \<and> v \<le> face"
proof -
  obtain b where b: "bps = num_int b" "1 \<le> b" "b \<le> 5000"
    using assms(2) validateDiscountBps_iff by blast
  then have q: "q = of_int b" using assms(3) by simp
  have "of_int face - of_int face * q / 10000 = (of_int (face * (10000 - b)) / of_int 10000 :: rat)"
    by (simp add: q field_simps)
  then have "\<lfloor>of_int face - of_int face * q / 10000\<rfloor> = face * (10000 - b) div 10000"
    by (simp only: floor_divide_of_int_eq)
  moreover have "face * (10000 - b) div 10000 \<le> face"
  proof -
    have "face * (10000 - b) \<le> face * 10000" using assms(1) b by (intro mult_left_mono) simp_all
    then show ?thesis using zdiv_mono1 [of _ "face * 10000" 10000] by fastforce
  qed
  moreover have "face div 2 \<le> face * (10000 - b) div 10000"
  proof -
    have "face * 5000 \<le> face * (10000 - b)" using assms(1) b by (intro mult_left_mono) simp_all
    then have "face * 5000 div 10000 \<le> face * (10000 - b) div 10000" by (intro zdiv_mono1) simp_all
    moreover have "face * 5000 div 10000 = face div 2"
      using div_mult_mult2 [of 5000 face 2] by simp
    ultimately show ?thesis by simp
  qed
  ultimately show ?thesis using fundedValueStroops_int [OF assms(1), of b] b by simp
qed

theorem fundedValueStroops_exact_witness:
  "\<exists>v. fundedValueStroops 1000000000 (Fin 500) = Inr v \<and>
       v = \<lfloor>of_int 1000000000 - of_int 1000000000 * (500 :: rat) / 10000\<rfloor> \<and>
       1000000000 div 2 \<le> v \<and> v \<le> 1000000000"
proof -
  have "validateDiscountBps (Fin 500)"
    using validateDiscountBps_iff [of "Fin 500"] by (auto intro: exI [of _ 500])
  then show ?thesis using fundedValueStroops_exact [of 1000000000 "Fin 500" 500] by simp
qed

lemma product_1_13: "num_scale (fl (113 / 100)) 10000000 = Fin (6066641305599999 / 536870912)"
  by code_simp

lemma product_0_57: "num_scale (fl (57 / 100)) 10000000 = Fin (6120328396799999 / 1073741824)"
  by code_simp

lemma floor_of_literal:
  "\<lfloor>6066641305599999 / 536870912 :: rat\<rfloor> = 11299999" "\<lfloor>6120328396799999 / 1073741824 :: rat\<rfloor> = 5699999"
  by (simp_all add: floor_eq_iff)

text \<open>
  \<open>numberToStroops\<close> multiplies in binary floating point before it rounds down, so an amount
  whose stroops are exact in decimal can come out one stroop short: the number literal 1.13 is
  11300000 stroops, and the function returns 11299999; 0.57 loses one as well.
\<close>

theorem numberToStroops_loses_a_stroop:
  "numberToStroops (fl (113 / 100)) = Inr 11299999 \<and> numberToStroops (fl (57 / 100)) = Inr 5699999"
  by (simp add: numberToStroops_def STROOP_DIVISOR_def product_1_13 product_0_57
      floor_of_literal)

end
