(* ===== verification/SdkConfig.thy ===== *)
theory SdkConfig
  imports Assets
begin

text \<open>
  Configuration. The SDK keeps one active configuration (\<open>packages/sdk/src/config.ts\<close>) that starts
  from defaults and the environment; the web application reads its own environment
  (\<open>lib/env.ts\<close>), hands it to the SDK (\<open>lib/sdkConfig.ts\<close>) and reports missing variables
  (\<open>lib/config.ts\<close>).

  An environment is a function from variable names to optional strings. The SDK and the web
  application have environments of their own: the bundler inlines the one and not the other.
  The passphrase of the test network is a constant of the Stellar SDK, hence a parameter. A key
  that a partial configuration does not have is \<open>None\<close>.
\<close>

type_synonym environment = "string \<Rightarrow> string option"

text \<open>\<open>env.X || d\<close>: an empty value counts as unset.\<close>

definition env_or :: "environment \<Rightarrow> string \<Rightarrow> string \<Rightarrow> string" where
  "env_or env k d = (case env k of Some v \<Rightarrow> if v \<noteq> [] then v else d | None \<Rightarrow> d)"

text \<open>\<open>env.X || undefined\<close>.\<close>

definition env_opt :: "environment \<Rightarrow> string \<Rightarrow> string option" where
  "env_opt env k = (case env k of Some v \<Rightarrow> if v \<noteq> [] then Some v else None | None \<Rightarrow> None)"

lemma env_or_env_opt: "env_or env k d = (case env_opt env k of Some v \<Rightarrow> v | None \<Rightarrow> d)"
  by (auto simp: env_or_def env_opt_def split: option.splits)

lemma env_opt_not_empty: "env_opt env k \<noteq> Some []"
  by (auto simp: env_opt_def split: option.splits if_splits)

subsection \<open>The SDK\<close>

record ContractIds =
  registry :: string
  invoice :: string
  pool :: string
  escrow :: string
  agentRegistry :: string

record UsdcConfig =
  issuer :: string
  assetCode :: string

record SDKConfig =
  horizonUrl :: string
  sorobanRpcUrl :: string
  networkPassphrase :: string
  contractIds :: ContractIds
  usdc :: UsdcConfig

record DefaultNetwork =
  dn_network :: string
  dn_horizonUrl :: string
  dn_sorobanRpcUrl :: string
  dn_networkPassphrase :: string

definition DEFAULT_NETWORK :: "string \<Rightarrow> environment \<Rightarrow> DefaultNetwork" where
  "DEFAULT_NETWORK networks_testnet env =
     \<lparr>dn_network = env_or env ''NEXT_PUBLIC_STELLAR_NETWORK'' ''testnet'',
      dn_horizonUrl = env_or env ''NEXT_PUBLIC_HORIZON_URL'' ''https://horizon-testnet.stellar.org'',
      dn_sorobanRpcUrl =
        env_or env ''NEXT_PUBLIC_SOROBAN_RPC_URL'' ''https://soroban-testnet.stellar.org'',
      dn_networkPassphrase = env_or env ''NEXT_PUBLIC_NETWORK_PASSPHRASE'' networks_testnet\<rparr>"

definition DEFAULT_CONTRACTS :: "environment \<Rightarrow> ContractIds" where
  "DEFAULT_CONTRACTS env =
     \<lparr>registry = env_or env ''NEXT_PUBLIC_REGISTRY_CONTRACT_ID'' '''',
      invoice = env_or env ''NEXT_PUBLIC_INVOICE_CONTRACT_ID'' '''',
      pool = env_or env ''NEXT_PUBLIC_POOL_CONTRACT_ID'' '''',
      escrow = env_or env ''NEXT_PUBLIC_ESCROW_CONTRACT_ID'' '''',
      agentRegistry = env_or env ''NEXT_PUBLIC_AGENT_REGISTRY_CONTRACT_ID'' ''''\<rparr>"

definition DEFAULT_USDC :: "environment \<Rightarrow> UsdcConfig" where
  "DEFAULT_USDC env =
     \<lparr>issuer = env_or env ''NEXT_PUBLIC_USDC_ISSUER''
                 ''GBBD47IF6LWK7P7MDEVSCWR7DPUWV3NY3DTQEVFL4NAT4AQH3ZLLFLA5'',
      assetCode = env_or env ''NEXT_PUBLIC_USDC_ASSET_CODE'' ''USDC''\<rparr>"

text \<open>The value \<open>activeConfig\<close> has when the module is loaded.\<close>

definition initialConfig :: "string \<Rightarrow> environment \<Rightarrow> SDKConfig" where
  "initialConfig networks_testnet env =
     \<lparr>horizonUrl = dn_horizonUrl (DEFAULT_NETWORK networks_testnet env),
      sorobanRpcUrl = dn_sorobanRpcUrl (DEFAULT_NETWORK networks_testnet env),
      networkPassphrase = dn_networkPassphrase (DEFAULT_NETWORK networks_testnet env),
      contractIds = DEFAULT_CONTRACTS env,
      usdc = DEFAULT_USDC env\<rparr>"

text \<open>A \<open>Partial<SDKConfig>\<close>; the nested objects may lack keys as well.\<close>

record PartialContractIds =
  p_registry :: "string option"
  p_invoice :: "string option"
  p_pool :: "string option"
  p_escrow :: "string option"
  p_agentRegistry :: "string option"

record PartialUsdc =
  p_issuer :: "string option"
  p_assetCode :: "string option"

record PartialSDKConfig =
  p_horizonUrl :: "string option"
  p_sorobanRpcUrl :: "string option"
  p_networkPassphrase :: "string option"
  p_contractIds :: "PartialContractIds option"
  p_usdc :: "PartialUsdc option"

text \<open>One key of an object spread: the later object wins where it has the key.\<close>

definition spread :: "'a \<Rightarrow> 'a option \<Rightarrow> 'a" where
  "spread old new = (case new of None \<Rightarrow> old | Some v \<Rightarrow> v)"

lemma spread_simps [simp]: "spread old None = old" "spread old (Some v) = v"
  by (simp_all add: spread_def)

lemma spread_idem [simp]: "spread (spread old new) new = spread old new"
  by (simp add: spread_def split: option.split)

definition spread_contractIds :: "ContractIds \<Rightarrow> PartialContractIds option \<Rightarrow> ContractIds" where
  "spread_contractIds old new =
     (case new of None \<Rightarrow> old
      | Some p \<Rightarrow>
          \<lparr>registry = spread (registry old) (p_registry p),
           invoice = spread (invoice old) (p_invoice p),
           pool = spread (pool old) (p_pool p),
           escrow = spread (escrow old) (p_escrow p),
           agentRegistry = spread (agentRegistry old) (p_agentRegistry p)\<rparr>)"

definition spread_usdc :: "UsdcConfig \<Rightarrow> PartialUsdc option \<Rightarrow> UsdcConfig" where
  "spread_usdc old new =
     (case new of None \<Rightarrow> old
      | Some p \<Rightarrow>
          \<lparr>issuer = spread (issuer old) (p_issuer p),
           assetCode = spread (assetCode old) (p_assetCode p)\<rparr>)"

definition configureSDK :: "PartialSDKConfig \<Rightarrow> SDKConfig \<Rightarrow> SDKConfig" where
  "configureSDK config activeConfig =
     \<lparr>horizonUrl = spread (horizonUrl activeConfig) (p_horizonUrl config),
      sorobanRpcUrl = spread (sorobanRpcUrl activeConfig) (p_sorobanRpcUrl config),
      networkPassphrase = spread (networkPassphrase activeConfig) (p_networkPassphrase config),
      contractIds = spread_contractIds (contractIds activeConfig) (p_contractIds config),
      usdc = spread_usdc (usdc activeConfig) (p_usdc config)\<rparr>"

text \<open>
  \<open>getConfig\<close> builds new objects with the fields of the active configuration, so a caller that
  writes to the result does not write to the active configuration. \<open>getSorobanServer\<close> is
  determined by the URL it is built from.
\<close>

definition getConfig :: "SDKConfig \<Rightarrow> SDKConfig" where
  "getConfig activeConfig =
     activeConfig
       \<lparr>contractIds :=
          \<lparr>registry = registry (contractIds activeConfig), invoice = invoice (contractIds activeConfig),
           pool = pool (contractIds activeConfig), escrow = escrow (contractIds activeConfig),
           agentRegistry = agentRegistry (contractIds activeConfig)\<rparr>,
        usdc := \<lparr>issuer = issuer (usdc activeConfig), assetCode = assetCode (usdc activeConfig)\<rparr>\<rparr>"

definition getSorobanServer :: "SDKConfig \<Rightarrow> string" where
  "getSorobanServer activeConfig = sorobanRpcUrl activeConfig"

lemma getConfig_eq [simp]: "getConfig c = c"
  by (simp add: getConfig_def)

text \<open>The merge of one partial configuration is idempotent.\<close>

lemma spread_contractIds_idem [simp]:
  "spread_contractIds (spread_contractIds old new) new = spread_contractIds old new"
  by (simp add: spread_contractIds_def split: option.split)

lemma spread_usdc_idem [simp]: "spread_usdc (spread_usdc old new) new = spread_usdc old new"
  by (simp add: spread_usdc_def split: option.split)

lemma configureSDK_idem [simp]: "configureSDK p (configureSDK p c) = configureSDK p c"
  by (simp add: configureSDK_def)

subsection \<open>The web application\<close>

definition DEFAULT_USDC_ISSUER :: string where
  "DEFAULT_USDC_ISSUER = ''GBBD47IF6LWK7P7MDEVSCWR7DPUWV3NY3DTQEVFL4NAT4AQH3ZLLFLA5''"

definition USDC_ISSUER :: "environment \<Rightarrow> string" where
  "USDC_ISSUER env = env_or env ''NEXT_PUBLIC_USDC_ISSUER'' DEFAULT_USDC_ISSUER"

record NetworkEnv =
  ne_horizonUrl :: "string option"
  ne_sorobanRpcUrl :: "string option"
  ne_networkPassphrase :: "string option"
  ne_contractIds :: PartialContractIds
  ne_usdcAssetCode :: "string option"

definition readNetworkEnv :: "environment \<Rightarrow> NetworkEnv" where
  "readNetworkEnv env =
     \<lparr>ne_horizonUrl = env_opt env ''NEXT_PUBLIC_HORIZON_URL'',
      ne_sorobanRpcUrl = env_opt env ''NEXT_PUBLIC_SOROBAN_RPC_URL'',
      ne_networkPassphrase = env_opt env ''NEXT_PUBLIC_NETWORK_PASSPHRASE'',
      ne_contractIds =
        \<lparr>p_registry = env_opt env ''NEXT_PUBLIC_REGISTRY_CONTRACT_ID'',
         p_invoice = env_opt env ''NEXT_PUBLIC_INVOICE_CONTRACT_ID'',
         p_pool = env_opt env ''NEXT_PUBLIC_POOL_CONTRACT_ID'',
         p_escrow = env_opt env ''NEXT_PUBLIC_ESCROW_CONTRACT_ID'',
         p_agentRegistry = env_opt env ''NEXT_PUBLIC_AGENT_REGISTRY_CONTRACT_ID''\<rparr>,
      ne_usdcAssetCode = env_opt env ''NEXT_PUBLIC_USDC_ASSET_CODE''\<rparr>"

text \<open>\<open>Object.entries(ids).filter(([, id]) => Boolean(id))\<close>: a key with a falsy value is dropped.\<close>

definition keep_truthy :: "string option \<Rightarrow> string option" where
  "keep_truthy v = (if v = Some [] then None else v)"

definition truthy_ids :: "PartialContractIds \<Rightarrow> PartialContractIds" where
  "truthy_ids p =
     \<lparr>p_registry = keep_truthy (p_registry p), p_invoice = keep_truthy (p_invoice p),
      p_pool = keep_truthy (p_pool p), p_escrow = keep_truthy (p_escrow p),
      p_agentRegistry = keep_truthy (p_agentRegistry p)\<rparr>"

definition no_ids :: PartialContractIds where
  "no_ids = \<lparr>p_registry = None, p_invoice = None, p_pool = None, p_escrow = None,
             p_agentRegistry = None\<rparr>"

definition buildSDKConfig :: "environment \<Rightarrow> PartialSDKConfig" where
  "buildSDKConfig environ =
     (let env = readNetworkEnv environ;
          ids = truthy_ids (ne_contractIds env)
      in \<lparr>p_horizonUrl = keep_truthy (ne_horizonUrl env),
          p_sorobanRpcUrl = keep_truthy (ne_sorobanRpcUrl env),
          p_networkPassphrase = keep_truthy (ne_networkPassphrase env),
          p_contractIds = (if ids \<noteq> no_ids then Some ids else None),
          p_usdc = Some \<lparr>p_issuer = Some (USDC_ISSUER environ),
                         p_assetCode = Some (case ne_usdcAssetCode env of
                                               Some c \<Rightarrow> c | None \<Rightarrow> ''USDC'')\<rparr>\<rparr>)"

definition initSDKConfig :: "environment \<Rightarrow> SDKConfig \<Rightarrow> SDKConfig" where
  "initSDKConfig environ = configureSDK (buildSDKConfig environ)"

subsection \<open>Validation of the environment\<close>

definition REQUIRED_ENV_VARS :: "string list" where
  "REQUIRED_ENV_VARS =
     [''NEXT_PUBLIC_INVOICE_CONTRACT_ID'', ''NEXT_PUBLIC_POOL_CONTRACT_ID'',
      ''NEXT_PUBLIC_REGISTRY_CONTRACT_ID'']"

record ConfigValidation =
  missing :: "string list"
  isConfigured :: bool

text \<open>The state is the cache and the lines written to the console.\<close>

record validation_state =
  cachedValidation :: "ConfigValidation option"
  console :: "string list"

definition validateConfig ::
  "environment \<Rightarrow> validation_state \<Rightarrow> ConfigValidation \<times> validation_state" where
  "validateConfig env s =
     (case cachedValidation s of
        Some v \<Rightarrow> (v, s)
      | None \<Rightarrow>
          let absent = filter (\<lambda>k. env k = None \<or> env k = Some []) REQUIRED_ENV_VARS;
              out = (if 0 < length absent
                     then [''[TrusTrove] Missing required environment variables: '' @
                           js_join '', '' absent] else []);
              v = \<lparr>missing = absent, isConfigured = (length absent = 0)\<rparr>
          in (v, s\<lparr>cachedValidation := Some v, console := console s @ out\<rparr>))"

subsection \<open>Lemmas\<close>

lemma keep_truthy_env_opt [simp]: "keep_truthy (env_opt env k) = env_opt env k"
  using env_opt_not_empty [of env k] by (simp add: keep_truthy_def)

lemma truthy_ids_read [simp]:
  "truthy_ids (ne_contractIds (readNetworkEnv env)) = ne_contractIds (readNetworkEnv env)"
  by (simp add: truthy_ids_def readNetworkEnv_def)

lemma truthy_no_ids [simp]: "truthy_ids no_ids = no_ids"
  by (simp add: truthy_ids_def no_ids_def keep_truthy_def)

lemma spread_no_ids [simp]: "spread_contractIds old (Some no_ids) = old"
  by (simp add: spread_contractIds_def no_ids_def)

lemma spread_env_opt: "spread old (env_opt env k) = env_or env k old"
  by (simp add: env_or_env_opt spread_def)

lemma initSDKConfig_contractIds:
  "contractIds (initSDKConfig env c) =
     \<lparr>registry = env_or env ''NEXT_PUBLIC_REGISTRY_CONTRACT_ID'' (registry (contractIds c)),
      invoice = env_or env ''NEXT_PUBLIC_INVOICE_CONTRACT_ID'' (invoice (contractIds c)),
      pool = env_or env ''NEXT_PUBLIC_POOL_CONTRACT_ID'' (pool (contractIds c)),
      escrow = env_or env ''NEXT_PUBLIC_ESCROW_CONTRACT_ID'' (escrow (contractIds c)),
      agentRegistry = env_or env ''NEXT_PUBLIC_AGENT_REGISTRY_CONTRACT_ID''
                        (agentRegistry (contractIds c))\<rparr>"
proof -
  let ?ids = "ne_contractIds (readNetworkEnv env)"
  have "contractIds (initSDKConfig env c) = spread_contractIds (contractIds c) (Some ?ids)"
  proof (cases "?ids = no_ids")
    case True
    then show ?thesis
      using spread_no_ids [of "contractIds c"]
      by (simp add: initSDKConfig_def configureSDK_def buildSDKConfig_def Let_def
          spread_contractIds_def [of _ None])
  next
    case False
    then show ?thesis by (simp add: initSDKConfig_def configureSDK_def buildSDKConfig_def Let_def)
  qed
  then show ?thesis by (simp add: spread_contractIds_def readNetworkEnv_def spread_env_opt)
qed

lemma initSDKConfig_usdc:
  "usdc (initSDKConfig env c) =
     \<lparr>issuer = USDC_ISSUER env, assetCode = env_or env ''NEXT_PUBLIC_USDC_ASSET_CODE'' ''USDC''\<rparr>"
  by (simp add: initSDKConfig_def configureSDK_def buildSDKConfig_def Let_def spread_usdc_def
      readNetworkEnv_def env_or_env_opt)

subsection \<open>Properties\<close>

text \<open>
  After the startup wiring every field of the active configuration is the web
  application's variable where that is set and not empty, and the SDK's earlier value
  otherwise; the USDC issuer is the one \<open>ASSET_INFO\<close> shows, whatever the SDK had before; and
  wiring again changes nothing.
\<close>

theorem initSDKConfig_spec:
  "initSDKConfig env c =
     \<lparr>horizonUrl = env_or env ''NEXT_PUBLIC_HORIZON_URL'' (horizonUrl c),
      sorobanRpcUrl = env_or env ''NEXT_PUBLIC_SOROBAN_RPC_URL'' (sorobanRpcUrl c),
      networkPassphrase = env_or env ''NEXT_PUBLIC_NETWORK_PASSPHRASE'' (networkPassphrase c),
      contractIds =
        \<lparr>registry = env_or env ''NEXT_PUBLIC_REGISTRY_CONTRACT_ID'' (registry (contractIds c)),
         invoice = env_or env ''NEXT_PUBLIC_INVOICE_CONTRACT_ID'' (invoice (contractIds c)),
         pool = env_or env ''NEXT_PUBLIC_POOL_CONTRACT_ID'' (pool (contractIds c)),
         escrow = env_or env ''NEXT_PUBLIC_ESCROW_CONTRACT_ID'' (escrow (contractIds c)),
         agentRegistry = env_or env ''NEXT_PUBLIC_AGENT_REGISTRY_CONTRACT_ID''
                           (agentRegistry (contractIds c))\<rparr>,
      usdc = \<lparr>issuer = USDC_ISSUER env,
              assetCode = env_or env ''NEXT_PUBLIC_USDC_ASSET_CODE'' ''USDC''\<rparr>\<rparr>
   \<and> ai_issuer (ASSET_INFO (USDC_ISSUER env) USDC) = Some (issuer (usdc (initSDKConfig env c)))
   \<and> initSDKConfig env (initSDKConfig env c) = initSDKConfig env c"
proof -
  have "initSDKConfig env (initSDKConfig env c) = initSDKConfig env c"
    by (simp add: initSDKConfig_def)
  moreover have "horizonUrl (initSDKConfig env c) = env_or env ''NEXT_PUBLIC_HORIZON_URL'' (horizonUrl c)"
    "sorobanRpcUrl (initSDKConfig env c) = env_or env ''NEXT_PUBLIC_SOROBAN_RPC_URL'' (sorobanRpcUrl c)"
    "networkPassphrase (initSDKConfig env c) =
       env_or env ''NEXT_PUBLIC_NETWORK_PASSPHRASE'' (networkPassphrase c)"
    by (simp_all add: initSDKConfig_def configureSDK_def buildSDKConfig_def Let_def
        readNetworkEnv_def spread_env_opt)
  ultimately show ?thesis
    using initSDKConfig_contractIds [of env c] initSDKConfig_usdc [of env c] by simp
qed

end
