(* ===== verification/BaseClient.thy ===== *)
theory BaseClient
  imports SdkConfig
begin

text \<open>
  The contract client of the SDK (\<open>packages/sdk/src/base.ts\<close>): reading a contract by simulation,
  and writing one by simulating, preparing, signing, broadcasting and polling a transaction,
  with the retry rules of each step.

  The Soroban RPC server, the transaction builder of the Stellar SDK and the Freighter wallet
  are outside the repository. They are the fields of a record \<open>sdk_env\<close>: arbitrary functions, the
  effectful ones over an arbitrary state \<open>'w\<close> of the outside world. The state of a run also has
  the active configuration and a history of the calls made with the answers received, which no
  definition reads; the theorems are stated on it, for every possible behaviour of the outside.

  \<open>maxAttempts\<close> and the delays are integers. Type variables: \<open>'a\<close> accounts, \<open>'t\<close> transactions,
  \<open>'v\<close> contract values.
\<close>

subsection \<open>The outside world\<close>

record 'v SimSuccess =
  retval :: "'v option"
  minResourceFee :: "string option"
  footprint :: "(nat \<times> nat) option" \<comment> \<open>numbers of read-only and read-write ledger entries\<close>

datatype 'v SimResponse = SimFailure string | SimOk "'v SimSuccess"

datatype SendStatus = PENDING | DUPLICATE | TRY_AGAIN_LATER | SEND_ERROR

record SendResponse =
  send_status :: SendStatus
  send_hash :: string
  errorResult :: "string option" \<comment> \<open>base64 of the XDR\<close>

datatype GetTransactionStatus = SUCCESS | NOT_FOUND | FAILED

record SignOptions =
  so_network :: string
  so_networkPassphrase :: string
  so_accountToSign :: string

text \<open>What the code hands to \<open>TransactionBuilder\<close>.\<close>

record ('a, 'v) TxSpec =
  tx_account :: 'a
  tx_fee :: string
  tx_networkPassphrase :: string
  tx_contract :: string
  tx_method :: string
  tx_args :: "'v list"
  tx_timeout :: nat

record ('w, 'a, 't, 'v) sdk_env =
  getAccount :: "string \<Rightarrow> string \<Rightarrow> (exn, 'w, 'a) io"
  simulate :: "string \<Rightarrow> 't \<Rightarrow> (exn, 'w, 'v SimResponse) io"
  prepareTransaction :: "string \<Rightarrow> 't \<Rightarrow> (exn, 'w, 't) io"
  sendTransaction :: "string \<Rightarrow> 't \<Rightarrow> (exn, 'w, SendResponse) io"
  getTransaction :: "string \<Rightarrow> string \<Rightarrow> (exn, 'w, GetTransactionStatus) io"
  signTransaction :: "string \<Rightarrow> SignOptions \<Rightarrow> (exn, 'w, string) io"
  buildTx :: "('a, 'v) TxSpec \<Rightarrow> exn + 't"
  toXDR :: "'t \<Rightarrow> string"
  fromXDR :: "string \<Rightarrow> string \<Rightarrow> exn + 't"
  addressScVal :: "string \<Rightarrow> exn + 'v"
  nativeToScVal :: "jsval \<Rightarrow> string option \<Rightarrow> exn + 'v"
  scvBytes :: "nat list \<Rightarrow> 'v"
  scValToNative :: "'v \<Rightarrow> exn + jsval"
  asJs :: "'v \<Rightarrow> jsval"
  assetContractId :: "string \<Rightarrow> string \<Rightarrow> string \<Rightarrow> exn + string"
  newContract :: "string \<Rightarrow> exn + unit"
  newServer :: "string \<Rightarrow> exn + unit"
  Networks_PUBLIC :: string
  BASE_FEE :: string

datatype ('a, 't, 'v) rpc_event =
    EvGetAccount string "exn + 'a"
  | EvSimulate 't "exn + 'v SimResponse"
  | EvPrepare 't "exn + 't"
  | EvSign string SignOptions "exn + string"
  | EvSend 't "exn + SendResponse"
  | EvGetTransaction string "exn + GetTransactionStatus"
  | EvSleep int

record ('w, 'a, 't, 'v) sdk_state =
  activeConfig :: SDKConfig
  outside :: 'w
  history :: "('a, 't, 'v) rpc_event list"

type_synonym ('w, 'a, 't, 'v, 'r) sdk_io = "(exn, ('w, 'a, 't, 'v) sdk_state, 'r) io"

text \<open>A call to the outside with its entry in the history.\<close>

definition outside_call ::
  "((exn + 'r) \<Rightarrow> ('a, 't, 'v) rpc_event) \<Rightarrow> (exn, 'w, 'r) io \<Rightarrow> ('w, 'a, 't, 'v, 'r) sdk_io" where
  "outside_call ev m = (\<lambda>s. case m (outside s) of
     (r, w) \<Rightarrow> (r, s\<lparr>outside := w, history := history s @ [ev r]\<rparr>))"

text \<open>\<open>await new Promise((resolve) => setTimeout(resolve, ms))\<close>.\<close>

definition sleep :: "int \<Rightarrow> ('w, 'a, 't, 'v, unit) sdk_io" where
  "sleep ms = (\<lambda>s. (Inr (), s\<lparr>history := history s @ [EvSleep ms]\<rparr>))"

definition readConfig :: "('w, 'a, 't, 'v, SDKConfig) sdk_io" where
  "readConfig = (\<lambda>s. (Inr (getConfig (activeConfig s)), s))"

text \<open>A server object is identified with its URL; building one may throw.\<close>

definition readServer :: "('w, 'a, 't, 'v) sdk_env \<Rightarrow> ('w, 'a, 't, 'v, string) sdk_io" where
  "readServer E = (\<lambda>s. let url = getSorobanServer (activeConfig s)
                       in (bindE (newServer E url) (\<lambda>_. Inr url), s))"

subsection \<open>Signing function\<close>

text \<open>
  The wallet package exposes \<open>signTransaction\<close> by name or on its default export; the module fails
  to load when it has neither.
\<close>

definition signTransactionFn :: "'f option \<Rightarrow> 'f option option \<Rightarrow> exn + 'f" where
  "signTransactionFn named dflt =
     (case named of
        Some f \<Rightarrow> Inr f
      | None \<Rightarrow> (case dflt of
                  Some (Some f) \<Rightarrow> Inr f
                | _ \<Rightarrow> Inl (new_Error
                    ''The installed @stellar/freighter-api package does not expose signTransaction'')))"

subsection \<open>Retrying\<close>

definition isNetworkError :: "exn \<Rightarrow> bool" where
  "isNetworkError err \<longleftrightarrow>
     is_TypeError err \<or>
     (let msg = (if is_Error err then js_toLowerCase (exn_message err) else '''')
      in js_includes msg ''fetch'' \<or> js_includes msg ''network'' \<or> js_includes msg ''timeout'' \<or>
         js_includes msg ''abort'' \<or> js_includes msg ''econnrefused'' \<or>
         js_includes msg ''enotfound'' \<or> js_includes msg ''econnreset'' \<or>
         js_includes msg ''eai_again'' \<or> js_includes msg ''etimedout'')"

record RetryOptions =
  ro_maxAttempts :: "int option"
  ro_baseDelayMs :: "int option"

function withRetry_from ::
  "('w, 'a, 't, 'v, 'r) sdk_io \<Rightarrow> int \<Rightarrow> int \<Rightarrow> int \<Rightarrow> exn \<Rightarrow> ('w, 'a, 't, 'v, 'r) sdk_io" where
  "withRetry_from fn maxAttempts baseDelayMs attempt lastError =
     (if maxAttempts < attempt then throwIO lastError
      else catchIO fn (\<lambda>err.
        if \<not> isNetworkError err \<or> attempt = maxAttempts then throwIO err
        else bindIO (sleep (baseDelayMs * 2 ^ nat (attempt - 1)))
               (\<lambda>_. withRetry_from fn maxAttempts baseDelayMs (attempt + 1) err)))"
  by pat_completeness auto
termination
  by (relation "measure (\<lambda>(fn, m, b, k, e). nat (m + 1 - k))") auto

declare withRetry_from.simps [simp del]

definition withRetry ::
  "('w, 'a, 't, 'v, 'r) sdk_io \<Rightarrow> RetryOptions \<Rightarrow> ('w, 'a, 't, 'v, 'r) sdk_io" where
  "withRetry fn options =
     withRetry_from fn (case ro_maxAttempts options of None \<Rightarrow> 3 | Some n \<Rightarrow> n)
       (case ro_baseDelayMs options of None \<Rightarrow> 1000 | Some n \<Rightarrow> n) 1 (Thrown JUndef)"

abbreviation noOptions :: RetryOptions where
  "noOptions \<equiv> \<lparr>ro_maxAttempts = None, ro_baseDelayMs = None\<rparr>"

subsection \<open>The client\<close>

record MutationRetryPolicy =
  maxAttempts :: int
  baseDelayMs :: int

definition DEFAULT_MUTATION_RETRY_POLICY :: MutationRetryPolicy where
  "DEFAULT_MUTATION_RETRY_POLICY = \<lparr>maxAttempts = 3, baseDelayMs = 1000\<rparr>"

definition MAX_TRANSACTION_POLL_ATTEMPTS :: nat where
  "MAX_TRANSACTION_POLL_ATTEMPTS = 30"

record BaseContractClient =
  contractId :: string
  mutationRetryPolicy :: MutationRetryPolicy

definition newClient ::
  "('w, 'a, 't, 'v) sdk_env \<Rightarrow> string \<Rightarrow> RetryOptions \<Rightarrow> exn + BaseContractClient" where
  "newClient E cid policy =
     (if cid = [] then Inl (new_Error ''Contract ID is required'')
      else bindE (newContract E cid) (\<lambda>_.
        Inr \<lparr>contractId = cid,
             mutationRetryPolicy =
               \<lparr>maxAttempts = spread (maxAttempts DEFAULT_MUTATION_RETRY_POLICY) (ro_maxAttempts policy),
                baseDelayMs = spread (baseDelayMs DEFAULT_MUTATION_RETRY_POLICY) (ro_baseDelayMs policy)\<rparr>\<rparr>))"

text \<open>\<open>new TransactionBuilder(account, ...).addOperation(...).setTimeout(30).build()\<close>.\<close>

definition contractTx ::
  "('w, 'a, 't, 'v) sdk_env \<Rightarrow> BaseContractClient \<Rightarrow> SDKConfig \<Rightarrow> 'a \<Rightarrow> string \<Rightarrow> 'v list \<Rightarrow> exn + 't" where
  "contractTx E c config account meth args =
     buildTx E \<lparr>tx_account = account, tx_fee = BASE_FEE E,
                tx_networkPassphrase = networkPassphrase config,
                tx_contract = contractId c, tx_method = meth, tx_args = args, tx_timeout = 30\<rparr>"

text \<open>
  What the three operations begin with: read the configuration, load the account, build the
  transaction, simulate it, and stop on a simulation error.
\<close>

definition simulateCall ::
  "('w, 'a, 't, 'v) sdk_env \<Rightarrow> BaseContractClient \<Rightarrow> string \<Rightarrow> 'v list \<Rightarrow> string \<Rightarrow>
   ('w, 'a, 't, 'v, SDKConfig \<times> string \<times> 't \<times> 'v SimSuccess) sdk_io" where
  "simulateCall E c meth args publicKey =
     bindIO readConfig (\<lambda>config.
     bindIO (readServer E) (\<lambda>server.
     bindIO (withRetry (outside_call (EvGetAccount publicKey) (getAccount E server publicKey)) noOptions)
       (\<lambda>account.
     bindIO (liftE (contractTx E c config account meth args)) (\<lambda>tx.
     bindIO (withRetry (outside_call (EvSimulate tx) (simulate E server tx)) noOptions) (\<lambda>sim.
     case sim of
       SimFailure err \<Rightarrow> throwIO (SimulationError meth (Some err))
     | SimOk ok \<Rightarrow> returnIO (config, server, tx, ok))))))"

definition readContract ::
  "('w, 'a, 't, 'v) sdk_env \<Rightarrow> BaseContractClient \<Rightarrow> string \<Rightarrow> 'v list \<Rightarrow> string \<Rightarrow>
   ('v \<Rightarrow> exn + 'r) \<Rightarrow> ('w, 'a, 't, 'v, 'r) sdk_io" where
  "readContract E c meth args publicKey parse =
     bindIO (simulateCall E c meth args publicKey) (\<lambda>(config, server, tx, sim).
       case retval sim of
         None \<Rightarrow> throwIO (MissingReturnValueError meth)
       | Some resultVal \<Rightarrow> liftE (parse resultVal))"

function broadcast_from ::
  "('w, 'a, 't, 'v) sdk_env \<Rightarrow> string \<Rightarrow> string \<Rightarrow> 't \<Rightarrow> int \<Rightarrow> int \<Rightarrow> int \<Rightarrow> string \<Rightarrow>
   ('w, 'a, 't, 'v, SendResponse) sdk_io" where
  "broadcast_from E meth server tx maxAtt delay attempt lastRefusedHash =
     (if maxAtt < attempt then throwIO (TransactionTryAgainLaterError meth lastRefusedHash maxAtt)
      else bindIO (outside_call (EvSend tx) (sendTransaction E server tx)) (\<lambda>result.
        if send_status result \<noteq> TRY_AGAIN_LATER
        then (if send_status result = SEND_ERROR
              then throwIO (TransactionSendError meth (errorResult result))
              else returnIO result)
        else bindIO (if attempt < maxAtt then sleep (delay * 2 ^ nat (attempt - 1)) else returnIO ())
               (\<lambda>_. broadcast_from E meth server tx maxAtt delay (attempt + 1) (send_hash result))))"
  by pat_completeness auto
termination
  by (relation "measure (\<lambda>(E, f, s, t, m, d, k, h). nat (m + 1 - k))") auto

declare broadcast_from.simps [simp del]

definition broadcast ::
  "('w, 'a, 't, 'v) sdk_env \<Rightarrow> BaseContractClient \<Rightarrow> string \<Rightarrow> string \<Rightarrow> 't \<Rightarrow>
   ('w, 'a, 't, 'v, SendResponse) sdk_io" where
  "broadcast E c meth server tx =
     broadcast_from E meth server tx (max 1 (maxAttempts (mutationRetryPolicy c)))
       (baseDelayMs (mutationRetryPolicy c)) 1 ''''"

text \<open>
  The polling loop, entered with the first response; \<open>n\<close> is how often it may still poll
  (\<open>MAX_TRANSACTION_POLL_ATTEMPTS - attempts\<close>).
\<close>

definition poll_once ::
  "('w, 'a, 't, 'v) sdk_env \<Rightarrow> string \<Rightarrow> string \<Rightarrow> ('w, 'a, 't, 'v, GetTransactionStatus) sdk_io" where
  "poll_once E server hash =
     withRetry (outside_call (EvGetTransaction hash) (getTransaction E server hash)) noOptions"

fun poll_loop ::
  "('w, 'a, 't, 'v) sdk_env \<Rightarrow> string \<Rightarrow> string \<Rightarrow> nat \<Rightarrow> GetTransactionStatus \<Rightarrow>
   ('w, 'a, 't, 'v, GetTransactionStatus) sdk_io" where
  "poll_loop E server hash 0 response = returnIO response"
| "poll_loop E server hash (Suc n) response =
     (if response = NOT_FOUND
      then bindIO (sleep 1000) (\<lambda>_. bindIO (poll_once E server hash) (poll_loop E server hash n))
      else returnIO response)"

definition writeContract ::
  "('w, 'a, 't, 'v) sdk_env \<Rightarrow> BaseContractClient \<Rightarrow> string \<Rightarrow> 'v list \<Rightarrow> string \<Rightarrow>
   ('w, 'a, 't, 'v, string) sdk_io" where
  "writeContract E c meth args publicKey =
     bindIO (simulateCall E c meth args publicKey) (\<lambda>(config, server, tx, sim).
     bindIO (withRetry (outside_call (EvPrepare tx) (prepareTransaction E server tx)) noOptions)
       (\<lambda>prepared.
     let opts = \<lparr>so_network = (if networkPassphrase config = Networks_PUBLIC E then ''PUBLIC''
                               else ''TESTNET''),
                 so_networkPassphrase = networkPassphrase config,
                 so_accountToSign = publicKey\<rparr>
     in bindIO (outside_call (EvSign (toXDR E prepared) opts)
                  (signTransaction E (toXDR E prepared) opts)) (\<lambda>signed.
     bindIO (liftE (fromXDR E signed (networkPassphrase config))) (\<lambda>signedTx.
     bindIO (broadcast E c meth server signedTx) (\<lambda>result.
     bindIO (poll_once E server (send_hash result)) (\<lambda>first.
     bindIO (poll_loop E server (send_hash result) (MAX_TRANSACTION_POLL_ATTEMPTS - 1) first)
       (\<lambda>response.
     if response = NOT_FOUND then throwIO (TransactionTimeoutError (send_hash result))
     else if response = FAILED then throwIO (TransactionFailedError meth)
     else returnIO (send_hash result))))))))"

record SimulationResult =
  estimatedFeeXlm :: string
  functionName :: string
  expectedResult :: jsval
  footprintSize :: nat

definition simulateTransaction ::
  "('w, 'a, 't, 'v) sdk_env \<Rightarrow> BaseContractClient \<Rightarrow> string \<Rightarrow> 'v list \<Rightarrow> string \<Rightarrow>
   ('w, 'a, 't, 'v, SimulationResult) sdk_io" where
  "simulateTransaction E c meth args publicKey =
     bindIO (simulateCall E c meth args publicKey) (\<lambda>(config, server, tx, sim).
       let size = (case footprint sim of None \<Rightarrow> 0 | Some (ro, rw) \<Rightarrow> ro + rw);
           result = (case retval sim of
                       None \<Rightarrow> JUndef
                     | Some v \<Rightarrow> (case scValToNative E v of Inr x \<Rightarrow> x | Inl _ \<Rightarrow> asJs E v));
           fee = (case minResourceFee sim of Some f \<Rightarrow> if f \<noteq> [] then f else ''0'' | None \<Rightarrow> ''0'')
       in bindIO (liftE (bigint_of_string (BASE_FEE E))) (\<lambda>base.
          bindIO (liftE (bigint_of_string fee)) (\<lambda>resource.
            returnIO
              \<lparr>estimatedFeeXlm = num_toFixed 7 (num_over (num_of_int (base + resource)) 10000000),
               functionName = meth, expectedResult = result, footprintSize = size\<rparr>)))"

subsection \<open>A calculus of runs\<close>

text \<open>
  \<open>runs m Q\<close>: every run of \<open>m\<close> appends some events to the history, keeps the active
  configuration, and the configuration, the events and the result are related by \<open>Q\<close>.
\<close>

definition runs ::
  "('w, 'a, 't, 'v, 'r) sdk_io \<Rightarrow>
   (SDKConfig \<Rightarrow> ('a, 't, 'v) rpc_event list \<Rightarrow> exn + 'r \<Rightarrow> bool) \<Rightarrow> bool" where
  "runs m Q \<longleftrightarrow>
     (\<forall>s. \<exists>es. history (snd (m s)) = history s @ es \<and>
               activeConfig (snd (m s)) = activeConfig s \<and>
               Q (activeConfig s) es (fst (m s)))"

lemma runs_conseq: "runs m P \<Longrightarrow> (\<And>cfg es r. P cfg es r \<Longrightarrow> Q cfg es r) \<Longrightarrow> runs m Q"
  unfolding runs_def by meson

lemma runsD:
  assumes "runs m Q" and "m s = (r, s')"
  shows "\<exists>es. history s' = history s @ es \<and> activeConfig s' = activeConfig s \<and> Q (activeConfig s) es r"
  using assms unfolding runs_def by (metis fst_conv snd_conv)

lemma runs_return [intro]: "(\<And>cfg. Q cfg [] (Inr x)) \<Longrightarrow> runs (returnIO x) Q"
  by (simp add: runs_def returnIO_def)

lemma runs_throw [intro]: "(\<And>cfg. Q cfg [] (Inl e)) \<Longrightarrow> runs (throwIO e) Q"
  by (simp add: runs_def throwIO_def)

lemma runs_liftE [intro]: "(\<And>cfg. Q cfg [] x) \<Longrightarrow> runs (liftE x) Q"
  by (simp add: runs_def liftE_def)

lemma runs_outside_call [intro]: "(\<And>cfg r. Q cfg [ev r] r) \<Longrightarrow> runs (outside_call ev m) Q"
  by (auto simp: runs_def outside_call_def split: prod.split)

lemma runs_sleep [intro]: "(\<And>cfg. Q cfg [EvSleep ms] (Inr ())) \<Longrightarrow> runs (sleep ms) Q"
  by (simp add: runs_def sleep_def)

lemma runs_readConfig [intro]: "(\<And>cfg. Q cfg [] (Inr cfg)) \<Longrightarrow> runs readConfig Q"
  by (simp add: runs_def readConfig_def)

lemma runs_readServer [intro]:
  "(\<And>cfg. Q cfg [] (bindE (newServer E (sorobanRpcUrl cfg)) (\<lambda>_. Inr (sorobanRpcUrl cfg)))) \<Longrightarrow>
   runs (readServer E) Q"
  by (simp add: runs_def readServer_def getSorobanServer_def Let_def)

lemma runs_bind:
  assumes m: "runs m P"
    and stop: "\<And>cfg es e. P cfg es (Inl e) \<Longrightarrow> Q cfg es (Inl e)"
    and f: "\<And>x. runs (f x) (\<lambda>cfg fs r. \<forall>es. P cfg es (Inr x) \<longrightarrow> Q cfg (es @ fs) r)"
  shows "runs (bindIO m f) Q"
  unfolding runs_def
proof
  fix s
  obtain r s' where ms: "m s = (r, s')" by (cases "m s")
  obtain es where es: "history s' = history s @ es" "activeConfig s' = activeConfig s"
    "P (activeConfig s) es r" using runsD [OF m ms] by blast
  show "\<exists>es. history (snd (bindIO m f s)) = history s @ es \<and>
             activeConfig (snd (bindIO m f s)) = activeConfig s \<and>
             Q (activeConfig s) es (fst (bindIO m f s))"
  proof (cases r)
    case (Inl e)
    then show ?thesis using ms es stop by (auto simp: bindIO_Inl [of m s e s'])
  next
    case (Inr x)
    obtain r' t where ft: "f x s' = (r', t)" by (cases "f x s'")
    obtain fs where "history t = history s' @ fs" "activeConfig t = activeConfig s'"
      "\<forall>es. P (activeConfig s') es (Inr x) \<longrightarrow> Q (activeConfig s') (es @ fs) r'"
      using runsD [OF f ft] by blast
    then show ?thesis using ms es ft Inr by (auto simp: bindIO_Inr [of m s x s'])
  qed
qed

lemma runs_catch:
  assumes m: "runs m P"
    and ok: "\<And>cfg es x. P cfg es (Inr x) \<Longrightarrow> Q cfg es (Inr x)"
    and h: "\<And>e. runs (h e) (\<lambda>cfg fs r. \<forall>es. P cfg es (Inl e) \<longrightarrow> Q cfg (es @ fs) r)"
  shows "runs (catchIO m h) Q"
  unfolding runs_def
proof
  fix s
  obtain r s' where ms: "m s = (r, s')" by (cases "m s")
  obtain es where es: "history s' = history s @ es" "activeConfig s' = activeConfig s"
    "P (activeConfig s) es r" using runsD [OF m ms] by blast
  show "\<exists>es. history (snd (catchIO m h s)) = history s @ es \<and>
             activeConfig (snd (catchIO m h s)) = activeConfig s \<and>
             Q (activeConfig s) es (fst (catchIO m h s))"
  proof (cases r)
    case (Inr x)
    then show ?thesis using ms es ok by (auto simp: catchIO_def)
  next
    case (Inl e)
    obtain r' t where ht: "h e s' = (r', t)" by (cases "h e s'")
    obtain fs where "history t = history s' @ fs" "activeConfig t = activeConfig s'"
      "\<forall>es. P (activeConfig s') es (Inl e) \<longrightarrow> Q (activeConfig s') (es @ fs) r'"
      using runsD [OF h ht] by blast
    then show ?thesis using ms es ht Inl by (auto simp: catchIO_def)
  qed
qed

subsection \<open>Traces\<close>

text \<open>
  The events of a retried call: \<open>errs\<close> are the failed attempts that were retried, each followed
  by a pause that doubles, and \<open>r\<close> is the answer of the last attempt.
\<close>

fun retry_trace ::
  "((exn + 'r) \<Rightarrow> ('a, 't, 'v) rpc_event) \<Rightarrow> int \<Rightarrow> nat \<Rightarrow> exn list \<Rightarrow> exn + 'r \<Rightarrow>
   ('a, 't, 'v) rpc_event list" where
  "retry_trace ev delay i [] r = [ev r]"
| "retry_trace ev delay i (e # errs) r =
     ev (Inl e) # EvSleep (delay * 2 ^ i) # retry_trace ev delay (Suc i) errs r"

definition retry_spec ::
  "((exn + 'r) \<Rightarrow> ('a, 't, 'v) rpc_event) \<Rightarrow> int \<Rightarrow> int \<Rightarrow> nat \<Rightarrow> ('a, 't, 'v) rpc_event list \<Rightarrow>
   exn + 'r \<Rightarrow> bool" where
  "retry_spec ev n delay i es r \<longleftrightarrow>
     (\<exists>errs. es = retry_trace ev delay i errs r \<and> list_all isNetworkError errs \<and>
             int i + int (length errs) < n \<and>
             (\<forall>e. r = Inl e \<longrightarrow> isNetworkError e \<longrightarrow> int i + int (length errs) = n - 1))"

lemma withRetry_from_spec:
  "int i < n \<Longrightarrow>
   runs (withRetry_from (outside_call ev m) n delay (int i + 1) prev) (\<lambda>cfg. retry_spec ev n delay i)"
proof (induction "nat (n - int i)" arbitrary: i prev rule: less_induct)
  case less
  let ?rest = "\<lambda>err. withRetry_from (outside_call ev m) n delay (int i + 1 + 1) err"
  let ?h = "\<lambda>err. if \<not> isNetworkError err \<or> int i + 1 = n then throwIO err
                  else bindIO (sleep (delay * 2 ^ i)) (\<lambda>_. ?rest err)"
  have unfold: "withRetry_from (outside_call ev m) n delay (int i + 1) prev =
                catchIO (outside_call ev m) ?h"
    using less.prems by (subst withRetry_from.simps) (simp cong: if_cong)
  have here: "retry_spec ev n delay i [ev r] r"
    if "\<forall>e. r = Inl e \<longrightarrow> isNetworkError e \<longrightarrow> int i = n - 1" for r
    unfolding retry_spec_def using that less.prems by (intro exI [of _ "[]"]) simp
  have later: "retry_spec ev n delay i (ev (Inl e) # EvSleep (delay * 2 ^ i) # es) r"
    if "isNetworkError e" and "retry_spec ev n delay (Suc i) es r" for e es r
  proof -
    obtain errs where "es = retry_trace ev delay (Suc i) errs r" "list_all isNetworkError errs"
      "int (Suc i) + int (length errs) < n"
      "\<forall>e. r = Inl e \<longrightarrow> isNetworkError e \<longrightarrow> int (Suc i) + int (length errs) = n - 1"
      using \<open>retry_spec ev n delay (Suc i) es r\<close> unfolding retry_spec_def by blast
    then show ?thesis
      unfolding retry_spec_def using that(1) by (intro exI [of _ "e # errs"]) simp
  qed
  show ?case
    unfolding unfold
  proof (rule runs_catch [where P = "\<lambda>cfg es r. es = [ev r]"])
    show "runs (outside_call ev m) (\<lambda>cfg es r. es = [ev r])" by (rule runs_outside_call) simp
    show "es = [ev (Inr x)] \<Longrightarrow> retry_spec ev n delay i es (Inr x)" for es x
      by (simp add: here)
    fix e
    show "runs (?h e) (\<lambda>cfg fs r. \<forall>es. es = [ev (Inl e)] \<longrightarrow> retry_spec ev n delay i (es @ fs) r)"
    proof (cases "\<not> isNetworkError e \<or> int i + 1 = n")
      case True
      then show ?thesis using less.prems by (auto intro!: runs_throw here)
    next
      case False
      have "runs (?rest e) (\<lambda>cfg. retry_spec ev n delay (Suc i))"
        using less.hyps [of "Suc i" e] less.prems False by (simp add: algebra_simps)
      then have "runs (bindIO (sleep (delay * 2 ^ i)) (\<lambda>_. ?rest e))
        (\<lambda>cfg fs r. \<forall>es. es = [ev (Inl e)] \<longrightarrow> retry_spec ev n delay i (es @ fs) r)"
        using False
        by (intro runs_bind [where P = "\<lambda>cfg es r. es = [EvSleep (delay * 2 ^ i)] \<and> r = Inr ()"])
          (auto elim!: runs_conseq intro: later)
      then show ?thesis using False by simp
    qed
  qed
qed

abbreviation retried ::
  "((exn + 'r) \<Rightarrow> ('a, 't, 'v) rpc_event) \<Rightarrow> ('a, 't, 'v) rpc_event list \<Rightarrow> exn + 'r \<Rightarrow> bool" where
  "retried ev \<equiv> retry_spec ev 3 1000 0"

lemma withRetry_spec: "runs (withRetry (outside_call ev m) noOptions) (\<lambda>cfg. retried ev)"
  using withRetry_from_spec [of 0 3 ev m 1000 "Thrown JUndef"] by (simp add: withRetry_def)

text \<open>Which events only read or prepare; the others are a signing prompt, a send or a poll.\<close>

fun is_read :: "('a, 't, 'v) rpc_event \<Rightarrow> bool" where
  "is_read (EvGetAccount k r) \<longleftrightarrow> True"
| "is_read (EvSimulate t r) \<longleftrightarrow> True"
| "is_read (EvSleep ms) \<longleftrightarrow> True"
| "is_read e \<longleftrightarrow> False"

fun is_prepare :: "('a, 't, 'v) rpc_event \<Rightarrow> bool" where
  "is_prepare (EvPrepare t r) \<longleftrightarrow> True"
| "is_prepare e \<longleftrightarrow> is_read e"

fun is_poll :: "('a, 't, 'v) rpc_event \<Rightarrow> bool" where
  "is_poll (EvGetTransaction h r) \<longleftrightarrow> True"
| "is_poll (EvSleep ms) \<longleftrightarrow> True"
| "is_poll e \<longleftrightarrow> False"

lemma retry_trace_all:
  assumes "\<And>x. P (ev x)" and "\<And>ms. P (EvSleep ms)"
  shows "list_all P (retry_trace ev delay i errs r)"
  by (induction errs arbitrary: i) (simp_all add: assms)

lemma retry_spec_all:
  "retry_spec ev n delay i es r \<Longrightarrow> (\<And>x. P (ev x)) \<Longrightarrow> (\<And>ms. P (EvSleep ms)) \<Longrightarrow> list_all P es"
  unfolding retry_spec_def using retry_trace_all [of P ev] by blast

lemma is_read_is_prepare: "is_read e \<Longrightarrow> is_prepare e"
  by (cases e) simp_all

lemma list_all_read_prepare: "list_all is_read es \<Longrightarrow> list_all is_prepare es"
  by (auto simp: list_all_iff is_read_is_prepare)

subsection \<open>Simulation and reading\<close>

lemma retry_trace_not_Nil [simp]: "retry_trace ev delay i errs r \<noteq> []"
  by (cases errs) simp_all

lemma last_retry_trace [simp]: "last (retry_trace ev delay i errs r) = ev r"
  by (induction errs arbitrary: i) simp_all

lemma retry_spec_last: "retry_spec ev n delay i es r \<Longrightarrow> es \<noteq> [] \<and> last es = ev r"
  unfolding retry_spec_def by auto

text \<open>
  \<open>simulateCall\<close> only reads; when it succeeds, the transaction it returns is the call of the
  method on the account the server gave for the key, and the last thing that happened is that
  its simulation was answered without an error.
\<close>

definition sim_spec ::
  "('w, 'a, 't, 'v) sdk_env \<Rightarrow> BaseContractClient \<Rightarrow> string \<Rightarrow> 'v list \<Rightarrow> string \<Rightarrow> SDKConfig \<Rightarrow>
   ('a, 't, 'v) rpc_event list \<Rightarrow> exn + SDKConfig \<times> string \<times> 't \<times> 'v SimSuccess \<Rightarrow> bool" where
  "sim_spec E c meth args pk cfg es r \<longleftrightarrow>
     list_all is_read es \<and>
     (\<forall>config server tx ok. r = Inr (config, server, tx, ok) \<longrightarrow>
        config = cfg \<and> server = sorobanRpcUrl cfg \<and>
        es \<noteq> [] \<and> last es = EvSimulate tx (Inr (SimOk ok)) \<and>
        (\<exists>account. EvGetAccount pk (Inr account) \<in> set es \<and>
                   contractTx E c cfg account meth args = Inr tx))"

lemma sim_spec_stop: "list_all is_read es \<Longrightarrow> sim_spec E c meth args pk cfg es (Inl e)"
  by (simp add: sim_spec_def)

lemma retried_read: "(\<And>x. is_read (ev x)) \<Longrightarrow> retried ev es r \<Longrightarrow> list_all is_read es"
  by (rule retry_spec_all) simp_all

lemma retried_reads:
  "retried (EvGetAccount pk) es r \<Longrightarrow> list_all is_read es"
  "retried (EvSimulate tx) fs q \<Longrightarrow> list_all is_read fs"
  by (rule retried_read, simp_all)+

lemma retried_answer: "retried ev es r \<Longrightarrow> ev r \<in> set es"
  using retry_spec_last last_in_set by metis

lemma simulateCall_spec: "runs (simulateCall E c meth args pk) (sim_spec E c meth args pk)"
proof -
  let ?spec = "sim_spec E c meth args pk"
  let ?k = "\<lambda>config server tx sim. case sim of
      SimFailure err \<Rightarrow> throwIO (SimulationError meth (Some err))
    | SimOk ok \<Rightarrow> returnIO (config, server, tx, ok)"
  let ?ctx = "\<lambda>config server account tx acs cfg. config = cfg \<and> server = sorobanRpcUrl cfg \<and>
      retried (EvGetAccount pk) acs (Inr account) \<and> contractTx E c config account meth args = Inr tx"
  have k: "runs (?k config server tx sim)
     (\<lambda>cfg fs r. \<forall>es. retried (EvSimulate tx) es (Inr sim) \<longrightarrow>
        (\<forall>account acs. ?ctx config server account tx acs cfg \<longrightarrow> ?spec cfg (acs @ es @ fs) r))"
    for config server tx sim
    by (cases sim) (auto simp: sim_spec_def dest: retry_spec_last retried_reads retried_answer
        intro!: runs_throw runs_return)
  have sim: "runs (bindIO (withRetry (outside_call (EvSimulate tx) (simulate E server tx)) noOptions)
      (?k config server tx))
     (\<lambda>cfg fs r. \<forall>account acs. ?ctx config server account tx acs cfg \<longrightarrow> ?spec cfg (acs @ fs) r)"
    for tx server config
    by (rule runs_bind [OF withRetry_spec _ runs_conseq [OF k]])
      (auto intro!: sim_spec_stop dest: retried_reads)
  show ?thesis
    unfolding simulateCall_def
    apply (rule runs_bind [where P = "\<lambda>cfg es r. es = [] \<and> r = Inr cfg"])
      apply (rule runs_readConfig, simp)
     apply simp
    apply (rule runs_bind [where P = "\<lambda>cfg es r. es = [] \<and> (\<forall>x. r = Inr x \<longrightarrow> x = sorobanRpcUrl cfg)"])
      apply (rule runs_readServer, simp add: bindE_eq_Inr)
     apply (simp add: sim_spec_stop)
    subgoal for config server
      apply (rule runs_bind [OF withRetry_spec])
       apply (auto intro: sim_spec_stop dest: retried_reads)[1]
      subgoal for account
        apply (rule runs_bind [where P = "\<lambda>cfg es r. es = [] \<and> r = contractTx E c config account meth args"])
          apply (rule runs_liftE, simp)
         apply (auto intro: sim_spec_stop dest: retried_reads)[1]
        apply (rule runs_conseq [OF sim])
        apply auto
        done
      done
    done
qed

subsection \<open>Broadcasting\<close>

text \<open>
  The events of a broadcast: \<open>refs\<close> are the refusals that led to another attempt, each followed
  by a pause that doubles, and \<open>ans\<close> is the answer to the last send.
\<close>

fun send_trace ::
  "'t \<Rightarrow> int \<Rightarrow> nat \<Rightarrow> SendResponse list \<Rightarrow> exn + SendResponse \<Rightarrow> ('a, 't, 'v) rpc_event list" where
  "send_trace tx delay i [] ans = [EvSend tx ans]"
| "send_trace tx delay i (a # refs) ans =
     EvSend tx (Inr a) # EvSleep (delay * 2 ^ i) # send_trace tx delay (Suc i) refs ans"

text \<open>What the answer to the last send means for the caller.\<close>

definition send_outcome :: "string \<Rightarrow> int \<Rightarrow> exn + SendResponse \<Rightarrow> exn + SendResponse" where
  "send_outcome meth n ans =
     (case ans of
        Inl e \<Rightarrow> Inl e
      | Inr a \<Rightarrow> (case send_status a of
                    TRY_AGAIN_LATER \<Rightarrow> Inl (TransactionTryAgainLaterError meth (send_hash a) n)
                  | SEND_ERROR \<Rightarrow> Inl (TransactionSendError meth (errorResult a))
                  | _ \<Rightarrow> Inr a))"

abbreviation refused :: "SendResponse \<Rightarrow> bool" where
  "refused a \<equiv> send_status a = TRY_AGAIN_LATER"

definition broadcast_spec ::
  "string \<Rightarrow> 't \<Rightarrow> int \<Rightarrow> int \<Rightarrow> nat \<Rightarrow> ('a, 't, 'v) rpc_event list \<Rightarrow> exn + SendResponse \<Rightarrow> bool" where
  "broadcast_spec meth tx n delay i es r \<longleftrightarrow>
     (\<exists>refs ans. es = send_trace tx delay i refs ans \<and> list_all refused refs \<and>
        int i + int (length refs) < n \<and> r = send_outcome meth n ans \<and>
        (\<forall>a. ans = Inr a \<longrightarrow> refused a \<longrightarrow> int i + int (length refs) = n - 1))"

lemma broadcast_spec_here:
  assumes "int i < n" and "\<forall>a. ans = Inr a \<longrightarrow> refused a \<longrightarrow> int i = n - 1"
  shows "broadcast_spec meth tx n delay i [EvSend tx ans] (send_outcome meth n ans)"
  unfolding broadcast_spec_def using assms by (intro exI [of _ "[]"] exI [of _ ans]) simp

lemma broadcast_spec_later:
  assumes "refused a" and "broadcast_spec meth tx n delay (Suc i) es r"
  shows "broadcast_spec meth tx n delay i (EvSend tx (Inr a) # EvSleep (delay * 2 ^ i) # es) r"
proof -
  obtain refs ans where "es = send_trace tx delay (Suc i) refs ans" "list_all refused refs"
    "int (Suc i) + int (length refs) < n" "r = send_outcome meth n ans"
    "\<forall>a. ans = Inr a \<longrightarrow> refused a \<longrightarrow> int (Suc i) + int (length refs) = n - 1"
    using assms(2) unfolding broadcast_spec_def by blast
  then show ?thesis
    unfolding broadcast_spec_def using assms(1) by (intro exI [of _ "a # refs"] exI [of _ ans]) simp
qed

lemma broadcast_from_spec:
  "int i < n \<Longrightarrow>
   runs (broadcast_from E meth server tx n delay (int i + 1) h) (\<lambda>cfg. broadcast_spec meth tx n delay i)"
proof (induction "nat (n - int i)" arbitrary: i h rule: less_induct)
  case less
  let ?rest = "\<lambda>a. broadcast_from E meth server tx n delay (int i + 1 + 1) (send_hash a)"
  let ?k = "\<lambda>a. if send_status a \<noteq> TRY_AGAIN_LATER
      then (if send_status a = SEND_ERROR then throwIO (TransactionSendError meth (errorResult a))
            else returnIO a)
      else bindIO (if int i + 1 < n then sleep (delay * 2 ^ i) else returnIO ()) (\<lambda>_. ?rest a)"
  have unfold: "broadcast_from E meth server tx n delay (int i + 1) h =
      bindIO (outside_call (EvSend tx) (sendTransaction E server tx)) ?k"
    using less.prems by (subst broadcast_from.simps) (simp cong: if_cong)
  have k: "runs (?k a) (\<lambda>cfg fs r. broadcast_spec meth tx n delay i (EvSend tx (Inr a) # fs) r)" for a
  proof (cases "refused a")
    case False
    then show ?thesis
      using less.prems broadcast_spec_here [of i n "Inr a" meth tx delay]
      by (cases "send_status a") (auto simp: send_outcome_def intro!: runs_throw runs_return)
  next
    case True
    show ?thesis
    proof (cases "int i + 1 < n")
      case more: True
      have "runs (?rest a) (\<lambda>cfg. broadcast_spec meth tx n delay (Suc i))"
        using less.hyps [of "Suc i" "send_hash a"] less.prems more by (simp add: algebra_simps)
      then have "runs (bindIO (sleep (delay * 2 ^ i)) (\<lambda>_. ?rest a))
        (\<lambda>cfg fs r. broadcast_spec meth tx n delay i (EvSend tx (Inr a) # fs) r)"
        using True
        by (intro runs_bind [where P = "\<lambda>cfg es r. es = [EvSleep (delay * 2 ^ i)] \<and> r = Inr ()"])
          (auto elim!: runs_conseq intro: broadcast_spec_later)
      then show ?thesis using True more by simp
    next
      case last: False
      have "?rest a = throwIO (TransactionTryAgainLaterError meth (send_hash a) n)"
        using last by (subst broadcast_from.simps) simp
      then have "?k a = throwIO (TransactionTryAgainLaterError meth (send_hash a) n)"
        using True last by simp
      moreover have "broadcast_spec meth tx n delay i [EvSend tx (Inr a)]
          (Inl (TransactionTryAgainLaterError meth (send_hash a) n))"
        using True last less.prems broadcast_spec_here [of i n "Inr a" meth tx delay]
        by (simp add: send_outcome_def)
      ultimately show ?thesis by (simp only:) (rule runs_throw)
    qed
  qed
  show ?case
    unfolding unfold
  proof (rule runs_bind [where P = "\<lambda>cfg es r. es = [EvSend tx r]"])
    show "runs (outside_call (EvSend tx) (sendTransaction E server tx)) (\<lambda>cfg es r. es = [EvSend tx r])"
      by (rule runs_outside_call) simp
    show "es = [EvSend tx (Inl e)] \<Longrightarrow> broadcast_spec meth tx n delay i es (Inl e)" for es e
      using less.prems broadcast_spec_here [of i n "Inl e" meth tx delay]
      by (simp add: send_outcome_def)
    show "runs (?k a) (\<lambda>cfg fs r. \<forall>es. es = [EvSend tx (Inr a)] \<longrightarrow>
            broadcast_spec meth tx n delay i (es @ fs) r)" for a
      by (rule runs_conseq [OF k]) simp
  qed
qed

lemma broadcast_runs:
  "runs (broadcast E c meth server tx)
     (\<lambda>cfg. broadcast_spec meth tx (max 1 (maxAttempts (mutationRetryPolicy c)))
              (baseDelayMs (mutationRetryPolicy c)) 0)"
  using broadcast_from_spec [of 0 "max 1 (maxAttempts (mutationRetryPolicy c))" E meth server tx
      "baseDelayMs (mutationRetryPolicy c)" "''''"]
  by (simp add: broadcast_def)

subsection \<open>Polling\<close>

text \<open>A polling phase that may still poll \<open>n\<close> times after the poll under way.\<close>

inductive poll_run ::
  "string \<Rightarrow> nat \<Rightarrow> ('a, 't, 'v) rpc_event list \<Rightarrow> exn + GetTransactionStatus \<Rightarrow> bool" for h where
  final: "retried (EvGetTransaction h) es r \<Longrightarrow> n = 0 \<or> r \<noteq> Inr NOT_FOUND \<Longrightarrow> poll_run h n es r"
| again: "retried (EvGetTransaction h) es (Inr NOT_FOUND) \<Longrightarrow> poll_run h n fs r \<Longrightarrow>
          poll_run h (Suc n) (es @ EvSleep 1000 # fs) r"

lemma poll_once_spec: "runs (poll_once E server h) (\<lambda>cfg. retried (EvGetTransaction h))"
  unfolding poll_once_def by (rule withRetry_spec)

lemma poll_loop_spec:
  "runs (poll_loop E server h n st)
     (\<lambda>cfg fs r. \<forall>es. retried (EvGetTransaction h) es (Inr st) \<longrightarrow> poll_run h n (es @ fs) r)"
proof (induction n arbitrary: st)
  case 0
  then show ?case by (auto intro!: runs_return poll_run.final)
next
  case (Suc n)
  have next_round: "runs (bindIO (poll_once E server h) (poll_loop E server h n)) (\<lambda>cfg. poll_run h n)"
  proof (rule runs_bind [OF poll_once_spec])
    show "retried (EvGetTransaction h) es (Inl e) \<Longrightarrow> poll_run h n es (Inl e)" for es e
      by (rule poll_run.final) simp_all
    show "runs (poll_loop E server h n x)
      (\<lambda>cfg fs r. \<forall>es. retried (EvGetTransaction h) es (Inr x) \<longrightarrow> poll_run h n (es @ fs) r)" for x
      by (rule Suc)
  qed
  show ?case
  proof (cases "st = NOT_FOUND")
    case True
    have "runs (bindIO (sleep 1000) (\<lambda>_. bindIO (poll_once E server h) (poll_loop E server h n)))
      (\<lambda>cfg fs r. \<forall>es. retried (EvGetTransaction h) es (Inr st) \<longrightarrow> poll_run h (Suc n) (es @ fs) r)"
      using True
      by (intro runs_bind [where P = "\<lambda>cfg es r. es = [EvSleep 1000] \<and> r = Inr ()"])
        (auto intro!: runs_conseq [OF next_round] intro: poll_run.again)
    then show ?thesis using True by simp
  next
    case False
    then show ?thesis by (auto intro!: runs_return poll_run.final)
  qed
qed

lemma poll_runs:
  "runs (bindIO (poll_once E server h) (poll_loop E server h n)) (\<lambda>cfg. poll_run h n)"
  by (rule runs_bind [OF poll_once_spec _ poll_loop_spec]) (rule poll_run.final, simp_all)

subsection \<open>Writing\<close>

text \<open>
  The protocol of a write as an abstract specification: what may be seen of a run, and its
  result. \<open>signed_prefix\<close> is everything up to and including the signing prompt.
\<close>

definition sign_options :: "('w, 'a, 't, 'v) sdk_env \<Rightarrow> SDKConfig \<Rightarrow> string \<Rightarrow> SignOptions" where
  "sign_options E cfg pk =
     \<lparr>so_network = (if networkPassphrase cfg = Networks_PUBLIC E then ''PUBLIC'' else ''TESTNET''),
      so_networkPassphrase = networkPassphrase cfg, so_accountToSign = pk\<rparr>"

definition signed_prefix ::
  "('w, 'a, 't, 'v) sdk_env \<Rightarrow> BaseContractClient \<Rightarrow> string \<Rightarrow> 'v list \<Rightarrow> string \<Rightarrow> SDKConfig \<Rightarrow>
   ('a, 't, 'v) rpc_event list \<Rightarrow> exn + string \<Rightarrow> bool" where
  "signed_prefix E c meth args pk cfg es ans \<longleftrightarrow>
     (\<exists>pre mid server tx ok prepared.
        es = pre @ mid @ [EvSign (toXDR E prepared) (sign_options E cfg pk) ans] \<and>
        sim_spec E c meth args pk cfg pre (Inr (cfg, server, tx, ok)) \<and>
        retried (EvPrepare tx) mid (Inr prepared))"

definition write_outcome :: "string \<Rightarrow> string \<Rightarrow> exn + GetTransactionStatus \<Rightarrow> exn + string" where
  "write_outcome meth h st =
     (case st of
        Inl e \<Rightarrow> Inl e
      | Inr NOT_FOUND \<Rightarrow> Inl (TransactionTimeoutError h)
      | Inr FAILED \<Rightarrow> Inl (TransactionFailedError meth)
      | Inr SUCCESS \<Rightarrow> Inr h)"

abbreviation sends_allowed :: "BaseContractClient \<Rightarrow> int" where
  "sends_allowed c \<equiv> max 1 (maxAttempts (mutationRetryPolicy c))"

abbreviation broadcast_run ::
  "BaseContractClient \<Rightarrow> string \<Rightarrow> 't \<Rightarrow> ('a, 't, 'v) rpc_event list \<Rightarrow> exn + SendResponse \<Rightarrow> bool" where
  "broadcast_run c meth t \<equiv>
     broadcast_spec meth t (sends_allowed c) (baseDelayMs (mutationRetryPolicy c)) 0"

inductive write_run ::
  "('w, 'a, 't, 'v) sdk_env \<Rightarrow> BaseContractClient \<Rightarrow> string \<Rightarrow> 'v list \<Rightarrow> string \<Rightarrow> SDKConfig \<Rightarrow>
   ('a, 't, 'v) rpc_event list \<Rightarrow> exn + string \<Rightarrow> bool"
  for E c meth args pk cfg where
  not_prompted: "list_all is_prepare es \<Longrightarrow> write_run E c meth args pk cfg es (Inl e)"
| not_signed: "signed_prefix E c meth args pk cfg es ans \<Longrightarrow>
    bindE ans (\<lambda>y. fromXDR E y (networkPassphrase cfg)) = Inl e \<Longrightarrow>
    write_run E c meth args pk cfg es (Inl e)"
| not_queued: "signed_prefix E c meth args pk cfg es (Inr y) \<Longrightarrow>
    fromXDR E y (networkPassphrase cfg) = Inr t \<Longrightarrow> broadcast_run c meth t bs (Inl e) \<Longrightarrow>
    write_run E c meth args pk cfg (es @ bs) (Inl e)"
| polled: "signed_prefix E c meth args pk cfg es (Inr y) \<Longrightarrow>
    fromXDR E y (networkPassphrase cfg) = Inr t \<Longrightarrow> broadcast_run c meth t bs (Inr a) \<Longrightarrow>
    poll_run (send_hash a) 29 ps st \<Longrightarrow>
    write_run E c meth args pk cfg (es @ bs @ ps) (write_outcome meth (send_hash a) st)"

lemma sim_spec_is_prepare: "sim_spec E c meth args pk cfg es r \<Longrightarrow> list_all is_prepare es"
  by (simp add: sim_spec_def list_all_read_prepare)

lemma retried_prepare: "retried (EvPrepare tx) es r \<Longrightarrow> list_all is_prepare es"
  by (erule retry_spec_all) simp_all

text \<open>The tail of \<open>writeContract\<close>, from the polling back to the signing prompt.\<close>

lemma outcome_runs:
  "runs (bindIO (poll_once E server h) (\<lambda>first.
         bindIO (poll_loop E server h (MAX_TRANSACTION_POLL_ATTEMPTS - 1) first) (\<lambda>response.
         if response = NOT_FOUND then throwIO (TransactionTimeoutError h)
         else if response = FAILED then throwIO (TransactionFailedError meth) else returnIO h)))
     (\<lambda>cfg ps r. \<exists>st. poll_run h 29 ps st \<and> r = write_outcome meth h st)"
proof -
  have assoc: "bindIO (poll_once E server h) (\<lambda>first. bindIO (poll_loop E server h n first) k) =
      bindIO (bindIO (poll_once E server h) (poll_loop E server h n)) k" for n and k :: "_ \<Rightarrow> ('a, 'b, 'c, 'd, string) sdk_io"
    by (simp add: bindIO_assoc)
  show ?thesis
    unfolding assoc MAX_TRANSACTION_POLL_ATTEMPTS_def
  proof (rule runs_bind [OF poll_runs])
    show "poll_run h (30 - 1) es (Inl e) \<Longrightarrow>
        \<exists>st. poll_run h 29 es st \<and> Inl e = write_outcome meth h st" for es e
      by (rule exI [of _ "Inl e"]) (simp add: write_outcome_def)
    fix x
    have "runs (if x = NOT_FOUND then throwIO (TransactionTimeoutError h)
         else if x = FAILED then throwIO (TransactionFailedError meth) else returnIO h)
        (\<lambda>cfg fs r. fs = [] \<and> r = write_outcome meth h (Inr x))"
      by (cases x) (auto simp: write_outcome_def intro!: runs_throw runs_return)
    then show "runs (if x = NOT_FOUND then throwIO (TransactionTimeoutError h)
         else if x = FAILED then throwIO (TransactionFailedError meth) else returnIO h)
        (\<lambda>cfg fs r. \<forall>es. poll_run h (30 - 1) es (Inr x) \<longrightarrow>
           (\<exists>st. poll_run h 29 (es @ fs) st \<and> r = write_outcome meth h st))"
      by (rule runs_conseq) auto
  qed
qed

definition sent_spec ::
  "BaseContractClient \<Rightarrow> string \<Rightarrow> 't \<Rightarrow> ('a, 't, 'v) rpc_event list \<Rightarrow> exn + string \<Rightarrow> bool" where
  "sent_spec c meth t es r \<longleftrightarrow>
     (\<exists>e. r = Inl e \<and> broadcast_run c meth t es (Inl e)) \<or>
     (\<exists>bs a ps st. es = bs @ ps \<and> broadcast_run c meth t bs (Inr a) \<and>
                   poll_run (send_hash a) 29 ps st \<and> r = write_outcome meth (send_hash a) st)"

definition send_and_poll ::
  "('w, 'a, 't, 'v) sdk_env \<Rightarrow> BaseContractClient \<Rightarrow> string \<Rightarrow> string \<Rightarrow> 't \<Rightarrow>
   ('w, 'a, 't, 'v, string) sdk_io" where
  "send_and_poll E c meth server signedTx =
     bindIO (broadcast E c meth server signedTx) (\<lambda>result.
     bindIO (poll_once E server (send_hash result)) (\<lambda>first.
     bindIO (poll_loop E server (send_hash result) (MAX_TRANSACTION_POLL_ATTEMPTS - 1) first)
       (\<lambda>response.
     if response = NOT_FOUND then throwIO (TransactionTimeoutError (send_hash result))
     else if response = FAILED then throwIO (TransactionFailedError meth)
     else returnIO (send_hash result))))"

lemma send_and_poll_runs: "runs (send_and_poll E c meth server t) (\<lambda>cfg. sent_spec c meth t)"
  unfolding send_and_poll_def
  by (rule runs_bind [OF broadcast_runs _ runs_conseq [OF outcome_runs]])
    (simp_all add: sent_spec_def, blast)

definition prompted_spec ::
  "('w, 'a, 't, 'v) sdk_env \<Rightarrow> BaseContractClient \<Rightarrow> string \<Rightarrow> SDKConfig \<Rightarrow>
   ((exn + string) \<Rightarrow> ('a, 't, 'v) rpc_event) \<Rightarrow> ('a, 't, 'v) rpc_event list \<Rightarrow> exn + string \<Rightarrow> bool" where
  "prompted_spec E c meth cfg ev es r \<longleftrightarrow>
     (\<exists>ans e. es = [ev ans] \<and> r = Inl e \<and> bindE ans (\<lambda>y. fromXDR E y (networkPassphrase cfg)) = Inl e) \<or>
     (\<exists>y t bs. es = ev (Inr y) # bs \<and> fromXDR E y (networkPassphrase cfg) = Inr t \<and>
               sent_spec c meth t bs r)"

lemma prompted_runs:
  "runs (bindIO (outside_call ev m) (\<lambda>signed.
         bindIO (liftE (fromXDR E signed (networkPassphrase config))) (send_and_poll E c meth server)))
     (\<lambda>cfg es r. prompted_spec E c meth config ev es r)"
proof (rule runs_bind [where P = "\<lambda>cfg es r. es = [ev r]"])
  show "runs (outside_call ev m) (\<lambda>cfg es r. es = [ev r])" by (rule runs_outside_call) simp
  show "es = [ev (Inl e)] \<Longrightarrow> prompted_spec E c meth config ev es (Inl e)" for es e
    by (auto simp: prompted_spec_def intro: exI [of _ "Inl e"])
  show "runs (bindIO (liftE (fromXDR E y (networkPassphrase config))) (send_and_poll E c meth server))
      (\<lambda>cfg fs r. \<forall>es. es = [ev (Inr y)] \<longrightarrow> prompted_spec E c meth config ev (es @ fs) r)" for y
  proof (cases "fromXDR E y (networkPassphrase config)")
    case (Inl e)
    then have "prompted_spec E c meth config ev [ev (Inr y)] (Inl e)"
      by (auto simp: prompted_spec_def intro: exI [of _ "Inr y"])
    then show ?thesis using Inl by (auto intro!: runs_throw)
  next
    case (Inr t)
    then show ?thesis
      by (auto intro!: runs_conseq [OF send_and_poll_runs] simp: prompted_spec_def)
  qed
qed

lemma prompted_write_run:
  assumes "sim_spec E c meth args pk cfg pre (Inr (cfg, server, tx, ok))"
    and "retried (EvPrepare tx) mid (Inr prepared)"
    and "prompted_spec E c meth cfg (EvSign (toXDR E prepared) (sign_options E cfg pk)) es r"
  shows "write_run E c meth args pk cfg (pre @ mid @ es) r"
proof -
  let ?ev = "EvSign (toXDR E prepared) (sign_options E cfg pk)"
  have prefix: "signed_prefix E c meth args pk cfg (pre @ mid @ [?ev ans]) ans" for ans
    using assms(1,2) unfolding signed_prefix_def by blast
  from assms(3) consider
    (unsigned) ans e where "es = [?ev ans]" "r = Inl e"
      "bindE ans (\<lambda>y. fromXDR E y (networkPassphrase cfg)) = Inl e"
  | (unsent) y t bs e where "es = ?ev (Inr y) # bs" "fromXDR E y (networkPassphrase cfg) = Inr t"
      "r = Inl e" "broadcast_run c meth t bs (Inl e)"
  | (sent) y t bs a ps st where "es = ?ev (Inr y) # bs @ ps"
      "fromXDR E y (networkPassphrase cfg) = Inr t" "broadcast_run c meth t bs (Inr a)"
      "poll_run (send_hash a) 29 ps st" "r = write_outcome meth (send_hash a) st"
    unfolding prompted_spec_def sent_spec_def by fast
  then show ?thesis
  proof cases
    case unsigned
    then show ?thesis using not_signed [OF prefix] by simp
  next
    case unsent
    then show ?thesis using not_queued [OF prefix unsent(2,4)] by simp
  next
    case sent
    then show ?thesis using polled [OF prefix sent(2,3,4)] by simp
  qed
qed

lemma writeContract_eq:
  "writeContract E c meth args pk =
     bindIO (simulateCall E c meth args pk) (\<lambda>(config, server, tx, sim).
     bindIO (withRetry (outside_call (EvPrepare tx) (prepareTransaction E server tx)) noOptions)
       (\<lambda>prepared.
     bindIO (outside_call (EvSign (toXDR E prepared) (sign_options E config pk))
               (signTransaction E (toXDR E prepared) (sign_options E config pk))) (\<lambda>signed.
     bindIO (liftE (fromXDR E signed (networkPassphrase config))) (send_and_poll E c meth server))))"
  unfolding writeContract_def Let_def send_and_poll_def sign_options_def ..

text \<open>Every run of \<open>writeContract\<close> is a run of the protocol.\<close>

lemma writeContract_runs: "runs (writeContract E c meth args pk) (write_run E c meth args pk)"
  unfolding writeContract_eq
proof (rule runs_bind [OF simulateCall_spec])
  show "sim_spec E c meth args pk cfg es (Inl e) \<Longrightarrow> write_run E c meth args pk cfg es (Inl e)" for cfg es e
    by (rule not_prompted, erule sim_spec_is_prepare)
  fix x :: "SDKConfig \<times> string \<times> 'c \<times> 'd SimSuccess"
  obtain config server tx ok where x: "x = (config, server, tx, ok)" by (metis prod_cases4)
  have "runs (bindIO (withRetry (outside_call (EvPrepare tx) (prepareTransaction E server tx)) noOptions)
      (\<lambda>prepared.
         bindIO (outside_call (EvSign (toXDR E prepared) (sign_options E config pk))
                   (signTransaction E (toXDR E prepared) (sign_options E config pk))) (\<lambda>signed.
         bindIO (liftE (fromXDR E signed (networkPassphrase config))) (send_and_poll E c meth server))))
     (\<lambda>cfg fs r. \<forall>es. sim_spec E c meth args pk cfg es (Inr (config, server, tx, ok)) \<longrightarrow>
        write_run E c meth args pk cfg (es @ fs) r)"
  proof (rule runs_bind [OF withRetry_spec _ runs_conseq [OF prompted_runs]])
    show "\<forall>es. sim_spec E c meth args pk cfg es (Inr (config, server, tx, ok)) \<longrightarrow>
        write_run E c meth args pk cfg (es @ fs) (Inl e)"
      if "retried (EvPrepare tx) fs (Inl e)" for cfg fs e
      using that by (auto intro!: not_prompted dest: sim_spec_is_prepare retried_prepare)
    show "\<forall>mid. retried (EvPrepare tx) mid (Inr prepared) \<longrightarrow>
        (\<forall>es. sim_spec E c meth args pk cfg es (Inr (config, server, tx, ok)) \<longrightarrow>
           write_run E c meth args pk cfg (es @ mid @ fs) r)"
      if "prompted_spec E c meth config (EvSign (toXDR E prepared) (sign_options E config pk)) fs r"
      for prepared cfg fs r
      using that prompted_write_run [of E c meth args pk cfg _ server tx ok _ prepared fs r]
      by (auto simp: sim_spec_def)
  qed
  then show "runs (case x of (config, server, tx, sim) \<Rightarrow>
     bindIO (withRetry (outside_call (EvPrepare tx) (prepareTransaction E server tx)) noOptions)
       (\<lambda>prepared.
     bindIO (outside_call (EvSign (toXDR E prepared) (sign_options E config pk))
               (signTransaction E (toXDR E prepared) (sign_options E config pk))) (\<lambda>signed.
     bindIO (liftE (fromXDR E signed (networkPassphrase config))) (send_and_poll E c meth server))))
     (\<lambda>cfg fs r. \<forall>es. sim_spec E c meth args pk cfg es (Inr x) \<longrightarrow>
        write_run E c meth args pk cfg (es @ fs) r)"
    by (simp add: x)
qed

subsection \<open>What a history shows\<close>

fun sends :: "('a, 't, 'v) rpc_event list \<Rightarrow> ('t \<times> (exn + SendResponse)) list" where
  "sends [] = []"
| "sends (EvSend t ans # es) = (t, ans) # sends es"
| "sends (e # es) = sends es"

fun prompts :: "('a, 't, 'v) rpc_event list \<Rightarrow> (string \<times> SignOptions \<times> (exn + string)) list" where
  "prompts [] = []"
| "prompts (EvSign x opts ans # es) = (x, opts, ans) # prompts es"
| "prompts (e # es) = prompts es"

fun polls :: "('a, 't, 'v) rpc_event list \<Rightarrow> (string \<times> (exn + GetTransactionStatus)) list" where
  "polls [] = []"
| "polls (EvGetTransaction h ans # es) = (h, ans) # polls es"
| "polls (e # es) = polls es"

lemma views_append [simp]:
  "sends (es @ fs) = sends es @ sends fs"
  "prompts (es @ fs) = prompts es @ prompts fs"
  "polls (es @ fs) = polls es @ polls fs"
  by (induction es rule: sends.induct; simp)
    (induction es rule: prompts.induct; simp | induction es rule: polls.induct; simp)+

lemma views_prepare:
  assumes "list_all is_prepare es"
  shows "sends es = []" "prompts es = []" "polls es = []"
proof -
  have "sends es = [] \<and> prompts es = [] \<and> polls es = []"
    using assms
  proof (induction es)
    case (Cons e es)
    then show ?case by (cases e) simp_all
  qed simp
  then show "sends es = []" "prompts es = []" "polls es = []" by simp_all
qed

lemma views_poll:
  assumes "list_all is_poll es"
  shows "sends es = []" "prompts es = []"
proof -
  have "sends es = [] \<and> prompts es = []"
    using assms
  proof (induction es)
    case (Cons e es)
    then show ?case by (cases e) simp_all
  qed simp
  then show "sends es = []" "prompts es = []" by simp_all
qed

lemma views_send_trace [simp]:
  "sends (send_trace t delay i refs ans) = map (\<lambda>a. (t, Inr a)) refs @ [(t, ans)]"
  "prompts (send_trace t delay i refs ans) = []"
  "polls (send_trace t delay i refs ans) = []"
  by (induction refs arbitrary: i) simp_all

lemma retried_poll_count:
  assumes "retried (EvGetTransaction h) es r"
  shows "polls es \<noteq> []" "length (polls es) \<le> 3" "last (polls es) = (h, r)"
    "length (filter (\<lambda>p. snd p = Inr NOT_FOUND) (polls es)) = (if r = Inr NOT_FOUND then 1 else 0)"
proof -
  obtain errs where es: "es = retry_trace (EvGetTransaction h) 1000 0 errs r" "int (length errs) < 3"
    using assms by (auto simp: retry_spec_def)
  have "polls (retry_trace (EvGetTransaction h) 1000 i errs r :: ('a, 'b, 'c) rpc_event list) =
      map (\<lambda>e. (h, Inl e)) errs @ [(h, r)]" for i
    by (induction errs arbitrary: i) simp_all
  then show "polls es \<noteq> []" "length (polls es) \<le> 3" "last (polls es) = (h, r)"
    "length (filter (\<lambda>p. snd p = Inr NOT_FOUND) (polls es)) = (if r = Inr NOT_FOUND then 1 else 0)"
    using es by (simp_all add: filter_map comp_def)
qed

lemma poll_run_is_poll: "poll_run h n es r \<Longrightarrow> list_all is_poll es"
proof (induction rule: poll_run.induct)
  case (final es r n)
  from final(1) show ?case by (rule retry_spec_all) simp_all
next
  case (again es n fs r)
  from again(1) have "list_all is_poll es" by (rule retry_spec_all) simp_all
  then show ?case using again by simp
qed

text \<open>
  At most \<open>Suc n\<close> rounds of at most three calls each; the last answer is the result; and only
  after \<open>Suc n\<close> rounds is the result that the transaction is not found.
\<close>

lemma poll_run_count:
  "poll_run h n es r \<Longrightarrow>
     polls es \<noteq> [] \<and> length (polls es) \<le> 3 * Suc n \<and> last (polls es) = (h, r) \<and>
     length (filter (\<lambda>p. snd p = Inr NOT_FOUND) (polls es)) \<le> Suc n \<and>
     (r = Inr NOT_FOUND \<longrightarrow> length (filter (\<lambda>p. snd p = Inr NOT_FOUND) (polls es)) = Suc n)"
proof (induction rule: poll_run.induct)
  case (final es r n)
  then show ?case using retried_poll_count [OF final(1)] by auto
next
  case (again es n fs r)
  then show ?case using retried_poll_count [OF again(1)] by auto
qed

lemma views_signed_prefix:
  assumes "signed_prefix E c meth args pk cfg es ans"
  shows "sends es = []" "polls es = []"
    "\<exists>x. prompts es = [(x, sign_options E cfg pk, ans)]"
    "\<exists>tx ok account. EvSimulate tx (Inr (SimOk ok)) \<in> set es \<and>
        EvGetAccount pk (Inr account) \<in> set es \<and> contractTx E c cfg account meth args = Inr tx"
proof -
  obtain pre mid server tx ok prepared where es:
    "es = pre @ mid @ [EvSign (toXDR E prepared) (sign_options E cfg pk) ans]"
    "sim_spec E c meth args pk cfg pre (Inr (cfg, server, tx, ok))"
    "retried (EvPrepare tx) mid (Inr prepared)"
    using assms unfolding signed_prefix_def by blast
  note p = views_prepare [OF sim_spec_is_prepare [OF es(2)]] views_prepare [OF retried_prepare [OF es(3)]]
  show "sends es = []" "polls es = []" "\<exists>x. prompts es = [(x, sign_options E cfg pk, ans)]"
    using p es(1) by simp_all
  have "pre \<noteq> []" "last pre = EvSimulate tx (Inr (SimOk ok))"
    "\<exists>account. EvGetAccount pk (Inr account) \<in> set pre \<and> contractTx E c cfg account meth args = Inr tx"
    using es(2) by (simp_all add: sim_spec_def)
  then show "\<exists>tx ok account. EvSimulate tx (Inr (SimOk ok)) \<in> set es \<and>
        EvGetAccount pk (Inr account) \<in> set es \<and> contractTx E c cfg account meth args = Inr tx"
    using es(1) last_in_set [of pre] by force
qed

text \<open>Only the last send of a broadcast has another answer than a refusal.\<close>

lemma broadcast_sends:
  assumes "broadcast_run c meth t bs r"
  obtains refs ans where "sends bs = map (\<lambda>a. (t, Inr a)) refs @ [(t, ans)]" "list_all refused refs"
    "int (length refs) < sends_allowed c" "r = send_outcome meth (sends_allowed c) ans"
    "prompts bs = []" "polls bs = []"
  using assms unfolding broadcast_spec_def by auto

text \<open>
  The discipline of the sends of one write, as a predicate of the sends and the prompts:
  nothing is sent that was not signed in the one prompt, and a send is repeated only after the
  server refused to queue it.
\<close>

definition sends_ok ::
  "('w, 'a, 't, 'v) sdk_env \<Rightarrow> string \<Rightarrow> int \<Rightarrow> ('t \<times> (exn + SendResponse)) list \<Rightarrow>
   (string \<times> SignOptions \<times> (exn + string)) list \<Rightarrow> bool" where
  "sends_ok E passphrase n ss ps \<longleftrightarrow>
     length ps \<le> 1 \<and> int (length ss) \<le> n \<and>
     (ss \<noteq> [] \<longrightarrow> (\<exists>x opts y t. ps = [(x, opts, Inr y)] \<and> fromXDR E y passphrase = Inr t \<and>
                               (\<forall>p \<in> set ss. fst p = t))) \<and>
     (\<forall>p \<in> set (butlast ss). \<exists>a. snd p = Inr a \<and> refused a)"

lemma sends_okI:
  assumes "broadcast_run c meth t bs r" "fromXDR E y passphrase = Inr t"
  shows "sends_ok E passphrase (sends_allowed c) (sends bs) [(x, opts, Inr y)]"
proof -
  obtain refs ans where "sends bs = map (\<lambda>a. (t, Inr a)) refs @ [(t, ans)]"
    "list_all refused refs" "int (length refs) < sends_allowed c"
    using assms(1) by (elim broadcast_sends)
  then show ?thesis using assms(2) by (auto simp: sends_ok_def list_all_iff)
qed

lemma write_run_sends:
  assumes "write_run E c meth args pk cfg es r"
  shows "sends_ok E (networkPassphrase cfg) (sends_allowed c) (sends es) (prompts es)"
  using assms
proof cases
  case (not_prompted e)
  then show ?thesis by (simp add: sends_ok_def views_prepare)
next
  case (not_signed ans e)
  then show ?thesis using views_signed_prefix [of E c meth args pk cfg es ans]
    by (auto simp: sends_ok_def)
next
  case (not_queued es' y t bs e)
  moreover obtain x where "prompts es' = [(x, sign_options E cfg pk, Inr y)]"
    using views_signed_prefix(3) not_queued by blast
  moreover have "prompts bs = []" using not_queued by (elim broadcast_sends)
  ultimately show ?thesis
    using views_signed_prefix(1) sends_okI by fastforce
next
  case (polled es' y t bs a ps st)
  moreover obtain x where "prompts es' = [(x, sign_options E cfg pk, Inr y)]"
    using views_signed_prefix(3) polled by blast
  moreover have "prompts bs = []" using polled by (elim broadcast_sends)
  moreover have "prompts ps = []" "sends ps = []"
    using views_poll poll_run_is_poll polled by blast+
  ultimately show ?thesis
    using views_signed_prefix(1) sends_okI by fastforce
qed

lemma send_outcome_Inr:
  "send_outcome meth n ans = Inr a \<longleftrightarrow> ans = Inr a \<and> (send_status a = PENDING \<or> send_status a = DUPLICATE)"
  by (auto simp: send_outcome_def split: sum.splits SendStatus.splits)

lemma write_outcome_Inr: "write_outcome meth h st = Inr k \<longleftrightarrow> st = Inr SUCCESS \<and> k = h"
  by (auto simp: write_outcome_def split: sum.splits GetTransactionStatus.splits)

lemma write_run_success:
  assumes "write_run E c meth args pk cfg es (Inr h)"
  shows "\<exists>t a. sends es \<noteq> [] \<and> last (sends es) = (t, Inr a) \<and> send_hash a = h \<and>
           (send_status a = PENDING \<or> send_status a = DUPLICATE) \<and>
           polls es \<noteq> [] \<and> last (polls es) = (h, Inr SUCCESS) \<and>
           (\<exists>tx ok account. EvSimulate tx (Inr (SimOk ok)) \<in> set es \<and>
              EvGetAccount pk (Inr account) \<in> set es \<and> contractTx E c cfg account meth args = Inr tx)"
  using assms
proof cases
  case (polled es' y t bs a ps st)
  have st: "st = Inr SUCCESS" "h = send_hash a"
    using polled(2) by (simp_all add: write_outcome_Inr eq_commute [of "Inr h"])
  obtain refs ans where b: "sends bs = map (\<lambda>a. (t, Inr a)) refs @ [(t, ans)]"
    "Inr a = send_outcome meth (sends_allowed c) ans"
    using polled(5) by (elim broadcast_sends)
  have "sends ps = []" using views_poll poll_run_is_poll polled(6) by blast
  moreover note poll_run_count [OF polled(6)]
  moreover have "ans = Inr a" "send_status a = PENDING \<or> send_status a = DUPLICATE"
    using b(2) send_outcome_Inr by metis+
  moreover obtain tx ok account where "EvSimulate tx (Inr (SimOk ok)) \<in> set es'"
    "EvGetAccount pk (Inr account) \<in> set es'" "contractTx E c cfg account meth args = Inr tx"
    using views_signed_prefix(4) [OF polled(3)] by blast
  ultimately show ?thesis using polled(1) b(1) st by fastforce
qed

lemma write_run_polls:
  assumes "write_run E c meth args pk cfg es r"
  shows "length (polls es) \<le> 90 \<and> length (filter (\<lambda>p. snd p = Inr NOT_FOUND) (polls es)) \<le> 30"
  using assms
proof cases
  case (polled es' y t bs a ps st)
  have "polls bs = []" using polled(5) by (elim broadcast_sends)
  then have "polls es = polls ps" using polled(1) views_signed_prefix(2) [OF polled(3)] by simp
  then show ?thesis using poll_run_count [OF polled(6)] by simp
next
  case (not_queued es' y t bs e)
  have "polls bs = []" using not_queued(5) by (elim broadcast_sends)
  then show ?thesis using not_queued(1) views_signed_prefix(2) [OF not_queued(3)] by simp
qed (simp_all add: views_prepare views_signed_prefix(2))

lemma readContract_runs: "runs (readContract E c meth args pk parse) (\<lambda>cfg es r. list_all is_read es)"
  unfolding readContract_def
  by (rule runs_bind [OF simulateCall_spec])
    (auto simp: sim_spec_def split: option.split intro!: runs_throw runs_liftE)

lemma simulateTransaction_runs:
  "runs (simulateTransaction E c meth args pk) (\<lambda>cfg es r. list_all is_read es)"
proof -
  have silent: "runs (bindIO (liftE x) (\<lambda>b. bindIO (liftE y) (\<lambda>q. returnIO (f b q)))) (\<lambda>cfg fs r. fs = [])"
    for x y :: "exn + int" and f :: "int \<Rightarrow> int \<Rightarrow> SimulationResult"
    by (cases x; cases y) (auto intro!: runs_throw runs_return)
  have "runs (bindIO (liftE x) (\<lambda>b. bindIO (liftE y) (\<lambda>q. returnIO (f b q))))
      (\<lambda>cfg fs r. \<forall>es. sim_spec E c meth args pk cfg es (Inr z) \<longrightarrow> list_all is_read (es @ fs))"
    for x y :: "exn + int" and f :: "int \<Rightarrow> int \<Rightarrow> SimulationResult" and z
    by (rule runs_conseq [OF silent]) (simp add: sim_spec_def)
  then show ?thesis
    unfolding simulateTransaction_def
    by (intro runs_bind [OF simulateCall_spec]) (auto simp: sim_spec_def Let_def split: prod.split)
qed

subsection \<open>Progress\<close>

lemma fst_bindIO: "fst (m s) = Inr x \<Longrightarrow> bindIO m f s = f x (snd (m s))"
  by (cases "m s") (simp add: bindIO_Inr)

lemma outside_call_fst: "fst (m (outside s)) = r \<Longrightarrow> fst (outside_call ev m s) = r"
  by (cases "m (outside s)") (simp add: outside_call_def)

lemma withRetry_first:
  assumes "fst (m (outside s)) = Inr x"
  shows "fst (withRetry (outside_call ev m) noOptions s) = Inr x"
  using assms
  by (cases "m (outside s)")
    (simp add: withRetry_def withRetry_from.simps catchIO_def outside_call_def)

lemma activeConfig_withRetry [simp]:
  "activeConfig (snd (withRetry (outside_call ev m) noOptions s)) = activeConfig s"
  using withRetry_spec [of ev m] unfolding runs_def by blast

lemma simulateCall_succeeds:
  fixes s :: "('w, 'a, 't, 'v) sdk_state"
  defines "url \<equiv> sorobanRpcUrl (activeConfig s)"
  assumes "newServer E url = Inr ()"
    and "\<And>w. fst (getAccount E url pk w) = Inr account"
    and "contractTx E c (activeConfig s) account meth args = Inr tx"
    and "\<And>w. fst (simulate E url tx w) = Inr (SimOk ok)"
  shows "fst (simulateCall E c meth args pk s) = Inr (activeConfig s, url, tx, ok)"
proof -
  have "readConfig s = (Inr (activeConfig s), s)" by (simp add: readConfig_def)
  moreover have "readServer E s = (Inr url, s)"
    using assms(2) by (simp add: readServer_def getSorobanServer_def url_def)
  ultimately show ?thesis
    using assms(3-5)
    by (simp add: simulateCall_def bindIO_Inr fst_bindIO withRetry_first liftE_def returnIO_def)
qed

lemma send_and_poll_succeeds:
  assumes "\<And>w. \<exists>a. fst (sendTransaction E url t w) = Inr a \<and> send_hash a = h \<and>
                     (send_status a = PENDING \<or> send_status a = DUPLICATE)"
    and "\<And>w. fst (getTransaction E url h w) = Inr SUCCESS"
  shows "fst (send_and_poll E c meth url t s) = Inr h"
proof -
  let ?send = "outside_call (EvSend t) (sendTransaction E url t)"
  obtain a where a: "fst (?send s) = Inr a" "send_hash a = h" "send_status a = PENDING \<or> send_status a = DUPLICATE"
    using assms(1) [of "outside s"] outside_call_fst by blast
  have "broadcast E c meth url t s = (Inr a, snd (?send s))"
    using a by (auto simp: broadcast_def broadcast_from.simps [of _ _ _ _ _ _ 1] fst_bindIO returnIO_def)
  moreover have "fst (poll_once E url h s') = Inr SUCCESS" for s' :: "('a, 'b, 'c, 'd) sdk_state"
    using assms(2) by (simp add: poll_once_def withRetry_first)
  moreover have "poll_loop E url h n SUCCESS = returnIO SUCCESS" for n
    by (cases n) simp_all
  ultimately show ?thesis
    using a by (simp add: send_and_poll_def bindIO_Inr fst_bindIO returnIO_def)
qed

subsection \<open>An environment for evaluation\<close>

text \<open>
  A server that answers sends from a list and everything else at once; a transaction is the name
  of its method.
\<close>

definition demo_env :: "(SendResponse list, string, string, jsval) sdk_env" where
  "demo_env =
     \<lparr>getAccount = (\<lambda>url pk w. (Inr pk, w)),
      simulate = (\<lambda>url t w. (Inr (SimOk \<lparr>retval = Some (JStr t), minResourceFee = Some ''50'',
                                          footprint = Some (1, 2)\<rparr>), w)),
      prepareTransaction = (\<lambda>url t w. (Inr t, w)),
      sendTransaction = (\<lambda>url t w. case w of [] \<Rightarrow> (Inl (JsTypeError ''fetch failed''), [])
                                       | a # as \<Rightarrow> (Inr a, as)),
      getTransaction = (\<lambda>url h w. (Inr SUCCESS, w)),
      signTransaction = (\<lambda>x opts w. (Inr x, w)),
      buildTx = (\<lambda>sp. Inr (tx_method sp)),
      toXDR = (\<lambda>t. t), fromXDR = (\<lambda>x p. Inr x),
      addressScVal = (\<lambda>a. Inr (JStr a)), nativeToScVal = (\<lambda>v ty. Inr v), scvBytes = JBytes,
      scValToNative = (\<lambda>v. Inr v), asJs = (\<lambda>v. v),
      assetContractId = (\<lambda>code iss p. Inr code), newContract = (\<lambda>x. Inr ()), newServer = (\<lambda>u. Inr ()),
      Networks_PUBLIC = ''public'', BASE_FEE = ''100''\<rparr>"

definition demo_client :: BaseContractClient where
  "demo_client = \<lparr>contractId = ''C'', mutationRetryPolicy = DEFAULT_MUTATION_RETRY_POLICY\<rparr>"

definition demo_send :: "SendStatus \<Rightarrow> SendResponse" where
  "demo_send st = \<lparr>send_status = st, send_hash = ''h'', errorResult = None\<rparr>"

definition demo_state :: "SendResponse list \<Rightarrow> (SendResponse list, string, string, jsval) sdk_state" where
  "demo_state as = \<lparr>activeConfig = initialConfig ''test'' (\<lambda>k. None), outside = as, history = []\<rparr>"

subsection \<open>Properties\<close>

text \<open>
  C1. No double submission: whatever the server, the wallet and the network do, one call of
  \<open>writeContract\<close> shows at most one signing prompt, sends nothing but the transaction signed in
  that prompt, at most \<open>max 1 maxAttempts\<close> times, and sends again only after the server answered
  the previous send with \<open>TRY_AGAIN_LATER\<close> (in particular never after a transport error).
\<close>

theorem writeContract_no_double_submission:
  "\<exists>es. history (snd (writeContract E c meth args pk s)) = history s @ es \<and>
        sends_ok E (networkPassphrase (activeConfig s))
          (max 1 (maxAttempts (mutationRetryPolicy c))) (sends es) (prompts es)"
  using writeContract_runs [of E c meth args pk] write_run_sends unfolding runs_def by meson

text \<open>
  C2. A write that returns a hash is confirmed: the call of the method was built on the account
  of the key and its simulation was accepted, the last send was answered \<open>PENDING\<close> or
  \<open>DUPLICATE\<close> with that hash, and the last poll of that hash was answered \<open>SUCCESS\<close>.
\<close>

theorem writeContract_confirmed:
  assumes "writeContract E c meth args pk s = (Inr h, s')"
  shows "\<exists>es t a. history s' = history s @ es \<and>
           sends es \<noteq> [] \<and> last (sends es) = (t, Inr a) \<and> send_hash a = h \<and>
           (send_status a = PENDING \<or> send_status a = DUPLICATE) \<and>
           polls es \<noteq> [] \<and> last (polls es) = (h, Inr SUCCESS) \<and>
           (\<exists>tx ok account. EvSimulate tx (Inr (SimOk ok)) \<in> set es \<and>
              EvGetAccount pk (Inr account) \<in> set es \<and>
              contractTx E c (activeConfig s) account meth args = Inr tx)"
  using runsD [OF writeContract_runs assms] write_run_success by metis

theorem writeContract_confirmed_witness:
  "\<exists>s' es t a. writeContract demo_env demo_client ''repay'' [] ''G''
        (demo_state [demo_send TRY_AGAIN_LATER, demo_send PENDING]) = (Inr ''h'', s') \<and>
      history s' = es \<and> last (sends es) = (t, Inr a) \<and> send_hash a = ''h'' \<and>
      last (polls es) = (''h'', Inr SUCCESS)"
proof -
  let ?s = "demo_state [demo_send TRY_AGAIN_LATER, demo_send PENDING]"
  have "fst (writeContract demo_env demo_client ''repay'' [] ''G'' ?s) = Inr ''h''"
    by code_simp
  then obtain s' where w: "writeContract demo_env demo_client ''repay'' [] ''G'' ?s = (Inr ''h'', s')"
    by (metis surjective_pairing)
  moreover have "history ?s = []" by (simp add: demo_state_def)
  ultimately show ?thesis using writeContract_confirmed [OF w] by auto
qed

text \<open>
  C21. Confirmation is bounded: one write polls at most 90 times (30 rounds of at most three
  attempts), and at most 30 of the answers are \<open>NOT_FOUND\<close>.
\<close>

theorem writeContract_polls_bounded:
  "\<exists>es. history (snd (writeContract E c meth args pk s)) = history s @ es \<and>
        length (polls es) \<le> 90 \<and>
        length (filter (\<lambda>p. snd p = Inr NOT_FOUND) (polls es)) \<le> 30"
proof -
  obtain es where "history (snd (writeContract E c meth args pk s)) = history s @ es"
    "write_run E c meth args pk (activeConfig s) es (fst (writeContract E c meth args pk s))"
    using writeContract_runs [of E c meth args pk] unfolding runs_def by blast
  then show ?thesis using write_run_polls by blast
qed

text \<open>
  Reading and previewing have no effect: \<open>readContract\<close> and \<open>simulateTransaction\<close> only load
  the account, simulate and pause; they never prepare, prompt, send or poll, and they leave the
  configuration alone.
\<close>

theorem reads_have_no_effect:
  "\<exists>es fs. history (snd (readContract E c meth args pk parse s)) = history s @ es \<and>
           list_all is_read es \<and>
           activeConfig (snd (readContract E c meth args pk parse s)) = activeConfig s \<and>
           history (snd (simulateTransaction E c meth args pk s)) = history s @ fs \<and>
           list_all is_read fs \<and>
           activeConfig (snd (simulateTransaction E c meth args pk s)) = activeConfig s"
  using readContract_runs [of E c meth args pk parse] simulateTransaction_runs [of E c meth args pk]
  unfolding runs_def by metis

text \<open>
  A retried call is attempted one to three times: each attempt but the last failed with a
  network-shaped error and was followed by a pause of 1000 and then 2000 milliseconds; the
  answer of the last attempt is the result; and a network-shaped error is only passed on after
  the third attempt.
\<close>

theorem withRetry_attempts:
  "\<exists>errs. history (snd (withRetry (outside_call ev m) noOptions s)) =
            history s @ retry_trace ev 1000 0 errs (fst (withRetry (outside_call ev m) noOptions s)) \<and>
          list_all isNetworkError errs \<and> length errs < 3 \<and>
          (case fst (withRetry (outside_call ev m) noOptions s) of
             Inr x \<Rightarrow> True | Inl e \<Rightarrow> if isNetworkError e then length errs = 2 else True)"
proof -
  obtain es where es: "history (snd (withRetry (outside_call ev m) noOptions s)) = history s @ es"
    "retried ev es (fst (withRetry (outside_call ev m) noOptions s))"
    using withRetry_spec [of ev m] unfolding runs_def by blast
  then obtain errs where "es = retry_trace ev 1000 0 errs (fst (withRetry (outside_call ev m) noOptions s))"
    "list_all isNetworkError errs" "int (length errs) < 3"
    "\<forall>e. fst (withRetry (outside_call ev m) noOptions s) = Inl e \<longrightarrow> isNetworkError e \<longrightarrow>
       int (length errs) = 2" unfolding retry_spec_def by auto
  then show ?thesis
    using es(1) by (intro exI [of _ errs]) (auto split: sum.split)
qed

text \<open>
  C20. Progress: when the server builds, the account loads, the simulation and the preparation
  succeed, the user signs, the send is queued under the hash \<open>h\<close> and the transaction is
  reported as successful, \<open>writeContract\<close> returns \<open>h\<close>.
\<close>

theorem writeContract_succeeds:
  assumes "url = sorobanRpcUrl (activeConfig s)" and "newServer E url = Inr ()"
    and "\<And>w. fst (getAccount E url pk w) = Inr account"
    and "contractTx E c (activeConfig s) account meth args = Inr tx"
    and "\<And>w. fst (simulate E url tx w) = Inr (SimOk ok)"
    and "\<And>w. fst (prepareTransaction E url tx w) = Inr prepared"
    and "\<And>opts w. fst (signTransaction E (toXDR E prepared) opts w) = Inr y"
    and "fromXDR E y (networkPassphrase (activeConfig s)) = Inr t"
    and "\<And>w. \<exists>a. fst (sendTransaction E url t w) = Inr a \<and> send_hash a = h \<and>
                   (send_status a = PENDING \<or> send_status a = DUPLICATE)"
    and "\<And>w. fst (getTransaction E url h w) = Inr SUCCESS"
  shows "fst (writeContract E c meth args pk s) = Inr h"
proof -
  have "fst (simulateCall E c meth args pk s) = Inr (activeConfig s, url, tx, ok)"
    using simulateCall_succeeds [of E s pk account c meth args tx ok] assms(1-5) by simp
  then show ?thesis
    using assms(6-8) send_and_poll_succeeds [OF assms(9,10)]
    by (simp add: writeContract_eq fst_bindIO withRetry_first outside_call_fst)
qed

theorem writeContract_succeeds_witness:
  "fst (writeContract (demo_env\<lparr>sendTransaction := \<lambda>url t w. (Inr (demo_send PENDING), w)\<rparr>)
          demo_client ''repay'' [] ''G'' (demo_state [])) = Inr ''h''"
  by (rule writeContract_succeeds [where account = "''G''" and tx = "''repay''" and
        prepared = "''repay''" and y = "''repay''" and t = "''repay''" and
        ok = "\<lparr>retval = Some (JStr ''repay''), minResourceFee = Some ''50'', footprint = Some (1, 2)\<rparr>",
        OF refl])
    (simp_all add: demo_env_def demo_send_def contractTx_def)

end
