(* ===== verification/Schemas.thy ===== *)
theory Schemas
  imports Assets
begin

text \<open>
  The data the contracts return, and its validation (\<open>packages/sdk/src/types/schemas.ts\<close>):
  normalising a native value to an object with camel-case keys, and parsing it with the zod
  schemas of profiles, invoices, pool statistics, positions and agents.

  Zod is outside the repository. A schema is the data the code builds with its combinators
  (\<open>zschema\<close>), and \<open>schema.parse(v)\<close> is a parameter \<open>zparse\<close>; the locale \<open>zod_semantics\<close> states
  the documented behaviour of the combinators the code uses.
\<close>

datatype zschema =
    ZString "string \<Rightarrow> bool" \<comment> \<open>a string with its checks\<close>
  | ZNumber
  | ZBigint
  | ZBoolean
  | ZEnum "string list"
  | ZNullable zschema
  | ZOptional zschema
  | ZDefault zschema jsval
  | ZPreprocess "jsval \<Rightarrow> exn + jsval" zschema
  | ZObject "(string \<times> zschema) list"

text \<open>
  The object a parse returns: the keys of the schema in order; an undefined value of a key the
  input does not have is left out.
\<close>

definition zobject :: "jsobj \<Rightarrow> (string \<times> jsval) list \<Rightarrow> jsval" where
  "zobject inp kvs = JObj (filter (\<lambda>(k, v). v \<noteq> JUndef \<or> obj_has inp k) kvs)"

locale zod_semantics =
  fixes zparse :: "zschema \<Rightarrow> jsval \<Rightarrow> exn + jsval"
  assumes string_ok: "zparse (ZString p) v = Inr w \<longleftrightarrow> (\<exists>s. v = JStr s \<and> p s \<and> w = v)"
    and number_ok: "zparse ZNumber v = Inr w \<longleftrightarrow> (\<exists>x. v = JNum x \<and> x \<noteq> NaN \<and> w = v)"
    and bigint_ok: "zparse ZBigint v = Inr w \<longleftrightarrow> (\<exists>i. v = JBigInt i \<and> w = v)"
    and boolean_ok: "zparse ZBoolean v = Inr w \<longleftrightarrow> (\<exists>b. v = JBool b \<and> w = v)"
    and enum_ok: "zparse (ZEnum xs) v = Inr w \<longleftrightarrow> (\<exists>s. v = JStr s \<and> s \<in> set xs \<and> w = v)"
    and nullable_eq: "zparse (ZNullable z) v = (if v = JNull then Inr JNull else zparse z v)"
    and optional_eq: "zparse (ZOptional z) v = (if v = JUndef then Inr JUndef else zparse z v)"
    and default_eq: "zparse (ZDefault z d) v = zparse z (if v = JUndef then d else v)"
    and preprocess_eq: "zparse (ZPreprocess f z) v = bindE (f v) (zparse z)"
    and object_ok: "zparse (ZObject fs) v = Inr w \<longleftrightarrow>
      (\<exists>inp ws. v = JObj inp \<and> list_all2 (\<lambda>(k, z) x. zparse z (obj_get inp k) = Inr x) fs ws \<and>
                w = zobject inp (zip (map fst fs) ws))"
    and object_throw: "list_all (\<lambda>(k, z). \<not> isl (zparse z (obj_get inp k))) fs \<Longrightarrow>
      zparse z (obj_get inp k) = Inl e \<Longrightarrow> (\<nexists>m. e = ZodError m) \<Longrightarrow>
      zparse (ZObject (fs @ (k, z) # fs')) (JObj inp) = Inl e"

text \<open>
  The last law: the keys are visited in order, and an exception of a preprocessing function that
  is not an issue of zod's own leaves the parse. The laws can be met: an executable parser for the combinators, which reports every failure
  with the same message.
\<close>

fun ref_zparse :: "zschema \<Rightarrow> jsval \<Rightarrow> exn + jsval"
  and ref_zfields :: "(string \<times> zschema) list \<Rightarrow> jsobj \<Rightarrow> exn + jsval list" where
  "ref_zparse (ZString p) v =
     (case v of JStr s \<Rightarrow> if p s then Inr v else Inl (ZodError ''invalid'')
      | _ \<Rightarrow> Inl (ZodError ''invalid''))"
| "ref_zparse ZNumber v =
     (case v of JNum x \<Rightarrow> if x \<noteq> NaN then Inr v else Inl (ZodError ''invalid'')
      | _ \<Rightarrow> Inl (ZodError ''invalid''))"
| "ref_zparse ZBigint v = (case v of JBigInt i \<Rightarrow> Inr v | _ \<Rightarrow> Inl (ZodError ''invalid''))"
| "ref_zparse ZBoolean v = (case v of JBool i \<Rightarrow> Inr v | _ \<Rightarrow> Inl (ZodError ''invalid''))"
| "ref_zparse (ZEnum xs) v =
     (case v of JStr s \<Rightarrow> if s \<in> set xs then Inr v else Inl (ZodError ''invalid'')
      | _ \<Rightarrow> Inl (ZodError ''invalid''))"
| "ref_zparse (ZNullable z) v = (if v = JNull then Inr JNull else ref_zparse z v)"
| "ref_zparse (ZOptional z) v = (if v = JUndef then Inr JUndef else ref_zparse z v)"
| "ref_zparse (ZDefault z d) v = ref_zparse z (if v = JUndef then d else v)"
| "ref_zparse (ZPreprocess f z) v = bindE (f v) (ref_zparse z)"
| "ref_zparse (ZObject fs) v =
     (case v of
        JObj inp \<Rightarrow> bindE (ref_zfields fs inp) (\<lambda>ws. Inr (zobject inp (zip (map fst fs) ws)))
      | _ \<Rightarrow> Inl (ZodError ''invalid''))"
| "ref_zfields [] inp = Inr []"
| "ref_zfields ((k, z) # fs) inp =
     bindE (ref_zparse z (obj_get inp k)) (\<lambda>w. bindE (ref_zfields fs inp) (\<lambda>ws. Inr (w # ws)))"

lemma ref_zfields_Inr:
  "ref_zfields fs inp = Inr ws \<longleftrightarrow>
     list_all2 (\<lambda>(k, z) x. ref_zparse z (obj_get inp k) = Inr x) fs ws"
proof (induction fs arbitrary: ws)
  case Nil
  then show ?case by auto
next
  case (Cons f fs)
  obtain k z where f: "f = (k, z)" by (cases f)
  show ?case using Cons by (cases ws) (auto simp: f bindE_eq_Inr)
qed

lemma ref_zfields_throw:
  assumes "list_all (\<lambda>(k, z). \<not> isl (ref_zparse z (obj_get inp k))) fs"
    and "ref_zparse z (obj_get inp k) = Inl e"
  shows "ref_zfields (fs @ (k, z) # fs') inp = Inl e"
  using assms(1)
proof (induction fs)
  case (Cons f fs)
  then show ?case by (cases f; cases "ref_zparse (snd f) (obj_get inp (fst f))") auto
qed (simp add: assms(2))

interpretation ref_zod: zod_semantics ref_zparse
  by unfold_locales
    (auto simp: bindE_eq_Inr ref_zfields_Inr ref_zfields_throw split: jsval.splits if_splits)

subsection \<open>Coercion\<close>

text \<open>\<open>Buffer.from(bytes).toString("hex")\<close>.\<close>

definition hex_digit :: "nat \<Rightarrow> char" where
  "hex_digit n = (if n < 10 then char_of (48 + n) else char_of (87 + n))"

definition bytes_hex :: "nat list \<Rightarrow> string" where
  "bytes_hex bs = concat (map (\<lambda>b. [hex_digit (b div 16), hex_digit (b mod 16)]) bs)"

definition coerce_bigint :: "jsval \<Rightarrow> exn + jsval" where
  "coerce_bigint v =
     (case v of
        JBigInt i \<Rightarrow> Inr v
      | JNum x \<Rightarrow> bindE (bigint_of_num x) (\<lambda>i. Inr (JBigInt i))
      | JStr s \<Rightarrow> bindE (bigint_of_string s) (\<lambda>i. Inr (JBigInt i))
      | _ \<Rightarrow> Inr (JBigInt 0))"

definition coerce_number :: "jsval \<Rightarrow> exn + jsval" where
  "coerce_number v =
     (case v of
        JNum x \<Rightarrow> Inr v
      | JBigInt i \<Rightarrow> Inr (JNum (num_of_int i))
      | JStr s \<Rightarrow> Inr (JNum (num_of_string s))
      | _ \<Rightarrow> Inr (JNum (Fin 0)))"

definition coerce_boolean :: "jsval \<Rightarrow> exn + jsval" where
  "coerce_boolean v = Inr (JBool (truthy v))"

definition coerce_nullable :: "jsval \<Rightarrow> exn + jsval" where
  "coerce_nullable v =
     (if nullish v then Inr JNull
      else if v = JBigInt 0 \<or> v = JNum (Fin 0) then Inr JNull
      else case v of
        JNum x \<Rightarrow> Inr v
      | JBigInt i \<Rightarrow> Inr (JNum (num_of_int i))
      | JStr s \<Rightarrow> Inr (JNum (num_of_string s))
      | _ \<Rightarrow> Inr JNull)"

definition coerce_id :: "jsval \<Rightarrow> exn + jsval" where
  "coerce_id v =
     (case v of
        JStr s \<Rightarrow> Inr v
      | JBytes bs \<Rightarrow> Inr (JStr (bytes_hex bs))
      | _ \<Rightarrow> Inr (JStr (js_String (js_or v (JStr '''')))))"

definition bigintSchema :: zschema where
  "bigintSchema = ZPreprocess coerce_bigint ZBigint"

definition numberSchema :: zschema where
  "numberSchema = ZPreprocess coerce_number ZNumber"

definition booleanSchema :: zschema where
  "booleanSchema = ZPreprocess coerce_boolean ZBoolean"

definition nullableNumberSchema :: zschema where
  "nullableNumberSchema = ZPreprocess coerce_nullable (ZNullable ZNumber)"

subsection \<open>Normalisation\<close>

text \<open>\<open>str.replace(/_([a-z0-9])/g, (_, letter) => letter.toUpperCase())\<close>.\<close>

definition camel_letter :: "char \<Rightarrow> bool" where
  "camel_letter c \<longleftrightarrow> is_digit c \<or> (97 \<le> code_unit c \<and> code_unit c \<le> 122)"

fun toCamelCase :: "string \<Rightarrow> string" where
  "toCamelCase (u # c # cs) =
     (if u = CHR ''_'' \<and> camel_letter c then upper_char c # toCamelCase cs
      else u # toCamelCase (c # cs))"
| "toCamelCase s = s"

definition raw_entries :: "jsval \<Rightarrow> jsobj" where
  "raw_entries v =
     (case v of
        JMap entries \<Rightarrow>
          foldl (\<lambda>ob (k, x). case k of JStr s \<Rightarrow> obj_set s x ob | _ \<Rightarrow> ob) [] entries
      | _ \<Rightarrow> obj_assign [] (own_entries v))"

definition normalize :: "jsval \<Rightarrow> jsobj" where
  "normalize native =
     (if \<not> truthy native \<or> \<not> typeof_object native then []
      else foldl (\<lambda>ob (k, v). obj_set (toCamelCase k) v ob) [] (raw_entries native))"

subsection \<open>Schemas\<close>

text \<open>The patterns \<open>/^[GC][A-Z2-7]{55}$/\<close> and \<open>/^[a-fA-F0-9]{64}$/\<close>.\<close>

definition base32_char :: "char \<Rightarrow> bool" where
  "base32_char c \<longleftrightarrow>
     (65 \<le> code_unit c \<and> code_unit c \<le> 90) \<or> (50 \<le> code_unit c \<and> code_unit c \<le> 55)"

definition stellar_address :: "string \<Rightarrow> bool" where
  "stellar_address s \<longleftrightarrow>
     length s = 56 \<and> (hd s = CHR ''G'' \<or> hd s = CHR ''C'') \<and> list_all base32_char (tl s)"

definition hex_char :: "char \<Rightarrow> bool" where
  "hex_char c \<longleftrightarrow>
     is_digit c \<or> (97 \<le> code_unit c \<and> code_unit c \<le> 102) \<or> (65 \<le> code_unit c \<and> code_unit c \<le> 70)"

definition invoice_id :: "string \<Rightarrow> bool" where
  "invoice_id s \<longleftrightarrow> length s = 64 \<and> list_all hex_char s"

definition any_string :: "string \<Rightarrow> bool" where
  "any_string s \<longleftrightarrow> True"

definition profileSchema :: zschema where
  "profileSchema = ZObject
     [(''address'', ZString stellar_address),
      (''role'', ZEnum [''issuer'', ''buyer'']),
      (''verified'', booleanSchema),
      (''registeredAt'', numberSchema)]"

definition invoice_statuses :: "string list" where
  "invoice_statuses =
     [''Created'', ''Listed'', ''Funded'', ''Active'', ''Confirmed'', ''Repaid'', ''Defaulted'']"

definition invoiceFields :: "(string \<times> zschema) list" where
  "invoiceFields =
     [(''id'', ZPreprocess coerce_id (ZString invoice_id)),
      (''issuer'', ZString stellar_address),
      (''buyer'', ZString stellar_address),
      (''faceValue'', bigintSchema),
      (''asset'', ZDefault (ZEnum [''USDC'', ''XLM'']) (JStr ''USDC'')),
      (''discountBps'', numberSchema),
      (''fundedAmount'', bigintSchema),
      (''dueDate'', numberSchema),
      (''status'', ZEnum invoice_statuses),
      (''createdAt'', numberSchema),
      (''fundedAt'', nullableNumberSchema),
      (''shippedAt'', nullableNumberSchema),
      (''issuerConfirmed'', booleanSchema),
      (''buyerConfirmed'', booleanSchema),
      (''buyerConfirmedAt'', ZOptional nullableNumberSchema),
      (''repaidAt'', nullableNumberSchema),
      (''defaultedAt'', ZOptional nullableNumberSchema),
      (''attestationAgentId'', ZOptional (ZNullable (ZString any_string))),
      (''riskScoreBps'', ZOptional (ZNullable ZNumber)),
      (''evidenceHash'', ZOptional (ZNullable (ZString any_string))),
      (''attestedAt'', ZOptional nullableNumberSchema)]"

definition invoiceSchema :: zschema where
  "invoiceSchema = ZObject invoiceFields"

definition poolStatsSchema :: zschema where
  "poolStatsSchema = ZObject
     [(''totalDeposits'', bigintSchema),
      (''totalFunded'', bigintSchema),
      (''availableLiquidity'', bigintSchema),
      (''utilizationRateBps'', numberSchema),
      (''totalYieldDistributed'', bigintSchema),
      (''activeInvoiceCount'', numberSchema),
      (''totalShares'', bigintSchema)]"

definition lpPositionSchema :: zschema where
  "lpPositionSchema = ZObject
     [(''shares'', bigintSchema),
      (''usdcValue'', bigintSchema),
      (''yieldEarned'', bigintSchema),
      (''depositCount'', numberSchema)]"

definition nonempty_string :: "string \<Rightarrow> bool" where
  "nonempty_string s \<longleftrightarrow> 1 \<le> length s"

definition agentSchema :: zschema where
  "agentSchema = ZObject
     [(''agentId'', ZString nonempty_string),
      (''pubkey'', ZString stellar_address),
      (''active'', booleanSchema),
      (''registeredAt'', numberSchema)]"

type_synonym zparser = "zschema \<Rightarrow> jsval \<Rightarrow> exn + jsval"

definition parseProfile :: "zparser \<Rightarrow> jsval \<Rightarrow> exn + jsval" where
  "parseProfile zparse native = zparse profileSchema (JObj (normalize native))"

definition parseInvoice :: "zparser \<Rightarrow> jsval \<Rightarrow> exn + jsval" where
  "parseInvoice zparse native = zparse invoiceSchema (JObj (normalize native))"

definition parsePoolStats :: "zparser \<Rightarrow> jsval \<Rightarrow> exn + jsval" where
  "parsePoolStats zparse native = zparse poolStatsSchema (JObj (normalize native))"

definition parseLPPosition :: "zparser \<Rightarrow> jsval \<Rightarrow> exn + jsval" where
  "parseLPPosition zparse native = zparse lpPositionSchema (JObj (normalize native))"

definition parseAgent :: "zparser \<Rightarrow> jsval \<Rightarrow> exn + jsval" where
  "parseAgent zparse native = zparse agentSchema (JObj (normalize native))"

subsection \<open>Typed data\<close>

datatype InvoiceStatus = Created | Listed | Funded | Active | Confirmed | Repaid | Defaulted

fun status_string :: "InvoiceStatus \<Rightarrow> string" where
  "status_string Created = ''Created''"
| "status_string Listed = ''Listed''"
| "status_string Funded = ''Funded''"
| "status_string Active = ''Active''"
| "status_string Confirmed = ''Confirmed''"
| "status_string Repaid = ''Repaid''"
| "status_string Defaulted = ''Defaulted''"

text \<open>
  The interface \<open>Invoice\<close>. A field that may be \<open>null\<close> or absent is an option; no consumer tells
  the two apart.
\<close>

record Invoice =
  inv_id :: string
  inv_issuer :: string
  inv_buyer :: string
  inv_faceValue :: int
  inv_asset :: AssetType
  inv_discountBps :: jsnum
  inv_fundedAmount :: int
  inv_dueDate :: jsnum
  inv_status :: InvoiceStatus
  inv_createdAt :: jsnum
  inv_fundedAt :: "jsnum option"
  inv_shippedAt :: "jsnum option"
  inv_issuerConfirmed :: bool
  inv_buyerConfirmed :: bool
  inv_buyerConfirmedAt :: "jsnum option"
  inv_repaidAt :: "jsnum option"
  inv_defaultedAt :: "jsnum option"
  inv_attestationAgentId :: "string option"
  inv_riskScoreBps :: "jsnum option"
  inv_evidenceHash :: "string option"
  inv_attestedAt :: "jsnum option"

record Profile =
  pr_address :: string
  pr_isIssuer :: bool \<comment> \<open>the role is issuer, otherwise buyer\<close>
  pr_verified :: bool
  pr_registeredAt :: jsnum

record PoolStats =
  ps_totalDeposits :: int
  ps_totalFunded :: int
  ps_availableLiquidity :: int
  ps_utilizationRateBps :: jsnum
  ps_totalYieldDistributed :: int
  ps_activeInvoiceCount :: jsnum
  ps_totalShares :: int

record LPPosition =
  lp_shares :: int
  lp_usdcValue :: int
  lp_yieldEarned :: int
  lp_depositCount :: jsnum

record Agent =
  ag_agentId :: string
  ag_pubkey :: string
  ag_active :: bool
  ag_registeredAt :: jsnum

text \<open>Reading a field of a given type off an untyped object.\<close>

fun as_string :: "jsval \<Rightarrow> string option" where
  "as_string (JStr s) = Some s"
| "as_string v = None"

fun as_bigint :: "jsval \<Rightarrow> int option" where
  "as_bigint (JBigInt i) = Some i"
| "as_bigint v = None"

fun as_num :: "jsval \<Rightarrow> jsnum option" where
  "as_num (JNum x) = Some x"
| "as_num v = None"

fun as_bool :: "jsval \<Rightarrow> bool option" where
  "as_bool (JBool b) = Some b"
| "as_bool v = None"

fun as_null :: "(jsval \<Rightarrow> 'b option) \<Rightarrow> jsval \<Rightarrow> 'b option option" where
  "as_null f JNull = Some None"
| "as_null f JUndef = Some None"
| "as_null f v = map_option Some (f v)"

definition as_status :: "jsval \<Rightarrow> InvoiceStatus option" where
  "as_status v =
     (if v = JStr ''Created'' then Some Created
      else if v = JStr ''Listed'' then Some Listed
      else if v = JStr ''Funded'' then Some Funded
      else if v = JStr ''Active'' then Some Active
      else if v = JStr ''Confirmed'' then Some Confirmed
      else if v = JStr ''Repaid'' then Some Repaid
      else if v = JStr ''Defaulted'' then Some Defaulted else None)"

definition as_asset :: "jsval \<Rightarrow> AssetType option" where
  "as_asset v =
     (if v = JStr ''USDC'' then Some USDC else if v = JStr ''XLM'' then Some XLM else None)"

text \<open>An object is an \<open>Invoice\<close> when every field of the interface has its type.\<close>

definition is_Invoice :: "jsobj \<Rightarrow> bool" where
  "is_Invoice ob \<longleftrightarrow>
     (\<forall>k \<in> {''id'', ''issuer'', ''buyer''}. as_string (obj_get ob k) \<noteq> None) \<and>
     (\<forall>k \<in> {''faceValue'', ''fundedAmount''}. as_bigint (obj_get ob k) \<noteq> None) \<and>
     as_asset (obj_get ob ''asset'') \<noteq> None \<and>
     (\<forall>k \<in> {''discountBps'', ''dueDate'', ''createdAt''}. as_num (obj_get ob k) \<noteq> None) \<and>
     as_status (obj_get ob ''status'') \<noteq> None \<and>
     (\<forall>k \<in> {''issuerConfirmed'', ''buyerConfirmed''}. as_bool (obj_get ob k) \<noteq> None) \<and>
     (\<forall>k \<in> {''fundedAt'', ''shippedAt'', ''buyerConfirmedAt'', ''repaidAt'', ''defaultedAt'',
             ''riskScoreBps'', ''attestedAt''}. as_null as_num (obj_get ob k) \<noteq> None) \<and>
     (\<forall>k \<in> {''attestationAgentId'', ''evidenceHash''}. as_null as_string (obj_get ob k) \<noteq> None)"

definition invoice_of :: "jsobj \<Rightarrow> Invoice" where
  "invoice_of ob =
     \<lparr>inv_id = the (as_string (obj_get ob ''id'')),
      inv_issuer = the (as_string (obj_get ob ''issuer'')),
      inv_buyer = the (as_string (obj_get ob ''buyer'')),
      inv_faceValue = the (as_bigint (obj_get ob ''faceValue'')),
      inv_asset = the (as_asset (obj_get ob ''asset'')),
      inv_discountBps = the (as_num (obj_get ob ''discountBps'')),
      inv_fundedAmount = the (as_bigint (obj_get ob ''fundedAmount'')),
      inv_dueDate = the (as_num (obj_get ob ''dueDate'')),
      inv_status = the (as_status (obj_get ob ''status'')),
      inv_createdAt = the (as_num (obj_get ob ''createdAt'')),
      inv_fundedAt = the (as_null as_num (obj_get ob ''fundedAt'')),
      inv_shippedAt = the (as_null as_num (obj_get ob ''shippedAt'')),
      inv_issuerConfirmed = the (as_bool (obj_get ob ''issuerConfirmed'')),
      inv_buyerConfirmed = the (as_bool (obj_get ob ''buyerConfirmed'')),
      inv_buyerConfirmedAt = the (as_null as_num (obj_get ob ''buyerConfirmedAt'')),
      inv_repaidAt = the (as_null as_num (obj_get ob ''repaidAt'')),
      inv_defaultedAt = the (as_null as_num (obj_get ob ''defaultedAt'')),
      inv_attestationAgentId = the (as_null as_string (obj_get ob ''attestationAgentId'')),
      inv_riskScoreBps = the (as_null as_num (obj_get ob ''riskScoreBps'')),
      inv_evidenceHash = the (as_null as_string (obj_get ob ''evidenceHash'')),
      inv_attestedAt = the (as_null as_num (obj_get ob ''attestedAt''))\<rparr>"

subsection \<open>Objects through a schema\<close>

lemma map_of_filter_defined:
  "distinct (map fst kvs) \<Longrightarrow> (k, w) \<in> set kvs \<Longrightarrow>
   obj_get (filter (\<lambda>(k, v). v \<noteq> JUndef \<or> obj_has inp k) kvs) k = w"
proof (induction kvs)
  case (Cons a kvs)
  obtain j u where a: "a = (j, u)" by (cases a)
  show ?case
  proof (cases "j = k")
    case True
    then have "u = w" using Cons.prems a by (auto simp: image_iff)
    moreover have "map_of (filter (\<lambda>(k, v). v \<noteq> JUndef \<or> obj_has inp k) kvs) k = None"
      using Cons.prems True a by (auto simp: map_of_eq_None_iff)
    ultimately show ?thesis using True a by (auto simp: obj_get_def)
  next
    case False
    then show ?thesis using Cons a by (auto simp: obj_get_def)
  qed
qed simp

context zod_semantics
begin

text \<open>Every key of the schema is in the result with the parsed value.\<close>

lemma object_field:
  assumes "zparse (ZObject fs) v = Inr w" and "distinct (map fst fs)"
  obtains inp out where "v = JObj inp" "w = JObj out"
    "\<And>k z. (k, z) \<in> set fs \<Longrightarrow> zparse z (obj_get inp k) = Inr (obj_get out k)"
proof -
  obtain inp ws where v: "v = JObj inp" "w = zobject inp (zip (map fst fs) ws)"
    and all: "list_all2 (\<lambda>(k, z) x. zparse z (obj_get inp k) = Inr x) fs ws"
    using assms(1) unfolding object_ok by blast
  define out where "out = filter (\<lambda>(k, v). v \<noteq> JUndef \<or> obj_has inp k) (zip (map fst fs) ws)"
  have len: "length ws = length fs" using all by (simp add: list_all2_lengthD)
  have keys: "map fst (zip (map fst fs) ws) = map fst fs" using len by simp
  show thesis
  proof (rule that)
    show "v = JObj inp" "w = JObj out" using v by (simp_all add: zobject_def out_def)
    fix k z assume "(k, z) \<in> set fs"
    then obtain i where i: "i < length fs" "fs ! i = (k, z)" by (auto simp: in_set_conv_nth)
    then have "(k, ws ! i) \<in> set (zip (map fst fs) ws)"
      using len by (auto simp: in_set_zip intro!: exI [of _ i])
    then have "obj_get out k = ws ! i"
      unfolding out_def using assms(2) keys by (intro map_of_filter_defined) simp_all
    moreover have "zparse z (obj_get inp k) = Inr (ws ! i)"
      using list_all2_nthD [OF all i(1)] i(2) by simp
    ultimately show "zparse z (obj_get inp k) = Inr (obj_get out k)" by simp
  qed
qed

text \<open>If every key parses, the object does.\<close>

lemma object_success:
  assumes "list_all2 (\<lambda>(k, z) x. zparse z (obj_get inp k) = Inr x) fs ws"
  shows "zparse (ZObject fs) (JObj inp) = Inr (zobject inp (zip (map fst fs) ws))"
  using assms unfolding object_ok by blast

text \<open>What the coercing schemas return.\<close>

lemma bigintSchema_ok: "zparse bigintSchema v = Inr w \<Longrightarrow> as_bigint w \<noteq> None"
  by (auto simp: bigintSchema_def preprocess_eq bindE_eq_Inr bigint_ok)

lemma numberSchema_ok: "zparse numberSchema v = Inr w \<Longrightarrow> as_num w \<noteq> None"
  by (auto simp: numberSchema_def preprocess_eq bindE_eq_Inr number_ok)

lemma booleanSchema_ok: "zparse booleanSchema v = Inr (JBool (truthy v))"
  unfolding booleanSchema_def preprocess_eq coerce_boolean_def bindE_simps boolean_ok by blast

lemma booleanSchema_typed: "zparse booleanSchema v = Inr w \<Longrightarrow> as_bool w \<noteq> None"
  by (auto simp: booleanSchema_ok)

lemma nullableNumberSchema_ok: "zparse nullableNumberSchema v = Inr w \<Longrightarrow> as_null as_num w \<noteq> None"
  by (auto simp: nullableNumberSchema_def preprocess_eq bindE_eq_Inr nullable_eq number_ok
      split: if_splits)

lemma optional_null_ok:
  "zparse (ZOptional nullableNumberSchema) v = Inr w \<Longrightarrow> as_null as_num w \<noteq> None"
  "zparse (ZOptional (ZNullable ZNumber)) v = Inr w \<Longrightarrow> as_null as_num w \<noteq> None"
  "zparse (ZOptional (ZNullable (ZString p))) v = Inr w \<Longrightarrow> as_null as_string w \<noteq> None"
  by (auto simp: optional_eq nullable_eq number_ok string_ok dest: nullableNumberSchema_ok
      split: if_splits)

lemma status_ok: "zparse (ZEnum invoice_statuses) v = Inr w \<Longrightarrow> as_status w \<noteq> None"
  by (auto simp: enum_ok invoice_statuses_def as_status_def)

lemma asset_ok:
  "zparse (ZDefault (ZEnum [''USDC'', ''XLM'']) (JStr ''USDC'')) v = Inr w \<Longrightarrow> as_asset w \<noteq> None"
  by (auto simp: default_eq enum_ok as_asset_def split: if_splits)

lemma checked_string_ok:
  "zparse (ZString p) v = Inr w \<Longrightarrow> \<exists>s. w = JStr s \<and> p s"
  "zparse (ZPreprocess f (ZString p)) v = Inr w \<Longrightarrow> \<exists>s. w = JStr s \<and> p s"
  by (auto simp: string_ok preprocess_eq bindE_eq_Inr)

lemmas field_ok = booleanSchema_typed bigintSchema_ok numberSchema_ok nullableNumberSchema_ok optional_null_ok
  status_ok asset_ok

lemma parseInvoice_object:
  assumes "parseInvoice zparse native = Inr v"
  obtains ob where "v = JObj ob" "is_Invoice ob"
    "\<exists>s. obj_get ob ''id'' = JStr s \<and> invoice_id s"
    "\<exists>s. obj_get ob ''issuer'' = JStr s \<and> stellar_address s"
    "\<exists>s. obj_get ob ''buyer'' = JStr s \<and> stellar_address s"
proof -
  have "distinct (map fst invoiceFields)" by (simp add: invoiceFields_def)
  then obtain inp ob where v: "v = JObj ob"
    and f: "\<And>k z. (k, z) \<in> set invoiceFields \<Longrightarrow> zparse z (obj_get inp k) = Inr (obj_get ob k)"
    using object_field [OF assms [unfolded parseInvoice_def invoiceSchema_def]] by metis
  have strs: "\<exists>s. obj_get ob ''id'' = JStr s \<and> invoice_id s"
    "\<exists>s. obj_get ob ''issuer'' = JStr s \<and> stellar_address s"
    "\<exists>s. obj_get ob ''buyer'' = JStr s \<and> stellar_address s"
    by (rule checked_string_ok, rule f, simp add: invoiceFields_def)+
  have ids: "as_string (obj_get ob ''id'') \<noteq> None" "as_string (obj_get ob ''issuer'') \<noteq> None"
    "as_string (obj_get ob ''buyer'') \<noteq> None"
    using strs by auto
  have "list_all (\<lambda>(k, z). zparse z (obj_get inp k) = Inr (obj_get ob k)) invoiceFields"
    using f by (auto simp: list_all_iff)
  then have "is_Invoice ob"
    unfolding is_Invoice_def ball_simps invoiceFields_def list.pred_inject prod.case
    by (elim conjE, intro conjI) (rule TrueI | rule ids | (rule field_ok, assumption))+
  then show thesis using that v strs by blast
qed

end

subsection \<open>Normalised maps\<close>

lemma map_of_fold_set:
  "map_of (foldl (\<lambda>ob (k, v). obj_set (f k) v ob) ob kvs) j =
     (case map_of (rev (map (\<lambda>(k, v). (f k, v)) kvs)) j of None \<Rightarrow> map_of ob j | Some v \<Rightarrow> Some v)"
  by (induction kvs arbitrary: ob) (auto simp: map_add_def split: option.splits)

lemma fold_string_keys:
  "foldl (\<lambda>ob (k, x). case k of JStr s \<Rightarrow> obj_set s x ob | _ \<Rightarrow> ob) ob (map (\<lambda>(k, v). (JStr k, v)) kvs) =
   foldl (\<lambda>ob (k, v). obj_set k v ob) ob kvs"
  by (induction kvs arbitrary: ob) auto

lemma normalize_map:
  assumes "distinct (map toCamelCase (map fst kvs))"
  shows "normalize (JMap (map (\<lambda>(k, v). (JStr k, v)) kvs)) = map (\<lambda>(k, v). (toCamelCase k, v)) kvs"
proof -
  have "distinct (map fst kvs)" using assms distinct_map [of toCamelCase "map fst kvs"] by blast
  then have "raw_entries (JMap (map (\<lambda>(k, v). (JStr k, v)) kvs)) = kvs"
    using fold_set_distinct [of id kvs "[]"] by (simp add: raw_entries_def fold_string_keys)
  then show ?thesis
    using fold_set_distinct [OF assms, of "[]"] by (simp add: normalize_def)
qed

subsection \<open>A contract invoice\<close>

text \<open>
  The map a contract call yields for an invoice: snake-case keys, the identifier as bytes,
  amounts and times as bigints, zero for a time that has not come.
\<close>

definition contract_invoice ::
  "nat list \<Rightarrow> string \<Rightarrow> string \<Rightarrow> int \<Rightarrow> int \<Rightarrow> int \<Rightarrow> int \<Rightarrow> string \<Rightarrow> int \<Rightarrow> int \<Rightarrow> int \<Rightarrow>
   bool \<Rightarrow> bool \<Rightarrow> int \<Rightarrow> (string \<times> jsval) list" where
  "contract_invoice bytes iss buy face bps funded due st created fundedAt shippedAt ic bc repaidAt =
     [(''id'', JBytes bytes), (''issuer'', JStr iss), (''buyer'', JStr buy),
      (''face_value'', JBigInt face), (''discount_bps'', JNum (num_int bps)),
      (''funded_amount'', JBigInt funded), (''due_date'', JBigInt due), (''status'', JStr st),
      (''created_at'', JBigInt created), (''funded_at'', JBigInt fundedAt),
      (''shipped_at'', JBigInt shippedAt), (''issuer_confirmed'', JBool ic),
      (''buyer_confirmed'', JBool bc), (''repaid_at'', JBigInt repaidAt)]"

text \<open>A time as the parsed invoice has it.\<close>

definition time_or_null :: "int \<Rightarrow> jsval" where
  "time_or_null t = (if t = 0 then JNull else JNum (num_of_int t))"

definition parsed_invoice ::
  "nat list \<Rightarrow> string \<Rightarrow> string \<Rightarrow> int \<Rightarrow> int \<Rightarrow> int \<Rightarrow> int \<Rightarrow> string \<Rightarrow> int \<Rightarrow> int \<Rightarrow> int \<Rightarrow>
   bool \<Rightarrow> bool \<Rightarrow> int \<Rightarrow> jsval" where
  "parsed_invoice bytes iss buy face bps funded due st created fundedAt shippedAt ic bc repaidAt =
     JObj
     [(''id'', JStr (bytes_hex bytes)), (''issuer'', JStr iss), (''buyer'', JStr buy),
      (''faceValue'', JBigInt face), (''asset'', JStr ''USDC''), (''discountBps'', JNum (num_int bps)),
      (''fundedAmount'', JBigInt funded), (''dueDate'', JNum (num_of_int due)), (''status'', JStr st),
      (''createdAt'', JNum (num_of_int created)), (''fundedAt'', time_or_null fundedAt),
      (''shippedAt'', time_or_null shippedAt), (''issuerConfirmed'', JBool ic),
      (''buyerConfirmed'', JBool bc), (''repaidAt'', time_or_null repaidAt)]"

lemma num_of_int_not_NaN [simp]: "num_of_int i \<noteq> NaN"
  by (simp add: num_of_int_def fl_def Let_def)

lemma camel_keys [simp]:
  "toCamelCase ''id'' = ''id''" "toCamelCase ''issuer'' = ''issuer''" "toCamelCase ''buyer'' = ''buyer''"
  "toCamelCase ''face_value'' = ''faceValue''" "toCamelCase ''discount_bps'' = ''discountBps''"
  "toCamelCase ''funded_amount'' = ''fundedAmount''" "toCamelCase ''due_date'' = ''dueDate''"
  "toCamelCase ''status'' = ''status''" "toCamelCase ''created_at'' = ''createdAt''"
  "toCamelCase ''funded_at'' = ''fundedAt''" "toCamelCase ''shipped_at'' = ''shippedAt''"
  "toCamelCase ''issuer_confirmed'' = ''issuerConfirmed''"
  "toCamelCase ''buyer_confirmed'' = ''buyerConfirmed''" "toCamelCase ''repaid_at'' = ''repaidAt''"
  by (simp_all add: camel_letter_def is_digit_def upper_char_def char_of_def bit_Suc_0_iff)

declare toCamelCase.simps [simp del]

lemma hex_digit_hex: "n < 16 \<Longrightarrow> hex_char (hex_digit n)"
  by (auto simp: hex_char_def hex_digit_def is_digit_def)

lemma bytes_hex_id:
  assumes "length bytes = 32" and "list_all (\<lambda>b. b < 256) bytes"
  shows "invoice_id (bytes_hex bytes)"
proof -
  have "length (bytes_hex bs) = 2 * length bs" for bs
    by (induction bs) (simp_all add: bytes_hex_def)
  moreover have "list_all (\<lambda>b. b < 256) bs \<Longrightarrow> list_all hex_char (bytes_hex bs)" for bs
    by (induction bs) (auto simp: bytes_hex_def hex_digit_hex)
  ultimately show ?thesis using assms by (simp add: invoice_id_def)
qed

context zod_semantics
begin

lemma schema_values:
  "zparse bigintSchema (JBigInt i) = Inr (JBigInt i)"
  "zparse numberSchema (JBigInt i) = Inr (JNum (num_of_int i))"
  "zparse numberSchema (JNum (num_int i)) = Inr (JNum (num_int i))"
  "zparse nullableNumberSchema (JBigInt t) = Inr (time_or_null t)"
  "zparse nullableNumberSchema JUndef = Inr JNull"
  "zparse (ZOptional z) JUndef = Inr JUndef"
  "zparse (ZDefault (ZEnum [''USDC'', ''XLM'']) (JStr ''USDC'')) JUndef = Inr (JStr ''USDC'')"
  "zparse booleanSchema (JBool b) = Inr (JBool b)"
  "zparse (ZEnum xs) (JStr s) = Inr (JStr s) \<longleftrightarrow> s \<in> set xs"
  "zparse (ZString p) (JStr s) = Inr (JStr s) \<longleftrightarrow> p s"
  "zparse (ZPreprocess coerce_id (ZString p)) (JBytes bs) = Inr (JStr (bytes_hex bs)) \<longleftrightarrow> p (bytes_hex bs)"
  by (simp_all add: bigintSchema_def numberSchema_def nullableNumberSchema_def preprocess_eq
      coerce_bigint_def coerce_number_def coerce_nullable_def coerce_id_def nullish_def
      time_or_null_def nullable_eq optional_eq default_eq bigint_ok number_ok enum_ok string_ok
      booleanSchema_ok)

lemma parseInvoice_contract:
  assumes "length bytes = 32" "list_all (\<lambda>b. b < 256) bytes"
    and "stellar_address iss" "stellar_address buy" "st \<in> set invoice_statuses"
  shows "parseInvoice zparse (JMap (map (\<lambda>(k, v). (JStr k, v))
           (contract_invoice bytes iss buy face bps funded due st created fundedAt shippedAt ic bc repaidAt))) =
         Inr (parsed_invoice bytes iss buy face bps funded due st created fundedAt shippedAt ic bc repaidAt)"
proof -
  let ?kvs = "contract_invoice bytes iss buy face bps funded due st created fundedAt shippedAt ic bc repaidAt"
  let ?inp = "map (\<lambda>(k, v). (toCamelCase k, v)) ?kvs"
  let ?ws = "[JStr (bytes_hex bytes), JStr iss, JStr buy, JBigInt face, JStr ''USDC'', JNum (num_int bps),
      JBigInt funded, JNum (num_of_int due), JStr st, JNum (num_of_int created), time_or_null fundedAt,
      time_or_null shippedAt, JBool ic, JBool bc, JUndef, time_or_null repaidAt, JUndef, JUndef,
      JUndef, JUndef, JUndef]"
  have norm: "normalize (JMap (map (\<lambda>(k, v). (JStr k, v)) ?kvs)) = ?inp"
    by (rule normalize_map) (simp add: contract_invoice_def)
  have "list_all2 (\<lambda>(k, z) x. zparse z (obj_get ?inp k) = Inr x) invoiceFields ?ws"
    using assms bytes_hex_id [of bytes]
    by (simp add: invoiceFields_def contract_invoice_def obj_get_def schema_values)
  then have "zparse invoiceSchema (JObj ?inp) = Inr (zobject ?inp (zip (map fst invoiceFields) ?ws))"
    unfolding invoiceSchema_def by (rule object_success)
  moreover have "zobject ?inp (zip (map fst invoiceFields) ?ws) =
      parsed_invoice bytes iss buy face bps funded due st created fundedAt shippedAt ic bc repaidAt"
    by (simp add: zobject_def invoiceFields_def contract_invoice_def obj_has_def parsed_invoice_def
        time_or_null_def)
  ultimately show ?thesis unfolding parseInvoice_def norm by simp
qed

end

subsection \<open>Properties\<close>

text \<open>
  C19. Whatever the contract returns, an invoice that \<open>parseInvoice\<close> accepts has every field of the
  interface \<open>Invoice\<close> at its type, a 64-digit hexadecimal identifier, and well-formed addresses
  of issuer and buyer.
\<close>

theorem parseInvoice_typed:
  assumes "zod_semantics zparse" and "parseInvoice zparse native = Inr v"
  shows "\<exists>ob. v = JObj ob \<and> is_Invoice ob \<and> invoice_id (inv_id (invoice_of ob)) \<and>
              stellar_address (inv_issuer (invoice_of ob)) \<and>
              stellar_address (inv_buyer (invoice_of ob))"
proof -
  obtain ob where "v = JObj ob" "is_Invoice ob" "\<exists>s. obj_get ob ''id'' = JStr s \<and> invoice_id s"
    "\<exists>s. obj_get ob ''issuer'' = JStr s \<and> stellar_address s"
    "\<exists>s. obj_get ob ''buyer'' = JStr s \<and> stellar_address s"
    using zod_semantics.parseInvoice_object [OF assms] .
  then show ?thesis by (auto simp: invoice_of_def)
qed

lemma demo_address [simp]: "stellar_address (CHR ''G'' # replicate 55 (CHR ''A''))"
  by (simp add: stellar_address_def base32_char_def list_all_iff)

lemma demo_parse:
  "parseInvoice ref_zparse (JMap (map (\<lambda>(k, v). (JStr k, v))
     (contract_invoice (replicate 32 171) (CHR ''G'' # replicate 55 (CHR ''A''))
        (CHR ''G'' # replicate 55 (CHR ''A'')) 5 500 0 9 ''Listed'' 7 0 0 False False 0))) =
   Inr (parsed_invoice (replicate 32 171) (CHR ''G'' # replicate 55 (CHR ''A''))
        (CHR ''G'' # replicate 55 (CHR ''A'')) 5 500 0 9 ''Listed'' 7 0 0 False False 0)"
  by (rule ref_zod.parseInvoice_contract) (simp_all add: list_all_iff invoice_statuses_def)

theorem parseInvoice_typed_witness:
  "\<exists>ob. parsed_invoice (replicate 32 171) (CHR ''G'' # replicate 55 (CHR ''A''))
          (CHR ''G'' # replicate 55 (CHR ''A'')) 5 500 0 9 ''Listed'' 7 0 0 False False 0 = JObj ob \<and>
        is_Invoice ob \<and> invoice_id (inv_id (invoice_of ob))"
  using parseInvoice_typed [OF ref_zod.zod_semantics_axioms demo_parse] by blast

text \<open>
  An invoice as the contract stores it is read back without loss: the map with snake-case
  keys becomes the object with camel-case keys, the 32 identifier bytes become 64 hexadecimal
  digits, amounts stay bigints of any size, times become numbers with zero read as \<open>null\<close>, the
  asset defaults to USDC and absent optional fields stay absent.
\<close>

theorem parseInvoice_reads_contract:
  assumes "zod_semantics zparse"
    and "length bytes = 32" "list_all (\<lambda>b. b < 256) bytes"
    and "stellar_address iss" "stellar_address buy" "st \<in> set invoice_statuses"
  shows "parseInvoice zparse (JMap (map (\<lambda>(k, v). (JStr k, v))
           (contract_invoice bytes iss buy face bps funded due st created fundedAt shippedAt ic bc repaidAt))) =
         Inr (parsed_invoice bytes iss buy face bps funded due st created fundedAt shippedAt ic bc repaidAt)"
  using assms by (rule zod_semantics.parseInvoice_contract)

theorem parseInvoice_reads_contract_witness:
  "parseInvoice ref_zparse (JMap (map (\<lambda>(k, v). (JStr k, v))
     (contract_invoice (replicate 32 10) (CHR ''G'' # replicate 55 (CHR ''A''))
        (CHR ''G'' # replicate 55 (CHR ''A'')) 5 500 0 9 ''Funded'' 7 8 0 True False 0))) =
   Inr (parsed_invoice (replicate 32 10) (CHR ''G'' # replicate 55 (CHR ''A''))
        (CHR ''G'' # replicate 55 (CHR ''A'')) 5 500 0 9 ''Funded'' 7 8 0 True False 0)"
  by (rule parseInvoice_reads_contract [OF ref_zod.zod_semantics_axioms])
    (simp_all add: list_all_iff invoice_statuses_def)

end
