(* ===== verification/Clients.thy ===== *)
theory Clients
  imports BaseClient Schemas
begin

text \<open>
  The contract clients of the SDK (\<open>packages/sdk/src/clients/\<close>): invoice, pool, escrow, registry,
  token and agent registry. Every method builds its arguments, in order, and hands them to
  \<open>writeContract\<close> or \<open>readContract\<close>; an argument that cannot be built rejects the promise before
  anything is called.

  Two interfaces are what the callers of the SDK rely on: \<open>sdk_mutation\<close>, an operation that signs
  at most once and never sends twice, and \<open>sdk_query\<close>, an operation that only reads. Every method
  is an interpretation of one of them.
\<close>

subsection \<open>Arguments\<close>

text \<open>\<open>Buffer.from(s, "hex")\<close>: pairs of digits up to the first pair that is not one.\<close>

fun buffer_from_hex :: "string \<Rightarrow> nat list" where
  "buffer_from_hex (a # b # cs) =
     (case (base_digit 16 a, base_digit 16 b) of
        (Some x, Some y) \<Rightarrow> (16 * x + y) # buffer_from_hex cs
      | _ \<Rightarrow> [])"
| "buffer_from_hex s = []"

definition idArg :: "('w, 'a, 't, 'v) sdk_env \<Rightarrow> string \<Rightarrow> exn + 'v" where
  "idArg E invoiceIdHex = Inr (scvBytes E (buffer_from_hex invoiceIdHex))"

definition bigintArg :: "('w, 'a, 't, 'v) sdk_env \<Rightarrow> int \<Rightarrow> string \<Rightarrow> exn + 'v" where
  "bigintArg E i ty = nativeToScVal E (JBigInt i) (Some ty)"

definition withArgs ::
  "(exn + 'v) list \<Rightarrow> ('v list \<Rightarrow> ('w, 'a, 't, 'v, 'r) sdk_io) \<Rightarrow> ('w, 'a, 't, 'v, 'r) sdk_io" where
  "withArgs xs f = bindIO (liftE (mapE (\<lambda>x. x) xs)) f"

text \<open>\<open>.then(() => true)\<close>.\<close>

definition thenTrue :: "('w, 'a, 't, 'v, 'r) sdk_io \<Rightarrow> ('w, 'a, 't, 'v, bool) sdk_io" where
  "thenTrue m = bindIO m (\<lambda>_. returnIO True)"

definition parseNative ::
  "('w, 'a, 't, 'v) sdk_env \<Rightarrow> (jsval \<Rightarrow> exn + 'r) \<Rightarrow> 'v \<Rightarrow> exn + 'r" where
  "parseNative E f val = bindE (scValToNative E val) f"

definition parseList :: "(jsval \<Rightarrow> exn + jsval) \<Rightarrow> jsval \<Rightarrow> exn + jsval list" where
  "parseList f native = (case native of JArr xs \<Rightarrow> mapE f xs | _ \<Rightarrow> Inr [])"

definition parseBigint :: "jsval \<Rightarrow> exn + int" where
  "parseBigint native =
     (case native of
        JBigInt i \<Rightarrow> Inr i
      | _ \<Rightarrow> bigint_of_string (js_String (js_or native (JNum (Fin 0)))))"

subsection \<open>Invoice client\<close>

definition invoice_initialize where
  "invoice_initialize E c adminAddress registryContractAddress signer =
     withArgs [addressScVal E adminAddress, addressScVal E registryContractAddress]
       (\<lambda>args. writeContract E c ''initialize'' args signer)"

definition invoice_create where
  "invoice_create E c iss buy faceValue dueDate signer =
     withArgs [addressScVal E iss, addressScVal E buy, bigintArg E faceValue ''u128'',
               bindE (bigint_of_num dueDate) (\<lambda>d. bigintArg E d ''u64'')]
       (\<lambda>args. writeContract E c ''create'' args signer)"

definition invoice_submitAttestation where
  "invoice_submitAttestation E c invoiceIdHex payload signature signer =
     withArgs [idArg E invoiceIdHex, Inr (scvBytes E payload), Inr (scvBytes E signature)]
       (\<lambda>args. writeContract E c ''submit_attestation'' args signer)"

definition invoice_listForFinancing where
  "invoice_listForFinancing E c invoiceIdHex bps signer =
     withArgs [idArg E invoiceIdHex, nativeToScVal E (JNum bps) (Some ''u32'')]
       (\<lambda>args. thenTrue (writeContract E c ''list_for_financing'' args signer))"

definition invoice_markShipped where
  "invoice_markShipped E c invoiceIdHex signer =
     withArgs [idArg E invoiceIdHex]
       (\<lambda>args. thenTrue (writeContract E c ''mark_shipped'' args signer))"

definition invoice_confirmDelivery where
  "invoice_confirmDelivery E c invoiceIdHex confirmerAddress signer =
     withArgs [idArg E invoiceIdHex, addressScVal E confirmerAddress]
       (\<lambda>args. thenTrue (writeContract E c ''confirm_delivery'' args signer))"

definition invoice_repay where
  "invoice_repay E c invoiceIdHex signer =
     withArgs [idArg E invoiceIdHex] (\<lambda>args. thenTrue (writeContract E c ''repay'' args signer))"

definition invoice_triggerDefault where
  "invoice_triggerDefault E c invoiceIdHex signer =
     withArgs [idArg E invoiceIdHex]
       (\<lambda>args. thenTrue (writeContract E c ''trigger_default'' args signer))"

definition invoice_get where
  "invoice_get E zparse c invoiceIdHex signer =
     withArgs [idArg E invoiceIdHex]
       (\<lambda>args. readContract E c ''get'' args signer (parseNative E (parseInvoice zparse)))"

definition invoice_getByStatus where
  "invoice_getByStatus E zparse c st signer =
     withArgs [nativeToScVal E (JStr (status_string st)) (Some ''symbol'')]
       (\<lambda>args. readContract E c ''get_by_status'' args signer
                 (parseNative E (parseList (parseInvoice zparse))))"

definition invoice_getByIssuer where
  "invoice_getByIssuer E zparse c address signer =
     withArgs [addressScVal E address]
       (\<lambda>args. readContract E c ''get_by_issuer'' args signer
                 (parseNative E (parseList (parseInvoice zparse))))"

definition invoice_getByBuyer where
  "invoice_getByBuyer E zparse c address signer =
     withArgs [addressScVal E address]
       (\<lambda>args. readContract E c ''get_by_buyer'' args signer
                 (parseNative E (parseList (parseInvoice zparse))))"

subsection \<open>Pool client\<close>

definition pool_initialize where
  "pool_initialize E c adminAddress signer =
     withArgs [addressScVal E adminAddress] (\<lambda>args. writeContract E c ''initialize'' args signer)"

definition pool_deposit where
  "pool_deposit E c lp usdcAmount signer =
     withArgs [addressScVal E lp, bigintArg E usdcAmount ''u128'']
       (\<lambda>args. writeContract E c ''deposit'' args signer)"

definition pool_withdraw where
  "pool_withdraw E c lp shares signer =
     withArgs [addressScVal E lp, bigintArg E shares ''u128'']
       (\<lambda>args. writeContract E c ''withdraw'' args signer)"

definition pool_fundInvoice where
  "pool_fundInvoice E c invoiceIdHex signer =
     withArgs [idArg E invoiceIdHex]
       (\<lambda>args. thenTrue (writeContract E c ''fund_invoice'' args signer))"

definition pool_receiveRepayment where
  "pool_receiveRepayment E c invoiceIdHex amount signer =
     withArgs [idArg E invoiceIdHex, bigintArg E amount ''u128'']
       (\<lambda>args. thenTrue (writeContract E c ''receive_repayment'' args signer))"

definition pool_handleDefault where
  "pool_handleDefault E c invoiceIdHex signer =
     withArgs [idArg E invoiceIdHex]
       (\<lambda>args. thenTrue (writeContract E c ''handle_default'' args signer))"

definition pool_getStats where
  "pool_getStats E zparse c signer =
     readContract E c ''get_stats'' [] signer (parseNative E (parsePoolStats zparse))"

definition pool_getLPPosition where
  "pool_getLPPosition E zparse c lp signer =
     withArgs [addressScVal E lp]
       (\<lambda>args. readContract E c ''get_lp_position'' args signer (parseNative E (parseLPPosition zparse)))"

definition pool_getUtilizationRate where
  "pool_getUtilizationRate E c signer =
     readContract E c ''get_utilization_rate'' [] signer
       (parseNative E (\<lambda>v. Inr (js_Number (js_or v (JNum (Fin 0))))))"

subsection \<open>Escrow client\<close>

definition escrow_initialize where
  "escrow_initialize E c adminAddress signer =
     withArgs [addressScVal E adminAddress] (\<lambda>args. writeContract E c ''initialize'' args signer)"

definition escrow_lock where
  "escrow_lock E c invoiceIdHex amount signer =
     withArgs [idArg E invoiceIdHex, bigintArg E amount ''u128'']
       (\<lambda>args. thenTrue (writeContract E c ''lock'' args signer))"

definition escrow_releaseToIssuer where
  "escrow_releaseToIssuer E c invoiceIdHex signer =
     withArgs [idArg E invoiceIdHex]
       (\<lambda>args. thenTrue (writeContract E c ''release_to_issuer'' args signer))"

definition escrow_releaseToPool where
  "escrow_releaseToPool E c invoiceIdHex repaymentAmount signer =
     withArgs [idArg E invoiceIdHex, bigintArg E repaymentAmount ''u128'']
       (\<lambda>args. thenTrue (writeContract E c ''release_to_pool'' args signer))"

definition escrow_handleDefault where
  "escrow_handleDefault E c invoiceIdHex signer =
     withArgs [idArg E invoiceIdHex]
       (\<lambda>args. thenTrue (writeContract E c ''handle_default'' args signer))"

definition escrow_getLocked where
  "escrow_getLocked E c invoiceIdHex signer =
     withArgs [idArg E invoiceIdHex]
       (\<lambda>args. readContract E c ''get_locked'' args signer (parseNative E parseBigint))"

subsection \<open>Registry client\<close>

definition registry_initialize where
  "registry_initialize E c adminAddress signer =
     withArgs [addressScVal E adminAddress] (\<lambda>args. writeContract E c ''initialize'' args signer)"

text \<open>The metadata is an object of strings; its type is left to the library.\<close>

definition registry_registerIssuer where
  "registry_registerIssuer E c address (metadata :: (string \<times> string) list) signer =
     withArgs [addressScVal E address, nativeToScVal E (JObj (map (\<lambda>(k, v). (k, JStr v)) metadata)) None]
       (\<lambda>args. writeContract E c ''register_issuer'' args signer)"

definition registry_registerBuyer where
  "registry_registerBuyer E c address (metadata :: (string \<times> string) list) signer =
     withArgs [addressScVal E address, nativeToScVal E (JObj (map (\<lambda>(k, v). (k, JStr v)) metadata)) None]
       (\<lambda>args. writeContract E c ''register_buyer'' args signer)"

definition registry_isVerified where
  "registry_isVerified E c address signer =
     withArgs [addressScVal E address]
       (\<lambda>args. readContract E c ''is_verified'' args signer (parseNative E (\<lambda>v. Inr (truthy v))))"

definition registry_getProfile where
  "registry_getProfile E zparse c address signer =
     withArgs [addressScVal E address]
       (\<lambda>args. readContract E c ''get_profile'' args signer (parseNative E (parseProfile zparse)))"

definition registry_revoke where
  "registry_revoke E c address signer =
     withArgs [addressScVal E address] (\<lambda>args. writeContract E c ''revoke'' args signer)"

subsection \<open>Token and agent registry clients\<close>

definition token_forUSDC ::
  "('w, 'a, 't, 'v) sdk_env \<Rightarrow> SDKConfig \<Rightarrow> exn + BaseContractClient" where
  "token_forUSDC E activeCfg =
     (let config = getConfig activeCfg
      in bindE (assetContractId E (assetCode (usdc config)) (issuer (usdc config)) (networkPassphrase config))
           (\<lambda>sacContractId. newClient E sacContractId noOptions))"

definition token_allowance where
  "token_allowance E c owner spender signer =
     withArgs [addressScVal E owner, addressScVal E spender]
       (\<lambda>args. readContract E c ''allowance'' args signer (parseNative E parseBigint))"

definition token_approve where
  "token_approve E c owner spender amount expirationLedger signer =
     withArgs [addressScVal E owner, addressScVal E spender, bigintArg E amount ''i128'',
               nativeToScVal E (JNum expirationLedger) (Some ''u32'')]
       (\<lambda>args. writeContract E c ''approve'' args signer)"

definition agentRegistry_getAgent where
  "agentRegistry_getAgent E zparse c agentId signer =
     withArgs [nativeToScVal E (JStr agentId) (Some ''symbol'')]
       (\<lambda>args. readContract E c ''get_agent'' args signer (parseNative E (parseAgent zparse)))"

lemmas client_defs =
  invoice_initialize_def invoice_create_def invoice_submitAttestation_def
  invoice_listForFinancing_def invoice_markShipped_def invoice_confirmDelivery_def
  invoice_repay_def invoice_triggerDefault_def invoice_get_def invoice_getByStatus_def
  invoice_getByIssuer_def invoice_getByBuyer_def pool_initialize_def pool_deposit_def
  pool_withdraw_def pool_fundInvoice_def pool_receiveRepayment_def pool_handleDefault_def
  pool_getStats_def pool_getLPPosition_def pool_getUtilizationRate_def escrow_initialize_def
  escrow_lock_def escrow_releaseToIssuer_def escrow_releaseToPool_def escrow_handleDefault_def
  escrow_getLocked_def registry_initialize_def registry_registerIssuer_def
  registry_registerBuyer_def registry_isVerified_def registry_getProfile_def
  registry_revoke_def token_allowance_def token_approve_def agentRegistry_getAgent_def

subsection \<open>Interfaces\<close>

text \<open>
  One signing prompt at most, a bounded number of sends, and a repeated send only after a
  refusal.
\<close>

definition signs_once ::
  "BaseContractClient \<Rightarrow> ('w, 'a, 't, 'v) sdk_state \<Rightarrow> ('w, 'a, 't, 'v) sdk_state \<Rightarrow> bool" where
  "signs_once c s s' \<longleftrightarrow>
     (\<exists>es. history s' = history s @ es \<and> length (prompts es) \<le> 1 \<and>
           int (length (sends es)) \<le> max 1 (maxAttempts (mutationRetryPolicy c)) \<and>
           (\<forall>p \<in> set (butlast (sends es)). \<exists>a. snd p = Inr a \<and> send_status a = TRY_AGAIN_LATER))"

locale sdk_mutation =
  fixes E :: "('w, 'a, 't, 'v) sdk_env" and c :: BaseContractClient
    and op :: "('w, 'a, 't, 'v, 'r) sdk_io"
  assumes disciplined:
    "runs op (\<lambda>cfg es r. sends_ok E (networkPassphrase cfg) (sends_allowed c) (sends es) (prompts es) \<and>
                         length (polls es) \<le> 90)"
begin

text \<open>What a caller of a mutation relies on.\<close>

lemma at_most_one_prompt: "signs_once c s (snd (op s))"
  using disciplined unfolding runs_def sends_ok_def signs_once_def by metis

lemma keeps_config: "activeConfig (snd (op s)) = activeConfig s"
  using disciplined unfolding runs_def by blast

end

locale sdk_query =
  fixes E :: "('w, 'a, 't, 'v) sdk_env" and c :: BaseContractClient
    and op :: "('w, 'a, 't, 'v, 'r) sdk_io"
  assumes reads_only: "runs op (\<lambda>cfg es r. list_all is_read es)"
begin

lemma no_effect:
  "\<exists>es. history (snd (op s)) = history s @ es \<and> prompts es = [] \<and> sends es = [] \<and> polls es = []"
proof -
  obtain es where "history (snd (op s)) = history s @ es" "list_all is_read es"
    using reads_only unfolding runs_def by blast
  then show ?thesis using views_prepare list_all_read_prepare by blast
qed

end

text \<open>A query keeps the rules of a mutation: it sends nothing.\<close>

sublocale sdk_query \<subseteq> sdk_mutation E c op
proof
  show "runs op (\<lambda>cfg es r. sends_ok E (networkPassphrase cfg) (sends_allowed c) (sends es) (prompts es) \<and>
                            length (polls es) \<le> 90)"
    by (rule runs_conseq [OF reads_only])
      (simp add: sends_ok_def views_prepare list_all_read_prepare)
qed

lemma withArgs_runs:
  assumes "\<And>args. runs (f args) Q" and "\<And>cfg e. Q cfg [] (Inl e)"
  shows "runs (withArgs xs f) Q"
  using assms by (cases "mapE (\<lambda>x. x) xs") (auto simp: withArgs_def intro!: runs_throw)

abbreviation disciplined_run ::
  "('w, 'a, 't, 'v) sdk_env \<Rightarrow> BaseContractClient \<Rightarrow> SDKConfig \<Rightarrow> ('a, 't, 'v) rpc_event list \<Rightarrow>
   exn + 'r \<Rightarrow> bool" where
  "disciplined_run E c \<equiv> \<lambda>cfg es r. sends_ok E (networkPassphrase cfg) (sends_allowed c) (sends es) (prompts es) \<and>
                                    length (polls es) \<le> 90"

lemma disciplined_write: "runs (writeContract E c meth args pk) (disciplined_run E c)"
  by (rule runs_conseq [OF writeContract_runs]) (simp add: write_run_sends write_run_polls)

lemma disciplined_thenTrue: "runs m (disciplined_run E c) \<Longrightarrow> runs (thenTrue m) (disciplined_run E c)"
  unfolding thenTrue_def by (erule runs_bind) (auto intro!: runs_return)

lemma disciplined_stop: "disciplined_run E c cfg [] (Inl e)"
  by (simp add: sends_ok_def)

lemmas mutation_rules = withArgs_runs disciplined_write disciplined_thenTrue disciplined_stop

lemma query_stop: "list_all is_read []"
  by simp

lemmas query_rules = withArgs_runs readContract_runs query_stop

interpretation invoice_initialize: sdk_mutation E c "invoice_initialize E c a r pk" for E c a r pk
  by unfold_locales (unfold client_defs, intro mutation_rules)

interpretation invoice_create: sdk_mutation E c "invoice_create E c i b f d pk" for E c i b f d pk
  by unfold_locales (unfold client_defs, intro mutation_rules)

interpretation invoice_submitAttestation: sdk_mutation E c "invoice_submitAttestation E c i p g pk"
  for E c i p g pk
  by unfold_locales (unfold client_defs, intro mutation_rules)

interpretation invoice_listForFinancing: sdk_mutation E c "invoice_listForFinancing E c i b pk" for E c i b pk
  by unfold_locales (unfold client_defs, intro mutation_rules)

interpretation invoice_markShipped: sdk_mutation E c "invoice_markShipped E c i pk" for E c i pk
  by unfold_locales (unfold client_defs, intro mutation_rules)

interpretation invoice_confirmDelivery: sdk_mutation E c "invoice_confirmDelivery E c i a pk" for E c i a pk
  by unfold_locales (unfold client_defs, intro mutation_rules)

interpretation invoice_repay: sdk_mutation E c "invoice_repay E c i pk" for E c i pk
  by unfold_locales (unfold client_defs, intro mutation_rules)

interpretation invoice_triggerDefault: sdk_mutation E c "invoice_triggerDefault E c i pk" for E c i pk
  by unfold_locales (unfold client_defs, intro mutation_rules)

interpretation invoice_get: sdk_query E c "invoice_get E z c i pk" for E z c i pk
  by unfold_locales (unfold client_defs, intro query_rules)

interpretation invoice_getByStatus: sdk_query E c "invoice_getByStatus E z c st pk" for E z c st pk
  by unfold_locales (unfold client_defs, intro query_rules)

interpretation invoice_getByIssuer: sdk_query E c "invoice_getByIssuer E z c a pk" for E z c a pk
  by unfold_locales (unfold client_defs, intro query_rules)

interpretation invoice_getByBuyer: sdk_query E c "invoice_getByBuyer E z c a pk" for E z c a pk
  by unfold_locales (unfold client_defs, intro query_rules)

interpretation pool_initialize: sdk_mutation E c "pool_initialize E c a pk" for E c a pk
  by unfold_locales (unfold client_defs, intro mutation_rules)

interpretation pool_deposit: sdk_mutation E c "pool_deposit E c lp n pk" for E c lp n pk
  by unfold_locales (unfold client_defs, intro mutation_rules)

interpretation pool_withdraw: sdk_mutation E c "pool_withdraw E c lp n pk" for E c lp n pk
  by unfold_locales (unfold client_defs, intro mutation_rules)

interpretation pool_fundInvoice: sdk_mutation E c "pool_fundInvoice E c i pk" for E c i pk
  by unfold_locales (unfold client_defs, intro mutation_rules)

interpretation pool_receiveRepayment: sdk_mutation E c "pool_receiveRepayment E c i n pk" for E c i n pk
  by unfold_locales (unfold client_defs, intro mutation_rules)

interpretation pool_handleDefault: sdk_mutation E c "pool_handleDefault E c i pk" for E c i pk
  by unfold_locales (unfold client_defs, intro mutation_rules)

interpretation pool_getStats: sdk_query E c "pool_getStats E z c pk" for E z c pk
  by unfold_locales (unfold client_defs, intro query_rules)

interpretation pool_getLPPosition: sdk_query E c "pool_getLPPosition E z c lp pk" for E z c lp pk
  by unfold_locales (unfold client_defs, intro query_rules)

interpretation pool_getUtilizationRate: sdk_query E c "pool_getUtilizationRate E c pk" for E c pk
  by unfold_locales (unfold client_defs, intro query_rules)

interpretation escrow_initialize: sdk_mutation E c "escrow_initialize E c a pk" for E c a pk
  by unfold_locales (unfold client_defs, intro mutation_rules)

interpretation escrow_lock: sdk_mutation E c "escrow_lock E c i n pk" for E c i n pk
  by unfold_locales (unfold client_defs, intro mutation_rules)

interpretation escrow_releaseToIssuer: sdk_mutation E c "escrow_releaseToIssuer E c i pk" for E c i pk
  by unfold_locales (unfold client_defs, intro mutation_rules)

interpretation escrow_releaseToPool: sdk_mutation E c "escrow_releaseToPool E c i n pk" for E c i n pk
  by unfold_locales (unfold client_defs, intro mutation_rules)

interpretation escrow_handleDefault: sdk_mutation E c "escrow_handleDefault E c i pk" for E c i pk
  by unfold_locales (unfold client_defs, intro mutation_rules)

interpretation escrow_getLocked: sdk_query E c "escrow_getLocked E c i pk" for E c i pk
  by unfold_locales (unfold client_defs, intro query_rules)

interpretation registry_initialize: sdk_mutation E c "registry_initialize E c a pk" for E c a pk
  by unfold_locales (unfold client_defs, intro mutation_rules)

interpretation registry_registerIssuer: sdk_mutation E c "registry_registerIssuer E c a m pk" for E c a m pk
  by unfold_locales (unfold client_defs, intro mutation_rules)

interpretation registry_registerBuyer: sdk_mutation E c "registry_registerBuyer E c a m pk" for E c a m pk
  by unfold_locales (unfold client_defs, intro mutation_rules)

interpretation registry_isVerified: sdk_query E c "registry_isVerified E c a pk" for E c a pk
  by unfold_locales (unfold client_defs, intro query_rules)

interpretation registry_getProfile: sdk_query E c "registry_getProfile E z c a pk" for E z c a pk
  by unfold_locales (unfold client_defs, intro query_rules)

interpretation registry_revoke: sdk_mutation E c "registry_revoke E c a pk" for E c a pk
  by unfold_locales (unfold client_defs, intro mutation_rules)

interpretation token_allowance: sdk_query E c "token_allowance E c a b pk" for E c a b pk
  by unfold_locales (unfold client_defs, intro query_rules)

interpretation token_approve: sdk_mutation E c "token_approve E c a b n x pk" for E c a b n x pk
  by unfold_locales (unfold client_defs, intro mutation_rules)

interpretation agentRegistry_getAgent: sdk_query E c "agentRegistry_getAgent E z c a pk" for E z c a pk
  by unfold_locales (unfold client_defs, intro query_rules)

subsection \<open>Identifiers\<close>

lemma base_digit_hex_digit [simp]: "n < 16 \<Longrightarrow> base_digit 16 (hex_digit n) = Some n"
  by (auto simp: base_digit_def hex_digit_def is_digit_def Let_def)

lemma buffer_from_hex_bytes:
  "list_all (\<lambda>b. b < 256) bytes \<Longrightarrow> buffer_from_hex (bytes_hex bytes) = bytes"
  by (induction bytes) (auto simp: bytes_hex_def)

subsection \<open>Results\<close>

lemma withArgs_Inr:
  "withArgs xs f s = (Inr r, s') \<longleftrightarrow> (\<exists>args. mapE (\<lambda>x. x) xs = Inr args \<and> f args s = (Inr r, s'))"
  by (cases "mapE (\<lambda>x. x) xs") (auto simp: withArgs_def throwIO_def)

lemma thenTrue_Inr: "thenTrue m s = (Inr b, s') \<longleftrightarrow> b \<and> (\<exists>h. m s = (Inr h, s'))"
  by (auto simp: thenTrue_def bindIO_eq_Inr returnIO_def)

text \<open>What a write that returned has done on the network.\<close>

definition written ::
  "('w, 'a, 't, 'v) sdk_env \<Rightarrow> BaseContractClient \<Rightarrow> string \<Rightarrow> 'v list \<Rightarrow> string \<Rightarrow>
   ('w, 'a, 't, 'v) sdk_state \<Rightarrow> ('w, 'a, 't, 'v) sdk_state \<Rightarrow> bool" where
  "written E c meth args pk s s' \<longleftrightarrow>
     (\<exists>es h tx ok account. history s' = history s @ es \<and>
        EvGetAccount pk (Inr account) \<in> set es \<and>
        contractTx E c (activeConfig s) account meth args = Inr tx \<and>
        EvSimulate tx (Inr (SimOk ok)) \<in> set es \<and>
        sends es \<noteq> [] \<and> polls es \<noteq> [] \<and> last (polls es) = (h, Inr SUCCESS))"

lemma writeContract_written:
  assumes "writeContract E c meth args pk s = (Inr h, s')"
  shows "written E c meth args pk s s'"
proof -
  obtain es where "history s' = history s @ es" "write_run E c meth args pk (activeConfig s) es (Inr h)"
    using runsD [OF writeContract_runs assms] by blast
  then show ?thesis using write_run_success unfolding written_def by metis
qed

lemma mapE_id_Inr: "mapE (\<lambda>x. x) xs = Inr ys \<longleftrightarrow> xs = map Inr ys"
  by (auto simp: mapE_eq_Inr list_all2_conv_all_nth intro!: nth_equalityI)

lemma readContract_Inr:
  assumes "readContract E c meth args pk parse s = (Inr r, s')"
  shows "\<exists>v. parse v = Inr r"
  using assms
  by (auto simp: readContract_def bindIO_eq_Inr throwIO_def liftE_def split: option.splits)

lemma parseList_Inr:
  "parseList f native = Inr ys \<Longrightarrow> \<forall>y \<in> set ys. \<exists>x. f x = Inr y"
  by (cases native) (auto simp: parseList_def mapE_eq_Inr list_all2_conv_all_nth in_set_conv_nth,
      metis)

subsection \<open>Properties\<close>

text \<open>
  The identifier of an invoice survives the way through the application: the 32 bytes the
  contract stores, printed as hexadecimal digits by the invoice schema, are the bytes that a
  later call with that identifier passes to the contract.
\<close>

theorem invoice_id_roundtrip:
  assumes "list_all (\<lambda>b. b < 256) bytes"
  shows "idArg E (bytes_hex bytes) = Inr (scvBytes E bytes)"
  using assms by (simp add: idArg_def buffer_from_hex_bytes)

theorem invoice_id_roundtrip_witness:
  "idArg demo_env (bytes_hex [0, 171, 255]) = Inr (scvBytes demo_env [0, 171, 255])"
  by (rule invoice_id_roundtrip) simp

text \<open>
  The operations that move money (deposit, withdraw, fund, repay, approve) prompt the user
  at most once per call, send at most \<open>max 1 maxAttempts\<close> times, and repeat a send only after a
  \<open>TRY_AGAIN_LATER\<close>, for every behaviour of the server and the wallet.
\<close>

theorem money_operations_prompt_once:
  "signs_once c s (snd (pool_deposit E c lp n pk s)) \<and>
   signs_once c s (snd (pool_withdraw E c lp n pk s)) \<and>
   signs_once c s (snd (pool_fundInvoice E c i pk s)) \<and>
   signs_once c s (snd (invoice_repay E c i pk s)) \<and>
   signs_once c s (snd (token_approve E c lp b n x pk s))"
  by (simp add: pool_deposit.at_most_one_prompt pool_withdraw.at_most_one_prompt
      pool_fundInvoice.at_most_one_prompt invoice_repay.at_most_one_prompt
      token_approve.at_most_one_prompt)


text \<open>
  A list read from the chain is all or nothing: when \<open>getByStatus\<close>, \<open>getByIssuer\<close> or \<open>getByBuyer\<close>
  returns, every element is an \<open>Invoice\<close> with a well-formed identifier; one malformed invoice
  rejects the whole call.
\<close>

theorem getBy_typed:
  assumes "zod_semantics zparse"
    and "invoice_getByStatus E zparse c st pk s = (Inr invs, s') \<or>
         invoice_getByIssuer E zparse c a pk s = (Inr invs, s') \<or>
         invoice_getByBuyer E zparse c a pk s = (Inr invs, s')"
    and "v \<in> set invs"
  shows "\<exists>ob. v = JObj ob \<and> is_Invoice ob \<and> invoice_id (inv_id (invoice_of ob))"
proof -
  obtain native where "parseList (parseInvoice zparse) native = Inr invs"
    using assms(2) unfolding invoice_getByStatus_def invoice_getByIssuer_def invoice_getByBuyer_def
      withArgs_Inr by (auto dest!: readContract_Inr simp: parseNative_def bindE_eq_Inr)
  then obtain x where "parseInvoice zparse x = Inr v" using parseList_Inr assms(3) by blast
  then obtain ob where "v = JObj ob" "is_Invoice ob" "\<exists>s. obj_get ob ''id'' = JStr s \<and> invoice_id s"
    using zod_semantics.parseInvoice_object [OF assms(1)] by metis
  then show ?thesis by (auto simp: invoice_of_def)
qed

lemma readContract_succeeds:
  assumes "newServer E (sorobanRpcUrl (activeConfig s)) = Inr ()"
    and "\<And>w. fst (getAccount E (sorobanRpcUrl (activeConfig s)) pk w) = Inr account"
    and "contractTx E c (activeConfig s) account meth args = Inr tx"
    and "\<And>w. fst (simulate E (sorobanRpcUrl (activeConfig s)) tx w) = Inr (SimOk ok)"
    and "retval ok = Some v"
  shows "fst (readContract E c meth args pk parse s) = parse v"
  using simulateCall_succeeds [OF assms(1-4)] assms(5)
  by (simp add: readContract_def fst_bindIO liftE_def)

definition demo_list :: "jsval list" where
  "demo_list = [JMap (map (\<lambda>(k, v). (JStr k, v))
     (contract_invoice (replicate 32 171) (CHR ''G'' # replicate 55 (CHR ''A''))
        (CHR ''G'' # replicate 55 (CHR ''A'')) 5 500 0 9 ''Listed'' 7 0 0 False False 0))]"

lemma demo_getByStatus:
  fixes E
  defines "E \<equiv> demo_env\<lparr>simulate := \<lambda>url t w. (Inr (SimOk \<lparr>retval = Some (JArr demo_list),
                           minResourceFee = None, footprint = None\<rparr>), w)\<rparr>"
  shows "fst (invoice_getByStatus E ref_zparse demo_client Listed ''G'' (demo_state [])) =
         Inr [parsed_invoice (replicate 32 171) (CHR ''G'' # replicate 55 (CHR ''A''))
                (CHR ''G'' # replicate 55 (CHR ''A'')) 5 500 0 9 ''Listed'' 7 0 0 False False 0]"
proof -
  have "fst (readContract E demo_client ''get_by_status'' [JStr ''Listed''] ''G''
          (parseNative E (parseList (parseInvoice ref_zparse))) (demo_state [])) =
        parseNative E (parseList (parseInvoice ref_zparse)) (JArr demo_list)"
    by (rule readContract_succeeds [where account = "''G''" and tx = "''get_by_status''" and
          ok = "\<lparr>retval = Some (JArr demo_list), minResourceFee = None, footprint = None\<rparr>"])
      (simp_all add: E_def demo_env_def contractTx_def)
  moreover have "parseNative E (parseList (parseInvoice ref_zparse)) (JArr demo_list) =
      Inr [parsed_invoice (replicate 32 171) (CHR ''G'' # replicate 55 (CHR ''A''))
                (CHR ''G'' # replicate 55 (CHR ''A'')) 5 500 0 9 ''Listed'' 7 0 0 False False 0]"
    by (simp add: parseNative_def parseList_def E_def demo_env_def demo_list_def demo_parse)
  ultimately show ?thesis
    by (simp add: invoice_getByStatus_def withArgs_def E_def demo_env_def)
qed

theorem getBy_typed_witness:
  "\<exists>ob. parsed_invoice (replicate 32 171) (CHR ''G'' # replicate 55 (CHR ''A''))
          (CHR ''G'' # replicate 55 (CHR ''A'')) 5 500 0 9 ''Listed'' 7 0 0 False False 0 = JObj ob \<and>
        is_Invoice ob \<and> invoice_id (inv_id (invoice_of ob))"
proof (rule getBy_typed [OF ref_zod.zod_semantics_axioms disjI1])
  show "invoice_getByStatus (demo_env\<lparr>simulate := \<lambda>url t w. (Inr (SimOk \<lparr>retval = Some (JArr demo_list),
          minResourceFee = None, footprint = None\<rparr>), w)\<rparr>) ref_zparse demo_client Listed ''G'' (demo_state []) =
      (Inr [parsed_invoice (replicate 32 171) (CHR ''G'' # replicate 55 (CHR ''A''))
              (CHR ''G'' # replicate 55 (CHR ''A'')) 5 500 0 9 ''Listed'' 7 0 0 False False 0],
       snd (invoice_getByStatus (demo_env\<lparr>simulate := \<lambda>url t w. (Inr (SimOk \<lparr>retval = Some (JArr demo_list),
          minResourceFee = None, footprint = None\<rparr>), w)\<rparr>) ref_zparse demo_client Listed ''G'' (demo_state [])))"
    using demo_getByStatus by (simp add: prod_eq_iff)
qed simp

end
