(* ===== verification/Machines.thy ===== *)
theory Machines
  imports Prelude
begin

text \<open>
  State machines: the states reachable from an initial state by steps, and the interface of an
  invariant. The event-driven components (hooks, stores, watchers) are interpretations of
  \<open>invariant_system\<close>.
\<close>

inductive reachable :: "('s \<Rightarrow> bool) \<Rightarrow> ('s \<Rightarrow> 's \<Rightarrow> bool) \<Rightarrow> 's \<Rightarrow> bool" for start step where
  init: "start s \<Longrightarrow> reachable start step s"
| step: "reachable start step s \<Longrightarrow> step s t \<Longrightarrow> reachable start step t"

locale invariant_system =
  fixes start :: "'s \<Rightarrow> bool" and step :: "'s \<Rightarrow> 's \<Rightarrow> bool" and inv :: "'s \<Rightarrow> bool"
  assumes start_inv: "start s \<Longrightarrow> inv s"
    and step_inv: "inv s \<Longrightarrow> step s t \<Longrightarrow> inv t"
begin

lemma reachable_inv: "reachable start step s \<Longrightarrow> inv s"
  by (induction rule: reachable.induct) (auto intro: start_inv step_inv)

end

text \<open>Running a list of events with a transition function reaches what its steps reach.\<close>

lemma reachable_foldl:
  assumes "\<And>s e. step s (f s e)" and "reachable start step s"
  shows "reachable start step (foldl f s es)"
  using assms(2) by (induction es arbitrary: s) (auto intro: reachable.step assms(1))

end
