(* ===== verification/AsyncHooks.thy ===== *)
theory AsyncHooks
  imports Clients Machines
begin

text \<open>
  The React bindings of the SDK (\<open>packages/sdk-react/src/\<close>): the state machines behind
  \<open>useAsyncQuery\<close> and \<open>useAsyncMutation\<close> (\<open>async.ts\<close>), and the hooks that wrap the clients.

  React is outside the repository; a hook is modelled by the events React and the network
  deliver to it: mounting, a change of the dependencies (cleanup of the old effect, then the
  new one), unmounting, a call of \<open>refetch\<close>, and the settling of a run, in any order. A run and
  its abort controller are identified by the generation number the run drew. Two fields are
  for the theorems only: the key of the dependencies a run was started under, and the run
  that wrote the data.
\<close>

text \<open>\<open>err instanceof Error ? err : new Error(String(err))\<close>.\<close>

definition to_Error :: "exn \<Rightarrow> exn" where
  "to_Error err = (case err of Thrown v \<Rightarrow> new_Error (js_String v) | _ \<Rightarrow> err)"

subsection \<open>Queries\<close>

record ('k, 'd) query_state =
  q_data :: "'d option"
  q_isLoading :: bool
  q_error :: "exn option"
  q_generation :: nat
  q_controller :: "nat option"
  q_aborted :: "nat set"
  q_inFlight :: "nat \<rightharpoonup> 'k"
  q_mounted :: bool
  q_key :: 'k
  q_source :: "(nat \<times> 'k) option"

definition query_init :: "'k \<Rightarrow> ('k, 'd) query_state" where
  "query_init k =
     \<lparr>q_data = None, q_isLoading = True, q_error = None, q_generation = 0, q_controller = None,
      q_aborted = {}, q_inFlight = Map.empty, q_mounted = False, q_key = k, q_source = None\<rparr>"

text \<open>\<open>controllerRef.current?.abort()\<close>.\<close>

definition abort_controller :: "('k, 'd) query_state \<Rightarrow> ('k, 'd) query_state" where
  "abort_controller st =
     (case q_controller st of None \<Rightarrow> st | Some g \<Rightarrow> st\<lparr>q_aborted := insert g (q_aborted st)\<rparr>)"

text \<open>The part of \<open>run\<close> before its \<open>await\<close>.\<close>

definition run_start :: "('k, 'd) query_state \<Rightarrow> ('k, 'd) query_state" where
  "run_start st =
     (let st1 = abort_controller st;
          generation = Suc (q_generation st1)
      in st1\<lparr>q_controller := Some generation, q_generation := generation,
             q_isLoading := True, q_error := None,
             q_inFlight := (q_inFlight st1)(generation \<mapsto> q_key st1)\<rparr>)"

text \<open>The part after it, for the run of a generation and the outcome of its query function.\<close>

definition run_settle :: "nat \<Rightarrow> exn + 'd \<Rightarrow> ('k, 'd) query_state \<Rightarrow> ('k, 'd) query_state" where
  "run_settle generation outcome st =
     (let isCurrent = (generation = q_generation st);
          settled = st\<lparr>q_inFlight := (q_inFlight st)(generation := None)\<rparr>
      in if \<not> isCurrent then settled
         else case outcome of
           Inr d \<Rightarrow> settled\<lparr>q_data := Some d, q_isLoading := False,
                            q_source := map_option (\<lambda>k. (generation, k)) (q_inFlight st generation)\<rparr>
         | Inl err \<Rightarrow> settled\<lparr>q_error := Some (to_Error err), q_isLoading := False\<rparr>)"

text \<open>The cleanup function of the effect.\<close>

definition effect_cleanup :: "('k, 'd) query_state \<Rightarrow> ('k, 'd) query_state" where
  "effect_cleanup st =
     (abort_controller (st\<lparr>q_generation := Suc (q_generation st)\<rparr>))\<lparr>q_controller := None\<rparr>"

inductive query_step :: "('k, 'd) query_state \<Rightarrow> ('k, 'd) query_state \<Rightarrow> bool" where
  mount: "\<not> q_mounted st \<Longrightarrow> query_step st (run_start (st\<lparr>q_mounted := True\<rparr>))"
| deps_change: "q_mounted st \<Longrightarrow>
    query_step st (run_start ((effect_cleanup st)\<lparr>q_key := k\<rparr>))"
| unmount: "q_mounted st \<Longrightarrow> query_step st ((effect_cleanup st)\<lparr>q_mounted := False\<rparr>)"
| refetch: "query_step st (run_start st)"
| settle: "q_inFlight st g = Some k \<Longrightarrow> query_step st (run_settle g outcome st)"

inductive_cases query_stepE: "query_step st st'"

definition query_inv :: "('k, 'd) query_state \<Rightarrow> bool" where
  "query_inv st \<longleftrightarrow>
     (\<forall>g k. q_inFlight st g = Some k \<longrightarrow> g \<le> q_generation st) \<and>
     (\<forall>g k. q_inFlight st g = Some k \<longrightarrow> g \<noteq> q_generation st \<longrightarrow> g \<in> q_aborted st) \<and>
     (\<forall>g. q_controller st = Some g \<longrightarrow> g \<le> q_generation st) \<and>
     (\<forall>g k. q_inFlight st g = Some k \<longrightarrow> g \<notin> q_aborted st \<longrightarrow> q_controller st = Some g) \<and>
     (q_mounted st \<longrightarrow>
        q_isLoading st = (q_inFlight st (q_generation st) \<noteq> None) \<and>
        (\<forall>k. q_inFlight st (q_generation st) = Some k \<longrightarrow> k = q_key st) \<and>
        (\<not> q_isLoading st \<longrightarrow> q_error st = None \<longrightarrow>
           q_data st \<noteq> None \<and> q_source st = Some (q_generation st, q_key st)))"

lemma query_inv_init: "query_inv (query_init k)"
  by (simp add: query_inv_def query_init_def)

text \<open>What a start and a cleanup leave of the runs that were in flight.\<close>

lemma query_inv_run_start:
  assumes "\<forall>g k. q_inFlight st g = Some k \<longrightarrow> g \<le> q_generation st"
    and "\<forall>g k. q_inFlight st g = Some k \<longrightarrow> g \<notin> q_aborted st \<longrightarrow> q_controller st = Some g"
    and "\<forall>g. q_controller st = Some g \<longrightarrow> g \<le> q_generation st"
  shows "query_inv (run_start st)"
  using assms
  by (auto simp: query_inv_def run_start_def abort_controller_def Let_def le_SucI split: option.splits)

lemma query_inv_start:
  assumes "query_inv st" and "q_inFlight st' = q_inFlight st" and "q_aborted st' = q_aborted st"
    and "q_controller st' = q_controller st" and "q_generation st' = q_generation st"
  shows "query_inv (run_start st')"
  using assms by (intro query_inv_run_start) (simp_all add: query_inv_def)

lemma cleanup_facts:
  assumes "query_inv st"
  shows "\<And>g k. q_inFlight (effect_cleanup st) g = Some k \<Longrightarrow> g < q_generation (effect_cleanup st)"
    and "\<And>g k. q_inFlight (effect_cleanup st) g = Some k \<Longrightarrow> g \<in> q_aborted (effect_cleanup st)"
    and "q_controller (effect_cleanup st) = None"
  using assms
  by (auto simp: query_inv_def effect_cleanup_def abort_controller_def less_Suc_eq_le
      split: option.splits)

lemma query_inv_settle:
  assumes "query_inv st" and "q_inFlight st g = Some k"
  shows "query_inv (run_settle g outcome st)"
  using assms
  by (cases outcome; cases "g = q_generation st")
    (auto simp: query_inv_def run_settle_def Let_def)

lemma query_inv_step:
  assumes "query_inv st" and "query_step st st'"
  shows "query_inv st'"
  using assms(2)
proof cases
  case mount
  then show ?thesis
    using query_inv_start [OF assms(1), of "st\<lparr>q_mounted := True\<rparr>"] by simp
next
  case (deps_change k)
  show ?thesis
    unfolding deps_change using cleanup_facts [OF assms(1)]
    by (intro query_inv_run_start) (auto intro: less_imp_le)
next
  case unmount
  show ?thesis
    unfolding unmount using cleanup_facts [OF assms(1)]
    by (auto simp: query_inv_def intro: less_imp_le)
next
  case refetch
  then show ?thesis using query_inv_start [OF assms(1), of st] by simp
next
  case (settle g k outcome)
  then show ?thesis using assms(1) by (simp add: query_inv_settle)
qed

interpretation query: invariant_system "\<lambda>st. \<exists>k. st = query_init k" query_step query_inv
  by unfold_locales (auto intro: query_inv_init query_inv_step)

subsection \<open>Mutations\<close>

text \<open>The state of one \<open>useAsyncMutation\<close>; \<open>m_open\<close>, the calls under way, is for the theorems.\<close>

record mutation_state =
  m_isPending :: bool
  m_error :: "exn option"
  m_inFlight :: int
  m_open :: nat

definition mutation_init :: mutation_state where
  "mutation_init = \<lparr>m_isPending = False, m_error = None, m_inFlight = 0, m_open = 0\<rparr>"

definition mutate_start :: "mutation_state \<Rightarrow> mutation_state" where
  "mutate_start st =
     st\<lparr>m_inFlight := m_inFlight st + 1, m_isPending := True, m_error := None, m_open := Suc (m_open st)\<rparr>"

text \<open>Settling: the result of the mutation function is what \<open>mutate\<close> returns or throws.\<close>

definition mutate_settle :: "exn + 'r \<Rightarrow> mutation_state \<Rightarrow> (exn + 'r) \<times> mutation_state" where
  "mutate_settle outcome st =
     (let st1 = (case outcome of Inr r \<Rightarrow> st | Inl err \<Rightarrow> st\<lparr>m_error := Some (to_Error err)\<rparr>);
          st2 = st1\<lparr>m_inFlight := m_inFlight st1 - 1, m_open := m_open st1 - 1\<rparr>
      in (outcome, if m_inFlight st2 = 0 then st2\<lparr>m_isPending := False\<rparr> else st2))"

inductive mutation_step :: "mutation_state \<Rightarrow> mutation_state \<Rightarrow> bool" where
  call: "mutation_step st (mutate_start st)"
| settled: "0 < m_open st \<Longrightarrow> mutation_step st (snd (mutate_settle (outcome :: exn + unit) st))"

definition mutation_inv :: "mutation_state \<Rightarrow> bool" where
  "mutation_inv st \<longleftrightarrow> m_inFlight st = int (m_open st) \<and> (m_isPending st \<longleftrightarrow> 0 < m_open st)"

lemma mutation_inv_step: "mutation_inv st \<Longrightarrow> mutation_step st st' \<Longrightarrow> mutation_inv st'"
  by (erule mutation_step.cases)
    (auto simp: mutation_inv_def mutate_start_def mutate_settle_def Let_def split: sum.splits)

interpretation mutation: invariant_system "\<lambda>st. st = mutation_init" mutation_step mutation_inv
  by unfold_locales (simp add: mutation_inv_def mutation_init_def, rule mutation_inv_step)

subsection \<open>Properties\<close>

text \<open>
  C9. What \<open>useAsyncQuery\<close> shows is never stale: in every state reachable by mounts, dependency
  changes, unmounts, refetches and settlements in any order, a mounted hook that is neither
  loading nor failed shows the result of its newest run, and that run was started under the
  current dependencies; it is loading exactly while the newest run is in flight.
\<close>

theorem query_never_stale:
  assumes "reachable (\<lambda>st. \<exists>k. st = query_init k) query_step st" and "q_mounted st"
  shows "q_isLoading st = (q_inFlight st (q_generation st) \<noteq> None) \<and>
    (\<not> q_isLoading st \<longrightarrow> q_error st = None \<longrightarrow>
           q_data st \<noteq> None \<and> q_source st = Some (q_generation st, q_key st))"
  using query.reachable_inv [OF assms(1)] assms(2) by (auto simp: query_inv_def)

theorem query_never_stale_witness:
  "\<exists>st :: (nat, nat) query_state. q_mounted st \<and> q_isLoading st = False \<and> q_data st = Some 9 \<and>
      q_source st = Some (q_generation st, q_key st)"
proof -
  define s1 :: "(nat, nat) query_state" where "s1 = run_start ((query_init 1)\<lparr>q_mounted := True\<rparr>)"
  define s2 where "s2 = run_start ((effect_cleanup s1)\<lparr>q_key := 2\<rparr>)"
  define s3 where "s3 = run_settle 3 (Inr 9) s2"
  define s4 where "s4 = run_settle 1 (Inr 5) s3"
  note defs = s4_def s3_def s2_def s1_def run_settle_def run_start_def effect_cleanup_def
    abort_controller_def query_init_def Let_def
  let ?R = "reachable (\<lambda>st. \<exists>k. st = query_init k) query_step"
  have "?R (query_init 1)" by (rule reachable.init) blast
  moreover have "query_step (query_init 1) s1" unfolding s1_def by (rule mount) (simp add: query_init_def)
  ultimately have "?R s1" by (rule reachable.step)
  moreover have "query_step s1 s2" unfolding s2_def by (rule deps_change) (simp add: defs)
  ultimately have "?R s2" by (rule reachable.step)
  moreover have "query_step s2 s3" unfolding s3_def by (rule settle [where k = 2]) (simp add: defs)
  ultimately have "?R s3" by (rule reachable.step)
  moreover have "query_step s3 s4" unfolding s4_def by (rule settle [where k = 1]) (simp add: defs)
  ultimately have "?R s4" by (rule reachable.step)
  moreover have "q_mounted s4" "\<not> q_isLoading s4" "q_error s4 = None" "q_data s4 = Some 9"
    by (simp_all add: defs)
  ultimately show ?thesis using query_never_stale [of s4] by blast
qed

text \<open>
  A superseded request is cancelled: in every reachable state each run in flight other than
  the newest has had its signal aborted, and after an unmount all of them have.
\<close>

theorem superseded_runs_aborted:
  assumes "reachable (\<lambda>st. \<exists>k. st = query_init k) query_step st"
    and "q_inFlight st g = Some k" and "g \<noteq> q_generation st"
  shows "g < q_generation st \<and> g \<in> q_aborted st"
  using query.reachable_inv [OF assms(1)] assms(2,3) by (auto simp: query_inv_def le_less)

theorem superseded_runs_aborted_witness:
  "\<exists>st :: (nat, nat) query_state. q_inFlight st 1 = Some 7 \<and> 1 \<in> q_aborted st"
proof -
  define s1 :: "(nat, nat) query_state" where "s1 = run_start ((query_init 7)\<lparr>q_mounted := True\<rparr>)"
  define s2 where "s2 = run_start s1"
  note defs = s2_def s1_def run_start_def abort_controller_def query_init_def Let_def
  have "query_step (query_init 7) s1" unfolding s1_def by (rule mount) (simp add: query_init_def)
  moreover have "query_step s1 s2" unfolding s2_def by (rule refetch)
  ultimately have "reachable (\<lambda>st. \<exists>k. st = query_init k) query_step s2"
    by (blast intro: reachable.intros)
  moreover have "q_inFlight s2 1 = Some 7" "1 \<noteq> q_generation s2" by (simp_all add: defs)
  ultimately show ?thesis using superseded_runs_aborted [of s2 1 7] by blast
qed

text \<open>
  C22. \<open>useAsyncMutation\<close> reports pending exactly while a call is under way, however concurrent
  calls interleave, and the counter it keeps is the number of those calls.
\<close>

theorem mutation_pending_iff_open:
  assumes "reachable (\<lambda>st. st = mutation_init) mutation_step st"
  shows "(m_isPending st \<longleftrightarrow> 0 < m_open st) \<and> m_inFlight st = int (m_open st)"
  using mutation.reachable_inv [OF assms] by (simp_all add: mutation_inv_def)

theorem mutation_pending_iff_open_witness:
  "m_isPending (snd (mutate_settle (Inl (Thrown JNull) :: exn + unit)
                       (mutate_start (mutate_start mutation_init)))) \<longleftrightarrow> 0 < (1 :: nat)"
proof -
  let ?s = "snd (mutate_settle (Inl (Thrown JNull) :: exn + unit) (mutate_start (mutate_start mutation_init)))"
  have "reachable (\<lambda>st. st = mutation_init) mutation_step (mutate_start (mutate_start mutation_init))"
    by (blast intro: reachable.intros call)
  then have "reachable (\<lambda>st. st = mutation_init) mutation_step ?s"
    by (rule reachable.step) (rule settled, simp add: mutate_start_def)
  moreover have "m_open ?s = 1"
    by (simp add: mutate_settle_def mutate_start_def mutation_init_def Let_def)
  ultimately show ?thesis using mutation_pending_iff_open [of ?s] by simp
qed

subsection \<open>Hooks on the clients\<close>

text \<open>The options of every hook: an injected client, or a contract identifier to build one for.\<close>

record ClientOptions =
  co_client :: "BaseContractClient option"
  co_contractId :: "string option"

definition resolveClient ::
  "('w, 'a, 't, 'v) sdk_env \<Rightarrow> string \<Rightarrow> ClientOptions \<Rightarrow> exn + BaseContractClient" where
  "resolveClient E msg options =
     (case co_client options of
        Some c \<Rightarrow> Inr c
      | None \<Rightarrow> (case co_contractId options of
                  Some cid \<Rightarrow> if cid \<noteq> [] then newClient E cid noOptions else Inl (new_Error msg)
                | None \<Rightarrow> Inl (new_Error msg)))"

definition invoiceClient where
  "invoiceClient E = resolveClient E ''useInvoice: provide an injected InvoiceClient instance or a contractId''"

definition poolClient where
  "poolClient E = resolveClient E ''usePool: provide an injected PoolClient instance or a contractId''"

definition escrowClient where
  "escrowClient E = resolveClient E ''useEscrow: provide an injected EscrowClient instance or a contractId''"

definition registryClient where
  "registryClient E = resolveClient E ''useRegistry: provide an injected RegistryClient instance or a contractId''"

definition tokenClient where
  "tokenClient E = resolveClient E ''useToken: provide an injected TokenClient instance or a contractId''"

definition agentRegistryClient where
  "agentRegistryClient E = resolveClient E ''useAgent: provide an injected AgentRegistryClient instance or a contractId''"

text \<open>
  A query hook resolves its client (a failure is thrown while rendering) and hands
  \<open>useAsyncQuery\<close> the query and the values it depends on besides the client.
\<close>

record ('w, 'a, 't, 'v, 'r) hook_query =
  hq_client :: BaseContractClient
  hq_deps :: "string list"
  hq_fn :: "('w, 'a, 't, 'v, 'r) sdk_io"

definition queryHook ::
  "exn + BaseContractClient \<Rightarrow> string list \<Rightarrow> (BaseContractClient \<Rightarrow> ('w, 'a, 't, 'v, 'r) sdk_io) \<Rightarrow>
   exn + ('w, 'a, 't, 'v, 'r) hook_query" where
  "queryHook client deps f =
     bindE client (\<lambda>c. Inr \<lparr>hq_client = c, hq_deps = deps, hq_fn = f c\<rparr>)"

definition useInvoiceList where
  "useInvoiceList E fetch deps options = queryHook (invoiceClient E options) deps fetch"

definition useInvoicesByStatus where
  "useInvoicesByStatus E zparse st signer options =
     useInvoiceList E (\<lambda>client. invoice_getByStatus E zparse client st signer) [status_string st, signer] options"

definition useInvoicesByIssuer where
  "useInvoicesByIssuer E zparse iss signer options =
     useInvoiceList E (\<lambda>client. invoice_getByIssuer E zparse client iss signer) [iss, signer] options"

definition useInvoicesByBuyer where
  "useInvoicesByBuyer E zparse buy signer options =
     useInvoiceList E (\<lambda>client. invoice_getByBuyer E zparse client buy signer) [buy, signer] options"

definition useInvoice where
  "useInvoice E zparse i signer options =
     queryHook (invoiceClient E options) [i, signer] (\<lambda>client. invoice_get E zparse client i signer)"

definition usePoolStats where
  "usePoolStats E zparse signer options =
     queryHook (poolClient E options) [signer] (\<lambda>client. pool_getStats E zparse client signer)"

definition useLPPosition where
  "useLPPosition E zparse lp signer options =
     queryHook (poolClient E options) [lp, signer] (\<lambda>client. pool_getLPPosition E zparse client lp signer)"

definition useUtilizationRate where
  "useUtilizationRate E signer options =
     queryHook (poolClient E options) [signer] (\<lambda>client. pool_getUtilizationRate E client signer)"

definition useLockedAmount where
  "useLockedAmount E i signer options =
     queryHook (escrowClient E options) [i, signer] (\<lambda>client. escrow_getLocked E client i signer)"

definition useIsVerified where
  "useIsVerified E address signer options =
     queryHook (registryClient E options) [address, signer] (\<lambda>client. registry_isVerified E client address signer)"

definition useRegistryProfile where
  "useRegistryProfile E zparse address signer options =
     queryHook (registryClient E options) [address, signer] (\<lambda>client. registry_getProfile E zparse client address signer)"

definition useAllowance where
  "useAllowance E owner spender signer options =
     queryHook (tokenClient E options) [owner, spender, signer] (\<lambda>client. token_allowance E client owner spender signer)"

definition useAgent where
  "useAgent E zparse agentId signer options =
     queryHook (agentRegistryClient E options) [agentId, signer] (\<lambda>client. agentRegistry_getAgent E zparse client agentId signer)"

text \<open>A mutation hook resolves its client and offers its operations with the signer filled in.\<close>

record ('w, 'a, 't, 'v) InvoiceMutationResult =
  im_create :: "string \<Rightarrow> string \<Rightarrow> int \<Rightarrow> jsnum \<Rightarrow> ('w, 'a, 't, 'v, string) sdk_io"
  im_listForFinancing :: "string \<Rightarrow> jsnum \<Rightarrow> ('w, 'a, 't, 'v, bool) sdk_io"
  im_markShipped :: "string \<Rightarrow> ('w, 'a, 't, 'v, bool) sdk_io"
  im_confirmDelivery :: "string \<Rightarrow> string \<Rightarrow> ('w, 'a, 't, 'v, bool) sdk_io"
  im_repay :: "string \<Rightarrow> ('w, 'a, 't, 'v, bool) sdk_io"
  im_triggerDefault :: "string \<Rightarrow> ('w, 'a, 't, 'v, bool) sdk_io"

definition useInvoiceMutations ::
  "('w, 'a, 't, 'v) sdk_env \<Rightarrow> string \<Rightarrow> ClientOptions \<Rightarrow> exn + ('w, 'a, 't, 'v) InvoiceMutationResult" where
  "useInvoiceMutations E signer options =
     bindE (invoiceClient E options) (\<lambda>client. Inr
       \<lparr>im_create = (\<lambda>iss buy face due. invoice_create E client iss buy face due signer),
        im_listForFinancing = (\<lambda>i bps. invoice_listForFinancing E client i bps signer),
        im_markShipped = (\<lambda>i. invoice_markShipped E client i signer),
        im_confirmDelivery = (\<lambda>i confirmer. invoice_confirmDelivery E client i confirmer signer),
        im_repay = (\<lambda>i. invoice_repay E client i signer),
        im_triggerDefault = (\<lambda>i. invoice_triggerDefault E client i signer)\<rparr>)"

record ('w, 'a, 't, 'v) PoolMutationResult =
  pm_deposit :: "string \<Rightarrow> int \<Rightarrow> ('w, 'a, 't, 'v, string) sdk_io"
  pm_withdraw :: "string \<Rightarrow> int \<Rightarrow> ('w, 'a, 't, 'v, string) sdk_io"
  pm_fundInvoice :: "string \<Rightarrow> ('w, 'a, 't, 'v, bool) sdk_io"
  pm_receiveRepayment :: "string \<Rightarrow> int \<Rightarrow> ('w, 'a, 't, 'v, bool) sdk_io"

definition usePoolMutations ::
  "('w, 'a, 't, 'v) sdk_env \<Rightarrow> string \<Rightarrow> ClientOptions \<Rightarrow> exn + ('w, 'a, 't, 'v) PoolMutationResult" where
  "usePoolMutations E signer options =
     bindE (poolClient E options) (\<lambda>client. Inr
       \<lparr>pm_deposit = (\<lambda>lp amount. pool_deposit E client lp amount signer),
        pm_withdraw = (\<lambda>lp shares. pool_withdraw E client lp shares signer),
        pm_fundInvoice = (\<lambda>i. pool_fundInvoice E client i signer),
        pm_receiveRepayment = (\<lambda>i amount. pool_receiveRepayment E client i amount signer)\<rparr>)"

record ('w, 'a, 't, 'v) EscrowMutationResult =
  em_lock :: "string \<Rightarrow> int \<Rightarrow> ('w, 'a, 't, 'v, bool) sdk_io"
  em_releaseToIssuer :: "string \<Rightarrow> ('w, 'a, 't, 'v, bool) sdk_io"
  em_releaseToPool :: "string \<Rightarrow> int \<Rightarrow> ('w, 'a, 't, 'v, bool) sdk_io"
  em_handleDefault :: "string \<Rightarrow> ('w, 'a, 't, 'v, bool) sdk_io"

definition useEscrowMutations ::
  "('w, 'a, 't, 'v) sdk_env \<Rightarrow> string \<Rightarrow> ClientOptions \<Rightarrow> exn + ('w, 'a, 't, 'v) EscrowMutationResult" where
  "useEscrowMutations E signer options =
     bindE (escrowClient E options) (\<lambda>client. Inr
       \<lparr>em_lock = (\<lambda>i amount. escrow_lock E client i amount signer),
        em_releaseToIssuer = (\<lambda>i. escrow_releaseToIssuer E client i signer),
        em_releaseToPool = (\<lambda>i amount. escrow_releaseToPool E client i amount signer),
        em_handleDefault = (\<lambda>i. escrow_handleDefault E client i signer)\<rparr>)"

record ('w, 'a, 't, 'v) RegistryMutationResult =
  rm_registerIssuer :: "string \<Rightarrow> (string \<times> string) list \<Rightarrow> ('w, 'a, 't, 'v, string) sdk_io"
  rm_registerBuyer :: "string \<Rightarrow> (string \<times> string) list \<Rightarrow> ('w, 'a, 't, 'v, string) sdk_io"
  rm_revoke :: "string \<Rightarrow> ('w, 'a, 't, 'v, string) sdk_io"

definition useRegistryMutations ::
  "('w, 'a, 't, 'v) sdk_env \<Rightarrow> string \<Rightarrow> ClientOptions \<Rightarrow> exn + ('w, 'a, 't, 'v) RegistryMutationResult" where
  "useRegistryMutations E signer options =
     bindE (registryClient E options) (\<lambda>client. Inr
       \<lparr>rm_registerIssuer = (\<lambda>address metadata. registry_registerIssuer E client address metadata signer),
        rm_registerBuyer = (\<lambda>address metadata. registry_registerBuyer E client address metadata signer),
        rm_revoke = (\<lambda>address. registry_revoke E client address signer)\<rparr>)"

record ('w, 'a, 't, 'v) ApproveMutationResult =
  am_approve :: "string \<Rightarrow> string \<Rightarrow> int \<Rightarrow> jsnum \<Rightarrow> ('w, 'a, 't, 'v, string) sdk_io"

definition useApprove ::
  "('w, 'a, 't, 'v) sdk_env \<Rightarrow> string \<Rightarrow> ClientOptions \<Rightarrow> exn + ('w, 'a, 't, 'v) ApproveMutationResult" where
  "useApprove E signer options =
     bindE (tokenClient E options) (\<lambda>client. Inr
       \<lparr>am_approve = (\<lambda>owner spender amount expiration. token_approve E client owner spender amount expiration signer)\<rparr>)"

lemmas hook_defs = useInvoiceList_def useInvoicesByStatus_def useInvoicesByIssuer_def
  useInvoicesByBuyer_def useInvoice_def usePoolStats_def useLPPosition_def useUtilizationRate_def
  useLockedAmount_def useIsVerified_def useRegistryProfile_def useAllowance_def useAgent_def

text \<open>A hook whose query neither prompts, sends nor polls, whatever the state it runs in.\<close>

definition silent_hook :: "exn + ('w, 'a, 't, 'v, 'r) hook_query \<Rightarrow> bool" where
  "silent_hook h \<longleftrightarrow>
     (case h of Inl e \<Rightarrow> True
      | Inr q \<Rightarrow> (\<forall>s. \<exists>es. history (snd (hq_fn q s)) = history s @ es \<and>
                       prompts es = [] \<and> sends es = [] \<and> polls es = []))"

lemma silent_hookI:
  assumes "\<And>c s. \<exists>es. history (snd (f c s)) = history s @ es \<and> prompts es = [] \<and> sends es = [] \<and> polls es = []"
  shows "silent_hook (queryHook client deps f)"
  using assms by (cases client) (simp_all add: silent_hook_def queryHook_def)

lemmas no_effects =
  invoice_getByStatus.no_effect invoice_getByIssuer.no_effect invoice_getByBuyer.no_effect
  invoice_get.no_effect pool_getStats.no_effect pool_getLPPosition.no_effect
  pool_getUtilizationRate.no_effect escrow_getLocked.no_effect registry_isVerified.no_effect
  registry_getProfile.no_effect token_allowance.no_effect agentRegistry_getAgent.no_effect

text \<open>
  Polling a hook never costs the user a signature: the query every query hook hands to
  \<open>useAsyncQuery\<close> only reads; it neither prompts, sends nor polls, whatever the outside does.
\<close>

theorem query_hooks_never_prompt:
  "silent_hook (useInvoicesByStatus E zparse st signer options) \<and>
   silent_hook (useInvoicesByIssuer E zparse iss signer options) \<and>
   silent_hook (useInvoicesByBuyer E zparse buyer signer options) \<and>
   silent_hook (useInvoice E zparse i signer options) \<and>
   silent_hook (usePoolStats E zparse signer options) \<and>
   silent_hook (useLPPosition E zparse lp signer options) \<and>
   silent_hook (useUtilizationRate E signer options) \<and>
   silent_hook (useLockedAmount E i signer options) \<and>
   silent_hook (useIsVerified E address signer options) \<and>
   silent_hook (useRegistryProfile E zparse address signer options) \<and>
   silent_hook (useAllowance E owner spender signer options) \<and>
   silent_hook (useAgent E zparse address signer options)"
  unfolding hook_defs by (intro conjI silent_hookI; rule no_effects)

end
