(* ===== verification/JsDate.thy ===== *)
theory JsDate
  imports JsNumber
begin

text \<open>
  Dates of the standard library, as far as the program prints them: the proleptic Gregorian
  calendar of ECMAScript, \<open>new Date(ms)\<close> with its range, and \<open>toISOString\<close>.
\<close>

text \<open>The number of the day, counted from 1970-01-01, on which a year begins.\<close>

definition day_from_year :: "int \<Rightarrow> int" where
  "day_from_year y = 365 * (y - 1970) + (y - 1969) div 4 - (y - 1901) div 100 + (y - 1601) div 400"

text \<open>The year of a day: an estimate that is off by at most one, corrected.\<close>

definition year_from_day :: "int \<Rightarrow> int" where
  "year_from_day d =
     (let y = 1970 + d * 400 div 146097
      in if d < day_from_year y then y - 1
         else if day_from_year (y + 1) \<le> d then y + 1 else y)"

definition leap_year :: "int \<Rightarrow> bool" where
  "leap_year y \<longleftrightarrow> y mod 4 = 0 \<and> (y mod 100 \<noteq> 0 \<or> y mod 400 = 0)"

definition month_lengths :: "int \<Rightarrow> int list" where
  "month_lengths y = [31, if leap_year y then 29 else 28, 31, 30, 31, 30, 31, 31, 30, 31, 30, 31]"

text \<open>The month (from 0) and the day of the month (from 1) of a day within a year.\<close>

fun month_day :: "int list \<Rightarrow> int \<Rightarrow> int \<Rightarrow> int \<times> int" where
  "month_day [] m d = (m, d + 1)"
| "month_day (l # ls) m d = (if d < l then (m, d + 1) else month_day ls (m + 1) (d - l))"

definition civil_from_day :: "int \<Rightarrow> int \<times> int \<times> int" where
  "civil_from_day d =
     (let y = year_from_day d; (m, dd) = month_day (month_lengths y) 0 (d - day_from_year y)
      in (y, m + 1, dd))"

definition two_digits :: "int \<Rightarrow> string" where
  "two_digits n = js_padStart 2 (CHR ''0'') (show_nat (nat n))"

definition iso_year :: "int \<Rightarrow> string" where
  "iso_year y =
     (if 0 \<le> y \<and> y \<le> 9999 then js_padStart 4 (CHR ''0'') (show_nat (nat y))
      else (if y < 0 then ''-'' else ''+'') @ js_padStart 6 (CHR ''0'') (show_nat (nat \<bar>y\<bar>)))"

text \<open>\<open>toISOString()\<close> of a time value in milliseconds.\<close>

definition iso_string :: "int \<Rightarrow> string" where
  "iso_string ms =
     (let (y, m, d) = civil_from_day (ms div 86400000); r = ms mod 86400000
      in iso_year y @ ''-'' @ two_digits m @ ''-'' @ two_digits d @ ''T'' @
         two_digits (r div 3600000) @ '':'' @ two_digits (r div 60000 mod 60) @ '':'' @
         two_digits (r div 1000 mod 60) @ ''.'' @
         js_padStart 3 (CHR ''0'') (show_nat (nat (r mod 1000))) @ ''Z'')"

text \<open>The time value of \<open>new Date(x)\<close>: truncated, and invalid outside of the range.\<close>

fun time_clip :: "jsnum \<Rightarrow> int option" where
  "time_clip (Fin q) =
     (if \<bar>q\<bar> \<le> 8640000000000000 then Some (if q < 0 then - \<lfloor>- q\<rfloor> else \<lfloor>q\<rfloor>) else None)"
| "time_clip x = None"

text \<open>A year begins within two days of where the mean year length puts it.\<close>

lemma div_bounds:
  fixes a k :: int
  assumes "0 < k"
  shows "k * (a div k) \<le> a" "a < k * (a div k) + k"
  using pos_mod_bound [OF assms, of a] pos_mod_sign [OF assms, of a] mult_div_mod_eq [of k a]
  by linarith+

lemma day_from_year_mean:
  "146097 * t - 506 \<le> 400 * day_from_year (1970 + t)"
  "400 * day_from_year (1970 + t) \<le> 146097 * t + 589"
proof -
  obtain a b c where abc: "a = (t + 1) div 4" "b = (t + 69) div 100" "c = (t + 369) div 400"
    by blast
  have "4 * a \<le> t + 1" "t + 1 < 4 * a + 4" "100 * b \<le> t + 69" "t + 69 < 100 * b + 100"
    "400 * c \<le> t + 369" "t + 369 < 400 * c + 400"
    using div_bounds [of 4 "t + 1"] div_bounds [of 100 "t + 69"] div_bounds [of 400 "t + 369"]
    unfolding abc by simp_all
  moreover have "day_from_year (1970 + t) = 365 * t + a - b + c"
    unfolding day_from_year_def abc by (simp add: algebra_simps)
  ultimately show "146097 * t - 506 \<le> 400 * day_from_year (1970 + t)"
    and "400 * day_from_year (1970 + t) \<le> 146097 * t + 589"
    by (simp_all add: algebra_simps)
qed

text \<open>A day lies in the year the calendar gives it.\<close>

lemma year_from_day_bounds:
  "day_from_year (year_from_day d) \<le> d \<and> d < day_from_year (year_from_day d + 1)"
proof -
  define t where "t = d * 400 div 146097"
  have q: "146097 * t \<le> d * 400" "d * 400 < 146097 * t + 146097"
    using div_bounds [of 146097 "d * 400"] by (simp_all add: t_def)
  have "400 * day_from_year (1970 + (t - 1)) \<le> 146097 * t - 145508"
    using day_from_year_mean(2) [of "t - 1"] by (simp add: algebra_simps)
  then have "day_from_year (1970 + t - 1) \<le> d" using q(1) by (simp add: algebra_simps)
  moreover have "146097 * t + 291688 \<le> 400 * day_from_year (1970 + (t + 2))"
    using day_from_year_mean(1) [of "t + 2"] by (simp add: algebra_simps)
  then have "d < day_from_year (1970 + t + 1 + 1)" using q(2) by (simp add: algebra_simps)
  ultimately show ?thesis
    unfolding year_from_day_def Let_def t_def [symmetric] by simp
qed

end
