(* ===== verification/Cli.thy ===== *)
theory Cli
  imports Clients Amounts JsDate
begin

text \<open>
  The command line interface (\<open>packages/cli/src/\<close>): the commands \<open>list-invoices\<close> and
  \<open>check-pool-balance\<close>. Parsing of the command line itself is the package commander's. The state
  of a run is the state of the SDK, the lines written to the two streams and the exit code.
\<close>

subsection \<open>Formatting\<close>

definition INVOICE_STATUSES :: "InvoiceStatus list" where
  "INVOICE_STATUSES = [Created, Listed, Funded, Active, Confirmed, Repaid, Defaulted]"

definition PUBLIC_KEY_ENV_VAR :: string where
  "PUBLIC_KEY_ENV_VAR = ''TRUSTTROVE_PUBLIC_KEY''"

definition CONTRACT_ID_ENV_VAR :: string where
  "CONTRACT_ID_ENV_VAR = ''INVOICE_CONTRACT_ID''"

definition TABLE_HEADERS :: "string list" where
  "TABLE_HEADERS = [''ID'', ''ISSUER'', ''BUYER'', ''FACE VALUE'', ''STATUS'', ''DUE DATE'']"

definition parseInvoiceStatus :: "string \<Rightarrow> exn + InvoiceStatus" where
  "parseInvoiceStatus v =
     (let normalized = js_toLowerCase (js_trim v)
      in case find (\<lambda>st. js_toLowerCase (status_string st) = normalized) INVOICE_STATUSES of
           Some st \<Rightarrow> Inr st
         | None \<Rightarrow> Inl (ListInvoicesError (''Unknown status \"'' @ v @ ''\". Expected one of: '' @
                      js_join '', '' (map status_string INVOICE_STATUSES) @ ''.'')))"

text \<open>A due date of zero, \<open>NaN\<close>, \<open>null\<close> or \<open>undefined\<close> prints as a dash; an invalid date throws.\<close>

definition formatDueDate :: "jsnum option \<Rightarrow> exn + string" where
  "formatDueDate dueDate =
     (case dueDate of
        None \<Rightarrow> Inr em_dash
      | Some d \<Rightarrow>
          if \<not> num_truthy d then Inr em_dash
          else case time_clip (num_scale d 1000) of
                 None \<Rightarrow> Inl (JsRangeError ''Invalid time value'')
               | Some ms \<Rightarrow> Inr (js_slice0 10 (iso_string ms)))"

definition cell :: "string list \<Rightarrow> nat \<Rightarrow> string" where
  "cell row i = (if i < length row then row ! i else '''')"

definition column_widths :: "string list \<Rightarrow> string list list \<Rightarrow> nat list" where
  "column_widths headers rows =
     map (\<lambda>i. foldl (\<lambda>width row. max width (length (cell row i))) (length (headers ! i)) rows)
       [0..<length headers]"

definition renderRow :: "nat list \<Rightarrow> string list \<Rightarrow> string" where
  "renderRow widths cells =
     js_trimEnd (js_join ''  '' (map (\<lambda>i. js_padEnd (if i < length widths then widths ! i else 0) (CHR '' '')
                                          (cells ! i)) [0..<length cells]))"

definition formatTable :: "string list \<Rightarrow> string list list \<Rightarrow> string" where
  "formatTable headers rows =
     (let widths = column_widths headers rows
      in js_join [CHR 0x0A]
           (renderRow widths headers #
            js_join ''  '' (map (\<lambda>width. replicate width (CHR ''-'')) widths) #
            map (renderRow widths) rows))"

definition formatInvoiceTable :: "Invoice list \<Rightarrow> exn + string" where
  "formatInvoiceTable invoices =
     bindE (mapE (\<lambda>inv. bindE (formatDueDate (Some (inv_dueDate inv))) (\<lambda>due. Inr
              [inv_id inv, inv_issuer inv, inv_buyer inv,
               toUsdc (inv_faceValue inv) @ '' '' @ asset_string (inv_asset inv),
               status_string (inv_status inv), due])) invoices)
       (\<lambda>rows. Inr (formatTable TABLE_HEADERS rows))"

subsection \<open>Options\<close>

record ListInvoicesOptions =
  lo_status :: "string option"
  lo_issuer :: "string option"
  lo_publicKey :: "string option"
  lo_contractId :: "string option"

text \<open>\<open>a ?? b\<close> for optional strings.\<close>

definition opt_or :: "'x option \<Rightarrow> 'x option \<Rightarrow> 'x option" where
  "opt_or a b = (case a of Some v \<Rightarrow> Some v | None \<Rightarrow> b)"

definition resolvePublicKey :: "environment \<Rightarrow> ListInvoicesOptions \<Rightarrow> exn + string" where
  "resolvePublicKey env options =
     (let publicKey = js_trim (case opt_or (lo_publicKey options) (env PUBLIC_KEY_ENV_VAR) of
                                 Some v \<Rightarrow> v | None \<Rightarrow> '''')
      in if publicKey = [] then Inl (ListInvoicesError
           (''A Stellar public key is required for the read-only simulation call. '' @
            ''Pass --public-key <key> or set '' @ PUBLIC_KEY_ENV_VAR @ ''.''))
         else Inr publicKey)"

definition resolveContractId :: "environment \<Rightarrow> ListInvoicesOptions \<Rightarrow> exn + string" where
  "resolveContractId env options =
     (let cid = js_trim (case opt_or (lo_contractId options) (env CONTRACT_ID_ENV_VAR) of
                           Some v \<Rightarrow> v | None \<Rightarrow> '''')
      in if cid = [] then Inl (ListInvoicesError
           (''The invoice contract ID is required. Pass --contract-id <id> or set '' @
            CONTRACT_ID_ENV_VAR @ '' (see .env.example).''))
         else Inr cid)"

datatype InvoiceFilter = ByStatus InvoiceStatus | ByIssuer string

definition given :: "string option \<Rightarrow> bool" where
  "given x \<longleftrightarrow> x \<noteq> None \<and> x \<noteq> Some []"

definition resolveFilter :: "ListInvoicesOptions \<Rightarrow> exn + InvoiceFilter" where
  "resolveFilter options =
     (let st = map_option js_trim (lo_status options);
          iss = map_option js_trim (lo_issuer options)
      in if given st \<and> given iss then Inl (ListInvoicesError
           ''Choose one filter: pass either --status <status> or --issuer <address>, not both.'')
         else if \<not> given st \<and> \<not> given iss then Inl (ListInvoicesError
           ''A filter is required. Pass --status <status> or --issuer <address>.'')
         else if given st then bindE (parseInvoiceStatus (the st)) (\<lambda>s. Inr (ByStatus s))
         else Inr (ByIssuer (the iss)))"

subsection \<open>Commands\<close>

record ('w, 'a, 't, 'v) cli_state =
  sdk :: "('w, 'a, 't, 'v) sdk_state"
  stdout :: "string list"
  stderr :: "string list"
  exitCode :: "nat option"

type_synonym ('w, 'a, 't, 'v, 'r) cli_io = "(exn, ('w, 'a, 't, 'v) cli_state, 'r) io"

definition withSdk :: "('w, 'a, 't, 'v, 'r) sdk_io \<Rightarrow> ('w, 'a, 't, 'v, 'r) cli_io" where
  "withSdk m = (\<lambda>s. case m (sdk s) of (r, s') \<Rightarrow> (r, s\<lparr>sdk := s'\<rparr>))"

definition consoleLog :: "string \<Rightarrow> ('w, 'a, 't, 'v, unit) cli_io" where
  "consoleLog line = modifyIO (\<lambda>s. s\<lparr>stdout := stdout s @ [line]\<rparr>)"

definition consoleError :: "string \<Rightarrow> ('w, 'a, 't, 'v, unit) cli_io" where
  "consoleError line = modifyIO (\<lambda>s. s\<lparr>stderr := stderr s @ [line], exitCode := Some 1\<rparr>)"

text \<open>The invoices the client returns are typed (\<open>Clients.getBy_typed\<close>).\<close>

definition as_invoice :: "jsval \<Rightarrow> Invoice" where
  "as_invoice v = invoice_of (own_entries v)"

definition listInvoices ::
  "('w, 'a, 't, 'v) sdk_env \<Rightarrow> zparser \<Rightarrow> (string \<Rightarrow> exn + BaseContractClient) option \<Rightarrow> environment \<Rightarrow>
   ListInvoicesOptions \<Rightarrow> ('w, 'a, 't, 'v, Invoice list \<times> string) sdk_io" where
  "listInvoices E zparse createClient env options =
     bindIO (liftE (resolvePublicKey env options)) (\<lambda>publicKey.
     bindIO (liftE (resolveContractId env options)) (\<lambda>cid.
     bindIO (liftE (resolveFilter options)) (\<lambda>filt.
     bindIO (liftE (case createClient of Some f \<Rightarrow> f cid | None \<Rightarrow> newClient E cid noOptions)) (\<lambda>client.
     bindIO (case filt of
               ByStatus st \<Rightarrow> invoice_getByStatus E zparse client st publicKey
             | ByIssuer iss \<Rightarrow> invoice_getByIssuer E zparse client iss publicKey) (\<lambda>vs.
     let invoices = map as_invoice vs
     in bindIO (liftE (formatInvoiceTable invoices)) (\<lambda>table. returnIO (invoices, table)))))))"

definition error_text :: "exn \<Rightarrow> string \<Rightarrow> string" where
  "error_text e d = (if is_Error e then exn_message e else d)"

text \<open>\<open>String(error)\<close> of a thrown value that is not an \<open>Error\<close>.\<close>

definition thrown_text :: "exn \<Rightarrow> string" where
  "thrown_text e = (case e of Thrown v \<Rightarrow> js_String v | _ \<Rightarrow> [])"

definition list_invoices_action ::
  "('w, 'a, 't, 'v) sdk_env \<Rightarrow> zparser \<Rightarrow> environment \<Rightarrow> ListInvoicesOptions \<Rightarrow>
   ('w, 'a, 't, 'v, unit) cli_io" where
  "list_invoices_action E zparse env options =
     catchIO
       (bindIO (withSdk (listInvoices E zparse None env options)) (\<lambda>(invoices, table).
        bindIO (consoleLog table) (\<lambda>_.
        if length invoices = 0 then consoleLog ([CHR 0x0A] @ ''No invoices found.'') else returnIO ())))
       (\<lambda>e. consoleError (''Error: '' @ error_text e (thrown_text e)))"

record CheckPoolBalanceOptions =
  cp_publicKey :: "string option"
  cp_poolContractId :: "string option"

definition POOL_CONTRACT_ID_ENV_VARS :: "string list" where
  "POOL_CONTRACT_ID_ENV_VARS =
     [''TRUSTTROVE_POOL_CONTRACT_ID'', ''NEXT_PUBLIC_POOL_CONTRACT_ID'', ''POOL_CONTRACT_ID'']"

definition formatUsdc :: "int \<Rightarrow> string" where
  "formatUsdc v = toUsdc v"

definition field_bigint :: "jsval \<Rightarrow> string \<Rightarrow> int" where
  "field_bigint v k = the (as_bigint (obj_get (own_entries v) k))"

definition field_num :: "jsval \<Rightarrow> string \<Rightarrow> jsnum" where
  "field_num v k = the (as_num (obj_get (own_entries v) k))"

definition checkPoolBalanceCommand ::
  "('w, 'a, 't, 'v) sdk_env \<Rightarrow> zparser \<Rightarrow> environment \<Rightarrow> CheckPoolBalanceOptions \<Rightarrow>
   ('w, 'a, 't, 'v, unit) cli_io" where
  "checkPoolBalanceCommand E zparse env options = (\<lambda>s.
     (let publicKey = opt_or (cp_publicKey options) (opt_or (env ''TRUSTTROVE_PUBLIC_KEY'')
                        (opt_or (env ''NEXT_PUBLIC_PUBLIC_KEY'') (env ''PUBLIC_KEY'')));
          cid = opt_or (cp_poolContractId options) (opt_or (env ''TRUSTTROVE_POOL_CONTRACT_ID'')
                  (opt_or (env ''NEXT_PUBLIC_POOL_CONTRACT_ID'') (opt_or (env ''POOL_CONTRACT_ID'')
                    (Some (pool (contractIds (getConfig (activeConfig (sdk s)))))))))
      in if \<not> given publicKey
         then consoleError ''Missing public key. Provide --public-key or set TRUSTTROVE_PUBLIC_KEY.''
         else if \<not> given cid
         then consoleError (''Missing pool contract ID. Provide --pool-contract-id or set '' @
                js_join '', '' POOL_CONTRACT_ID_ENV_VARS @ '' (see .env.example).'')
         else catchIO
           (bindIO (liftE (newClient E (the cid) noOptions)) (\<lambda>client.
            bindIO (withSdk (pool_getStats E zparse client (the publicKey))) (\<lambda>stats.
            bindIO (consoleLog (''Pool contract: '' @ the cid)) (\<lambda>_.
            bindIO (consoleLog (''totalDeposits: '' @ formatUsdc (field_bigint stats ''totalDeposits'') @ '' USDC'')) (\<lambda>_.
            bindIO (consoleLog (''availableLiquidity: '' @
                      formatUsdc (field_bigint stats ''availableLiquidity'') @ '' USDC'')) (\<lambda>_.
            bindIO (consoleLog (''utilizationRateBps: '' @ num_toString (field_num stats ''utilizationRateBps'') @
                      '' ('' @ num_toFixed 2 (num_over (field_num stats ''utilizationRateBps'') 100) @ ''%)'')) (\<lambda>_.
            consoleLog (''totalYieldDistributed: '' @
                      formatUsdc (field_bigint stats ''totalYieldDistributed'') @ '' USDC''))))))))
           (\<lambda>e. consoleError (''Failed to fetch pool stats: '' @ error_text e ''unknown error''))) s)"

subsection \<open>Lemmas\<close>

lemma status_lower_inj:
  "js_toLowerCase (status_string a) = js_toLowerCase (status_string b) \<longleftrightarrow> a = b"
  by (cases a; cases b; simp add: js_toLowerCase_def lower_char_def char_of_def bit_Suc_0_iff)

lemma INVOICE_STATUSES_complete: "st \<in> set INVOICE_STATUSES"
  by (cases st) (simp_all add: INVOICE_STATUSES_def)

lemma find_status:
  "find (\<lambda>st. js_toLowerCase (status_string st) = n) INVOICE_STATUSES = Some st \<longleftrightarrow>
   js_toLowerCase (status_string st) = n"
proof
  assume "find (\<lambda>st. js_toLowerCase (status_string st) = n) INVOICE_STATUSES = Some st"
  then show "js_toLowerCase (status_string st) = n" by (auto simp: find_Some_iff)
next
  assume n: "js_toLowerCase (status_string st) = n"
  then have "find (\<lambda>st. js_toLowerCase (status_string st) = n) INVOICE_STATUSES \<noteq> None"
    using INVOICE_STATUSES_complete by (auto simp: find_None_iff)
  then obtain x where x: "find (\<lambda>st. js_toLowerCase (status_string st) = n) INVOICE_STATUSES = Some x"
    by blast
  then have "js_toLowerCase (status_string x) = n" by (auto simp: find_Some_iff)
  then show "find (\<lambda>st. js_toLowerCase (status_string st) = n) INVOICE_STATUSES = Some st"
    using n x status_lower_inj by metis
qed

text \<open>The whole of \<open>listInvoices\<close> is a query: it never prompts or sends.\<close>

lemma read_liftE:
  assumes "\<And>x. runs (f x) (\<lambda>cfg es r. list_all is_read es)"
  shows "runs (bindIO (liftE r) f) (\<lambda>cfg es r. list_all is_read es)"
  using assms by (cases r) (auto intro!: runs_throw)

lemma read_then_liftE:
  assumes "runs m (\<lambda>cfg es r. list_all is_read es)"
  shows "runs (bindIO m (\<lambda>vs. bindIO (liftE (g vs)) (\<lambda>t. returnIO (h vs t)))) (\<lambda>cfg es r. list_all is_read es)"
proof (rule runs_bind [OF assms])
  have "runs (bindIO (liftE (g x)) (\<lambda>t. returnIO (h x t))) (\<lambda>cfg fs r. fs = [])" for x
    by (cases "g x") (auto intro!: runs_throw runs_return)
  then show "runs (bindIO (liftE (g x)) (\<lambda>t. returnIO (h x t)))
      (\<lambda>cfg fs r. \<forall>es. list_all is_read es \<longrightarrow> list_all is_read (es @ fs))" for x
    by (rule runs_conseq) simp
qed

interpretation listInvoices: sdk_query E c "listInvoices E z cc env opts" for E c z cc env opts
proof
  show "runs (listInvoices E z cc env opts) (\<lambda>cfg es r. list_all is_read es)"
    unfolding listInvoices_def Let_def
    by (intro read_liftE read_then_liftE)
      (simp add: invoice_getByStatus.reads_only invoice_getByIssuer.reads_only split: InvoiceFilter.split)
qed

text \<open>A configuration error stops before the network is touched.\<close>

lemma listInvoices_config_error:
  assumes "resolvePublicKey env opts = Inl e \<or> resolveContractId env opts = Inl e \<or> resolveFilter opts = Inl e"
  shows "\<exists>e'. listInvoices E z cc env opts s = (Inl e', s)"
  using assms
  by (cases "resolvePublicKey env opts"; cases "resolveContractId env opts"; cases "resolveFilter opts")
    (auto simp: listInvoices_def throwIO_def)

subsection \<open>Properties\<close>

text \<open>
  \<open>--status\<close> is read without regard to case and surrounding white space: \<open>parseInvoiceStatus\<close>
  returns a status exactly when the trimmed text is its name up to case, and otherwise fails
  with the message that quotes the text and lists every status.
\<close>

theorem parseInvoiceStatus_spec:
  "(parseInvoiceStatus v = Inr st \<longleftrightarrow> js_toLowerCase (js_trim v) = js_toLowerCase (status_string st)) \<and>
   (parseInvoiceStatus v = Inl e \<longleftrightarrow>
     e = ListInvoicesError (''Unknown status \"'' @ v @ ''\". Expected one of: Created, Listed, Funded, '' @
                            ''Active, Confirmed, Repaid, Defaulted.'') \<and>
     (\<nexists>st. js_toLowerCase (js_trim v) = js_toLowerCase (status_string st)))"
proof (rule conjI)
  let ?n = "js_toLowerCase (js_trim v)"
  let ?f = "find (\<lambda>st. js_toLowerCase (status_string st) = ?n) INVOICE_STATUSES"
  have msg: "js_join '', '' (map status_string INVOICE_STATUSES) @ ''.'' =
      ''Created, Listed, Funded, Active, Confirmed, Repaid, Defaulted.''"
    by (simp add: INVOICE_STATUSES_def)
  show "parseInvoiceStatus v = Inr st \<longleftrightarrow> ?n = js_toLowerCase (status_string st)"
    using find_status [of ?n st]
    by (cases ?f) (auto simp: parseInvoiceStatus_def Let_def)
  have "?f = None \<longleftrightarrow> (\<nexists>st. ?n = js_toLowerCase (status_string st))"
    using INVOICE_STATUSES_complete unfolding find_None_iff by metis
  then show "parseInvoiceStatus v = Inl e \<longleftrightarrow>
     e = ListInvoicesError (''Unknown status \"'' @ v @ ''\". Expected one of: Created, Listed, Funded, '' @
                            ''Active, Confirmed, Repaid, Defaulted.'') \<and>
     (\<nexists>st. ?n = js_toLowerCase (status_string st))"
    using msg by (cases ?f) (auto simp: parseInvoiceStatus_def Let_def)
qed

text \<open>
  The command \<open>list-invoices\<close> always ends normally and its outcome is visible: on success
  the table goes to standard output (with a notice when it is empty) and the exit code is left
  alone; on any failure nothing goes to standard output, one line with the message goes to
  standard error and the exit code is 1; and it never prompts for a signature or sends.
\<close>

theorem list_invoices_outcome:
  "\<exists>es s'. list_invoices_action E zparse env opts s = (Inr (), s') \<and>
     history (sdk s') = history (sdk s) @ es \<and> prompts es = [] \<and> sends es = [] \<and>
     (case fst (listInvoices E zparse None env opts (sdk s)) of
        Inr (invoices, table) \<Rightarrow>
          stdout s' = stdout s @ [table] @ (if invoices = [] then [[CHR 0x0A] @ ''No invoices found.''] else []) \<and>
          stderr s' = stderr s \<and> exitCode s' = exitCode s
      | Inl e \<Rightarrow>
          stdout s' = stdout s \<and>
          stderr s' = stderr s @ [''Error: '' @ (if is_Error e then exn_message e else thrown_text e)] \<and>
          exitCode s' = Some 1)"
proof -
  obtain r t where run: "listInvoices E zparse None env opts (sdk s) = (r, t)"
    by (cases "listInvoices E zparse None env opts (sdk s)")
  obtain es where es: "history t = history (sdk s) @ es" "prompts es = []" "sends es = []"
    using listInvoices.no_effect [of E zparse None env opts "sdk s"] run by auto
  show ?thesis
    using run es
    by (cases r)
      (auto simp: list_invoices_action_def withSdk_def catchIO_def bindIO_def consoleLog_def
        consoleError_def modifyIO_def returnIO_def error_text_def split: prod.splits)
qed

end
