(* ===== verification/AppErrors.thy ===== *)
theory AppErrors
  imports JsValue JsDate
begin

text \<open>
  Errors in the web application (\<open>apps/web/lib/errors.ts\<close>, \<open>apps/web/lib/toast.tsx\<close>,
  \<open>apps/web/hooks/useAppError.ts\<close>): classification, messages, and the handlers that log an error,
  wrap it in an \<open>AppError\<close> and show a toast.

  What the handlers touch is the record \<open>ui_state\<close>: the console, the toasts shown so far and the
  clock. The components that use them extend the record with their own state.
\<close>

datatype toast = ErrorToast string "string option" | SuccessToast string "string option"

record ui_state =
  console :: "(string \<times> exn) list"
  toasts :: "toast list"
  clock :: "nat \<Rightarrow> int" \<comment> \<open>the readings of the clock, in milliseconds\<close>
  ticks :: nat \<comment> \<open>how many readings were taken\<close>

subsection \<open>Classification and messages\<close>

definition includes_any :: "string \<Rightarrow> string list \<Rightarrow> bool" where
  "includes_any s ws \<longleftrightarrow> (\<exists>w \<in> set ws. js_includes s w)"

definition classifyError :: "exn \<Rightarrow> ErrorType" where
  "classifyError err =
     (case err of AppError t c m ts e \<Rightarrow> t
      | _ \<Rightarrow>
        if is_TypeError err then ENetwork
        else if is_Error err \<and>
          includes_any (js_toLowerCase (exn_message err)) [''network'', ''fetch'', ''timeout''] then ENetwork
        else if is_Error err \<and>
          includes_any (js_toLowerCase (exn_message err)) [''invalid'', ''required'', ''not connected'']
          then EValidation
        else EContract)"

definition UNEXPECTED :: string where
  "UNEXPECTED = ''An unexpected error occurred''"

definition extractMessage :: "exn \<Rightarrow> string" where
  "extractMessage err =
     (if is_Error err then exn_message err
      else case err of Thrown (JStr s) \<Rightarrow> s | _ \<Rightarrow> UNEXPECTED)"

definition KNOWN_ERRORS :: "(string \<times> string) list" where
  "KNOWN_ERRORS = [(''Wallet not connected'', ''Please connect your wallet to perform this action'')]"

definition getErrorMessage :: "exn \<Rightarrow> string \<Rightarrow> string" where
  "getErrorMessage err fallback =
     (if is_Error err then exn_message err
      else case err of
        Thrown (JStr s) \<Rightarrow> s
      | Thrown (JObj ob) \<Rightarrow> (case obj_get ob ''message'' of JStr m \<Rightarrow> m | _ \<Rightarrow> fallback)
      | _ \<Rightarrow> fallback)"

definition getUserFriendlyMessage :: "exn \<Rightarrow> string option \<Rightarrow> js_text" where
  "getUserFriendlyMessage err fallback =
     (let message = getErrorMessage err UNEXPECTED
      in case fallback of
           Some f \<Rightarrow> if f \<noteq> [] \<and> message = UNEXPECTED then Text f
                      else table_or KNOWN_ERRORS message message
         | None \<Rightarrow> table_or KNOWN_ERRORS message message)"

subsection \<open>Handlers\<close>

definition explorerUrl :: "string \<Rightarrow> string" where
  "explorerUrl txHash = ''https://stellar.expert/explorer/testnet/tx/'' @ txHash"

definition showSuccessToast :: "string \<Rightarrow> string option \<Rightarrow> (exn, 'z ui_state_scheme, unit) io" where
  "showSuccessToast action txHash =
     modifyIO (\<lambda>s. s\<lparr>toasts := toasts s @
       [SuccessToast action (case txHash of Some h \<Rightarrow> if h \<noteq> [] then Some (explorerUrl h) else None
                             | None \<Rightarrow> None)]\<rparr>)"

definition showErrorToast :: "string \<Rightarrow> exn \<Rightarrow> (exn, 'z ui_state_scheme, unit) io" where
  "showErrorToast action err =
     modifyIO (\<lambda>s. s\<lparr>toasts := toasts s @
       [ErrorToast action (if exn_message err \<noteq> [] then Some (exn_message err) else None)]\<rparr>)"

definition readClock :: "(exn, 'z ui_state_scheme, int) io" where
  "readClock = (\<lambda>s. (Inr (clock s (ticks s)), s\<lparr>ticks := Suc (ticks s)\<rparr>))"

definition consoleErr :: "string \<Rightarrow> exn \<Rightarrow> (exn, 'z ui_state_scheme, unit) io" where
  "consoleErr line err = modifyIO (\<lambda>s. s\<lparr>console := console s @ [(line, err)]\<rparr>)"

fun error_type_string :: "ErrorType \<Rightarrow> string" where
  "error_type_string ENetwork = ''network''"
| "error_type_string EContract = ''contract''"
| "error_type_string EValidation = ''validation''"
| "error_type_string EUnknown = ''unknown''"

definition log_line :: "int \<Rightarrow> string \<Rightarrow> ErrorType \<Rightarrow> string \<Rightarrow> string" where
  "log_line now ctx ty message =
     ''['' @ iso_string now @ ''] ['' @ ctx @ ''] ['' @ error_type_string ty @ ''] '' @ message"

definition captureError :: "string \<Rightarrow> exn \<Rightarrow> (exn, 'z ui_state_scheme, exn) io" where
  "captureError ctx err =
     (let ty = classifyError err; message = extractMessage err
      in bindIO readClock (\<lambda>now.
         bindIO (consoleErr (log_line now ctx ty message) err) (\<lambda>_.
         bindIO readClock (\<lambda>timestamp.
         returnIO (AppError ty ctx message timestamp err)))))"

definition handleError :: "string \<Rightarrow> exn \<Rightarrow> string option \<Rightarrow> (exn, 'z ui_state_scheme, exn) io" where
  "handleError ctx err action =
     bindIO (captureError ctx err) (\<lambda>appError.
     bindIO (case action of Some a \<Rightarrow> if a \<noteq> [] then showErrorToast a appError else returnIO ()
             | None \<Rightarrow> returnIO ()) (\<lambda>_. returnIO appError))"

definition handleMutationError :: "string \<Rightarrow> exn \<Rightarrow> string \<Rightarrow> (exn, 'z ui_state_scheme, unit) io" where
  "handleMutationError ctx err action =
     bindIO (captureError ctx err) (\<lambda>appError. showErrorToast action appError)"

text \<open>
  The inline error of \<open>useAppError\<close>. React treats a function given to a state setter as an
  updater; \<open>Member\<close> stands for what it then makes of an inherited member.
\<close>

definition inline_error :: "exn \<Rightarrow> string option \<Rightarrow> js_text" where
  "inline_error err fallback =
     (let message = getUserFriendlyMessage err fallback
      in if message = Text [] then Text ''An error occurred'' else message)"

subsection \<open>Lemmas\<close>

lemma captureError_run:
  "captureError c e s =
     (Inr (AppError (classifyError e) c (extractMessage e) (clock s (Suc (ticks s))) e),
      s\<lparr>console := console s @ [(log_line (clock s (ticks s)) c (classifyError e) (extractMessage e), e)],
        ticks := Suc (Suc (ticks s))\<rparr>)"
  by (simp add: captureError_def readClock_def consoleErr_def io_defs Let_def)

lemma handleMutationError_run:
  "handleMutationError c e a s =
     (Inr (), s\<lparr>console := console s @ [(log_line (clock s (ticks s)) c (classifyError e) (extractMessage e), e)],
        toasts := toasts s @ [ErrorToast a (if extractMessage e \<noteq> [] then Some (extractMessage e) else None)],
        ticks := Suc (Suc (ticks s))\<rparr>)"
  unfolding handleMutationError_def bindIO_Inr [OF captureError_run]
  by (simp add: showErrorToast_def modifyIO_def)

text \<open>
  The documentation of \<open>ErrorType\<close> calls \<open>unknown\<close> the fallback; \<open>classifyError\<close> falls back to
  \<open>contract\<close> and yields \<open>unknown\<close> only for an \<open>AppError\<close> that was built with it.
\<close>

lemma classifyError_unknown:
  "classifyError e = EUnknown \<longleftrightarrow> (\<exists>c m t e'. e = AppError EUnknown c m t e')"
  by (cases e) (auto simp: classifyError_def)

lemma classifyError_AppError [simp]: "classifyError (AppError t c m ts e) = t"
  by (simp add: classifyError_def)

lemma extractMessage_AppError [simp]: "extractMessage (AppError t c m ts e) = m"
  by (simp add: extractMessage_def)

text \<open>The error at the bottom of a chain of wrappers.\<close>

fun root_cause :: "exn \<Rightarrow> exn" where
  "root_cause (AppError t c m ts e) = root_cause e"
| "root_cause e = e"

text \<open>An error passed up through handlers of several contexts, each wrapping what it gets.\<close>

fun capture_chain :: "string list \<Rightarrow> exn \<Rightarrow> (exn, 'z ui_state_scheme, exn) io" where
  "capture_chain [] err = returnIO err"
| "capture_chain (c # cs) err = bindIO (captureError c err) (capture_chain cs)"

subsection \<open>Properties\<close>

text \<open>
  Wrapping an error loses nothing, however many handlers it passes: the wrapped error has the
  class and the message of the original one, and the original error at its bottom; each handler
  logs exactly one line, and none of them shows a toast or throws.
\<close>

theorem capture_chain_faithful:
  "\<exists>e' s'. capture_chain cs err s = (Inr e', s') \<and>
     classifyError e' = classifyError err \<and> extractMessage e' = extractMessage err \<and>
     root_cause e' = root_cause err \<and>
     length (console s') = length (console s) + length cs \<and> take (length (console s)) (console s') = console s \<and>
     toasts s' = toasts s"
proof (induction cs arbitrary: err s)
  case Nil
  then show ?case by (simp add: returnIO_apply)
next
  case (Cons c cs)
  let ?e = "AppError (classifyError err) c (extractMessage err) (clock s (Suc (ticks s))) err"
  define t where "t = s\<lparr>console := console s @
      [(log_line (clock s (ticks s)) c (classifyError err) (extractMessage err), err)],
      ticks := Suc (Suc (ticks s))\<rparr>"
  obtain e' s' where run: "capture_chain cs ?e t = (Inr e', s')"
    and ih: "classifyError e' = classifyError err" "extractMessage e' = extractMessage err"
      "root_cause e' = root_cause err" "length (console s') = length (console t) + length cs"
      "take (length (console t)) (console s') = console t" "toasts s' = toasts t"
    using Cons.IH [of ?e t] by auto
  have "capture_chain (c # cs) err s = (Inr e', s')"
    using run by (simp add: bindIO_def captureError_run t_def)
  moreover have "take (length (console s)) (console s') = console s"
    using arg_cong [OF ih(5), of "take (length (console s))"] by (simp add: t_def min_def)
  ultimately show ?case using ih by (intro exI [of _ e'] exI [of _ s']) (simp add: t_def)
qed

end
