(* ===== verification/WalletStore.thy ===== *)
theory WalletStore
  imports JsValue
begin

text \<open>
  The wallet store (\<open>apps/web/store/wallet.ts\<close>): the session of the connected wallet and the
  chosen role. The persistence middleware is outside the repository; it writes what \<open>partialize\<close>
  selects and, on a reload, installs what \<open>merge\<close> makes of the stored value, which may be
  anything. For this reason the role is an untyped value here.
\<close>

record WalletState =
  w_address :: "string option"
  w_connected :: bool
  w_network :: "string option"
  w_token :: "string option"
  w_role :: jsval

definition wallet_init :: WalletState where
  "wallet_init = \<lparr>w_address = None, w_connected = False, w_network = None, w_token = None, w_role = JStr ''issuer''\<rparr>"

definition wallet_connect :: "string \<Rightarrow> string \<Rightarrow> WalletState \<Rightarrow> WalletState" where
  "wallet_connect address network st = st\<lparr>w_address := Some address, w_connected := True, w_network := Some network\<rparr>"

definition wallet_disconnect :: "WalletState \<Rightarrow> WalletState" where
  "wallet_disconnect st =
     st\<lparr>w_address := None, w_connected := False, w_network := None, w_token := None, w_role := JStr ''issuer''\<rparr>"

text \<open>\<open>!!x\<close> of a string or null.\<close>

definition present :: "string option \<Rightarrow> bool" where
  "present x \<longleftrightarrow> x \<noteq> None \<and> x \<noteq> Some []"

definition wallet_setAddress :: "string option \<Rightarrow> WalletState \<Rightarrow> WalletState" where
  "wallet_setAddress address st = st\<lparr>w_address := address, w_connected := present address\<rparr>"

definition wallet_setNetwork :: "string option \<Rightarrow> WalletState \<Rightarrow> WalletState" where
  "wallet_setNetwork network st = st\<lparr>w_network := network\<rparr>"

definition wallet_setToken :: "string option \<Rightarrow> WalletState \<Rightarrow> WalletState" where
  "wallet_setToken token st = st\<lparr>w_token := token\<rparr>"

definition wallet_setRole :: "string \<Rightarrow> WalletState \<Rightarrow> WalletState" where
  "wallet_setRole role st = st\<lparr>w_role := JStr role\<rparr>"

definition wallet_partialize :: "WalletState \<Rightarrow> jsval" where
  "wallet_partialize st = JObj [(''role'', w_role st)]"

text \<open>\<open>persisted?.role\<close>; the stored value is a JSON document.\<close>

definition wallet_merge :: "jsval \<Rightarrow> WalletState \<Rightarrow> WalletState" where
  "wallet_merge persisted current =
     current\<lparr>w_address := None, w_connected := False, w_network := None, w_token := None,
       w_role := coalesce (if nullish persisted then JUndef else obj_get (own_entries persisted) ''role'')
                   (w_role current)\<rparr>"

lemmas wallet_defs = wallet_init_def wallet_connect_def wallet_disconnect_def wallet_setAddress_def
  wallet_setNetwork_def wallet_setToken_def wallet_setRole_def wallet_merge_def

lemma present_Some [simp]: "present (Some a) \<longleftrightarrow> a \<noteq> []" "\<not> present None"
  by (simp_all add: present_def)

end
