(* ===== verification/Parsers.thy ===== *)
theory Parsers
  imports Schemas
begin

text \<open>
  The web application's parser for invoices of the indexer and of the contract
  (\<open>apps/web/lib/parsers.ts\<close>). It validates with the schema of the SDK and falls back to
  coercing field by field; \<open>schema.safeParse(v)\<close> reports an issue of zod's own as a failure and
  lets every other exception through.

  The numeric readers of events (\<open>apps/web/types/index.ts\<close>) and the normalisers of the indexer's
  pool payloads (\<open>apps/web/lib/api.ts\<close>) are here too: they share the conversions.
\<close>

fun is_JArr :: "jsval \<Rightarrow> bool" where
  "is_JArr (JArr xs) \<longleftrightarrow> True"
| "is_JArr v \<longleftrightarrow> False"

definition isRecord :: "jsval \<Rightarrow> bool" where
  "isRecord v \<longleftrightarrow> typeof_object v \<and> v \<noteq> JNull \<and> \<not> is_JArr v"

definition normalizeKeys :: "jsobj \<Rightarrow> jsobj" where
  "normalizeKeys ob = foldl (\<lambda>r (k, v). obj_set (toCamelCase k) v r) [] ob"

definition toBigInt :: "jsval \<Rightarrow> exn + int" where
  "toBigInt v =
     (case v of
        JBigInt i \<Rightarrow> Inr i
      | JNum x \<Rightarrow> bigint_of_num x
      | JStr s \<Rightarrow> bigint_of_string s
      | _ \<Rightarrow> Inr 0)"

definition toNumber :: "jsval \<Rightarrow> jsnum" where
  "toNumber v = js_Number v"

definition toNullableNumber :: "jsval \<Rightarrow> jsval" where
  "toNullableNumber v = (if truthy v then JNum (toNumber v) else JNull)"

definition toStringValue :: "jsval \<Rightarrow> string" where
  "toStringValue v = (case v of JStr s \<Rightarrow> s | _ \<Rightarrow> js_String (coalesce v (JStr '''')))"

text \<open>\<open>raw.a ?? raw.b\<close>.\<close>

definition either_key :: "jsobj \<Rightarrow> string \<Rightarrow> string \<Rightarrow> jsval" where
  "either_key raw a b = coalesce (obj_get raw a) (obj_get raw b)"

definition zero_num :: jsval where
  "zero_num = JNum (Fin 0)"

definition manuallyParse :: "jsobj \<Rightarrow> exn + jsobj" where
  "manuallyParse raw =
     (let assetValue = js_or (obj_get raw ''asset'') (JStr ''USDC'');
          asset = (if assetValue = JStr ''XLM'' then ''XLM'' else ''USDC'')
      in bindE (toBigInt (coalesce (either_key raw ''face_value'' ''faceValue'') zero_num)) (\<lambda>faceValue.
         bindE (toBigInt (coalesce (either_key raw ''funded_amount'' ''fundedAmount'') zero_num)) (\<lambda>fundedAmount.
         Inr
          [(''id'', JStr (toStringValue (obj_get raw ''id''))),
           (''issuer'', JStr (toStringValue (obj_get raw ''issuer''))),
           (''buyer'', JStr (toStringValue (obj_get raw ''buyer''))),
           (''faceValue'', JBigInt faceValue),
           (''asset'', JStr asset),
           (''discountBps'', JNum (toNumber (coalesce (either_key raw ''discount_bps'' ''discountBps'') zero_num))),
           (''fundedAmount'', JBigInt fundedAmount),
           (''dueDate'', JNum (toNumber (coalesce (either_key raw ''due_date'' ''dueDate'') zero_num))),
           (''status'', JStr (toStringValue (obj_get raw ''status''))),
           (''createdAt'', JNum (toNumber (coalesce (either_key raw ''created_at'' ''createdAt'') zero_num))),
           (''fundedAt'', toNullableNumber (either_key raw ''funded_at'' ''fundedAt'')),
           (''shippedAt'', toNullableNumber (either_key raw ''shipped_at'' ''shippedAt'')),
           (''issuerConfirmed'', JBool (truthy (either_key raw ''issuer_confirmed'' ''issuerConfirmed''))),
           (''buyerConfirmed'', JBool (truthy (either_key raw ''buyer_confirmed'' ''buyerConfirmed''))),
           (''repaidAt'', toNullableNumber (either_key raw ''repaid_at'' ''repaidAt''))])))"

definition extraFields :: "jsobj \<Rightarrow> jsobj" where
  "extraFields raw =
     [(''listedAt'', toNullableNumber (obj_get raw ''listed_at'')),
      (''issuerConfirmedAt'', toNullableNumber (obj_get raw ''issuer_confirmed_at'')),
      (''buyerConfirmedAt'', toNullableNumber (obj_get raw ''buyer_confirmed_at'')),
      (''defaultedAt'', toNullableNumber (obj_get raw ''defaulted_at'')),
      (''transactionHashes'', obj_get raw ''transaction_hashes''),
      (''txHashes'', obj_get raw ''tx_hashes''),
      (''createdTxHash'', obj_get raw ''created_tx_hash''),
      (''listedTxHash'', obj_get raw ''listed_tx_hash''),
      (''fundedTxHash'', obj_get raw ''funded_tx_hash''),
      (''shippedTxHash'', obj_get raw ''shipped_tx_hash''),
      (''issuerConfirmedTxHash'', obj_get raw ''issuer_confirmed_tx_hash''),
      (''buyerConfirmedTxHash'', obj_get raw ''buyer_confirmed_tx_hash''),
      (''repaidTxHash'', obj_get raw ''repaid_tx_hash''),
      (''defaultedTxHash'', obj_get raw ''defaulted_tx_hash'')]"

definition parseInvoiceResponse :: "zparser \<Rightarrow> jsval \<Rightarrow> exn + jsobj" where
  "parseInvoiceResponse zparse raw =
     (if \<not> isRecord raw then Inl (new_Error ''Invalid invoice payload'')
      else let ob = own_entries raw in
        bindE (case zparse invoiceSchema (JObj (normalizeKeys ob)) of
                 Inr v \<Rightarrow> Inr (own_entries v)
               | Inl (ZodError m) \<Rightarrow> manuallyParse ob
               | Inl e \<Rightarrow> Inl e)
          (\<lambda>invoice. Inr (obj_assign invoice (extraFields ob))))"

subsection \<open>Pool payloads and events\<close>

definition api_toNumber :: "jsval \<Rightarrow> jsnum" where
  "api_toNumber v =
     (case v of JNum x \<Rightarrow> x | JBigInt i \<Rightarrow> num_of_int i | JStr s \<Rightarrow> num_of_string s | _ \<Rightarrow> Fin 0)"

definition record_or_empty :: "jsval \<Rightarrow> jsobj" where
  "record_or_empty raw = (if isRecord raw then own_entries raw else [])"

definition parseRawPoolStats :: "jsval \<Rightarrow> exn + PoolStats" where
  "parseRawPoolStats raw =
     (let r = record_or_empty raw
      in bindE (toBigInt (obj_get r ''total_deposits'')) (\<lambda>totalDeposits.
         bindE (toBigInt (obj_get r ''total_funded'')) (\<lambda>totalFunded.
         bindE (toBigInt (obj_get r ''available_liquidity'')) (\<lambda>availableLiquidity.
         bindE (toBigInt (obj_get r ''total_yield_distributed'')) (\<lambda>totalYieldDistributed.
         bindE (toBigInt (obj_get r ''total_shares'')) (\<lambda>totalShares.
         Inr \<lparr>ps_totalDeposits = totalDeposits, ps_totalFunded = totalFunded,
              ps_availableLiquidity = availableLiquidity,
              ps_utilizationRateBps = api_toNumber (obj_get r ''utilization_rate_bps''),
              ps_totalYieldDistributed = totalYieldDistributed,
              ps_activeInvoiceCount = api_toNumber (obj_get r ''active_invoice_count''),
              ps_totalShares = totalShares\<rparr>))))))"

definition parseRawLPPosition :: "jsval \<Rightarrow> exn + LPPosition" where
  "parseRawLPPosition raw =
     (let r = record_or_empty raw
      in bindE (toBigInt (obj_get r ''shares'')) (\<lambda>shares.
         bindE (toBigInt (obj_get r ''usdc_value'')) (\<lambda>usdcValue.
         bindE (toBigInt (obj_get r ''yield_earned'')) (\<lambda>yieldEarned.
         Inr \<lparr>lp_shares = shares, lp_usdcValue = usdcValue, lp_yieldEarned = yieldEarned,
              lp_depositCount = api_toNumber (obj_get r ''deposit_count'')\<rparr>))))"

record EventLog =
  ev_id :: jsnum
  ev_event_id :: string
  ev_contract_id :: string
  ev_ledger :: jsnum
  ev_ledger_closed_at :: jsnum
  ev_event_type :: string
  ev_data :: jsval

definition parseRawEventLog :: "jsval \<Rightarrow> EventLog" where
  "parseRawEventLog raw =
     (let r = record_or_empty raw
      in \<lparr>ev_id = api_toNumber (obj_get r ''id''),
          ev_event_id = js_String (coalesce (obj_get r ''event_id'') (JStr '''')),
          ev_contract_id = js_String (coalesce (obj_get r ''contract_id'') (JStr '''')),
          ev_ledger = api_toNumber (obj_get r ''ledger''),
          ev_ledger_closed_at = api_toNumber (obj_get r ''ledger_closed_at''),
          ev_event_type = js_String (coalesce (obj_get r ''event_type'') (JStr '''')),
          ev_data = js_or (obj_get r ''data'') (JObj [])\<rparr>)"


text \<open>
  \<open>event.data[key]\<close>. The payload is any true value of a JSON document, so it may also be a string
  or an array; inherited members are functions, which every reader rejects like \<open>undefined\<close>.
\<close>

definition event_field :: "EventLog \<Rightarrow> string \<Rightarrow> jsval" where
  "event_field event key =
     (case ev_data event of
        JStr s \<Rightarrow> if key = ''length'' then JNum (num_int (int (length s)))
                   else obj_get (zip (map show_nat [0..<length s]) (map (\<lambda>c. JStr [c]) s)) key
      | JArr xs \<Rightarrow> if key = ''length'' then JNum (num_int (int (length xs)))
                    else obj_get (own_entries (JArr xs)) key
      | v \<Rightarrow> obj_get (own_entries v) key)"

definition getEventDataString :: "EventLog \<Rightarrow> string \<Rightarrow> string option" where
  "getEventDataString event key = (case event_field event key of JStr s \<Rightarrow> Some s | _ \<Rightarrow> None)"

definition finite_num :: "jsnum \<Rightarrow> jsnum option" where
  "finite_num x = (if num_isFinite x then Some x else None)"

definition getEventDataNumber :: "EventLog \<Rightarrow> string \<Rightarrow> jsnum option" where
  "getEventDataNumber event key =
     (case event_field event key of
        JNum x \<Rightarrow> finite_num x
      | JStr s \<Rightarrow> if js_trim s \<noteq> [] then finite_num (num_of_string s) else None
      | _ \<Rightarrow> None)"

text \<open>\<open>/^-?\d+$/\<close>.\<close>

definition integer_pattern :: "string \<Rightarrow> bool" where
  "integer_pattern s \<longleftrightarrow>
     (let u = (if js_startsWith s ''-'' then tl s else s) in u \<noteq> [] \<and> list_all is_digit u)"

definition getEventDataBigInt :: "EventLog \<Rightarrow> string \<Rightarrow> int option" where
  "getEventDataBigInt event key =
     (case event_field event key of
        JBigInt i \<Rightarrow> Some i
      | JNum x \<Rightarrow> if num_isSafeInteger x then (case bigint_of_num x of Inr i \<Rightarrow> Some i | Inl e \<Rightarrow> None) else None
      | JStr s \<Rightarrow>
          if integer_pattern (js_trim s)
          then (case bigint_of_string (js_trim s) of Inr i \<Rightarrow> Some i | Inl e \<Rightarrow> None) else None
      | _ \<Rightarrow> None)"

subsection \<open>Lemmas\<close>

lemma normalizeKeys_normalize:
  assumes "distinct (map fst ob)"
  shows "normalize (JObj ob) = normalizeKeys ob"
  using assms by (simp add: normalize_def raw_entries_def normalizeKeys_def obj_assign_distinct)

lemma obj_get_obj_assign:
  "obj_get (obj_assign target source) k =
     (case map_of (rev source) k of Some v \<Rightarrow> v | None \<Rightarrow> obj_get target k)"
  by (simp add: obj_get_def map_of_obj_assign split: option.split)

lemma extra_other:
  "k \<notin> fst ` set (extraFields raw) \<Longrightarrow> obj_get (obj_assign iv (extraFields raw)) k = obj_get iv k"
  using map_of_eq_None_iff [of "rev (extraFields raw)" k] by (simp add: obj_get_obj_assign)

lemma extra_keys:
  "fst ` set (extraFields raw) =
     {''listedAt'', ''issuerConfirmedAt'', ''buyerConfirmedAt'', ''defaultedAt'', ''transactionHashes'',
      ''txHashes'', ''createdTxHash'', ''listedTxHash'', ''fundedTxHash'', ''shippedTxHash'',
      ''issuerConfirmedTxHash'', ''buyerConfirmedTxHash'', ''repaidTxHash'', ''defaultedTxHash''}"
  by (simp add: extraFields_def)

lemma extra_times:
  "obj_get (obj_assign iv (extraFields raw)) ''buyerConfirmedAt'' =
     toNullableNumber (obj_get raw ''buyer_confirmed_at'')"
  "obj_get (obj_assign iv (extraFields raw)) ''defaultedAt'' = toNullableNumber (obj_get raw ''defaulted_at'')"
  by (simp_all add: obj_get_obj_assign extraFields_def)

lemma nullable_typed: "\<exists>y. as_null as_num (toNullableNumber v) = Some y"
  by (simp add: toNullableNumber_def)

text \<open>The extra fields leave an invoice an invoice.\<close>

lemma is_Invoice_extra: "is_Invoice iv \<Longrightarrow> is_Invoice (obj_assign iv (extraFields raw))"
  unfolding is_Invoice_def by (simp add: extra_other extra_keys extra_times nullable_typed)

lemma bigint_field_manual:
  assumes "manuallyParse raw = Inr iv"
  shows "\<exists>i. toBigInt (coalesce (either_key raw ''face_value'' ''faceValue'') zero_num) = Inr i \<and>
           obj_get iv ''faceValue'' = JBigInt i"
    and "\<exists>i. toBigInt (coalesce (either_key raw ''funded_amount'' ''fundedAmount'') zero_num) = Inr i \<and>
           obj_get iv ''fundedAmount'' = JBigInt i"
  using assms by (auto simp: manuallyParse_def Let_def bindE_eq_Inr obj_get_def)

text \<open>Both paths read an amount with the same conversion.\<close>

lemma coerce_bigint_toBigInt: "coerce_bigint v = bindE (toBigInt v) (\<lambda>i. Inr (JBigInt i))"
  by (cases v) (simp_all add: coerce_bigint_def toBigInt_def)

lemma toBigInt_nullish: "toBigInt (coalesce v zero_num) = toBigInt v"
  by (auto simp: coalesce_def nullish_def toBigInt_def zero_num_def)

lemma camel_lookup:
  assumes "distinct (map fst ob)" and "\<And>k. k \<in> fst ` set ob \<Longrightarrow> toCamelCase k = c \<longleftrightarrow> k = key"
  shows "obj_get (normalizeKeys ob) c = obj_get ob key"
proof -
  have "map_of (rev (map (\<lambda>(k, v). (toCamelCase k, v)) ob)) c = map_of ob key"
    using assms
  proof (induction ob)
    case (Cons a ob)
    obtain k v where a: "a = (k, v)" by (cases a)
    have ih: "map_of (rev (map (\<lambda>(k, v). (toCamelCase k, v)) ob)) c = map_of ob key"
      using Cons by simp
    have "map_of ob key = None" if "k = key"
      using Cons.prems(1) that by (simp add: a map_of_eq_None_iff)
    then show ?case using ih Cons.prems(2) [of k] by (auto simp: a map_add_def split: option.split)
  qed simp
  then show ?thesis by (simp add: obj_get_def normalizeKeys_def map_of_fold_set split: option.split)
qed


lemma camel_amounts [simp]:
  "toCamelCase ''faceValue'' = ''faceValue''" "toCamelCase ''fundedAmount'' = ''fundedAmount''"
  by (simp_all add: toCamelCase.simps)

lemma obj_get_absent: "k \<notin> fst ` set ob \<Longrightarrow> obj_get ob k = JUndef"
  by (simp add: obj_get_def map_of_eq_None_iff [THEN iffD2])

lemma toBigInt_either: "toBigInt (coalesce (coalesce v JUndef) zero_num) = toBigInt v"
  by (auto simp: coalesce_def nullish_def toBigInt_def zero_num_def)

text \<open>The amounts of an invoice and the keys they are under.\<close>

definition amount_keys :: "(string \<times> string) set" where
  "amount_keys = {(''face_value'', ''faceValue''), (''funded_amount'', ''fundedAmount'')}"

text \<open>The only property of the payload that becomes the camel-case key \<open>c\<close> is \<open>key\<close>.\<close>

definition sole_key :: "jsobj \<Rightarrow> string \<Rightarrow> string \<Rightarrow> bool" where
  "sole_key ob key c \<longleftrightarrow> distinct (map fst ob) \<and> (\<forall>k \<in> fst ` set ob. toCamelCase k = c \<longleftrightarrow> k = key)"

lemma sole_key_lookup: "sole_key ob key c \<Longrightarrow> obj_get (normalizeKeys ob) c = obj_get ob key"
  by (auto simp: sole_key_def intro: camel_lookup)

lemma amount_manual:
  assumes "(key, c) \<in> amount_keys" and "sole_key ob key c" and "manuallyParse ob = Inr iv"
  shows "\<exists>i. toBigInt (obj_get ob key) = Inr i \<and> obj_get iv c = JBigInt i"
proof -
  have "c \<notin> fst ` set ob" using assms(1,2) by (auto simp: amount_keys_def sole_key_def)
  then have "obj_get ob c = JUndef" by (rule obj_get_absent)
  then have "toBigInt (coalesce (either_key ob key c) zero_num) = toBigInt (obj_get ob key)"
    by (simp add: either_key_def toBigInt_either)
  then show ?thesis
    using assms(1) bigint_field_manual [OF assms(3)] by (auto simp: amount_keys_def)
qed

context zod_semantics
begin

lemma amount_schema:
  assumes "(key, c) \<in> amount_keys" and "sole_key ob key c"
    and "zparse invoiceSchema (JObj (normalizeKeys ob)) = Inr w"
  shows "\<exists>i. toBigInt (obj_get ob key) = Inr i \<and> obj_get (own_entries w) c = JBigInt i"
proof -
  have "distinct (map fst invoiceFields)" by (simp add: invoiceFields_def)
  then obtain out where w: "w = JObj out"
    and f: "\<And>k z. (k, z) \<in> set invoiceFields \<Longrightarrow> zparse z (obj_get (normalizeKeys ob) k) = Inr (obj_get out k)"
    using object_field [OF assms(3) [unfolded invoiceSchema_def]] by (metis jsval.inject(5))
  have "(c, bigintSchema) \<in> set invoiceFields"
    using assms(1) by (auto simp: amount_keys_def invoiceFields_def)
  then have "zparse bigintSchema (obj_get ob key) = Inr (obj_get out c)"
    using f sole_key_lookup [OF assms(2)] by metis
  then show ?thesis
    by (auto simp: w bigintSchema_def preprocess_eq coerce_bigint_toBigInt bindE_eq_Inr bigint_ok)
qed

lemma amount_read:
  assumes "(key, c) \<in> amount_keys" and "sole_key ob key c"
    and "parseInvoiceResponse zparse (JObj ob) = Inr res"
  shows "\<exists>i. toBigInt (obj_get ob key) = Inr i \<and> obj_get res c = JBigInt i"
proof -
  have rec: "isRecord (JObj ob)" by (simp add: isRecord_def)
  have other: "obj_get (obj_assign iv (extraFields ob)) c = obj_get iv c" for iv
    using assms(1) extra_other [of "''faceValue''" ob iv] extra_other [of "''fundedAmount''" ob iv]
    by (auto simp: extra_keys amount_keys_def)
  show ?thesis
  proof (cases "zparse invoiceSchema (JObj (normalizeKeys ob))")
    case (Inr w)
    then have "res = obj_assign (own_entries w) (extraFields ob)"
      using assms(3) rec by (simp add: parseInvoiceResponse_def)
    then show ?thesis using amount_schema [OF assms(1,2) Inr] other by simp
  next
    case (Inl e)
    then obtain iv where "manuallyParse ob = Inr iv" "res = obj_assign iv (extraFields ob)"
      using assms(3) rec
      by (cases e) (auto simp: parseInvoiceResponse_def bindE_eq_Inr)
    then show ?thesis using amount_manual [OF assms(1,2)] other by simp
  qed
qed

end

subsection \<open>Properties\<close>


text \<open>
  No amount is guessed: whichever path reads the payload, the face value and the funded
  amount of the result are exactly the integer the payload gives, and a payload whose amount is
  not an integer is refused instead of being read as zero.
\<close>

theorem parseInvoiceResponse_amounts:
  assumes "zod_semantics zparse" and "(key, c) \<in> amount_keys" and "sole_key ob key c"
  shows "(\<forall>res. parseInvoiceResponse zparse (JObj ob) = Inr res \<longrightarrow>
             (\<exists>i. toBigInt (obj_get ob key) = Inr i \<and> obj_get res c = JBigInt i)) \<and>
         (\<forall>e. toBigInt (obj_get ob key) = Inl e \<longrightarrow> (\<exists>e'. parseInvoiceResponse zparse (JObj ob) = Inl e'))"
  using zod_semantics.amount_read [OF assms]
  by (cases "parseInvoiceResponse zparse (JObj ob)") auto

lemma demo_payload:
  "parseInvoiceResponse ref_zparse (JObj [(''id'', JNull), (''face_value'', JStr ''250'')]) =
     Inr (obj_assign
       [(''id'', JStr []), (''issuer'', JStr []), (''buyer'', JStr []), (''faceValue'', JBigInt 250),
        (''asset'', JStr ''USDC''), (''discountBps'', JNum (Fin 0)), (''fundedAmount'', JBigInt 0),
        (''dueDate'', JNum (Fin 0)), (''status'', JStr []), (''createdAt'', JNum (Fin 0)),
        (''fundedAt'', JNull), (''shippedAt'', JNull), (''issuerConfirmed'', JBool False),
        (''buyerConfirmed'', JBool False), (''repaidAt'', JNull)]
       (extraFields [(''id'', JNull), (''face_value'', JStr ''250'')]))"
  by code_simp

theorem parseInvoiceResponse_amounts_witness:
  "\<exists>res. parseInvoiceResponse ref_zparse (JObj [(''id'', JNull), (''face_value'', JStr ''250'')]) = Inr res \<and>
     (\<exists>i. toBigInt (JStr ''250'') = Inr i \<and> obj_get res ''faceValue'' = JBigInt i)"
  using parseInvoiceResponse_amounts [OF ref_zod.zod_semantics_axioms,
      of "''face_value''" "''faceValue''" "[(''id'', JNull), (''face_value'', JStr ''250'')]"]
    demo_payload
  by (auto simp: amount_keys_def sole_key_def obj_get_def)

text \<open>The payload of the indexer for an invoice, with the identifier in hexadecimal.\<close>

definition demo_ob :: jsobj where
  "demo_ob = [(''id'', JStr (bytes_hex (replicate 32 171))), (''issuer'', JStr (CHR ''G'' # replicate 55 (CHR ''A''))),
     (''buyer'', JStr (CHR ''G'' # replicate 55 (CHR ''A''))), (''face_value'', JStr ''5''),
     (''status'', JStr ''Listed''), (''listed_at'', JNum (Fin 7))]"

lemma demo_ob_parse:
  "parseInvoice ref_zparse (JObj demo_ob) = Inr (JObj
     [(''id'', JStr (bytes_hex (replicate 32 171))), (''issuer'', JStr (CHR ''G'' # replicate 55 (CHR ''A''))),
      (''buyer'', JStr (CHR ''G'' # replicate 55 (CHR ''A''))), (''faceValue'', JBigInt 5), (''asset'', JStr ''USDC''),
      (''discountBps'', JNum (Fin 0)), (''fundedAmount'', JBigInt 0), (''dueDate'', JNum (Fin 0)),
      (''status'', JStr ''Listed''), (''createdAt'', JNum (Fin 0)), (''fundedAt'', JNull), (''shippedAt'', JNull),
      (''issuerConfirmed'', JBool False), (''buyerConfirmed'', JBool False), (''repaidAt'', JNull)])"
  by code_simp



text \<open>
  The extra fields are read from snake-case keys only, and overwrite what the schema read: a
  payload with camel-case keys, which the parser documents as accepted, loses these times.
\<close>

lemma camel_times_dropped:
  assumes "parseInvoiceResponse zparse (JObj ob) = Inr res"
    and "obj_get ob ''buyer_confirmed_at'' = JUndef" and "obj_get ob ''defaulted_at'' = JUndef"
  shows "obj_get res ''buyerConfirmedAt'' = JNull" and "obj_get res ''defaultedAt'' = JNull"
  using assms by (auto simp: parseInvoiceResponse_def Let_def isRecord_def bindE_eq_Inr extra_times
      toNullableNumber_def)

lemma bigint_of_num_Inr: "bigint_of_num x = Inr i \<longleftrightarrow> x = num_int i"
  by (cases x) (auto split: if_splits)

lemma integer_pattern_digits:
  assumes "u \<noteq> []" and "\<forall>c \<in> set u. is_digit c"
  shows "integer_pattern u" and "integer_pattern (CHR ''-'' # u)"
  using assms hd_digit_not_sign [of "hd u"]
  by (cases u; auto simp: integer_pattern_def js_startsWith_def list_all_iff)+

lemma integer_show:
  "integer_pattern (show_int i)" "js_trim (show_int i) = show_int i"
  using integer_pattern_digits [OF show_nat_not_Nil show_nat_digits]
    js_trim_digits [OF show_nat_not_Nil show_nat_digits]
  by (simp_all add: show_int_def)

text \<open>
  An amount in an event is read exactly or not at all: \<open>getEventDataBigInt\<close> takes a number only
  when it is an integer within the safe range of doubles, takes a decimal string of any length
  at its exact value, so that every bigint printed in decimal reads back as itself, and takes
  nothing else.
\<close>

theorem getEventDataBigInt_exact:
  "(getEventDataBigInt ev k = Some i \<longleftrightarrow>
      event_field ev k = JBigInt i \<or>
      event_field ev k = JNum (num_int i) \<and> \<bar>i\<bar> \<le> 9007199254740991 \<or>
      (\<exists>s. event_field ev k = JStr s \<and> integer_pattern (js_trim s) \<and> bigint_of_string (js_trim s) = Inr i)) \<and>
   getEventDataBigInt (ev\<lparr>ev_data := JObj [(k, JStr (show_int i))]\<rparr>) k = Some i"
proof
  show "getEventDataBigInt ev k = Some i \<longleftrightarrow>
      event_field ev k = JBigInt i \<or>
      event_field ev k = JNum (num_int i) \<and> \<bar>i\<bar> \<le> 9007199254740991 \<or>
      (\<exists>s. event_field ev k = JStr s \<and> integer_pattern (js_trim s) \<and> bigint_of_string (js_trim s) = Inr i)"
    by (cases "event_field ev k")
      (auto simp: getEventDataBigInt_def bigint_of_num_Inr split: sum.splits)
  show "getEventDataBigInt (ev\<lparr>ev_data := JObj [(k, JStr (show_int i))]\<rparr>) k = Some i"
    by (simp add: getEventDataBigInt_def event_field_def obj_get_def integer_show bigint_of_show_int)
qed

end
