(* ===== verification/Json.thy ===== *)
theory Json
  imports JsValue
begin

text \<open>
  \<open>JSON.stringify\<close> and \<open>JSON.parse\<close> of the standard library, as far as the program uses them: no
  replacer, no indentation. Strings are over the code units 0 to 255; an escape beyond them is
  outside the model and is refused like malformed text.

  The result of the theory is the round trip: a value made of null, booleans, strings, numbers
  that print and read back, arrays and objects with distinct keys is read back as itself.
\<close>

subsection \<open>Printing\<close>

definition json_hex :: "nat \<Rightarrow> char" where
  "json_hex n = (if n < 10 then char_of (48 + n) else char_of (87 + n))"

definition json_escape :: "char \<Rightarrow> string" where
  "json_escape c =
     (let n = code_unit c
      in if n = 34 then [char_of (92 :: nat), c]
         else if n = 92 then [c, c]
         else if n = 8 then [char_of (92 :: nat), CHR ''b'']
         else if n = 9 then [char_of (92 :: nat), CHR ''t'']
         else if n = 10 then [char_of (92 :: nat), CHR ''n'']
         else if n = 12 then [char_of (92 :: nat), CHR ''f'']
         else if n = 13 then [char_of (92 :: nat), CHR ''r'']
         else if n < 32 then [char_of (92 :: nat), CHR ''u'', CHR ''0'', CHR ''0'', json_hex (n div 16), json_hex (n mod 16)]
         else [c])"

definition json_quote :: "string \<Rightarrow> string" where
  "json_quote s = CHR 0x22 # concat (map json_escape s) @ [CHR 0x22]"

fun json_text :: "jsval \<Rightarrow> string"
  and json_items :: "jsval list \<Rightarrow> string list"
  and json_entries :: "(string \<times> jsval) list \<Rightarrow> string list" where
  "json_text JUndef = ''null''"
| "json_text JNull = ''null''"
| "json_text (JBool b) = (if b then ''true'' else ''false'')"
| "json_text (JNum x) = (if num_isFinite x then num_toString x else ''null'')"
| "json_text (JBigInt i) = []"
| "json_text (JStr s) = json_quote s"
| "json_text (JObj ob) = ''{'' @ js_join '','' (json_entries ob) @ ''}''"
| "json_text (JArr xs) = ''['' @ js_join '','' (json_items xs) @ '']''"
| "json_text (JMap m) = ''{}''"
| "json_text (JBytes bs) =
     ''{'' @ js_join '','' (map (\<lambda>(i, b). json_quote (show_nat i) @ '':'' @ show_nat b) (enumerate 0 bs)) @ ''}''"
| "json_items [] = []"
| "json_items (x # xs) = json_text x # json_items xs"
| "json_entries [] = []"
| "json_entries ((k, v) # ob) =
     (if v = JUndef then json_entries ob else (json_quote k @ '':'' @ json_text v) # json_entries ob)"

text \<open>A bigint anywhere in the value makes \<open>JSON.stringify\<close> throw.\<close>

fun has_bigint :: "jsval \<Rightarrow> bool" where
  "has_bigint (JBigInt i) \<longleftrightarrow> True"
| "has_bigint (JObj ob) \<longleftrightarrow> (\<exists>v \<in> snd ` set ob. has_bigint v)"
| "has_bigint (JArr xs) \<longleftrightarrow> (\<exists>v \<in> set xs. has_bigint v)"
| "has_bigint v \<longleftrightarrow> False"

definition JSON_stringify :: "jsval \<Rightarrow> exn + string" where
  "JSON_stringify v =
     (if has_bigint v then Inl (JsTypeError ''Do not know how to serialize a BigInt'')
      else Inr (json_text v))"

subsection \<open>Reading\<close>

definition json_space :: "char \<Rightarrow> bool" where
  "json_space c \<longleftrightarrow> code_unit c \<in> {9, 10, 13, 32}"

abbreviation skip_ws :: "string \<Rightarrow> string" where
  "skip_ws s \<equiv> dropWhile json_space s"

fun hex_val :: "char \<Rightarrow> nat option" where
  "hex_val c =
     (let n = code_unit c
      in if 48 \<le> n \<and> n \<le> 57 then Some (n - 48)
         else if 97 \<le> n \<and> n \<le> 102 then Some (n - 87)
         else if 65 \<le> n \<and> n \<le> 70 then Some (n - 55) else None)"

definition simple_escape :: "char \<Rightarrow> char option" where
  "simple_escape c =
     (let n = code_unit c
      in if n \<in> {34, 92, 47} then Some c
         else if n = 98 then Some (char_of (8 :: nat)) else if n = 116 then Some (char_of (9 :: nat))
         else if n = 110 then Some (char_of (10 :: nat)) else if n = 102 then Some (char_of (12 :: nat))
         else if n = 114 then Some (char_of (13 :: nat)) else None)"

text \<open>The body of a string literal, after the opening quote.\<close>

function json_string :: "string \<Rightarrow> (string \<times> string) option" where
  "json_string s =
     (case s of
        [] \<Rightarrow> None
      | c # cs \<Rightarrow>
          if code_unit c = 34 then Some ([], cs)
          else if code_unit c < 32 then None
          else if code_unit c = 92 then
            (case cs of
               [] \<Rightarrow> None
             | d # ds \<Rightarrow>
                 if d = CHR ''u'' then
                   (case ds of
                      a # b # e # f # rest \<Rightarrow>
                        (case (hex_val a, hex_val b, hex_val e, hex_val f) of
                           (Some 0, Some 0, Some x, Some y) \<Rightarrow>
                             map_option (\<lambda>(t, r). (char_of (16 * x + y) # t, r)) (json_string rest)
                         | _ \<Rightarrow> None)
                    | _ \<Rightarrow> None)
                 else case simple_escape d of
                        Some x \<Rightarrow> map_option (\<lambda>(t, r). (x # t, r)) (json_string ds)
                      | None \<Rightarrow> None)
          else map_option (\<lambda>(t, r). (c # t, r)) (json_string cs))"
  by pat_completeness auto
termination
  by (relation "measure length") auto

declare json_string.simps [simp del]

text \<open>The lexical form of a number.\<close>

definition number_char :: "char \<Rightarrow> bool" where
  "number_char c \<longleftrightarrow> is_digit c \<or> c \<in> {CHR ''-'', CHR ''+'', CHR ''.'', CHR ''e'', CHR ''E''}"

definition json_exp :: "string \<Rightarrow> bool" where
  "json_exp s \<longleftrightarrow>
     s = [] \<or>
     ((hd s = CHR ''e'' \<or> hd s = CHR ''E'') \<and>
      (let u = tl s; w = (if u \<noteq> [] \<and> (hd u = CHR ''+'' \<or> hd u = CHR ''-'') then tl u else u)
       in w \<noteq> [] \<and> list_all is_digit w))"

definition json_frac :: "string \<Rightarrow> bool" where
  "json_frac s \<longleftrightarrow>
     (if s \<noteq> [] \<and> hd s = CHR ''.''
      then takeWhile is_digit (tl s) \<noteq> [] \<and> json_exp (dropWhile is_digit (tl s)) else json_exp s)"

definition json_number :: "string \<Rightarrow> bool" where
  "json_number s \<longleftrightarrow>
     (let u = (if js_startsWith s ''-'' then tl s else s); d = takeWhile is_digit u
      in d \<noteq> [] \<and> (hd d = CHR ''0'' \<longrightarrow> length d = 1) \<and> json_frac (dropWhile is_digit u))"

text \<open>The rest of the text after white space and a given character.\<close>

definition expect :: "char \<Rightarrow> string \<Rightarrow> string option" where
  "expect c s = (case skip_ws s of [] \<Rightarrow> None | d # r \<Rightarrow> if d = c then Some r else None)"

text \<open>Values; the fuel bounds the number of steps and twice the length of the text is enough.\<close>

fun json_value :: "nat \<Rightarrow> string \<Rightarrow> (jsval \<times> string) option"
  and json_elements :: "nat \<Rightarrow> string \<Rightarrow> (jsval list \<times> string) option"
  and json_members :: "nat \<Rightarrow> string \<Rightarrow> ((string \<times> jsval) list \<times> string) option" where
  "json_value 0 s = None"
| "json_value (Suc n) s =
     (let t = skip_ws s
      in if js_startsWith t ''null'' then Some (JNull, drop 4 t)
         else if js_startsWith t ''true'' then Some (JBool True, drop 4 t)
         else if js_startsWith t ''false'' then Some (JBool False, drop 5 t)
         else case expect (CHR 0x22) t of Some r \<Rightarrow> map_option (\<lambda>(u, r). (JStr u, r)) (json_string r)
         | None \<Rightarrow> case expect (CHR ''['') t of
             Some r \<Rightarrow>
               (case expect (CHR '']'') r of
                  Some r' \<Rightarrow> Some (JArr [], r')
                | None \<Rightarrow> map_option (\<lambda>(xs, r). (JArr xs, r)) (json_elements n r))
         | None \<Rightarrow> case expect (CHR ''{'') t of
             Some r \<Rightarrow>
               (case expect (CHR ''}'') r of
                  Some r' \<Rightarrow> Some (JObj [], r')
                | None \<Rightarrow> map_option (\<lambda>(kvs, r). (JObj (obj_assign [] kvs), r)) (json_members n r))
         | None \<Rightarrow>
             if json_number (takeWhile number_char t)
             then Some (JNum (num_of_string (takeWhile number_char t)), dropWhile number_char t) else None)"
| "json_elements 0 s = None"
| "json_elements (Suc n) s =
     (case json_value n s of
        None \<Rightarrow> None
      | Some (v, r) \<Rightarrow>
          (case expect (CHR '','') r of
             Some r' \<Rightarrow> map_option (\<lambda>(vs, t). (v # vs, t)) (json_elements n r')
           | None \<Rightarrow> map_option (\<lambda>r'. ([v], r')) (expect (CHR '']'') r)))"
| "json_members 0 s = None"
| "json_members (Suc n) s =
     (case Option.bind (expect (CHR 0x22) s) json_string of
        None \<Rightarrow> None
      | Some (k, r) \<Rightarrow>
          (case Option.bind (expect (CHR '':'') r) (json_value n) of
             None \<Rightarrow> None
           | Some (v, t) \<Rightarrow>
               (case expect (CHR '','') t of
                  Some t' \<Rightarrow> map_option (\<lambda>(kvs, u). ((k, v) # kvs, u)) (json_members n t')
                | None \<Rightarrow> map_option (\<lambda>t'. ([(k, v)], t')) (expect (CHR ''}'') t))))"

definition JSON_parse :: "string \<Rightarrow> exn + jsval" where
  "JSON_parse s =
     (case json_value (2 * length s + 2) s of
        Some (v, r) \<Rightarrow> if skip_ws r = [] then Inr v else Inl (JsSyntaxError ''Unexpected token in JSON'')
      | None \<Rightarrow> Inl (JsSyntaxError ''Unexpected token in JSON''))"


subsection \<open>Round trip\<close>

lemma hex_val_json_hex: "n < 16 \<Longrightarrow> hex_val (json_hex n) = Some n"
  by (auto simp: json_hex_def Let_def)

lemma hex_val_zero: "hex_val (CHR ''0'') = Some 0"
  by simp

lemma char_of_code [simp]: "char_of (code_unit c :: nat) = c"
  by simp

lemma simple_escape_code:
  "simple_escape (CHR ''b'') = Some (char_of (8 :: nat))" "simple_escape (CHR ''t'') = Some (char_of (9 :: nat))"
  "simple_escape (CHR ''n'') = Some (char_of (10 :: nat))" "simple_escape (CHR ''f'') = Some (char_of (12 :: nat))"
  "simple_escape (CHR ''r'') = Some (char_of (13 :: nat))"
  "simple_escape (char_of (34 :: nat)) = Some (char_of (34 :: nat))"
  "simple_escape (char_of (92 :: nat)) = Some (char_of (92 :: nat))"
  by (simp_all add: simple_escape_def)

lemma json_string_plain:
  "code_unit c \<noteq> 34 \<Longrightarrow> code_unit c \<noteq> 92 \<Longrightarrow> 32 \<le> code_unit c \<Longrightarrow>
   json_string (c # s) = map_option (\<lambda>(t, r). (c # t, r)) (json_string s)"
  by (subst json_string.simps) simp

lemma json_string_simple:
  "d \<noteq> CHR ''u'' \<Longrightarrow> simple_escape d = Some x \<Longrightarrow>
   json_string (char_of (92 :: nat) # d # s) = map_option (\<lambda>(t, r). (x # t, r)) (json_string s)"
  by (subst json_string.simps) simp

lemma json_string_hex:
  "x < 16 \<Longrightarrow> y < 16 \<Longrightarrow>
   json_string (char_of (92 :: nat) # CHR ''u'' # CHR ''0'' # CHR ''0'' # json_hex x # json_hex y # s) =
     map_option (\<lambda>(t, r). (char_of (16 * x + y) # t, r)) (json_string s)"
  by (subst json_string.simps) (simp add: hex_val_json_hex hex_val_zero del: hex_val.simps)

lemma not_u: "char_of (34 :: nat) \<noteq> CHR ''u''" "char_of (92 :: nat) \<noteq> CHR ''u''"
  by (simp_all add: char_of_def bit_Suc_0_iff)

lemma json_string_escape:
  "json_string (json_escape c @ s) = map_option (\<lambda>(t, r). (c # t, r)) (json_string s)"
proof -
  define n where "n = code_unit c"
  have c: "c = char_of n" by (simp add: n_def)
  have hex: "16 * (n div 16) + n mod 16 = n" "n mod 16 < 16" by simp_all
  consider "n = 34" | "n = 92" | "n = 8" | "n = 9" | "n = 10" | "n = 12" | "n = 13"
    | "n < 32" "n \<notin> {8, 9, 10, 12, 13}" | "32 \<le> n" "n \<noteq> 34" "n \<noteq> 92" by force
  then show ?thesis
  proof cases
    case 8
    then have "json_escape c = [char_of (92 :: nat), CHR ''u'', CHR ''0'', CHR ''0'',
        json_hex (n div 16), json_hex (n mod 16)]"
      by (auto simp: json_escape_def Let_def n_def)
    then show ?thesis using 8 hex json_string_hex [of "n div 16" "n mod 16" s] c by simp
  next
    case 9
    then show ?thesis
      by (simp add: json_escape_def Let_def flip: n_def) (simp add: json_string_plain n_def)
  qed (simp_all add: json_escape_def Let_def c json_string_simple simple_escape_code not_u)
qed

lemma json_string_quote: "json_string (concat (map json_escape s) @ CHR 0x22 # rest) = Some (s, rest)"
proof (induction s)
  case Nil
  show ?case by (subst json_string.simps) simp
qed (simp add: json_string_escape)


text \<open>A number that is printed as a JSON number and read back as itself.\<close>

definition json_num_ok :: "jsnum \<Rightarrow> bool" where
  "json_num_ok x \<longleftrightarrow>
     num_isFinite x \<and> list_all number_char (num_toString x) \<and> json_number (num_toString x) \<and>
     num_of_string (num_toString x) = x"

fun json_plain :: "jsval \<Rightarrow> bool" where
  "json_plain JNull \<longleftrightarrow> True"
| "json_plain (JBool b) \<longleftrightarrow> True"
| "json_plain (JStr s) \<longleftrightarrow> True"
| "json_plain (JNum x) \<longleftrightarrow> json_num_ok x"
| "json_plain (JArr xs) \<longleftrightarrow> (\<forall>v \<in> set xs. json_plain v)"
| "json_plain (JObj ob) \<longleftrightarrow> distinct (map fst ob) \<and> (\<forall>v \<in> snd ` set ob. json_plain v)"
| "json_plain v \<longleftrightarrow> False"

definition ends_num :: "string \<Rightarrow> bool" where
  "ends_num r \<longleftrightarrow> r = [] \<or> \<not> number_char (hd r)"

lemma expect_Cons [simp]: "\<not> json_space d \<Longrightarrow> expect c (d # r) = (if d = c then Some r else None)"
  by (simp add: expect_def)

lemma not_space [simp]:
  "\<not> json_space (CHR 0x22)" "\<not> json_space (CHR ''['')" "\<not> json_space (CHR '']'')" "\<not> json_space (CHR ''{'')"
  "\<not> json_space (CHR ''}'')" "\<not> json_space (CHR '','')" "\<not> json_space (CHR '':'')" "\<not> json_space (CHR ''n'')"
  "\<not> json_space (CHR ''t'')" "\<not> json_space (CHR ''f'')"
  by (simp_all add: json_space_def)

definition number_head :: "char \<Rightarrow> bool" where
  "number_head c \<longleftrightarrow> is_digit c \<or> c = CHR ''-''"

lemma number_head_facts:
  assumes "number_head c"
  shows "\<not> json_space c" and "c \<notin> {CHR 0x22, CHR ''['', CHR '']'', CHR ''{'', CHR ''}'', CHR '','', CHR ''n'', CHR ''t'', CHR ''f''}"
  using assms by (auto simp: number_head_def is_digit_def json_space_def)

lemma json_number_head: "json_number s \<Longrightarrow> \<exists>c t. s = c # t \<and> number_head c"
  by (cases s) (auto simp: json_number_def number_head_def js_startsWith_def Let_def split: if_splits)

text \<open>The first character of a printed value.\<close>

lemma json_text_head:
  assumes "json_plain v"
  shows "\<exists>c t. json_text v = c # t \<and> \<not> json_space c \<and> c \<notin> {CHR '']'', CHR ''}'', CHR '',''}"
proof (cases v)
  case (JNum x)
  then obtain c t where "num_toString x = c # t" "number_head c"
    using assms json_number_head [of "num_toString x"] by (auto simp: json_num_ok_def)
  then show ?thesis using JNum assms number_head_facts [of c] by (auto simp: json_num_ok_def)
qed (use assms in \<open>auto simp: json_quote_def\<close>)

lemma json_value_number:
  assumes "json_num_ok x" and "ends_num r"
  shows "json_value (Suc n) (num_toString x @ r) = Some (JNum x, r)"
proof -
  obtain c t where h: "num_toString x = c # t" "number_head c"
    using assms(1) json_number_head [of "num_toString x"] by (auto simp: json_num_ok_def)
  have all: "list_all number_char (num_toString x)" using assms(1) by (simp add: json_num_ok_def)
  have tk: "takeWhile number_char (num_toString x @ r) = num_toString x"
    using all assms(2) by (cases r) (auto simp: ends_num_def list_all_iff takeWhile_append)
  have dr: "dropWhile number_char (num_toString x @ r) = r"
    using all assms(2) by (cases r) (auto simp: ends_num_def list_all_iff dropWhile_append)
  show ?thesis
    using number_head_facts [OF h(2)] assms(1) tk dr
    unfolding h(1) by (simp add: js_startsWith_def json_num_ok_def h(1))
qed


lemma json_value_string: "json_value (Suc n) (json_quote s @ r) = Some (JStr s, r)"
  by (simp add: json_quote_def js_startsWith_def json_string_quote)

lemma json_value_word:
  "json_value (Suc n) (''null'' @ r) = Some (JNull, r)"
  "json_value (Suc n) (''true'' @ r) = Some (JBool True, r)"
  "json_value (Suc n) (''false'' @ r) = Some (JBool False, r)"
  by (simp_all add: js_startsWith_def)

lemma json_value_array:
  assumes "xs \<noteq> []" and "json_plain (hd xs)"
    and "json_elements n (js_join '','' (json_items xs) @ CHR '']'' # r) = Some (xs, r)"
  shows "json_value (Suc n) (json_text (JArr xs) @ r) = Some (JArr xs, r)"
proof -
  obtain c t where "js_join '','' (json_items xs) = c # t" "\<not> json_space c" "c \<noteq> CHR '']''"
    using json_text_head [OF assms(2)] assms(1) by (cases xs; cases "json_items (tl xs)") auto
  then show ?thesis using assms(3) by (simp add: js_startsWith_def)
qed

lemma json_value_object:
  assumes "ob \<noteq> []" and "json_entries ob \<noteq> []" and "distinct (map fst ob)"
    and "json_members n (js_join '','' (json_entries ob) @ CHR ''}'' # r) = Some (ob, r)"
  shows "json_value (Suc n) (json_text (JObj ob) @ r) = Some (JObj ob, r)"
proof -
  have "\<exists>t. js_join '','' (json_entries ob) = CHR 0x22 # t"
    using assms(2)
  proof (induction ob)
    case (Cons a ob)
    then show ?case
      by (cases a; cases "json_entries ob") (auto simp: json_quote_def)
  qed simp
  then obtain t where "js_join '','' (json_entries ob) = CHR 0x22 # t" by blast
  then show ?thesis using assms(3,4) by (simp add: js_startsWith_def obj_assign_distinct)
qed

lemma plain_entries:
  assumes "\<forall>v \<in> snd ` set ob. json_plain v"
  shows "json_entries ob = map (\<lambda>(k, v). json_quote k @ '':'' @ json_text v) ob"
  using assms by (induction ob) auto

lemma join_items: "json_items xs = map json_text xs"
  by (induction xs) auto

lemma join_Cons: "xs \<noteq> [] \<Longrightarrow> js_join sep (x # xs) = x @ sep @ js_join sep xs"
  by (cases xs) auto

lemma ends_num_seps [simp]:
  "ends_num (CHR '','' # r)" "ends_num (CHR '']'' # r)" "ends_num (CHR ''}'' # r)" "ends_num []"
  by (simp_all add: ends_num_def number_char_def is_digit_def)

lemma json_elements_all:
  assumes "\<And>v n r. v \<in> set xs \<Longrightarrow> 2 * length (json_text v) < n \<Longrightarrow> ends_num r \<Longrightarrow>
      json_value n (json_text v @ r) = Some (v, r)"
    and "\<forall>v \<in> set xs. json_plain v" and "xs \<noteq> []"
    and "2 * length (js_join '','' (map json_text xs)) + 1 < n"
  shows "json_elements n (js_join '','' (map json_text xs) @ CHR '']'' # r) = Some (xs, r)"
  using assms
proof (induction xs arbitrary: n)
  case (Cons v xs)
  obtain m where n: "n = Suc m" using Cons.prems(4) by (cases n) auto
  show ?case
  proof (cases "xs = []")
    case True
    then show ?thesis using Cons.prems by (simp add: n)
  next
    case False
    let ?t = "js_join '','' (map json_text xs) @ CHR '']'' # r"
    have len: "2 * (length (json_text v) + 1 + length (js_join '','' (map json_text xs))) < m"
      using Cons.prems(4) False by (simp add: n join_Cons)
    obtain c u where "json_text v = c # u" using json_text_head [of v] Cons.prems(2) by auto
    then have "json_elements m ?t = Some (xs, r)"
      using len Cons.prems False by (intro Cons.IH) auto
    moreover have "json_value m (json_text v @ CHR '','' # ?t) = Some (v, CHR '','' # ?t)"
      using len by (intro Cons.prems(1)) auto
    ultimately show ?thesis using False by (simp add: n join_Cons)
  qed
qed simp

lemma json_members_all:
  assumes "\<And>k v n r. (k, v) \<in> set ob \<Longrightarrow> 2 * length (json_text v) < n \<Longrightarrow> ends_num r \<Longrightarrow>
      json_value n (json_text v @ r) = Some (v, r)"
    and "\<forall>v \<in> snd ` set ob. json_plain v" and "ob \<noteq> []"
    and "2 * length (js_join '','' (json_entries ob)) + 1 < n"
  shows "json_members n (js_join '','' (json_entries ob) @ CHR ''}'' # r) = Some (ob, r)"
  using assms
proof (induction ob arbitrary: n)
  case (Cons a ob)
  obtain k v where a: "a = (k, v)" by (cases a)
  obtain m where n: "n = Suc m" using Cons.prems(4) by (cases n) auto
  have v: "v \<noteq> JUndef" using Cons.prems(2) by (auto simp: a)
  have str: "json_string (concat (map json_escape k) @ CHR 0x22 # s) = Some (k, s)" for s
    by (rule json_string_quote)
  show ?case
  proof (cases "ob = []")
    case True
    then show ?thesis
      using Cons.prems(1) [of k v m "CHR ''}'' # r"] Cons.prems(4) v
      by (simp add: n a json_quote_def str)
  next
    case False
    let ?t = "js_join '','' (json_entries ob) @ CHR ''}'' # r"
    have ne: "json_entries ob \<noteq> []"
      using False Cons.prems(2) by (subst plain_entries) auto
    have len: "2 * (length (json_text v) + 1 + length (js_join '','' (json_entries ob))) + 4 < m"
      using Cons.prems(4) v by (simp add: n a join_Cons [OF ne] json_quote_def)
    have "json_members m ?t = Some (ob, r)"
      using len Cons.prems False by (intro Cons.IH) auto
    moreover have "json_value m (json_text v @ CHR '','' # ?t) = Some (v, CHR '','' # ?t)"
      using len by (intro Cons.prems(1)) (auto simp: a)
    ultimately show ?thesis using v by (simp add: n a join_Cons [OF ne] json_quote_def str)
  qed
qed simp


lemma json_value_text:
  "json_plain v \<Longrightarrow> 2 * length (json_text v) < n \<Longrightarrow> ends_num r \<Longrightarrow>
   json_value n (json_text v @ r) = Some (v, r)"
proof (induction v arbitrary: n r rule: json_plain.induct)
  case 1
  then show ?case using json_value_word by (cases n) auto
next
  case (2 b)
  then show ?case using json_value_word by (cases n; cases b) auto
next
  case (3 s)
  then show ?case using json_value_string by (cases n) auto
next
  case (4 x)
  then show ?case using json_value_number by (cases n) (auto simp: json_num_ok_def)
next
  case (5 xs)
  obtain m where n: "n = Suc m" using 5(3) by (cases n) auto
  show ?case
  proof (cases "xs = []")
    case True
    then show ?thesis by (simp add: n js_startsWith_def)
  next
    case False
    have "json_elements m (js_join '','' (map json_text xs) @ CHR '']'' # r) = Some (xs, r)"
      using 5 False by (intro json_elements_all) (auto simp: n join_items)
    then show ?thesis
      unfolding n using 5(2) False by (intro json_value_array) (simp_all add: join_items)
  qed
next
  case (6 ob)
  obtain m where n: "n = Suc m" using 6(3) by (cases n) auto
  show ?case
  proof (cases "ob = []")
    case True
    then show ?thesis by (simp add: n js_startsWith_def)
  next
    case False
    have "json_members m (js_join '','' (json_entries ob) @ CHR ''}'' # r) = Some (ob, r)"
      using 6 False by (intro json_members_all) (force simp: n)+
    moreover have "json_entries ob \<noteq> []" using False 6(2) by (subst plain_entries) auto
    ultimately show ?thesis
      unfolding n using 6(2) False by (intro json_value_object) auto
  qed
qed simp_all

lemma plain_no_bigint: "json_plain v \<Longrightarrow> \<not> has_bigint v"
  by (induction v rule: json_plain.induct) auto

theorem JSON_round_trip:
  assumes "json_plain v"
  shows "\<exists>s. JSON_stringify v = Inr s \<and> JSON_parse s = Inr v"
proof -
  have "json_value (2 * length (json_text v) + 2) (json_text v @ []) = Some (v, [])"
    using assms by (intro json_value_text) auto
  then show ?thesis
    using plain_no_bigint [OF assms] by (simp add: JSON_stringify_def JSON_parse_def)
qed

end
