(* ===== verification/Api.thy ===== *)
theory Api
  imports AppErrors WalletStore Parsers Json
begin

text \<open>
  The client of the indexer's HTTP interface (\<open>apps/web/lib/api.ts\<close>). The network is the parameter
  \<open>fetch\<close>: any function from a request and the state of the outside to a response or a failure.
  The state keeps every request sent, in order.
\<close>

record api_request =
  rq_url :: string
  rq_method :: "string option"
  rq_headers :: "(string \<times> string) list"
  rq_body :: "string option"

record api_response =
  rs_status :: int
  rs_text :: "exn + string" \<comment> \<open>reading the body may fail\<close>

record 'w api_env =
  fetch :: "api_request \<Rightarrow> 'w \<Rightarrow> (exn + api_response) \<times> 'w"
  apiBaseUrl :: "string option" \<comment> \<open>\<open>NEXT_PUBLIC_API_BASE_URL\<close>\<close>

record 'w api_state = ui_state +
  wallet :: WalletState
  http :: 'w
  requests :: "api_request list"

type_synonym ('w, 'z, 'r) api_io = "(exn, ('w, 'z) api_state_scheme, 'r) io"

subsection \<open>Headers and addresses of the web platform\<close>

text \<open>\<open>Headers\<close>: names are case-insensitive; a value is stripped and must not contain NUL, CR or LF.\<close>

definition http_space :: "char \<Rightarrow> bool" where
  "http_space c \<longleftrightarrow> code_unit c \<in> {9, 10, 13, 32}"

definition header_value :: "string \<Rightarrow> exn + string" where
  "header_value v =
     (let t = rev (dropWhile http_space (rev (dropWhile http_space v)))
      in if list_all (\<lambda>c. code_unit c \<notin> {0, 10, 13}) t then Inr t
         else Inl (JsTypeError ''Headers.set: invalid header value''))"

definition headers_set :: "string \<Rightarrow> string \<Rightarrow> (string \<times> string) list \<Rightarrow> exn + (string \<times> string) list" where
  "headers_set name v hs = bindE (header_value v) (\<lambda>t. Inr (obj_set (js_toLowerCase name) t hs))"

definition headers_has :: "string \<Rightarrow> (string \<times> string) list \<Rightarrow> bool" where
  "headers_has name hs \<longleftrightarrow> js_toLowerCase name \<in> fst ` set hs"

text \<open>Percent-encoding of a code unit below 256, as UTF-8.\<close>

definition upper_hex :: "nat \<Rightarrow> char" where
  "upper_hex n = (if n < 10 then char_of (48 + n) else char_of (55 + n))"

definition percent_byte :: "nat \<Rightarrow> string" where
  "percent_byte b = [CHR ''%'', upper_hex (b div 16), upper_hex (b mod 16)]"

definition percent_char :: "char \<Rightarrow> string" where
  "percent_char c =
     (let n = code_unit c
      in if n < 128 then percent_byte n else percent_byte (192 + n div 64) @ percent_byte (128 + n mod 64))"

definition alnum :: "char \<Rightarrow> bool" where
  "alnum c \<longleftrightarrow> is_digit c \<or> (65 \<le> code_unit c \<and> code_unit c \<le> 90) \<or> (97 \<le> code_unit c \<and> code_unit c \<le> 122)"

definition encodeURIComponent :: "string \<Rightarrow> string" where
  "encodeURIComponent s =
     concat (map (\<lambda>c. if alnum c \<or> c \<in> set ''-_.!~*()'' \<or> code_unit c = 39 then [c] else percent_char c) s)"

definition form_encode :: "string \<Rightarrow> string" where
  "form_encode s =
     concat (map (\<lambda>c. if alnum c \<or> c \<in> set ''*-._'' then [c] else if c = CHR '' '' then ''+'' else percent_char c) s)"

definition search_params :: "(string \<times> string) list \<Rightarrow> string" where
  "search_params ps = js_join ''&'' (map (\<lambda>(k, v). form_encode k @ ''='' @ form_encode v) ps)"

subsection \<open>Requests\<close>

definition getApiUrl :: "'w api_env \<Rightarrow> string" where
  "getApiUrl E = (case apiBaseUrl E of Some u \<Rightarrow> if u \<noteq> [] then u else ''http://localhost:8080''
                  | None \<Rightarrow> ''http://localhost:8080'')"

record RequestInit =
  ri_method :: "string option"
  ri_headers :: "(string \<times> string) list"
  ri_body :: "string option"

definition no_init :: RequestInit where
  "no_init = \<lparr>ri_method = None, ri_headers = [], ri_body = None\<rparr>"

definition request_headers :: "string option \<Rightarrow> RequestInit \<Rightarrow> exn + (string \<times> string) list" where
  "request_headers token options =
     bindE (foldl (\<lambda>r (k, v). bindE r (headers_set k v)) (Inr []) (ri_headers options)) (\<lambda>hs.
     bindE (case token of
              Some t \<Rightarrow> if t \<noteq> [] then headers_set ''Authorization'' (''Bearer '' @ t) hs else Inr hs
            | None \<Rightarrow> Inr hs) (\<lambda>hs.
     if \<not> headers_has ''Content-Type'' hs \<and> (ri_method options = Some ''POST'' \<or> ri_method options = Some ''PUT'')
     then headers_set ''Content-Type'' ''application/json'' hs else Inr hs))"

definition send_request :: "'w api_env \<Rightarrow> api_request \<Rightarrow> ('w, 'z, api_response) api_io" where
  "send_request E rq = (\<lambda>s. case fetch E rq (http s) of
     (r, w) \<Rightarrow> (r, s\<lparr>http := w, requests := requests s @ [rq]\<rparr>))"

definition response_ok :: "api_response \<Rightarrow> bool" where
  "response_ok res \<longleftrightarrow> 200 \<le> rs_status res \<and> rs_status res \<le> 299"

text \<open>The message of a failed response with a body.\<close>

definition error_body_message :: "string \<Rightarrow> string" where
  "error_body_message body =
     (case JSON_parse body of
        Inl e \<Rightarrow> body
      | Inr json \<Rightarrow>
          if truthy json \<and> typeof_object json then
            (case obj_get (own_entries json) ''error'' of
               JStr m \<Rightarrow> m
             | _ \<Rightarrow> (case obj_get (own_entries json) ''message'' of JStr m \<Rightarrow> m | _ \<Rightarrow> body))
          else body)"

definition failed_response :: "api_response \<Rightarrow> exn" where
  "failed_response res =
     (case rs_text res of
        Inl e \<Rightarrow> e
      | Inr body \<Rightarrow>
          if rs_status res = 503 \<or> rs_status res = 504
          then new_Error (if body \<noteq> [] then body else ''Service Temporarily Unavailable. Please try again later.'')
          else let errorMessage = error_body_message body
               in new_Error (if errorMessage \<noteq> [] then errorMessage
                             else ''HTTP error! status: '' @ show_int (rs_status res)))"

definition apiFetch :: "'w api_env \<Rightarrow> string \<Rightarrow> RequestInit \<Rightarrow> ('w, 'z, jsval) api_io" where
  "apiFetch E path options = (\<lambda>s.
     (bindIO (liftE (request_headers (w_token (wallet s)) options)) (\<lambda>headers.
      bindIO (send_request E \<lparr>rq_url = getApiUrl E @ path, rq_method = ri_method options,
                rq_headers = headers, rq_body = ri_body options\<rparr>) (\<lambda>res.
      if \<not> response_ok res then throwIO (failed_response res)
      else liftE (bindE (rs_text res) JSON_parse)))) s)"


subsection \<open>Endpoints\<close>

text \<open>\<open>v.k\<close>, which throws on null and undefined, and \<open>v.map(f)\<close>, which needs an array.\<close>

definition js_prop :: "jsval \<Rightarrow> string \<Rightarrow> exn + jsval" where
  "js_prop v k =
     (if nullish v then Inl (JsTypeError (''Cannot read properties of '' @ js_String v @ '' (reading '' @ k @ '')''))
      else Inr (obj_get (own_entries v) k))"

definition js_map :: "(jsval \<Rightarrow> exn + 'b) \<Rightarrow> jsval \<Rightarrow> exn + 'b list" where
  "js_map f v =
     (case v of
        JArr xs \<Rightarrow> mapE f xs
      | _ \<Rightarrow> if nullish v then Inl (JsTypeError (''Cannot read properties of '' @ js_String v @ '' (reading map)''))
             else Inl (JsTypeError ''map is not a function''))"

definition with_body :: "string \<Rightarrow> jsobj \<Rightarrow> exn + RequestInit" where
  "with_body m ob = bindE (JSON_stringify (JObj ob)) (\<lambda>b. Inr \<lparr>ri_method = Some m, ri_headers = [], ri_body = Some b\<rparr>)"

definition apiSend :: "'w api_env \<Rightarrow> string \<Rightarrow> string \<Rightarrow> jsobj \<Rightarrow> ('w, 'z, jsval) api_io" where
  "apiSend E m path ob = bindIO (liftE (with_body m ob)) (apiFetch E path)"

definition fetchChallenge :: "'w api_env \<Rightarrow> string \<Rightarrow> ('w, 'z, jsval) api_io" where
  "fetchChallenge E address = apiFetch E (''/auth?address='' @ address) no_init"

definition verifyChallenge :: "'w api_env \<Rightarrow> string \<Rightarrow> ('w, 'z, jsval) api_io" where
  "verifyChallenge E transaction = apiSend E ''POST'' ''/auth'' [(''transaction'', JStr transaction)]"

definition createInvoice :: "'w api_env \<Rightarrow> string \<Rightarrow> string \<Rightarrow> jsnum \<Rightarrow> AssetType \<Rightarrow> ('w, 'z, jsval) api_io" where
  "createInvoice E buyer faceValue dueDate asset =
     apiSend E ''POST'' ''/invoices''
       [(''buyer'', JStr buyer), (''face_value'', JStr faceValue), (''due_date'', JNum dueDate),
        (''asset'', JStr (asset_string asset))]"

definition getInvoiceByID :: "'w api_env \<Rightarrow> zparser \<Rightarrow> string \<Rightarrow> ('w, 'z, jsobj) api_io" where
  "getInvoiceByID E zparse i =
     bindIO (apiFetch E (''/invoices/'' @ i) no_init) (\<lambda>raw. liftE (parseInvoiceResponse zparse raw))"

definition updateInvoiceStatus :: "'w api_env \<Rightarrow> string \<Rightarrow> string \<Rightarrow> ('w, 'z, jsval) api_io" where
  "updateInvoiceStatus E i status =
     apiSend E ''PATCH'' (''/invoices/'' @ encodeURIComponent i @ ''/status'') [(''status'', JStr status)]"

record InvoiceFilters =
  f_status :: "string option"
  f_issuer :: "string option"
  f_page :: "jsnum option"
  f_limit :: "jsnum option"

definition filter_params :: "InvoiceFilters \<Rightarrow> (string \<times> string) list" where
  "filter_params f =
     (if present (f_status f) then [(''status'', the (f_status f))] else []) @
     (if present (f_issuer f) then [(''issuer'', the (f_issuer f))] else []) @
     (case f_page f of Some p \<Rightarrow> [(''page'', num_toString p)] | None \<Rightarrow> []) @
     (case f_limit f of Some l \<Rightarrow> [(''limit'', num_toString l)] | None \<Rightarrow> [])"

record PaginatedInvoices =
  pg_data :: "jsobj list"
  pg_total :: jsval
  pg_page :: jsval
  pg_limit :: jsval
  pg_totalPages :: jsval

definition invoices_path :: "InvoiceFilters \<Rightarrow> string" where
  "invoices_path f =
     (let params = filter_params f
      in ''/invoices'' @ (if params \<noteq> [] then ''?'' @ search_params params else []))"

definition readInvoicePage :: "zparser \<Rightarrow> jsval \<Rightarrow> exn + PaginatedInvoices" where
  "readInvoicePage zparse raw =
     bindE (js_prop raw ''data'') (\<lambda>d.
     bindE (js_map (parseInvoiceResponse zparse) d) (\<lambda>xs.
     let field = obj_get (own_entries raw)
     in Inr \<lparr>pg_data = xs, pg_total = field ''total'', pg_page = field ''page'', pg_limit = field ''limit'',
             pg_totalPages = field ''totalPages''\<rparr>))"

definition getInvoices :: "'w api_env \<Rightarrow> zparser \<Rightarrow> InvoiceFilters \<Rightarrow> ('w, 'z, PaginatedInvoices) api_io" where
  "getInvoices E zparse f = bindIO (apiFetch E (invoices_path f) no_init) (\<lambda>raw. liftE (readInvoicePage zparse raw))"

definition ALL_INVOICES_PAGE_SIZE :: int where
  "ALL_INVOICES_PAGE_SIZE = 100"

definition ALL_INVOICES_MAX_PAGES :: nat where
  "ALL_INVOICES_MAX_PAGES = 100"

text \<open>The parser gives every invoice an identifier that is a string.\<close>

definition id_of :: "jsobj \<Rightarrow> string" where
  "id_of iv = js_String (obj_get iv ''id'')"

text \<open>\<open>byId\<close>: a map keeps the place of a key that is set again.\<close>

definition add_by_id :: "(string \<times> jsobj) list \<Rightarrow> jsobj list \<Rightarrow> (string \<times> jsobj) list" where
  "add_by_id byId xs = foldl (\<lambda>m iv. obj_set (id_of iv) iv m) byId xs"

definition page_filters :: "string option \<Rightarrow> string option \<Rightarrow> nat \<Rightarrow> InvoiceFilters" where
  "page_filters status iss page =
     \<lparr>f_status = status, f_issuer = iss, f_page = Some (num_int (int page)),
      f_limit = Some (num_int ALL_INVOICES_PAGE_SIZE)\<rparr>"

function walk_pages ::
  "'w api_env \<Rightarrow> zparser \<Rightarrow> string option \<Rightarrow> string option \<Rightarrow> nat \<Rightarrow> jsval \<Rightarrow> (string \<times> jsobj) list \<Rightarrow>
   ('w, 'z, (string \<times> jsobj) list) api_io" where
  "walk_pages E zparse status iss page totalPages byId =
     (if num_le (num_int (int page)) (js_Number totalPages) \<and> page \<le> ALL_INVOICES_MAX_PAGES
      then bindIO (getInvoices E zparse (page_filters status iss page)) (\<lambda>res.
        let byId' = add_by_id byId (pg_data res)
        in if pg_data res = [] then returnIO byId'
           else walk_pages E zparse status iss (page + 1) (js_or (pg_totalPages res) (JNum (Fin 1))) byId')
      else returnIO byId)"
  by pat_completeness auto
termination
  by (relation "measure (\<lambda>(E, z, st, i, page, tp, m). Suc ALL_INVOICES_MAX_PAGES - page)") auto

declare walk_pages.simps [simp del]

definition getAllInvoices ::
  "'w api_env \<Rightarrow> zparser \<Rightarrow> string option \<Rightarrow> string option \<Rightarrow> ('w, 'z, jsobj list) api_io" where
  "getAllInvoices E zparse status iss =
     bindIO (walk_pages E zparse status iss 1 (JNum (Fin 1)) []) (\<lambda>byId. returnIO (map snd byId))"

definition getPoolStats :: "'w api_env \<Rightarrow> ('w, 'z, PoolStats) api_io" where
  "getPoolStats E = bindIO (apiFetch E ''/pool/stats'' no_init) (\<lambda>raw. liftE (parseRawPoolStats raw))"

definition getLPPosition :: "'w api_env \<Rightarrow> string \<Rightarrow> ('w, 'z, LPPosition) api_io" where
  "getLPPosition E address =
     bindIO (apiFetch E (''/pool/position/'' @ address) no_init) (\<lambda>raw. liftE (parseRawLPPosition raw))"

definition getRecentEvents :: "'w api_env \<Rightarrow> jsnum option \<Rightarrow> string option \<Rightarrow> ('w, 'z, EventLog list) api_io" where
  "getRecentEvents E limit iss =
     (let params = (case limit of Some l \<Rightarrow> if num_truthy l then [''limit='' @ num_toString l] else [] | None \<Rightarrow> []) @
                   (if present iss then [''issuer='' @ encodeURIComponent (the iss)] else []);
          query = (if params \<noteq> [] then ''?'' @ js_join ''&'' params else [])
      in bindIO (apiFetch E (''/events'' @ query) no_init) (\<lambda>rawList.
         liftE (js_map (\<lambda>raw. Inr (parseRawEventLog raw)) rawList)))"

definition getPoolSnapshots :: "'w api_env \<Rightarrow> ('w, 'z, jsval) api_io" where
  "getPoolSnapshots E = apiFetch E ''/pool/snapshots'' no_init"

definition getProtocolStats :: "'w api_env \<Rightarrow> ('w, 'z, jsval) api_io" where
  "getProtocolStats E = apiFetch E ''/stats'' no_init"


subsection \<open>The contract of an endpoint\<close>

text \<open>
  Every endpoint sends at most one request and touches nothing else of the state; the session in
  particular is only read.
\<close>

definition one_request :: "('w, 'z, 'r) api_io \<Rightarrow> bool" where
  "one_request f \<longleftrightarrow>
     (\<forall>s. \<exists>w rs. snd (f s) = s\<lparr>http := w, requests := requests s @ rs\<rparr> \<and> length rs \<le> 1)"

locale api_endpoint =
  fixes endpoint :: "('w, 'z, 'r) api_io"
  assumes one: "one_request endpoint"
begin

lemma frame:
  obtains w rs where "snd (endpoint s) = s\<lparr>http := w, requests := requests s @ rs\<rparr>" "length rs \<le> 1"
  using one unfolding one_request_def by blast

lemma keeps_session: "wallet (snd (endpoint s)) = wallet s"
  by (rule frame [of s]) simp

lemma keeps_ui:
  "toasts (snd (endpoint s)) = toasts s" "console (snd (endpoint s)) = console s"
  "ticks (snd (endpoint s)) = ticks s" "clock (snd (endpoint s)) = clock s"
  by (rule frame [of s], simp)+

end

lemma one_requestI:
  "(\<And>s. snd (f s) = s\<lparr>http := w s, requests := requests s @ rs s\<rparr> \<and> length (rs s) \<le> 1) \<Longrightarrow> one_request f"
  unfolding one_request_def by blast

lemma one_request_throw: "one_request (throwIO e)"
  by (rule one_requestI [where w = http and rs = "\<lambda>s. []"]) (simp add: throwIO_apply)

lemma apiFetch_run:
  "apiFetch E path options s =
     (case request_headers (w_token (wallet s)) options of
        Inl e \<Rightarrow> (Inl e, s)
      | Inr headers \<Rightarrow>
          (let rq = \<lparr>rq_url = getApiUrl E @ path, rq_method = ri_method options,
                     rq_headers = headers, rq_body = ri_body options\<rparr>;
               s' = s\<lparr>http := snd (fetch E rq (http s)), requests := requests s @ [rq]\<rparr>
           in case fst (fetch E rq (http s)) of
                Inl e \<Rightarrow> (Inl e, s')
              | Inr res \<Rightarrow> if response_ok res then (bindE (rs_text res) JSON_parse, s')
                           else (Inl (failed_response res), s')))"
  by (auto simp: apiFetch_def io_defs send_request_def Let_def split: sum.splits prod.splits)

lemma one_request_apiFetch: "one_request (apiFetch E path options)"
proof (rule one_requestI)
  let ?rq = "\<lambda>s. \<lparr>rq_url = getApiUrl E @ path, rq_method = ri_method options,
      rq_headers = projr (request_headers (w_token (wallet s)) options), rq_body = ri_body options\<rparr>"
  let ?ok = "\<lambda>s. \<not> isl (request_headers (w_token (wallet s)) options)"
  fix s :: "('a, 'b) api_state_scheme"
  show "snd (apiFetch E path options s) =
      s\<lparr>http := if ?ok s then snd (fetch E (?rq s) (http s)) else http s,
        requests := requests s @ (if ?ok s then [?rq s] else [])\<rparr> \<and>
      length (if ?ok s then [?rq s] else []) \<le> 1"
    by (auto simp: apiFetch_run Let_def split: sum.split)
qed

lemma one_request_liftE: "one_request m \<Longrightarrow> one_request (bindIO m (\<lambda>x. liftE (g x)))"
proof -
  have "snd (bindIO m (\<lambda>x. liftE (g x)) s) = snd (m s)" for s
    by (simp add: bindIO_def liftE_def split: prod.splits sum.splits)
  then show "one_request m \<Longrightarrow> one_request (bindIO m (\<lambda>x. liftE (g x)))" by (simp add: one_request_def)
qed

lemma one_request_pure: "(\<And>x. one_request (f x)) \<Longrightarrow> one_request (bindIO (liftE r) f)"
  by (cases r) (auto intro: one_request_throw)

lemmas endpoint_rules = one_request_apiFetch one_request_liftE one_request_pure

interpretation apiFetch: api_endpoint "apiFetch E path options" for E path options
  by unfold_locales (rule one_request_apiFetch)

interpretation fetchChallenge: api_endpoint "fetchChallenge E a" for E a
  by unfold_locales (simp add: fetchChallenge_def endpoint_rules)

interpretation verifyChallenge: api_endpoint "verifyChallenge E t" for E t
  by unfold_locales (simp add: verifyChallenge_def apiSend_def endpoint_rules)

interpretation createInvoice: api_endpoint "createInvoice E b f d a" for E b f d a
  by unfold_locales (simp add: createInvoice_def apiSend_def endpoint_rules)

interpretation getInvoiceByID: api_endpoint "getInvoiceByID E z i" for E z i
  by unfold_locales (simp add: getInvoiceByID_def endpoint_rules)

interpretation updateInvoiceStatus: api_endpoint "updateInvoiceStatus E i st" for E i st
  by unfold_locales (simp add: updateInvoiceStatus_def apiSend_def endpoint_rules)

interpretation getInvoices: api_endpoint "getInvoices E z f" for E z f
  by unfold_locales (simp add: getInvoices_def endpoint_rules)

interpretation getPoolStats: api_endpoint "getPoolStats E" for E
  by unfold_locales (simp add: getPoolStats_def endpoint_rules)

interpretation getLPPosition: api_endpoint "getLPPosition E a" for E a
  by unfold_locales (simp add: getLPPosition_def endpoint_rules)

interpretation getRecentEvents: api_endpoint "getRecentEvents E l i" for E l i
  by unfold_locales (simp add: getRecentEvents_def Let_def endpoint_rules)


subsection \<open>Walking the pages\<close>

definition page_url :: "'w api_env \<Rightarrow> string option \<Rightarrow> string option \<Rightarrow> nat \<Rightarrow> string" where
  "page_url E status iss page = getApiUrl E @ invoices_path (page_filters status iss page)"

lemma getInvoices_request:
  "\<exists>rs. requests (snd (getInvoices E zparse f s)) = requests s @ rs \<and>
        (rs = [] \<or> (\<exists>rq. rs = [rq] \<and> rq_url rq = getApiUrl E @ invoices_path f)) \<and>
        (rs = [] \<longrightarrow> isl (fst (getInvoices E zparse f s)))"
proof -
  have "\<exists>rs. requests (snd (apiFetch E (invoices_path f) no_init s)) = requests s @ rs \<and>
        (rs = [] \<or> (\<exists>rq. rs = [rq] \<and> rq_url rq = getApiUrl E @ invoices_path f)) \<and>
        (rs = [] \<longrightarrow> isl (fst (apiFetch E (invoices_path f) no_init s)))"
    by (auto simp: apiFetch_run Let_def split: sum.split)
  then show ?thesis
    by (auto simp: getInvoices_def bindIO_def liftE_def split: prod.splits sum.splits)
qed

text \<open>The map holds every invoice under its own identifier, once.\<close>

definition keyed_by_id :: "(string \<times> jsobj) list \<Rightarrow> bool" where
  "keyed_by_id m \<longleftrightarrow> distinct (map fst m) \<and> (\<forall>(k, iv) \<in> set m. k = id_of iv)"

lemma keyed_add_by_id: "keyed_by_id m \<Longrightarrow> keyed_by_id (add_by_id m xs)"
  unfolding add_by_id_def
proof (induction xs arbitrary: m)
  case (Cons iv xs)
  then have "keyed_by_id (obj_set (id_of iv) iv m)"
    using set_obj_set [of "id_of iv" iv m] by (auto simp: keyed_by_id_def distinct_obj_set)
  then show ?case using Cons.IH by simp
qed simp

lemma keyed_distinct: "keyed_by_id m \<Longrightarrow> distinct (map id_of (map snd m))"
proof -
  assume m: "keyed_by_id m"
  then have "map id_of (map snd m) = map fst m" by (auto simp: keyed_by_id_def)
  with m show ?thesis by (simp only: keyed_by_id_def)
qed

lemma num_le_Fin [simp]: "num_le (Fin a) (Fin b) \<longleftrightarrow> a \<le> b"
  by (auto simp: num_le_def num_eq_def)

text \<open>One turn of the loop.\<close>

abbreviation more_pages :: "nat \<Rightarrow> jsval \<Rightarrow> bool" where
  "more_pages page tp \<equiv> num_le (num_int (int page)) (js_Number tp) \<and> page \<le> ALL_INVOICES_MAX_PAGES"

lemma walk_pages_stop: "\<not> more_pages page tp \<Longrightarrow> walk_pages E zparse status iss page tp byId s = (Inr byId, s)"
  by (subst walk_pages.simps) (auto simp: returnIO_apply)

lemma walk_pages_turn:
  "more_pages page tp \<Longrightarrow>
   walk_pages E zparse status iss page tp byId s =
     (case getInvoices E zparse (page_filters status iss page) s of
        (Inl e, s') \<Rightarrow> (Inl e, s')
      | (Inr res, s') \<Rightarrow>
          if pg_data res = [] then (Inr byId, s')
          else walk_pages E zparse status iss (Suc page) (js_or (pg_totalPages res) (JNum (Fin 1)))
                 (add_by_id byId (pg_data res)) s')"
  by (subst walk_pages.simps)
    (simp add: bindIO_def returnIO_apply Let_def add_by_id_def split: prod.split sum.split)

lemma walk_pages_requests:
  "\<exists>rs. requests (snd (walk_pages E zparse status iss page tp byId s)) = requests s @ rs \<and>
        length rs \<le> Suc ALL_INVOICES_MAX_PAGES - page \<and>
        map rq_url rs = map (page_url E status iss) [page ..< page + length rs]"
proof (induction "Suc ALL_INVOICES_MAX_PAGES - page" arbitrary: page tp byId s)
  case 0
  then show ?case by (simp add: walk_pages_stop)
next
  case (Suc k)
  let ?get = "getInvoices E zparse (page_filters status iss page)"
  obtain r s' where get: "?get s = (r, s')" by (cases "?get s")
  obtain rs0 where rs0: "requests s' = requests s @ rs0"
    "rs0 = [] \<or> (\<exists>rq. rs0 = [rq] \<and> rq_url rq = page_url E status iss page)" "rs0 = [] \<longrightarrow> isl r"
    using getInvoices_request [of E zparse "page_filters status iss page" s] get
    unfolding page_url_def by auto
  show ?case
  proof (cases "more_pages page tp \<and> (\<exists>res. r = Inr res \<and> pg_data res \<noteq> [])")
    case False
    then have "requests (snd (walk_pages E zparse status iss page tp byId s)) \<in> {requests s, requests s @ rs0}"
      using rs0(1) get
      by (cases "more_pages page tp"; cases r) (auto simp: walk_pages_stop walk_pages_turn)
    then show ?thesis using rs0(2) Suc.hyps(2) by auto
  next
    case True
    then obtain res where res: "r = Inr res" "pg_data res \<noteq> []" by blast
    let ?rest = "walk_pages E zparse status iss (Suc page) (js_or (pg_totalPages res) (JNum (Fin 1)))
        (add_by_id byId (pg_data res)) s'"
    have run: "walk_pages E zparse status iss page tp byId s = ?rest"
      using True res get by (simp add: walk_pages_turn)
    obtain rs where rs: "requests (snd ?rest) = requests s' @ rs"
      "length rs \<le> Suc ALL_INVOICES_MAX_PAGES - Suc page"
      "map rq_url rs = map (page_url E status iss) [Suc page ..< Suc page + length rs]"
      using Suc.hyps(1) [of "Suc page"] Suc.hyps(2) by fastforce
    obtain rq where rq: "rs0 = [rq]" "rq_url rq = page_url E status iss page"
      using rs0(2,3) res(1) by auto
    have "[page ..< page + length (rq # rs)] = page # [Suc page ..< Suc page + length rs]"
      by (simp add: upt_rec del: upt_Suc)
    then have "map rq_url (rq # rs) = map (page_url E status iss) [page ..< page + length (rq # rs)]"
      using rs(3) rq(2) by (simp del: upt_Suc)
    then show ?thesis
      using rs(1,2) rs0(1) rq(1) Suc.hyps(2) run by (intro exI [of _ "rq # rs"]) (simp del: upt_Suc)
  qed
qed

lemma walk_pages_keyed:
  "keyed_by_id byId \<Longrightarrow> fst (walk_pages E zparse status iss page tp byId s) = Inr m \<Longrightarrow> keyed_by_id m"
proof (induction "Suc ALL_INVOICES_MAX_PAGES - page" arbitrary: page tp byId s)
  case 0
  then show ?case by (simp add: walk_pages_stop)
next
  case (Suc k)
  obtain r s' where get: "getInvoices E zparse (page_filters status iss page) s = (r, s')"
    by (cases "getInvoices E zparse (page_filters status iss page) s")
  have k: "k = Suc ALL_INVOICES_MAX_PAGES - Suc page" using Suc.hyps(2) by simp
  show ?case
    using Suc.prems Suc.hyps(1) [OF k keyed_add_by_id] get
    by (cases "more_pages page tp"; cases r) (auto simp: walk_pages_stop walk_pages_turn split: if_splits)
qed

text \<open>A server that holds a fixed sequence of pages, all of them non-empty.\<close>

definition serves_pages ::
  "'w api_env \<Rightarrow> zparser \<Rightarrow> string option \<Rightarrow> string option \<Rightarrow> jsobj list list \<Rightarrow> bool" where
  "serves_pages E zparse status iss pages \<longleftrightarrow>
     [] \<notin> set pages \<and>
     (\<forall>p rq w. 1 \<le> p \<and> p \<le> length pages \<and> rq_url rq = page_url E status iss p \<longrightarrow>
        (\<exists>res body json pg. fst (fetch E rq w) = Inr res \<and> response_ok res \<and> rs_text res = Inr body \<and>
           JSON_parse body = Inr json \<and> readInvoicePage zparse json = Inr pg \<and>
           pg_data pg = pages ! (p - 1) \<and> pg_totalPages pg = JNum (num_int (int (length pages)))))"

lemma serves_page:
  assumes "serves_pages E zparse status iss pages" and "1 \<le> p" "p \<le> length pages"
    and "request_headers (w_token (wallet s)) no_init = Inr hs"
  obtains pg s' where "getInvoices E zparse (page_filters status iss p) s = (Inr pg, s')"
    "pg_data pg = pages ! (p - 1)" "pg_totalPages pg = JNum (num_int (int (length pages)))"
    "wallet s' = wallet s"
proof -
  let ?rq = "\<lparr>rq_url = page_url E status iss p, rq_method = None, rq_headers = hs, rq_body = None\<rparr>"
  obtain res body json pg where sv: "fst (fetch E ?rq (http s)) = Inr res" "response_ok res" "rs_text res = Inr body"
    "JSON_parse body = Inr json" "readInvoicePage zparse json = Inr pg"
    and pg: "pg_data pg = pages ! (p - 1)" "pg_totalPages pg = JNum (num_int (int (length pages)))"
    using assms(1-3) unfolding serves_pages_def by (metis api_request.select_convs(1))
  have "fst (getInvoices E zparse (page_filters status iss p) s) = Inr pg"
    using sv assms(4)
    by (simp add: getInvoices_def bindIO_def apiFetch_run no_init_def Let_def liftE_def page_url_def)
  then show thesis
    using that [of pg "snd (getInvoices E zparse (page_filters status iss p) s)"] pg
      getInvoices.keeps_session [of E zparse "page_filters status iss p" s]
    by (simp add: prod_eq_iff)
qed

lemma walk_pages_complete:
  assumes "serves_pages E zparse status iss pages" and "length pages \<le> ALL_INVOICES_MAX_PAGES"
    and "n < length pages" and "request_headers (w_token (wallet s)) no_init = Inr hs"
    and "more_pages (Suc n) tp"
  shows "fst (walk_pages E zparse status iss (Suc n) tp byId s) = Inr (add_by_id byId (concat (drop n pages)))"
  using assms(3-5)
proof (induction "length pages - Suc n" arbitrary: n tp byId s)
  case 0
  obtain pg s' where pg: "getInvoices E zparse (page_filters status iss (Suc n)) s = (Inr pg, s')"
    "pg_data pg = pages ! n" "pg_totalPages pg = JNum (num_int (int (length pages)))" "wallet s' = wallet s"
    using serves_page [OF assms(1), of "Suc n" s hs] 0 by auto
  have last_page: "length pages = Suc n" using 0 by simp
  then have "drop n pages = [pages ! n]" by (simp add: Cons_nth_drop_Suc [symmetric])
  moreover have "pages ! n \<noteq> []" using assms(1) last_page by (metis lessI nth_mem serves_pages_def)
  ultimately show ?case
    using pg 0(4) last_page by (simp add: walk_pages_turn walk_pages_stop js_or_def)
next
  case (Suc k)
  obtain pg s' where pg: "getInvoices E zparse (page_filters status iss (Suc n)) s = (Inr pg, s')"
    "pg_data pg = pages ! n" "pg_totalPages pg = JNum (num_int (int (length pages)))" "wallet s' = wallet s"
    using serves_page [OF assms(1), of "Suc n" s hs] Suc.prems by auto
  have more: "Suc n < length pages" using Suc.hyps(2) by simp
  have "pages ! n \<noteq> []" using assms(1) Suc.prems(1) by (metis nth_mem serves_pages_def)
  moreover have "fst (walk_pages E zparse status iss (Suc (Suc n)) (JNum (num_int (int (length pages))))
      (add_by_id byId (pages ! n)) s') = Inr (add_by_id (add_by_id byId (pages ! n)) (concat (drop (Suc n) pages)))"
    using Suc.hyps more Suc.prems(2) pg(4) assms(2) by (intro Suc.hyps(1)) auto
  moreover have "concat (drop n pages) = pages ! n @ concat (drop (Suc n) pages)"
    using Suc.prems(1) by (simp add: Cons_nth_drop_Suc [symmetric])
  ultimately show ?case
    using pg Suc.prems(3) more
    by (cases "pages = []") (simp_all add: walk_pages_turn js_or_def add_by_id_def)
qed


subsection \<open>Properties\<close>

text \<open>A token that is a header value as it stands.\<close>

definition clean_token :: "string \<Rightarrow> bool" where
  "clean_token t \<longleftrightarrow> t \<noteq> [] \<and> list_all (\<lambda>c. code_unit c \<notin> {0, 9, 10, 13, 32}) t"

lemma dropWhile_id: "xs = [] \<or> \<not> P (hd xs) \<Longrightarrow> dropWhile P xs = xs"
  by (cases xs) auto

lemma header_value_id:
  assumes "v \<noteq> []" "\<not> http_space (hd v)" "\<not> http_space (List.last v)"
    and "list_all (\<lambda>c. code_unit c \<notin> {0, 10, 13}) v"
  shows "header_value v = Inr v"
proof -
  have "dropWhile http_space v = v" using assms by (intro dropWhile_id) simp
  moreover have "dropWhile http_space (rev v) = rev v" using assms by (intro dropWhile_id) (simp add: hd_rev)
  ultimately show ?thesis using assms(4) by (simp add: header_value_def)
qed

lemma header_value_bearer: "clean_token t \<Longrightarrow> header_value (''Bearer '' @ t) = Inr (''Bearer '' @ t)"
  by (rule header_value_id) (auto simp: clean_token_def http_space_def list_all_iff)

lemma header_value_json: "header_value ''application/json'' = Inr ''application/json''"
  by (rule header_value_id) (simp_all add: http_space_def)

lemma lower_names:
  "js_toLowerCase ''Authorization'' = ''authorization''" "js_toLowerCase ''Content-Type'' = ''content-type''"
  by code_simp+

definition session_token :: "WalletState \<Rightarrow> bool" where
  "session_token w \<longleftrightarrow> (case w_token w of None \<Rightarrow> True | Some t \<Rightarrow> t = [] \<or> clean_token t)"

lemma request_headers_session:
  assumes "session_token w" and "ri_headers options = []"
  shows "\<exists>hs. request_headers (w_token w) options = Inr hs \<and>
     map_of hs ''authorization'' = (if present (w_token w) then Some (''Bearer '' @ the (w_token w)) else None)"
  using assms
  by (cases "w_token w")
    (auto simp: request_headers_def session_token_def headers_set_def headers_has_def lower_names
      header_value_bearer [simplified] header_value_json)

text \<open>
  C24. What \<open>apiFetch\<close> does is decided by the session and the response: it sends exactly one request
  to the base address with the path appended, with the header \<open>Authorization: Bearer\<close> and the
  token of the session exactly when there is one; a failure of the network is passed on; a
  response of status 200 to 299 yields its parsed body; any other response with a readable body
  becomes an error whose message is never empty. Nothing else of the state changes.
\<close>

theorem apiFetch_outcome:
  assumes "session_token (wallet s)" and "ri_headers options = []"
  shows "\<exists>rq. rq_url rq = getApiUrl E @ path \<and> rq_body rq = ri_body options \<and>
    map_of (rq_headers rq) ''authorization'' =
      (if present (w_token (wallet s)) then Some (''Bearer '' @ the (w_token (wallet s))) else None) \<and>
    snd (apiFetch E path options s) =
      s\<lparr>http := snd (fetch E rq (http s)), requests := requests s @ [rq]\<rparr> \<and>
    (case fst (fetch E rq (http s)) of
       Inl e \<Rightarrow> fst (apiFetch E path options s) = Inl e
     | Inr res \<Rightarrow>
         if response_ok res then fst (apiFetch E path options s) = bindE (rs_text res) JSON_parse
         else case rs_text res of
                Inl e \<Rightarrow> fst (apiFetch E path options s) = Inl e
              | Inr body \<Rightarrow> \<exists>m. m \<noteq> [] \<and> fst (apiFetch E path options s) = Inl (new_Error m))"
proof -
  obtain hs where hs: "request_headers (w_token (wallet s)) options = Inr hs"
    "map_of hs ''authorization'' =
       (if present (w_token (wallet s)) then Some (''Bearer '' @ the (w_token (wallet s))) else None)"
    using request_headers_session [OF assms] by blast
  let ?rq = "\<lparr>rq_url = getApiUrl E @ path, rq_method = ri_method options, rq_headers = hs, rq_body = ri_body options\<rparr>"
  show ?thesis
    using hs by (intro exI [of _ ?rq])
      (auto simp: apiFetch_run Let_def failed_response_def split: sum.split)
qed

text \<open>
  \<open>getAllInvoices\<close> asks for at most 100 pages whatever the server answers, one after the other
  from the first, and never returns two invoices with the same identifier.
\<close>

theorem getAllInvoices_bounded:
  "\<exists>rs. requests (snd (getAllInvoices E zparse status iss s)) = requests s @ rs \<and> length rs \<le> 100 \<and>
     map rq_url rs = map (page_url E status iss) [1 ..< 1 + length rs] \<and>
     (case fst (getAllInvoices E zparse status iss s) of Inl e \<Rightarrow> True | Inr xs \<Rightarrow> distinct (map id_of xs))"
proof -
  let ?walk = "walk_pages E zparse status iss 1 (JNum (Fin 1)) [] s"
  have snd: "snd (getAllInvoices E zparse status iss s) = snd ?walk"
    by (simp add: getAllInvoices_def bindIO_def returnIO_apply split: prod.split sum.split)
  have ids: "distinct (map id_of xs)"
    if ok: "fst (getAllInvoices E zparse status iss s) = Inr xs" for xs
  proof -
    obtain r s' where walk: "?walk = (r, s')" by (cases ?walk)
    then obtain m where "fst ?walk = Inr m" "xs = map snd m"
      using ok unfolding getAllInvoices_def bindIO_def by (cases r) (simp_all add: returnIO_apply)
    then show ?thesis using walk_pages_keyed [of "[]" E zparse status iss 1 "JNum (Fin 1)" s m] keyed_distinct [of m]
      by (simp add: keyed_by_id_def)
  qed
  obtain rs where "requests (snd ?walk) = requests s @ rs" "length rs \<le> 100"
    "map rq_url rs = map (page_url E status iss) [1 ..< 1 + length rs]"
    using walk_pages_requests [of E zparse status iss 1 "JNum (Fin 1)" "[]" s]
    by (auto simp: ALL_INVOICES_MAX_PAGES_def)
  then show ?thesis unfolding snd using ids by (auto split: sum.split)
qed

text \<open>
  C13. Against a server that holds a fixed sequence of non-empty pages, at most 100 of them,
  \<open>getAllInvoices\<close> returns the invoices of all pages, in the order of the first occurrence of their
  identifiers, each with the contents of its last occurrence.
\<close>

theorem getAllInvoices_complete:
  assumes "serves_pages E zparse status iss pages" and "pages \<noteq> []" "length pages \<le> 100"
    and "session_token (wallet s)"
  shows "fst (getAllInvoices E zparse status iss s) = Inr (map snd (add_by_id [] (concat pages)))"
proof -
  obtain hs where hs: "request_headers (w_token (wallet s)) no_init = Inr hs"
    using request_headers_session [OF assms(4), of no_init] by (auto simp: no_init_def)
  have "fst (walk_pages E zparse status iss (Suc 0) (JNum (Fin 1)) [] s) = Inr (add_by_id [] (concat (drop 0 pages)))"
    using assms(2,3) by (intro walk_pages_complete [OF assms(1) _ _ hs]) (auto simp: ALL_INVOICES_MAX_PAGES_def)
  then show ?thesis
    by (auto simp: getAllInvoices_def bindIO_def returnIO_apply split: prod.splits sum.splits)
qed

text \<open>A server with two pages of one invoice each.\<close>

definition demo_page :: "string \<Rightarrow> string" where
  "demo_page i = json_text (JObj
     [(''data'', JArr [JObj [(''id'', JStr i), (''face_value'', JStr ''7'')]]), (''totalPages'', JNum (Fin 2))])"

definition demo_api :: "unit api_env" where
  "demo_api =
     \<lparr>fetch = (\<lambda>rq w. (Inr \<lparr>rs_status = 200, rs_text = Inr (demo_page
        (if rq_url rq = ''http://localhost:8080/invoices?page=2&limit=100'' then ''b'' else ''a''))\<rparr>, w)),
      apiBaseUrl = None\<rparr>"

definition demo_invoice :: "string \<Rightarrow> jsobj" where
  "demo_invoice i = projr (parseInvoiceResponse ref_zparse (JObj [(''id'', JStr i), (''face_value'', JStr ''7'')]))"

definition demo_web :: "WalletState \<Rightarrow> unit api_state" where
  "demo_web w = \<lparr>console = [], toasts = [], clock = (\<lambda>_. 0), ticks = 0, wallet = w, http = (), requests = []\<rparr>"

lemma demo_parse_page:
  "JSON_parse (demo_page ''a'') =
     Inr (JObj [(''data'', JArr [JObj [(''id'', JStr ''a''), (''face_value'', JStr ''7'')]]), (''totalPages'', JNum (Fin 2))])"
  "JSON_parse (demo_page ''b'') =
     Inr (JObj [(''data'', JArr [JObj [(''id'', JStr ''b''), (''face_value'', JStr ''7'')]]), (''totalPages'', JNum (Fin 2))])"
  by (code_simp, code_simp)

lemma demo_ids: "id_of (demo_invoice ''a'') = ''a''" "id_of (demo_invoice ''b'') = ''b''"
  by (code_simp, code_simp)

lemma demo_urls:
  "page_url demo_api None None 1 = ''http://localhost:8080/invoices?page=1&limit=100''"
  "page_url demo_api None None 2 = ''http://localhost:8080/invoices?page=2&limit=100''"
  by (code_simp, code_simp)

lemmas demo_url_facts = demo_urls(1) [unfolded One_nat_def] demo_urls

lemma demo_parses:
  "parseInvoiceResponse ref_zparse (JObj [(''id'', JStr ''a''), (''face_value'', JStr ''7'')]) = Inr (demo_invoice ''a'')"
  "parseInvoiceResponse ref_zparse (JObj [(''id'', JStr ''b''), (''face_value'', JStr ''7'')]) = Inr (demo_invoice ''b'')"
  by (code_simp, code_simp)

lemma demo_serves: "serves_pages demo_api ref_zparse None None [[demo_invoice ''a''], [demo_invoice ''b'']]"
proof -
  have page: "p = 1 \<or> p = 2" if "1 \<le> p" "p \<le> 2" for p :: nat using that by auto
  show ?thesis
    unfolding serves_pages_def
  proof (intro conjI allI impI)
    fix p and rq :: api_request and w :: unit
    assume "1 \<le> p \<and> p \<le> length [[demo_invoice ''a''], [demo_invoice ''b'']] \<and>
      rq_url rq = page_url demo_api None None p"
    then show "\<exists>res body json pg. fst (fetch demo_api rq w) = Inr res \<and> response_ok res \<and> rs_text res = Inr body \<and>
        JSON_parse body = Inr json \<and> readInvoicePage ref_zparse json = Inr pg \<and>
        pg_data pg = [[demo_invoice ''a''], [demo_invoice ''b'']] ! (p - 1) \<and>
        pg_totalPages pg = JNum (num_int (int (length [[demo_invoice ''a''], [demo_invoice ''b'']])))"
      using page [of p]
      by (auto simp: demo_api_def demo_url_facts [unfolded demo_api_def] response_ok_def demo_parse_page readInvoicePage_def
          js_prop_def nullish_def obj_get_def js_map_def demo_parses)
  qed simp
qed

theorem getAllInvoices_complete_witness:
  "fst (getAllInvoices demo_api ref_zparse None None (demo_web wallet_init)) =
     Inr [demo_invoice ''a'', demo_invoice ''b'']"
  using getAllInvoices_complete [OF demo_serves, of "demo_web wallet_init"]
  by (simp add: demo_web_def wallet_init_def session_token_def add_by_id_def demo_ids)

theorem apiFetch_outcome_witness:
  "\<exists>rq. map_of (rq_headers rq) ''authorization'' = Some ''Bearer jwt'' \<and>
     requests (snd (apiFetch demo_api ''/stats'' no_init (demo_web (wallet_setToken (Some ''jwt'') wallet_init)))) = [rq]"
  using apiFetch_outcome [of "demo_web (wallet_setToken (Some ''jwt'') wallet_init)" no_init demo_api "''/stats''"]
  by (auto simp: demo_web_def wallet_setToken_def wallet_init_def session_token_def clean_token_def no_init_def)

end
