(* ===== verification/Wallet.thy ===== *)
theory Wallet
  imports Api Machines
begin

text \<open>
  The wallet session of the web application: the helpers around the Freighter extension
  (\<open>apps/web/lib/freighter.ts\<close>), connecting and watching (\<open>apps/web/hooks/useWallet.ts\<close>) and the
  SEP-10 login (\<open>apps/web/hooks/useAuth.ts\<close>).

  The extension is a parameter: each call of its interface is any function of its own state to
  an answer or a failure. Answers are untyped, as in the code, except that an address and a
  network name are strings, as the declarations of the interface say.
\<close>

record 'f freighter_env =
  fr_isConnected :: "'f \<Rightarrow> (exn + jsval) \<times> 'f"
  fr_requestAccess :: "'f \<Rightarrow> (exn + jsval) \<times> 'f"
  fr_getPublicKey :: "'f \<Rightarrow> (exn + jsval) \<times> 'f"
  fr_getNetworkDetails :: "'f \<Rightarrow> (exn + jsval) \<times> 'f"
  fr_signTransaction :: "string \<Rightarrow> string \<Rightarrow> string \<Rightarrow> string \<Rightarrow> 'f \<Rightarrow> (exn + string) \<times> 'f"
    \<comment> \<open>transaction, network, passphrase, account to sign with\<close>

record ('w, 'f) session_state = "'w api_state" +
  freighter :: 'f
  wh_loading :: bool
  wh_error :: "string option"
  wh_errorCode :: "string option"
  wh_connecting :: bool
  au_loading :: bool
  au_error :: "js_text option"

type_synonym ('w, 'f, 'z, 'r) session_io = "(exn, ('w, 'f, 'z) session_state_scheme, 'r) io"

definition ask :: "('f \<Rightarrow> (exn + 'r) \<times> 'f) \<Rightarrow> ('w, 'f, 'z, 'r) session_io" where
  "ask call = (\<lambda>s. case call (freighter s) of (r, f) \<Rightarrow> (r, s\<lparr>freighter := f\<rparr>))"

subsection \<open>Errors of the extension\<close>

text \<open>The text of a thrown value: a message, a string, or a property \<open>message\<close> or \<open>error\<close>.\<close>

definition thrown_message :: "exn \<Rightarrow> string option" where
  "thrown_message err =
     (if is_Error err then Some (exn_message err)
      else case err of
        Thrown (JStr s) \<Rightarrow> Some s
      | Thrown (JObj ob) \<Rightarrow>
          (case obj_get ob ''message'' of
             JStr m \<Rightarrow> Some m
           | _ \<Rightarrow> (case obj_get ob ''error'' of JStr m \<Rightarrow> Some m | _ \<Rightarrow> None))
      | _ \<Rightarrow> None)"

definition classifyFreighterError :: "exn \<Rightarrow> FreighterErrorCode" where
  "classifyFreighterError err =
     (case err of FreighterError c m \<Rightarrow> c
      | _ \<Rightarrow>
        let msg = js_toLowerCase (case thrown_message err of Some m \<Rightarrow> m | None \<Rightarrow> [])
        in if js_includes msg ''user rejected'' \<or> js_includes msg ''user rejected this request'' then UserRejected
           else if js_includes msg ''not installed'' \<or> js_includes msg ''internal error'' then NotInstalled
           else UnknownCode)"

definition mapFreighterError :: "exn \<Rightarrow> exn" where
  "mapFreighterError err =
     (case err of FreighterError c m \<Rightarrow> err
      | _ \<Rightarrow> FreighterError (classifyFreighterError err)
               (case thrown_message err of
                  Some m \<Rightarrow> m
                | None \<Rightarrow> (case err of Thrown v \<Rightarrow> js_String v | _ \<Rightarrow> [])))"

subsection \<open>Connecting\<close>

definition isFreighterInstalled :: "'f freighter_env \<Rightarrow> ('w, 'f, 'z, bool) session_io" where
  "isFreighterInstalled F =
     catchIO
       (bindIO (ask (fr_isConnected F)) (\<lambda>res.
        returnIO (case res of
            JBool b \<Rightarrow> b
          | _ \<Rightarrow> truthy res \<and> typeof_object res \<and> truthy (obj_get (own_entries res) ''isConnected''))))
       (\<lambda>err. bindIO (consoleErr ''Failed to check if Freighter is installed:'' err) (\<lambda>_. returnIO False))"

definition not_installed_error :: exn where
  "not_installed_error = FreighterError NotInstalled ''Freighter wallet is not installed''"

definition connectFreighter :: "'f freighter_env \<Rightarrow> ('w, 'f, 'z, string) session_io" where
  "connectFreighter F =
     bindIO (isFreighterInstalled F) (\<lambda>installed.
     if \<not> installed then throwIO not_installed_error
     else catchIO
       (bindIO (ask (fr_requestAccess F)) (\<lambda>res.
        case res of
          JStr a \<Rightarrow> returnIO a
        | _ \<Rightarrow>
          if truthy res \<and> typeof_object res \<and> truthy (obj_get (own_entries res) ''address'')
          then returnIO (js_String (obj_get (own_entries res) ''address''))
          else if truthy res \<and> typeof_object res \<and> truthy (obj_get (own_entries res) ''error'')
          then throwIO (mapFreighterError (new_Error (js_String (obj_get (own_entries res) ''error''))))
          else throwIO (FreighterError UnknownCode ''No address returned from Freighter'')))
       (\<lambda>err. bindIO (consoleErr ''Failed to connect to Freighter:'' err) (\<lambda>_. throwIO (mapFreighterError err))))"

definition getFreighterPublicKey :: "'f freighter_env \<Rightarrow> ('w, 'f, 'z, string) session_io" where
  "getFreighterPublicKey F =
     bindIO (isFreighterInstalled F) (\<lambda>installed.
     if \<not> installed then throwIO not_installed_error
     else catchIO
       (bindIO (ask (fr_getPublicKey F)) (\<lambda>res.
        case res of
          JStr a \<Rightarrow> returnIO a
        | _ \<Rightarrow>
          if truthy res \<and> typeof_object res \<and> obj_has (own_entries res) ''address''
          then returnIO (js_String (obj_get (own_entries res) ''address''))
          else throwIO (FreighterError UnknownCode ''No public key returned from Freighter'')))
       (\<lambda>err. bindIO (consoleErr ''Failed to get public key from Freighter:'' err) (\<lambda>_. throwIO (mapFreighterError err))))"

definition EXPECTED_NETWORK :: string where
  "EXPECTED_NETWORK = ''testnet''"

definition WRONG_NETWORK_ERROR_CODE :: string where
  "WRONG_NETWORK_ERROR_CODE = ''wrong_network''"

definition WRONG_NETWORK_ERROR_MESSAGE :: string where
  "WRONG_NETWORK_ERROR_MESSAGE = ''Your Freighter wallet is connected to the wrong network. '' @
     ''Please switch Freighter to Stellar Testnet and try again.''"

text \<open>\<open>x?.trim().toLowerCase()\<close>; only a string has the method.\<close>

definition trim_lower :: "jsval \<Rightarrow> exn + string option" where
  "trim_lower v =
     (if nullish v then Inr None
      else case v of JStr s \<Rightarrow> Inr (Some (js_toLowerCase (js_trim s)))
           | _ \<Rightarrow> Inl (JsTypeError ''trim is not a function''))"

definition validateFreighterNetwork :: "'f freighter_env \<Rightarrow> ('w, 'f, 'z, unit) session_io" where
  "validateFreighterNetwork F =
     bindIO (ask (fr_getNetworkDetails F)) (\<lambda>details.
     bindIO (liftE (bindE (js_prop details ''network'') trim_lower)) (\<lambda>network.
     if network \<noteq> Some EXPECTED_NETWORK
     then throwIO (JsError WRONG_NETWORK_ERROR_MESSAGE [(''code'', JStr WRONG_NETWORK_ERROR_CODE)])
     else returnIO ()))"

definition setWallet :: "(WalletState \<Rightarrow> WalletState) \<Rightarrow> ('w, 'f, 'z, unit) session_io" where
  "setWallet f = modifyIO (\<lambda>s. s\<lparr>wallet := f (wallet s)\<rparr>)"

text \<open>The \<open>catch\<close> clause of \<open>connectWallet\<close>.\<close>

definition connect_failed :: "exn \<Rightarrow> ('w, 'f, 'z, unit) session_io" where
  "connect_failed err =
     bindIO (captureError ''useWallet'' err) (\<lambda>appError.
     bindIO (modifyIO (\<lambda>s. s\<lparr>wh_error := Some (exn_message appError)\<rparr>)) (\<lambda>_.
     bindIO (case exn_prop err ''code'' of
               JStr c \<Rightarrow> modifyIO (\<lambda>s. s\<lparr>wh_errorCode := Some c\<rparr>) | _ \<Rightarrow> returnIO ()) (\<lambda>_.
     setWallet wallet_disconnect)))"

definition connectWallet :: "'f freighter_env \<Rightarrow> ('w, 'f, 'z, unit) session_io" where
  "connectWallet F = (\<lambda>s.
     if wh_connecting s then (Inr (), s)
     else
       bindIO (modifyIO (\<lambda>s. s\<lparr>wh_connecting := True, wh_loading := True, wh_error := None, wh_errorCode := None\<rparr>)) (\<lambda>_.
       bindIO (catchIO
         (bindIO (connectFreighter F) (\<lambda>addr.
          bindIO (validateFreighterNetwork F) (\<lambda>_.
          setWallet (wallet_connect addr EXPECTED_NETWORK))))
         connect_failed) (\<lambda>_.
       modifyIO (\<lambda>s. s\<lparr>wh_loading := False, wh_connecting := False\<rparr>))) s)"

definition disconnectWallet :: "('w, 'f, 'z, unit) session_io" where
  "disconnectWallet = setWallet wallet_disconnect"


subsection \<open>Watching the extension\<close>

record FreighterSnapshot =
  sn_address :: "string option"
  sn_network :: "string option"

record FreighterWalletChange =
  ch_address :: "string option"
  ch_disconnected :: bool
  ch_network :: "string option"
  ch_previous :: FreighterSnapshot

record watcher =
  wt_previous :: FreighterSnapshot
  wt_stopped :: bool
  wt_polling :: bool

datatype watch_event = NoChange | Changed FreighterWalletChange | PollFailed exn

definition DEFAULT_WATCH_INTERVAL_MS :: int where
  "DEFAULT_WATCH_INTERVAL_MS = 3000"

text \<open>\<open>x || null\<close> of an optional string.\<close>

definition or_null :: "string option \<Rightarrow> string option" where
  "or_null x = (if present x then x else None)"

definition normalizeNetwork :: "string option \<Rightarrow> string option" where
  "normalizeNetwork network = or_null (map_option (\<lambda>n. js_toLowerCase (js_trim n)) network)"

definition watch_start :: "FreighterSnapshot \<Rightarrow> watcher" where
  "watch_start baseline = \<lparr>wt_previous = baseline, wt_stopped = False, wt_polling = False\<rparr>"

definition watch_stop :: "watcher \<Rightarrow> watcher" where
  "watch_stop w = w\<lparr>wt_stopped := True\<rparr>"

text \<open>The part of \<open>poll\<close> before its \<open>await\<close>; \<open>None\<close> when the poll is skipped.\<close>

definition poll_begin :: "watcher \<Rightarrow> watcher option" where
  "poll_begin w = (if wt_stopped w \<or> wt_polling w then None else Some (w\<lparr>wt_polling := True\<rparr>))"

definition snapshot_change :: "FreighterSnapshot \<Rightarrow> FreighterSnapshot \<Rightarrow> FreighterWalletChange option" where
  "snapshot_change previous nxt =
     (let addr = (if sn_address nxt \<noteq> None \<and> sn_address nxt \<noteq> sn_address previous then sn_address nxt else None);
          gone = (sn_address nxt = None \<and> present (sn_address previous));
          net = (if sn_network nxt \<noteq> None \<and> sn_network nxt \<noteq> sn_network previous then sn_network nxt else None)
      in if addr \<noteq> None \<or> gone \<or> net \<noteq> None
         then Some \<lparr>ch_address = addr, ch_disconnected = gone, ch_network = net, ch_previous = previous\<rparr>
         else None)"

text \<open>The part after it, for what the extension reported: the account and the network's name.\<close>

definition poll_settle ::
  "exn + (string option \<times> string option) \<Rightarrow> watcher \<Rightarrow> watcher \<times> watch_event" where
  "poll_settle reported w =
     (let idle = w\<lparr>wt_polling := False\<rparr>
      in case reported of
           Inl e \<Rightarrow> (idle, PollFailed e)
         | Inr (address, network) \<Rightarrow>
             if wt_stopped w then (idle, NoChange)
             else let nxt = \<lparr>sn_address = or_null address, sn_network = normalizeNetwork network\<rparr>
                  in case snapshot_change (wt_previous w) nxt of
                       Some change \<Rightarrow> (idle\<lparr>wt_previous := nxt\<rparr>, Changed change)
                     | None \<Rightarrow> (idle, NoChange))"

text \<open>The banner of the hook: its error message and error code.\<close>

type_synonym banner = "string option \<times> string option"

text \<open>The handler \<open>useWallet\<close> gives to the watcher.\<close>

definition adopt_address :: "string option \<Rightarrow> WalletState \<Rightarrow> WalletState" where
  "adopt_address a st =
     (if present a \<and> a \<noteq> w_address st then wallet_setToken None (wallet_setAddress a st) else st)"

definition adopt_network :: "string option \<Rightarrow> WalletState \<Rightarrow> banner \<Rightarrow> WalletState \<times> banner" where
  "adopt_network n st b =
     (if present n \<and> n \<noteq> w_network st
      then (wallet_setNetwork n st,
            if n \<noteq> Some EXPECTED_NETWORK then (Some WRONG_NETWORK_ERROR_MESSAGE, Some WRONG_NETWORK_ERROR_CODE)
            else (if fst b = Some WRONG_NETWORK_ERROR_MESSAGE then None else fst b,
                  if snd b = Some WRONG_NETWORK_ERROR_CODE then None else snd b))
      else (st, b))"

definition on_change :: "FreighterWalletChange \<Rightarrow> WalletState \<times> banner \<Rightarrow> WalletState \<times> banner" where
  "on_change change = (\<lambda>(st, b).
     if \<not> w_connected st then (st, b)
     else if ch_disconnected change then (wallet_disconnect st, b)
     else adopt_network (ch_network change) (adopt_address (ch_address change) st) b)"

subsection \<open>Login\<close>

text \<open>A string property of an untyped answer.\<close>

definition text_prop :: "jsval \<Rightarrow> string \<Rightarrow> exn + string" where
  "text_prop v k = bindE (js_prop v k) (\<lambda>x. Inr (js_String x))"

definition token_prop :: "jsval \<Rightarrow> exn + string option" where
  "token_prop v = bindE (js_prop v ''token'') (\<lambda>x. Inr (if nullish x then None else Some (js_String x)))"

definition stellar_network :: "string option \<Rightarrow> string" where
  "stellar_network env =
     (if js_toUpperCase (if present env then the env else ''TESTNET'') = ''PUBLIC'' then ''PUBLIC'' else ''TESTNET'')"

definition login_failed :: "exn \<Rightarrow> ('w, 'f, 'z, unit) session_io" where
  "login_failed err =
     bindIO (captureError ''useAuth'' err) (\<lambda>appError.
     bindIO (modifyIO (\<lambda>s. s\<lparr>au_error := Some (inline_error appError None)\<rparr>)) (\<lambda>_.
     setWallet (wallet_setToken None)))"

text \<open>
  The network computed from the environment (\<open>stellar_network\<close>) is not used by the code: the
  extension is always asked to sign for TESTNET.
\<close>

definition login :: "'w api_env \<Rightarrow> 'f freighter_env \<Rightarrow> ('w, 'f, 'z, unit) session_io" where
  "login E F = (\<lambda>s.
     if \<not> present (w_address (wallet s))
     then (Inr (), s\<lparr>au_error := Some (inline_error (new_Error ''Wallet not connected'') None)\<rparr>)
     else let address = the (w_address (wallet s)) in
       bindIO (modifyIO (\<lambda>s. s\<lparr>au_loading := True, au_error := None\<rparr>)) (\<lambda>_.
       bindIO (catchIO
         (bindIO (fetchChallenge E address) (\<lambda>challenge.
          bindIO (liftE (text_prop challenge ''transaction'')) (\<lambda>transaction.
          bindIO (liftE (text_prop challenge ''network_passphrase'')) (\<lambda>passphrase.
          bindIO (ask (fr_signTransaction F transaction ''TESTNET'' passphrase address)) (\<lambda>signedXdr.
          bindIO (verifyChallenge E signedXdr) (\<lambda>answer.
          bindIO (liftE (token_prop answer)) (\<lambda>jwt.
          setWallet (wallet_setToken jwt))))))))
         login_failed) (\<lambda>_.
       modifyIO (\<lambda>s. s\<lparr>au_loading := False\<rparr>))) s)"

definition logout :: "('w, 'f, 'z, unit) session_io" where
  "logout =
     bindIO (setWallet (wallet_setToken None)) (\<lambda>_.
     bindIO (setWallet wallet_disconnect) (\<lambda>_.
     modifyIO (\<lambda>s. s\<lparr>au_error := None\<rparr>)))"


subsection \<open>What the calls of the extension leave alone\<close>

definition session_frame ::
  "('w, 'f, 'z) session_state_scheme \<Rightarrow> ('w, 'f, 'z) session_state_scheme \<Rightarrow> bool" where
  "session_frame s s' \<longleftrightarrow>
     wallet s' = wallet s \<and> toasts s' = toasts s \<and> wh_loading s' = wh_loading s \<and> wh_error s' = wh_error s \<and>
     wh_errorCode s' = wh_errorCode s \<and> wh_connecting s' = wh_connecting s \<and>
     au_loading s' = au_loading s \<and> au_error s' = au_error s"

lemma session_frame_refl [simp]: "session_frame s s"
  by (simp add: session_frame_def)

lemma frame_reflp [simp]: "reflp session_frame"
  by (simp add: reflp_def)

lemma frame_transp [simp]: "transp session_frame"
  by (auto simp: transp_def session_frame_def)

lemma frame_ask [simp]: "preserves session_frame (ask call)"
  by (rule preservesI) (simp add: ask_def session_frame_def split: prod.split)

lemma frame_consoleErr [simp]: "preserves session_frame (consoleErr l e)"
  by (rule preservesI) (simp add: consoleErr_def modifyIO_def session_frame_def)

lemma frame_captureError [simp]: "preserves session_frame (captureError c e)"
  by (rule preservesI) (simp add: captureError_run session_frame_def)

lemma frame_apiFetch: "preserves session_frame (apiFetch E path options)"
proof (rule preservesI)
  fix s :: "('a, 'b, 'c) session_state_scheme"
  show "session_frame s (snd (apiFetch E path options s))"
    by (rule apiFetch.frame [of E path options s]) (simp add: session_frame_def)
qed

lemma frame_auth:
  "preserves session_frame (fetchChallenge E a)" "preserves session_frame (verifyChallenge E t)"
  by (auto simp: fetchChallenge_def verifyChallenge_def apiSend_def intro!: preserves_bind frame_apiFetch)

lemma frame_connectFreighter: "preserves session_frame (connectFreighter F)"
  unfolding connectFreighter_def isFreighterInstalled_def
  by (intro preserves_bind preserves_catch frame_transp)
    (auto split: jsval.split intro!: preserves_bind)

lemma frame_validate: "preserves session_frame (validateFreighterNetwork F)"
  unfolding validateFreighterNetwork_def
  by (intro preserves_bind frame_transp) (auto intro!: preserves_bind)

lemma frame_run: "preserves session_frame m \<Longrightarrow> m s = (r, s') \<Longrightarrow> session_frame s s'"
  using preservesD [of session_frame m s] by simp


lemma connect_failed_run:
  "\<exists>s'. connect_failed err s = (Inr (), s') \<and> wallet s' = wallet_disconnect (wallet s) \<and>
     wh_error s' = Some (extractMessage err) \<and> toasts s' = toasts s"
  by (auto simp: connect_failed_def bindIO_def captureError_run modifyIO_def setWallet_def returnIO_def
      split: jsval.split)

lemma login_failed_run:
  "\<exists>s'. login_failed err s = (Inr (), s') \<and> wallet s' = wallet_setToken None (wallet s) \<and>
     au_error s' \<noteq> None \<and> toasts s' = toasts s"
  by (auto simp: login_failed_def bindIO_def captureError_run modifyIO_def setWallet_def)

subsection \<open>Sessions\<close>

text \<open>
  The session as the events of the user, of the extension and of the network drive it. Two
  fields are for the theorems: the account the stored token was issued for, and the account of a
  login under way. The watcher of the hook is restarted whenever the stored account or network
  changes, so its baseline is the store.
\<close>

record session =
  sm_wallet :: WalletState
  sm_banner :: banner
  sm_login :: "string option"
  sm_owner :: "string option"

definition session_init :: session where
  "session_init = \<lparr>sm_wallet = wallet_init, sm_banner = (None, None), sm_login = None, sm_owner = None\<rparr>"

definition session_poll :: "string option \<Rightarrow> string option \<Rightarrow> session \<Rightarrow> session" where
  "session_poll address network st =
     (case snd (poll_settle (Inr (address, network))
                  (watch_start \<lparr>sn_address = w_address (sm_wallet st), sn_network = w_network (sm_wallet st)\<rparr>)) of
        Changed change \<Rightarrow>
          (case on_change change (sm_wallet st, sm_banner st) of (w, b) \<Rightarrow> st\<lparr>sm_wallet := w, sm_banner := b\<rparr>)
      | _ \<Rightarrow> st)"

text \<open>With \<open>serial\<close>, the account does not change while a login is under way.\<close>

inductive session_step :: "bool \<Rightarrow> session \<Rightarrow> session \<Rightarrow> bool" for serial where
  connected: "\<not> w_connected (sm_wallet st) \<Longrightarrow> a \<noteq> [] \<Longrightarrow> serial \<longrightarrow> sm_login st = None \<Longrightarrow>
    session_step serial st (st\<lparr>sm_wallet := wallet_connect a EXPECTED_NETWORK (sm_wallet st)\<rparr>)"
| disconnected: "serial \<longrightarrow> sm_login st = None \<Longrightarrow>
    session_step serial st (st\<lparr>sm_wallet := wallet_disconnect (sm_wallet st)\<rparr>)"
| polled: "w_connected (sm_wallet st) \<Longrightarrow> serial \<longrightarrow> sm_login st = None \<Longrightarrow>
    session_step serial st (session_poll address network st)"
| reloaded: "session_step serial st (st\<lparr>sm_wallet := wallet_merge persisted (sm_wallet st), sm_login := None\<rparr>)"
| login_started: "present (w_address (sm_wallet st)) \<Longrightarrow> sm_login st = None \<Longrightarrow>
    session_step serial st (st\<lparr>sm_login := w_address (sm_wallet st)\<rparr>)"
| login_settled: "sm_login st \<noteq> None \<Longrightarrow>
    session_step serial st (st\<lparr>sm_wallet := wallet_setToken token (sm_wallet st), sm_owner := sm_login st, sm_login := None\<rparr>)"

definition session_inv :: "session \<Rightarrow> bool" where
  "session_inv st \<longleftrightarrow>
     (w_connected (sm_wallet st) \<longleftrightarrow> present (w_address (sm_wallet st))) \<and>
     (w_token (sm_wallet st) \<noteq> None \<longrightarrow>
        w_connected (sm_wallet st) \<and> sm_owner st = w_address (sm_wallet st)) \<and>
     (sm_login st \<noteq> None \<longrightarrow> w_connected (sm_wallet st) \<and> sm_login st = w_address (sm_wallet st))"

lemma adopt_wallet:
  "fst (adopt_network n st b) = (if present n \<and> n \<noteq> w_network st then wallet_setNetwork n st else st)"
  by (simp add: adopt_network_def)

lemma on_change_wallet:
  assumes "w_connected st"
  shows "fst (on_change change (st, b)) =
    (if ch_disconnected change then wallet_disconnect st
     else let st' = adopt_address (ch_address change) st
          in if present (ch_network change) \<and> ch_network change \<noteq> w_network st
             then wallet_setNetwork (ch_network change) st' else st')"
  using assms
  by (simp add: on_change_def adopt_wallet Let_def adopt_address_def wallet_setAddress_def wallet_setToken_def)

text \<open>What a poll makes of a connected session.\<close>

lemma session_poll_wallet:
  assumes "w_connected (sm_wallet st)" and "present (w_address (sm_wallet st))"
  shows "sm_wallet (session_poll address network st) =
    (if \<not> present address then wallet_disconnect (sm_wallet st)
     else let st' = adopt_address address (sm_wallet st)
          in if normalizeNetwork network \<noteq> None \<and> normalizeNetwork network \<noteq> w_network (sm_wallet st)
             then wallet_setNetwork (normalizeNetwork network) st' else st')"
proof -
  have net: "present (normalizeNetwork network) \<longleftrightarrow> normalizeNetwork network \<noteq> None"
    by (cases network) (auto simp: normalizeNetwork_def or_null_def)
  show ?thesis
    using on_change_wallet [OF assms(1), of _ "sm_banner st"] assms(2) net
    by (auto simp: session_poll_def poll_settle_def watch_start_def snapshot_change_def or_null_def Let_def
        adopt_address_def case_prod_beta)
qed

lemma session_poll_other:
  "sm_login (session_poll a n st) = sm_login st" "sm_owner (session_poll a n st) = sm_owner st"
  by (auto simp: session_poll_def split: watch_event.split prod.split)

lemma session_inv_step:
  assumes "session_inv st" and "session_step True st st'"
  shows "session_inv st'"
  using assms(2,1)
proof (induction rule: session_step.induct)
  case (polled st address network)
  then have "present (w_address (sm_wallet st))" by (simp add: session_inv_def)
  then show ?case
    using polled
    by (auto simp: session_inv_def session_poll_wallet session_poll_other Let_def adopt_address_def wallet_defs)
qed (auto simp: session_inv_def wallet_defs)

interpretation session: invariant_system "\<lambda>st. st = session_init" "session_step True" session_inv
  by unfold_locales (simp add: session_inv_def session_init_def wallet_init_def, rule session_inv_step)


subsection \<open>Properties\<close>

text \<open>The extension never reports the expected network.\<close>

definition never_testnet :: "'f freighter_env \<Rightarrow> bool" where
  "never_testnet F \<longleftrightarrow>
     (\<forall>f v f'. fr_getNetworkDetails F f = (Inr v, f') \<longrightarrow>
        bindE (js_prop v ''network'') trim_lower \<noteq> Inr (Some EXPECTED_NETWORK))"

lemma validate_wrong_network:
  assumes "never_testnet F"
  shows "isl (fst (validateFreighterNetwork F s))"
proof -
  obtain r f where ask: "fr_getNetworkDetails F (freighter s) = (r, f)"
    by (cases "fr_getNetworkDetails F (freighter s)")
  show ?thesis
  proof (cases r)
    case (Inl e)
    then show ?thesis using ask by (simp add: validateFreighterNetwork_def ask_def bindIO_def)
  next
    case (Inr v)
    then have "bindE (js_prop v ''network'') trim_lower \<noteq> Inr (Some EXPECTED_NETWORK)"
      using assms ask unfolding never_testnet_def by blast
    then show ?thesis
      using ask Inr
      by (cases "bindE (js_prop v ''network'') trim_lower")
        (auto simp: validateFreighterNetwork_def ask_def bindIO_def liftE_def throwIO_apply)
  qed
qed

lemma connectWallet_settles:
  assumes "\<not> wh_connecting s"
  shows "\<exists>s'. connectWallet F s = (Inr (), s') \<and> \<not> wh_loading s' \<and> \<not> wh_connecting s' \<and> toasts s' = toasts s \<and>
    ((\<exists>a. wallet s' = wallet_connect a EXPECTED_NETWORK (wallet s)) \<and> wh_error s' = None \<and> \<not> never_testnet F \<or>
     wallet s' = wallet_disconnect (wallet s) \<and> wh_error s' \<noteq> None)"
proof -
  let ?s0 = "s\<lparr>wh_connecting := True, wh_loading := True, wh_error := None, wh_errorCode := None\<rparr>"
  let ?body = "bindIO (connectFreighter F) (\<lambda>addr. bindIO (validateFreighterNetwork F) (\<lambda>_.
      setWallet (wallet_connect addr EXPECTED_NETWORK)))"
  let ?fin = "\<lambda>s. s\<lparr>wh_loading := False, wh_connecting := False\<rparr>"
  have run: "connectWallet F s = (case catchIO ?body connect_failed ?s0 of
      (Inl e, s') \<Rightarrow> (Inl e, s') | (Inr u, s') \<Rightarrow> (Inr (), ?fin s'))"
    using assms by (simp add: connectWallet_def bindIO_def modifyIO_def split: prod.split sum.split)
  obtain r1 s1 where c: "connectFreighter F ?s0 = (r1, s1)" by (cases "connectFreighter F ?s0")
  have f1: "session_frame ?s0 s1" using frame_run [OF frame_connectFreighter c] .
  obtain r2 s2 where v: "validateFreighterNetwork F s1 = (r2, s2)" by (cases "validateFreighterNetwork F s1")
  have f2: "session_frame s1 s2" using frame_run [OF frame_validate v] .
  show ?thesis
  proof (cases "isl r1 \<or> isl r2")
    case False
    then obtain a where "r1 = Inr a" "r2 = Inr ()" by (cases r1; cases r2) auto
    then have "?body ?s0 = (Inr (), s2\<lparr>wallet := wallet_connect a EXPECTED_NETWORK (wallet s2)\<rparr>)"
      using c v by (simp add: bindIO_def setWallet_def modifyIO_def)
    moreover have "\<not> never_testnet F" using validate_wrong_network [of F s1] v False by auto
    ultimately show ?thesis
      using f1 f2 by (auto simp: run catchIO_def session_frame_def)
  next
    case True
    then obtain e s3 where b: "?body ?s0 = (Inl e, s3)" "session_frame ?s0 s3"
      using c v f1 f2 by (cases r1; cases r2) (auto simp: bindIO_def session_frame_def)
    obtain s4 where "connect_failed e s3 = (Inr (), s4)" "wallet s4 = wallet_disconnect (wallet s3)"
      "wh_error s4 = Some (extractMessage e)" "toasts s4 = toasts s3"
      using connect_failed_run by blast
    then show ?thesis using b by (auto simp: run catchIO_def session_frame_def)
  qed
qed

text \<open>
  C12. Connecting always ends in a definite state: \<open>connectWallet\<close> never throws and leaves the hook
  idle; either the store holds the session of the account the extension gave, on the test
  network and with no error, or it is disconnected, without token, and an error is shown. If the
  extension is on any other network the wallet is never stored as connected.
\<close>

theorem connectWallet_outcome:
  assumes "\<not> wh_connecting s"
  shows "\<exists>s'. connectWallet F s = (Inr (), s') \<and> \<not> wh_loading s' \<and> \<not> wh_connecting s' \<and> toasts s' = toasts s \<and>
    ((\<exists>a. wallet s' = wallet_connect a EXPECTED_NETWORK (wallet s)) \<and> wh_error s' = None \<and> \<not> never_testnet F \<or>
     wallet s' = wallet_disconnect (wallet s) \<and> wh_error s' \<noteq> None)"
  using assms by (rule connectWallet_settles)

text \<open>
  A login always ends in a definite state: with an account connected, \<open>login\<close> never throws and
  ends idle; it changes nothing of the session but the token, which is then either the one the
  server sent, with no error shown, or absent with an error shown.
\<close>

theorem login_outcome:
  assumes "present (w_address (wallet s))"
  shows "\<exists>s' t. login E F s = (Inr (), s') \<and> \<not> au_loading s' \<and> toasts s' = toasts s \<and>
    wallet s' = wallet_setToken t (wallet s) \<and>
    (au_error s' = None \<and> (\<exists>answer. token_prop answer = Inr t) \<or> au_error s' \<noteq> None \<and> t = None)"
proof -
  let ?s0 = "s\<lparr>au_loading := True, au_error := None\<rparr>"
  let ?a = "the (w_address (wallet s))"
  let ?get = "bindIO (fetchChallenge E ?a) (\<lambda>challenge.
     bindIO (liftE (text_prop challenge ''transaction'')) (\<lambda>transaction.
     bindIO (liftE (text_prop challenge ''network_passphrase'')) (\<lambda>passphrase.
     bindIO (ask (fr_signTransaction F transaction ''TESTNET'' passphrase ?a)) (\<lambda>signedXdr.
     bindIO (verifyChallenge E signedXdr) (\<lambda>answer. liftE (token_prop answer))))))"
  let ?body = "bindIO ?get (\<lambda>jwt. setWallet (wallet_setToken jwt))"
  have run: "login E F s = (case catchIO ?body login_failed ?s0 of
      (Inl e, s') \<Rightarrow> (Inl e, s') | (Inr u, s') \<Rightarrow> (Inr (), s'\<lparr>au_loading := False\<rparr>))"
    using assms
    by (simp add: login_def bindIO_assoc Let_def) (simp add: bindIO_def modifyIO_def split: prod.split sum.split)
  have "preserves session_frame ?get"
    by (intro preserves_bind frame_transp frame_auth) auto
  moreover obtain r s1 where g: "?get ?s0 = (r, s1)" by (cases "?get ?s0")
  ultimately have f: "session_frame ?s0 s1" using frame_run by blast
  show ?thesis
  proof (cases r)
    case (Inr jwt)
    then have "?body ?s0 = (Inr (), s1\<lparr>wallet := wallet_setToken jwt (wallet s1)\<rparr>)"
      using g by (simp add: bindIO_Inr setWallet_def modifyIO_def)
    moreover have "\<exists>answer. token_prop answer = Inr jwt"
      using g Inr by (auto simp: bindIO_eq_Inr liftE_def)
    ultimately show ?thesis using f by (auto simp: run catchIO_def session_frame_def)
  next
    case (Inl e)
    then have "?body ?s0 = (Inl e, s1)" using g by (simp add: bindIO_Inl)
    moreover obtain s2 where "login_failed e s1 = (Inr (), s2)" "wallet s2 = wallet_setToken None (wallet s1)"
      "au_error s2 \<noteq> None" "toasts s2 = toasts s1"
      using login_failed_run by blast
    ultimately show ?thesis using f by (auto simp: run catchIO_def session_frame_def)
  qed
qed

text \<open>
  C11. A poll of the extension leaves no stale session: a connected session follows the account the
  extension reports, is disconnected when it reports none, and loses its token in both cases
  unless the account is the same; the network follows whenever it can be read.
\<close>

theorem session_follows_extension:
  assumes "w_connected (sm_wallet st)" and "present (w_address (sm_wallet st))"
  shows "let w = sm_wallet st; w' = sm_wallet (session_poll address network st)
    in (if present address then w_connected w' \<and> w_address w' = address else \<not> w_connected w' \<and> w_address w' = None) \<and>
       w_token w' = (if address = w_address w then w_token w else None) \<and>
       (present address \<longrightarrow> normalizeNetwork network \<noteq> None \<longrightarrow> w_network w' = normalizeNetwork network)"
  using assms
  by (auto simp: session_poll_wallet Let_def adopt_address_def wallet_defs)



text \<open>An extension that grants access and is on the test network.\<close>

definition demo_freighter :: "unit freighter_env" where
  "demo_freighter =
     \<lparr>fr_isConnected = (\<lambda>f. (Inr (JBool True), f)), fr_requestAccess = (\<lambda>f. (Inr (JStr ''GA''), f)),
      fr_getPublicKey = (\<lambda>f. (Inr (JStr ''GA''), f)),
      fr_getNetworkDetails = (\<lambda>f. (Inr (JObj [(''network'', JStr ''TESTNET'')]), f)),
      fr_signTransaction = (\<lambda>x n p a f. (Inr ''signed'', f))\<rparr>"

definition demo_session :: "WalletState \<Rightarrow> (unit, unit) session_state" where
  "demo_session w =
     \<lparr>console = [], toasts = [], clock = (\<lambda>_. 0), ticks = 0, wallet = w, http = (), requests = [], freighter = (),
      wh_loading = False, wh_error = None, wh_errorCode = None, wh_connecting = False, au_loading = False,
      au_error = None\<rparr>"

theorem connectWallet_outcome_witness:
  "\<exists>s'. connectWallet demo_freighter (demo_session wallet_init) = (Inr (), s') \<and> \<not> wh_loading s' \<and>
     (wh_error s' = None \<or> wallet s' = wallet_disconnect wallet_init)"
  using connectWallet_outcome [of "demo_session wallet_init" demo_freighter]
  by (auto simp: demo_session_def)

theorem login_outcome_witness:
  "\<exists>s' t. login demo_api demo_freighter (demo_session (wallet_connect ''GA'' ''testnet'' wallet_init)) = (Inr (), s') \<and>
     wallet s' = wallet_setToken t (wallet_connect ''GA'' ''testnet'' wallet_init)"
  using login_outcome [of "demo_session (wallet_connect ''GA'' ''testnet'' wallet_init)" demo_api demo_freighter]
  by (auto simp: demo_session_def wallet_connect_def)

theorem session_follows_extension_witness:
  "w_token (sm_wallet (session_poll (Some ''GB'') None
     (session_init\<lparr>sm_wallet := wallet_setToken (Some ''jwt'') (wallet_connect ''GA'' ''testnet'' wallet_init)\<rparr>))) = None"
  using session_follows_extension
    [of "session_init\<lparr>sm_wallet := wallet_setToken (Some ''jwt'') (wallet_connect ''GA'' ''testnet'' wallet_init)\<rparr>"
      "Some ''GB''" None]
  by (simp add: wallet_defs Let_def)


end
