(* ===== verification/Actions.thy ===== *)
theory Actions
  imports Api Clients
begin

text \<open>
  What a user does with a signature (\<open>apps/web/hooks/useTokenAllowance.ts\<close>, \<open>useInvoices.ts\<close>,
  \<open>usePool.ts\<close>, \<open>useProfile.ts\<close>, \<open>useInvoiceDetailActions.ts\<close>, \<open>store/confirmDialog.ts\<close>).

  A mutation of the query library is three functions: what it runs (\<open>mutationFn\<close>), \<open>onSuccess\<close> and
  \<open>onError\<close>. Those that only talk to the SDK are computations over \<open>sdk_state\<close> (suffix \<open>_fn\<close>); the
  handlers work on the record \<open>dapp_state\<close>, the state of the API client extended by the SDK's, the
  query keys invalidated so far and the inline error of \<open>useAppError\<close>. The library function
  that combines the three is a parameter with its documented contract \<open>mutation_law\<close>.

  The contract clients are built on first use and kept; a client is its contract and retry policy
  and nothing else, so building it again at every use is the same. The module that configures the
  SDK has run at startup (\<open>app/providers.tsx\<close>); importing it again does nothing.
\<close>

record ('w, 'a, 't, 'v) dapp_env =
  d_sdk :: "('w, 'a, 't, 'v) sdk_env"
  getLatestLedger :: "string \<Rightarrow> (exn, 'w, jsnum) io" \<comment> \<open>the field \<open>sequence\<close> of the answer\<close>
  invoiceContractID :: string
  poolContractID :: string
  registryContractID :: string
  d_zparse :: zparser

definition wallet_not_connected :: exn where
  "wallet_not_connected = new_Error ''Wallet not connected''"

text \<open>\<open>if (!address) throw new Error("Wallet not connected")\<close> in front of a body.\<close>

definition with_address :: "string option \<Rightarrow> (string \<Rightarrow> (exn, 's, 'r) io) \<Rightarrow> (exn, 's, 'r) io" where
  "with_address address body =
     (case address of
        Some a \<Rightarrow> if a \<noteq> [] then body a else throwIO wallet_not_connected
      | None \<Rightarrow> throwIO wallet_not_connected)"

subsection \<open>Token allowance\<close>

definition APPROVAL_LEDGER_OFFSET :: jsnum where
  "APPROVAL_LEDGER_OFFSET = Fin 535680"

definition forUSDC :: "('w, 'a, 't, 'v) dapp_env \<Rightarrow> ('w, 'a, 't, 'v, BaseContractClient) sdk_io" where
  "forUSDC D = (\<lambda>s. (token_forUSDC (d_sdk D) (activeConfig s), s))"

definition latestLedger :: "('w, 'a, 't, 'v) dapp_env \<Rightarrow> string \<Rightarrow> ('w, 'a, 't, 'v, jsnum) sdk_io" where
  "latestLedger D url = (\<lambda>s. case getLatestLedger D url (outside s) of (r, w) \<Rightarrow> (r, s\<lparr>outside := w\<rparr>))"

definition approve_spender ::
  "('w, 'a, 't, 'v) dapp_env \<Rightarrow> BaseContractClient \<Rightarrow> string \<Rightarrow> string \<Rightarrow> int \<Rightarrow> ('w, 'a, 't, 'v, unit) sdk_io" where
  "approve_spender D tokenClient a spender amount =
     bindIO (readServer (d_sdk D)) (\<lambda>server.
     bindIO (latestLedger D server) (\<lambda>seq.
     bindIO (token_approve (d_sdk D) tokenClient a spender amount (num_add seq APPROVAL_LEDGER_OFFSET) a)
       (\<lambda>_. returnIO ())))"

definition ensureAllowance ::
  "('w, 'a, 't, 'v) dapp_env \<Rightarrow> string option \<Rightarrow> string \<Rightarrow> int \<Rightarrow> ('w, 'a, 't, 'v, unit) sdk_io" where
  "ensureAllowance D address spender amount =
     with_address address (\<lambda>a.
     bindIO (forUSDC D) (\<lambda>tokenClient.
     bindIO (token_allowance (d_sdk D) tokenClient a spender a) (\<lambda>currentAllowance.
     if amount \<le> currentAllowance then returnIO ()
     else approve_spender D tokenClient a spender amount)))"

subsection \<open>Invoice mutations\<close>

definition getInvoiceClient :: "('w, 'a, 't, 'v) dapp_env \<Rightarrow> ('w, 'a, 't, 'v, BaseContractClient) sdk_io" where
  "getInvoiceClient D = liftE (newClient (d_sdk D) (invoiceContractID D) noOptions)"

definition getPoolClient :: "('w, 'a, 't, 'v) dapp_env \<Rightarrow> ('w, 'a, 't, 'v, BaseContractClient) sdk_io" where
  "getPoolClient D = liftE (newClient (d_sdk D) (poolContractID D) noOptions)"

definition listInvoice_fn ::
  "('w, 'a, 't, 'v) dapp_env \<Rightarrow> string option \<Rightarrow> string \<Rightarrow> jsnum \<Rightarrow> ('w, 'a, 't, 'v, bool) sdk_io" where
  "listInvoice_fn D address invoiceId discountBps =
     with_address address (\<lambda>a. bindIO (getInvoiceClient D) (\<lambda>client.
       invoice_listForFinancing (d_sdk D) client invoiceId discountBps a))"

definition fundInvoice_fn ::
  "('w, 'a, 't, 'v) dapp_env \<Rightarrow> string option \<Rightarrow> string \<Rightarrow> ('w, 'a, 't, 'v, bool) sdk_io" where
  "fundInvoice_fn D address invoiceId =
     with_address address (\<lambda>a. bindIO (getPoolClient D) (\<lambda>client.
       pool_fundInvoice (d_sdk D) client invoiceId a))"

definition shipInvoice_fn ::
  "('w, 'a, 't, 'v) dapp_env \<Rightarrow> string option \<Rightarrow> string \<Rightarrow> ('w, 'a, 't, 'v, bool) sdk_io" where
  "shipInvoice_fn D address invoiceId =
     with_address address (\<lambda>a. bindIO (getInvoiceClient D) (\<lambda>client.
       invoice_markShipped (d_sdk D) client invoiceId a))"

definition defaultInvoice_fn ::
  "('w, 'a, 't, 'v) dapp_env \<Rightarrow> string option \<Rightarrow> string \<Rightarrow> ('w, 'a, 't, 'v, bool) sdk_io" where
  "defaultInvoice_fn D address invoiceId =
     with_address address (\<lambda>a. bindIO (getInvoiceClient D) (\<lambda>client.
       invoice_triggerDefault (d_sdk D) client invoiceId a))"

definition rejected_by_user :: "exn \<Rightarrow> bool" where
  "rejected_by_user allowanceErr =
     includes_any (js_toLowerCase (if is_Error allowanceErr then exn_message allowanceErr else []))
       [''user rejected'', ''rejected'', ''user denied'', ''canceled'']"

text \<open>The face value of an invoice the SDK has parsed; the schema makes it a bigint.\<close>

definition face_value :: "jsval \<Rightarrow> int" where
  "face_value iv = inv_faceValue (invoice_of (own_entries iv))"

definition repay_allowance ::
  "('w, 'a, 't, 'v) dapp_env \<Rightarrow> string option \<Rightarrow> int \<Rightarrow> ('w, 'a, 't, 'v, unit) sdk_io" where
  "repay_allowance D address amount =
     catchIO (ensureAllowance D address (invoiceContractID D) amount)
       (\<lambda>allowanceErr. if rejected_by_user allowanceErr then throwIO (new_Error ''Allowance rejected'')
                       else throwIO allowanceErr)"

definition repayInvoice_fn ::
  "('w, 'a, 't, 'v) dapp_env \<Rightarrow> string option \<Rightarrow> string \<Rightarrow> ('w, 'a, 't, 'v, bool) sdk_io" where
  "repayInvoice_fn D address invoiceId =
     with_address address (\<lambda>a.
     bindIO (getInvoiceClient D) (\<lambda>client.
     bindIO (invoice_get (d_sdk D) (d_zparse D) client invoiceId a) (\<lambda>iv.
     bindIO (repay_allowance D address (face_value iv)) (\<lambda>_.
     invoice_repay (d_sdk D) client invoiceId a))))"

subsection \<open>Pool mutations\<close>

definition deposit_fn ::
  "('w, 'a, 't, 'v) dapp_env \<Rightarrow> string option \<Rightarrow> int \<Rightarrow> AssetType \<Rightarrow> ('w, 'a, 't, 'v, string) sdk_io" where
  "deposit_fn D address amount asset =
     with_address address (\<lambda>a.
     bindIO (if asset = USDC then ensureAllowance D address (poolContractID D) amount else returnIO ()) (\<lambda>_.
     bindIO (getPoolClient D) (\<lambda>poolClient.
     pool_deposit (d_sdk D) poolClient a amount a)))"

definition withdraw_fn ::
  "('w, 'a, 't, 'v) dapp_env \<Rightarrow> string option \<Rightarrow> int \<Rightarrow> ('w, 'a, 't, 'v, string) sdk_io" where
  "withdraw_fn D address shares =
     with_address address (\<lambda>a. bindIO (getPoolClient D) (\<lambda>poolClient.
       pool_withdraw (d_sdk D) poolClient a shares a))"

subsection \<open>Registry\<close>

text \<open>
  \<open>getErrorStatus\<close> of whatever was thrown; a property of a response that is not there reads as
  \<open>undefined\<close>.
\<close>

fun js_field :: "jsval \<Rightarrow> string \<Rightarrow> jsval" where
  "js_field (JObj ob) k = obj_get ob k"
| "js_field v k = JUndef"

definition exn_object :: "exn \<Rightarrow> bool" where
  "exn_object e = (case e of Thrown v \<Rightarrow> typeof_object v \<and> v \<noteq> JNull | _ \<Rightarrow> True)"

definition getErrorStatus :: "exn \<Rightarrow> jsval" where
  "getErrorStatus err =
     (if \<not> exn_object err then JUndef
      else coalesce (exn_prop err ''status'')
             (coalesce (exn_prop err ''statusCode'')
               (coalesce (js_field (exn_prop err ''response'') ''status'')
                  (js_field (exn_prop err ''response'') ''statusCode''))))"

definition isProfileNotFoundError :: "exn \<Rightarrow> bool" where
  "isProfileNotFoundError err \<longleftrightarrow>
     getErrorStatus err = JNum (Fin 404) \<or>
     (is_Error err \<and>
      includes_any (js_toLowerCase (exn_message err))
        [''profile not found'', ''profile does not exist'', ''no profile found'',
         ''profile is not registered'', ''profile not registered''])"

definition getRegistryClient :: "('w, 'a, 't, 'v) dapp_env \<Rightarrow> ('w, 'a, 't, 'v, BaseContractClient) sdk_io" where
  "getRegistryClient D = liftE (newClient (d_sdk D) (registryContractID D) noOptions)"

definition already_registered :: "jsval \<Rightarrow> exn" where
  "already_registered profile =
     new_Error (''This wallet is already registered as '' @ js_String (js_field profile ''role'') @
       ''. Registration is one-time, so profile metadata cannot be updated.'')"

text \<open>\<open>register\<close>; \<open>profile\<close> is what the profile query holds, \<open>undefined\<close> before its first answer.\<close>

definition register_fn ::
  "('w, 'a, 't, 'v) dapp_env \<Rightarrow> string option \<Rightarrow> jsval \<Rightarrow> bool \<Rightarrow> (string \<times> string) list \<Rightarrow>
   ('w, 'a, 't, 'v, string) sdk_io" where
  "register_fn D address profile as_issuer metadata =
     with_address address (\<lambda>a.
       if truthy profile then throwIO (already_registered profile)
       else bindIO (getRegistryClient D) (\<lambda>registryClient.
         if as_issuer then registry_registerIssuer (d_sdk D) registryClient a metadata a
         else registry_registerBuyer (d_sdk D) registryClient a metadata a))"


subsection \<open>The state of the application and the handlers\<close>

record ('h, 'w, 'a, 't, 'v) dapp_state = "'h api_state" +
  sdk :: "('w, 'a, 't, 'v) sdk_state"
  invalidated :: "string list list" \<comment> \<open>query keys, in the order of \<open>invalidateQueries\<close>\<close>
  appError :: "js_text option"

type_synonym ('h, 'w, 'a, 't, 'v, 'z, 'r) dapp_io = "(exn, ('h, 'w, 'a, 't, 'v, 'z) dapp_state_scheme, 'r) io"

text \<open>A computation of the SDK in the application.\<close>

definition viaSdk :: "('w, 'a, 't, 'v, 'r) sdk_io \<Rightarrow> ('h, 'w, 'a, 't, 'v, 'z, 'r) dapp_io" where
  "viaSdk m = (\<lambda>s. case m (sdk s) of (r, t) \<Rightarrow> (r, s\<lparr>sdk := t\<rparr>))"

definition invalidateQueries :: "string list \<Rightarrow> ('h, 'w, 'a, 't, 'v, 'z, unit) dapp_io" where
  "invalidateQueries key = modifyIO (\<lambda>s. s\<lparr>invalidated := invalidated s @ [key]\<rparr>)"

definition invalidateInvoiceQueries :: "string option \<Rightarrow> ('h, 'w, 'a, 't, 'v, 'z, unit) dapp_io" where
  "invalidateInvoiceQueries address =
     bindIO (invalidateQueries [''invoices'']) (\<lambda>_.
     bindIO (invalidateQueries [''invoiceStats'']) (\<lambda>_.
     bindIO (invalidateQueries [''poolStats'']) (\<lambda>_.
     if present address then invalidateQueries [''lpPosition'', the address] else returnIO ())))"

text \<open>The mutations of \<open>useInvoices\<close> share their handlers up to the texts.\<close>

definition invoice_onSuccess :: "string option \<Rightarrow> string \<Rightarrow> ('h, 'w, 'a, 't, 'v, 'z, unit) dapp_io" where
  "invoice_onSuccess address msg =
     bindIO (invalidateInvoiceQueries address) (\<lambda>_. showSuccessToast msg None)"

definition invoice_onError :: "string \<Rightarrow> exn \<Rightarrow> ('h, 'w, 'a, 't, 'v, 'z, unit) dapp_io" where
  "invoice_onError msg e = handleMutationError ''useInvoices'' e msg"

definition clearError :: "('h, 'w, 'a, 't, 'v, 'z, unit) dapp_io" where
  "clearError = modifyIO (\<lambda>s. s\<lparr>appError := None\<rparr>)"

definition inlineHandleError :: "exn \<Rightarrow> string \<Rightarrow> ('h, 'w, 'a, 't, 'v, 'z, unit) dapp_io" where
  "inlineHandleError e fallback = modifyIO (\<lambda>s. s\<lparr>appError := Some (inline_error e (Some fallback))\<rparr>)"

text \<open>The key \<open>["lpPosition", address]\<close>; the handlers of a successful mutation run with an address.\<close>

definition pool_onSuccess :: "string option \<Rightarrow> string \<Rightarrow> string \<Rightarrow> ('h, 'w, 'a, 't, 'v, 'z, unit) dapp_io" where
  "pool_onSuccess address msg txHash =
     bindIO clearError (\<lambda>_.
     bindIO (invalidateQueries [''poolStats'']) (\<lambda>_.
     bindIO (invalidateQueries (''lpPosition'' # (case address of Some a \<Rightarrow> [a] | None \<Rightarrow> []))) (\<lambda>_.
     showSuccessToast msg (Some txHash))))"

definition pool_onError :: "string \<Rightarrow> string \<Rightarrow> exn \<Rightarrow> ('h, 'w, 'a, 't, 'v, 'z, unit) dapp_io" where
  "pool_onError msg fallback e =
     bindIO (handleMutationError ''usePool'' e msg) (\<lambda>_. inlineHandleError e fallback)"

definition register_onSuccess :: "string option \<Rightarrow> ('h, 'w, 'a, 't, 'v, 'z, unit) dapp_io" where
  "register_onSuccess address =
     bindIO clearError (\<lambda>_.
     bindIO (invalidateQueries (''profile'' # (case address of Some a \<Rightarrow> [a] | None \<Rightarrow> []))) (\<lambda>_.
     invalidateQueries (''isVerified'' # (case address of Some a \<Rightarrow> [a] | None \<Rightarrow> []))))"

definition register_onError :: "exn \<Rightarrow> ('h, 'w, 'a, 't, 'v, 'z, unit) dapp_io" where
  "register_onError e =
     bindIO (captureError ''useProfile'' e) (\<lambda>_. inlineHandleError e ''Profile registration failed'')"

subsection \<open>The mutations\<close>

text \<open>
  \<open>mutateAsync\<close> of the query library, given the three functions of a mutation. Documented: the
  result of \<open>mutationFn\<close> decides which handler runs; the handler runs before the promise settles;
  the promise settles like \<open>mutationFn\<close>. Nothing is assumed for a handler that throws.
\<close>

type_synonym ('s, 'r) mutate =
  "(exn, 's, 'r) io \<Rightarrow> ('r \<Rightarrow> (exn, 's, unit) io) \<Rightarrow> (exn \<Rightarrow> (exn, 's, unit) io) \<Rightarrow> (exn, 's, 'r) io"

definition mutation_law :: "('s, 'r) mutate \<Rightarrow> bool" where
  "mutation_law run \<longleftrightarrow>
     (\<forall>f ok bad s s1 s2 x. f s = (Inr x, s1) \<longrightarrow> ok x s1 = (Inr (), s2) \<longrightarrow> run f ok bad s = (Inr x, s2)) \<and>
     (\<forall>f ok bad s s1 s2 e. f s = (Inl e, s1) \<longrightarrow> bad e s1 = (Inr (), s2) \<longrightarrow> run f ok bad s = (Inl e, s2))"

definition mutate_createInvoice where
  "mutate_createInvoice run api address buyer faceValue dueDate asset =
     run (createInvoice api buyer faceValue dueDate (case asset of Some x \<Rightarrow> x | None \<Rightarrow> USDC))
       (\<lambda>_. invoice_onSuccess address ''Invoice Created'') (invoice_onError ''Invoice Creation Failed'')"

definition mutate_listInvoice where
  "mutate_listInvoice run D address invoiceId discountBps =
     run (viaSdk (listInvoice_fn D address invoiceId discountBps))
       (\<lambda>_. invoice_onSuccess address ''Invoice Listed for Financing'') (invoice_onError ''Listing Failed'')"

definition mutate_fundInvoice where
  "mutate_fundInvoice run D address invoiceId =
     run (viaSdk (fundInvoice_fn D address invoiceId))
       (\<lambda>_. invoice_onSuccess address ''Invoice Funded'') (invoice_onError ''Funding Failed'')"

definition mutate_shipInvoice where
  "mutate_shipInvoice run D address invoiceId =
     run (viaSdk (shipInvoice_fn D address invoiceId))
       (\<lambda>_. invoice_onSuccess address ''Invoice Shipped'') (invoice_onError ''Shipping Failed'')"

text \<open>The confirmation names the buyer of the indexed invoice as confirmer, whoever signs.\<close>

definition confirmDelivery_fn ::
  "('w, 'a, 't, 'v) dapp_env \<Rightarrow> 'h api_env \<Rightarrow> string option \<Rightarrow> string \<Rightarrow> ('h, 'w, 'a, 't, 'v, 'z, bool) dapp_io" where
  "confirmDelivery_fn D api address invoiceId =
     with_address address (\<lambda>a.
     bindIO (getInvoiceByID api (d_zparse D) invoiceId) (\<lambda>iv.
     viaSdk (bindIO (getInvoiceClient D) (\<lambda>client.
       invoice_confirmDelivery (d_sdk D) client invoiceId (js_String (obj_get iv ''buyer'')) a))))"

definition mutate_confirmDelivery where
  "mutate_confirmDelivery run D api address invoiceId =
     run (confirmDelivery_fn D api address invoiceId)
       (\<lambda>_. invoice_onSuccess address ''Delivery Confirmed'') (invoice_onError ''Confirmation Failed'')"

definition mutate_repayInvoice where
  "mutate_repayInvoice run D address invoiceId =
     run (viaSdk (repayInvoice_fn D address invoiceId))
       (\<lambda>_. invoice_onSuccess address ''Invoice Repaid'') (invoice_onError ''Repayment Failed'')"

definition mutate_defaultInvoice where
  "mutate_defaultInvoice run D address invoiceId =
     run (viaSdk (defaultInvoice_fn D address invoiceId))
       (\<lambda>_. invoice_onSuccess address ''Invoice Defaulted'') (invoice_onError ''Default Action Failed'')"

definition mutate_deposit where
  "mutate_deposit run D address amount asset =
     run (viaSdk (deposit_fn D address amount asset))
       (pool_onSuccess address ''Deposit Complete'') (pool_onError ''Deposit Failed'' ''Deposit failed'')"

definition mutate_withdraw where
  "mutate_withdraw run D address shares =
     run (viaSdk (withdraw_fn D address shares))
       (pool_onSuccess address ''Withdrawal Complete'') (pool_onError ''Withdrawal Failed'' ''Withdrawal failed'')"

definition mutate_register where
  "mutate_register run D address profile as_issuer metadata =
     run (viaSdk (register_fn D address profile as_issuer metadata))
       (\<lambda>_. register_onSuccess address) register_onError"

text \<open>The two queries of \<open>useProfile\<close>.\<close>

definition profile_query ::
  "('w, 'a, 't, 'v) dapp_env \<Rightarrow> string option \<Rightarrow> ('h, 'w, 'a, 't, 'v, 'z, jsval) dapp_io" where
  "profile_query D address =
     (if \<not> present address then returnIO JNull
      else bindIO (viaSdk (getRegistryClient D)) (\<lambda>registryClient.
        catchIO (viaSdk (registry_getProfile (d_sdk D) (d_zparse D) registryClient (the address) (the address)))
          (\<lambda>err. if isProfileNotFoundError err then returnIO JNull
                 else bindIO (captureError ''useProfile'' err) (\<lambda>_. throwIO err))))"

definition isVerified_query ::
  "('w, 'a, 't, 'v) dapp_env \<Rightarrow> string option \<Rightarrow> ('h, 'w, 'a, 't, 'v, 'z, bool) dapp_io" where
  "isVerified_query D address =
     (if \<not> present address then returnIO False
      else bindIO (viaSdk (getRegistryClient D)) (\<lambda>registryClient.
        catchIO (viaSdk (registry_isVerified (d_sdk D) registryClient (the address) (the address)))
          (\<lambda>err. bindIO (captureError ''useProfile'' err) (\<lambda>_. returnIO False))))"


subsection \<open>Statistics of an issuer's invoices\<close>

record InvoiceStats =
  totalInvoicesCreated :: nat
  totalListed :: nat
  totalFundedActive :: nat
  totalRepaid :: nat
  totalFunded :: int

definition EMPTY_INVOICE_STATS :: InvoiceStats where
  "EMPTY_INVOICE_STATS =
     \<lparr>totalInvoicesCreated = 0, totalListed = 0, totalFundedActive = 0, totalRepaid = 0, totalFunded = 0\<rparr>"

text \<open>
  \<open>invoice.fundedAmount ?? 0n\<close> and the comparisons of \<open>invoice.status\<close>. The invoices come from
  \<open>parseInvoiceResponse\<close>, which makes the amount a bigint or refuses the invoice.
\<close>

definition fundedAmount_of :: "jsobj \<Rightarrow> int" where
  "fundedAmount_of ob = (case obj_get ob ''fundedAmount'' of JBigInt n \<Rightarrow> n | _ \<Rightarrow> 0)"

definition has_status :: "string list \<Rightarrow> jsobj \<Rightarrow> bool" where
  "has_status sts ob \<longleftrightarrow> (\<exists>st \<in> set sts. obj_get ob ''status'' = JStr st)"

definition count_invoice :: "InvoiceStats \<Rightarrow> jsobj \<Rightarrow> InvoiceStats" where
  "count_invoice st ob =
     (let st1 = st\<lparr>totalFunded := totalFunded st + fundedAmount_of ob\<rparr>;
          st2 = (if has_status [''Listed''] ob then st1\<lparr>totalListed := totalListed st1 + 1\<rparr> else st1);
          st3 = (if has_status [''Funded'', ''Active'', ''Confirmed''] ob
                 then st2\<lparr>totalFundedActive := totalFundedActive st2 + 1\<rparr> else st2)
      in if has_status [''Repaid''] ob then st3\<lparr>totalRepaid := totalRepaid st3 + 1\<rparr> else st3)"

definition computeInvoiceStats :: "jsobj list \<Rightarrow> InvoiceStats" where
  "computeInvoiceStats invoices =
     (foldl count_invoice EMPTY_INVOICE_STATS invoices)\<lparr>totalInvoicesCreated := length invoices\<rparr>"

definition invoiceStats_query where
  "invoiceStats_query api zparse iss =
     bindIO (getAllInvoices api zparse None iss) (\<lambda>invoices. returnIO (computeInvoiceStats invoices))"

subsection \<open>The actions of the invoice page\<close>

text \<open>
  The dialog store holds at most one pending action; \<open>fn\<close> is the computation that confirming the
  dialog starts.
\<close>

record 'f PendingAction =
  pa_label :: string
  pa_invoiceId :: string
  pa_fn :: 'f

type_synonym 'f ConfirmDialogState = "'f PendingAction option"

definition dialog_request :: "'f PendingAction \<Rightarrow> 'f ConfirmDialogState \<Rightarrow> 'f ConfirmDialogState" where
  "dialog_request action st = Some action"

definition dialog_cancel :: "'f ConfirmDialogState \<Rightarrow> 'f ConfirmDialogState" where
  "dialog_cancel st = None"

record detail_state =
  submitting :: bool
  detail_error :: "string option"
  showPending :: bool
  pendingHash :: "string option"
  pendingText :: string

definition detail_init :: detail_state where
  "detail_init = \<lparr>submitting = False, detail_error = None, showPending = False, pendingHash = None,
                  pendingText = ''Waiting for confirmation...''\<rparr>"

text \<open>\<open>handleAction\<close>: the state of the page beside the state \<open>'s\<close> the action and \<open>refetch\<close> work on.\<close>

definition on_page :: "(exn, 's, 'r) io \<Rightarrow> (exn, detail_state \<times> 's, 'r) io" where
  "on_page m = (\<lambda>(d, s). case m s of (r, s') \<Rightarrow> (r, (d, s')))"

definition setDetail :: "(detail_state \<Rightarrow> detail_state) \<Rightarrow> (exn, detail_state \<times> 's, unit) io" where
  "setDetail f = (\<lambda>(d, s). (Inr (), (f d, s)))"

definition handleAction ::
  "(exn, 's, jsval) io \<Rightarrow> (exn, 's, 'q) io \<Rightarrow> string \<Rightarrow> string \<Rightarrow> (exn, detail_state \<times> 's, unit) io" where
  "handleAction actionFn refetch txt errorMsg =
     bindIO (setDetail (\<lambda>d. d\<lparr>submitting := True, detail_error := None, pendingText := txt,
                              pendingHash := None, showPending := True\<rparr>)) (\<lambda>_.
     bindIO (catchIO
         (bindIO (on_page actionFn) (\<lambda>res.
          bindIO (setDetail (\<lambda>d. case res of JStr h \<Rightarrow> d\<lparr>pendingHash := Some h\<rparr> | _ \<Rightarrow> d)) (\<lambda>_.
          bindIO (on_page refetch) (\<lambda>_. returnIO ()))))
         (\<lambda>err. setDetail (\<lambda>d. d\<lparr>detail_error := Some (getErrorMessage err errorMsg), showPending := False\<rparr>)))
       (\<lambda>_. setDetail (\<lambda>d. d\<lparr>submitting := False\<rparr>)))"

text \<open>The four buttons, given the mutation each of them starts.\<close>

definition jsBool :: "(exn, 's, bool) io \<Rightarrow> (exn, 's, jsval) io" where
  "jsBool m = bindIO m (\<lambda>b. returnIO (JBool b))"

definition detail_ship where
  "detail_ship shipInvoice invoiceId refetch =
     dialog_request \<lparr>pa_label = ''Mark Goods Shipped'', pa_invoiceId = invoiceId,
       pa_fn = handleAction (jsBool (shipInvoice invoiceId)) refetch
                 ''Marking goods as shipped...'' ''Unable to mark goods as shipped.''\<rparr>"

definition detail_confirm where
  "detail_confirm confirmDelivery invoiceId refetch =
     dialog_request \<lparr>pa_label = ''Confirm Delivery'', pa_invoiceId = invoiceId,
       pa_fn = handleAction (jsBool (confirmDelivery invoiceId)) refetch
                 ''Confirming delivery...'' ''Unable to confirm delivery.''\<rparr>"

definition detail_repay where
  "detail_repay repayInvoice invoiceId refetch =
     dialog_request \<lparr>pa_label = ''Repay Invoice'', pa_invoiceId = invoiceId,
       pa_fn = handleAction (jsBool (repayInvoice invoiceId)) refetch
                 ''Repaying invoice...'' ''Unable to repay invoice.''\<rparr>"

definition detail_markDefault where
  "detail_markDefault defaultInvoice invoiceId refetch =
     dialog_request \<lparr>pa_label = ''Default Invoice'', pa_invoiceId = invoiceId,
       pa_fn = handleAction (jsBool (defaultInvoice invoiceId)) refetch
                 ''Defaulting invoice...'' ''Unable to default invoice.''\<rparr>"


subsection \<open>Allowances\<close>

text \<open>
  The spender may take \<open>n\<close>: either the allowance read from the chain was enough and nothing else
  happened, or it was not and an approval of exactly \<open>n\<close> for the spender was confirmed.
\<close>

definition allowance_ready ::
  "('w, 'a, 't, 'v) dapp_env \<Rightarrow> string \<Rightarrow> string \<Rightarrow> int \<Rightarrow> ('w, 'a, 't, 'v) sdk_state \<Rightarrow>
   ('w, 'a, 't, 'v) sdk_state \<Rightarrow> bool" where
  "allowance_ready D a spender n s s' \<longleftrightarrow>
     (\<exists>tok current s1. token_forUSDC (d_sdk D) (activeConfig s) = Inr tok \<and>
        token_allowance (d_sdk D) tok a spender a s = (Inr current, s1) \<and>
        (n \<le> current \<and> s' = s1 \<or>
         current < n \<and>
         (\<exists>s2 args expiry. history s2 = history s1 \<and> written (d_sdk D) tok ''approve'' args a s2 s' \<and>
            map Inr args = [addressScVal (d_sdk D) a, addressScVal (d_sdk D) spender,
                            bigintArg (d_sdk D) n ''i128'', nativeToScVal (d_sdk D) (JNum expiry) (Some ''u32'')])))"

lemma with_address_eq:
  "with_address address body s = (r, s') \<longleftrightarrow>
     (\<exists>a. address = Some a \<and> a \<noteq> [] \<and> body a s = (r, s')) \<or>
     (\<not> present address \<and> r = Inl wallet_not_connected \<and> s' = s)"
  by (auto simp: with_address_def present_def throwIO_def split: option.splits)

lemma approve_spender_written:
  assumes "approve_spender D tok a spender n s = (Inr u, s')"
  shows "\<exists>s2 args expiry. history s2 = history s \<and> written (d_sdk D) tok ''approve'' args a s2 s' \<and>
     map Inr args = [addressScVal (d_sdk D) a, addressScVal (d_sdk D) spender,
                     bigintArg (d_sdk D) n ''i128'', nativeToScVal (d_sdk D) (JNum expiry) (Some ''u32'')]"
proof -
  obtain url s1 seq s2 h where 1: "readServer (d_sdk D) s = (Inr url, s1)"
    and 2: "latestLedger D url s1 = (Inr seq, s2)"
    and 3: "token_approve (d_sdk D) tok a spender n (num_add seq APPROVAL_LEDGER_OFFSET) a s2 = (Inr h, s')"
    using assms unfolding approve_spender_def by (auto simp: bindIO_eq_Inr returnIO_def)
  have "history s2 = history s"
    using 1 2 by (auto simp: readServer_def latestLedger_def Let_def split: prod.splits)
  moreover obtain args where "mapE (\<lambda>x. x) [addressScVal (d_sdk D) a, addressScVal (d_sdk D) spender,
      bigintArg (d_sdk D) n ''i128'',
      nativeToScVal (d_sdk D) (JNum (num_add seq APPROVAL_LEDGER_OFFSET)) (Some ''u32'')] = Inr args"
    "writeContract (d_sdk D) tok ''approve'' args a s2 = (Inr h, s')"
    using 3 unfolding token_approve_def withArgs_Inr by blast
  ultimately show ?thesis using writeContract_written unfolding mapE_id_Inr by metis
qed

lemma ensureAllowance_ready:
  assumes "ensureAllowance D address spender n s = (Inr u, s')"
  shows "\<exists>a. address = Some a \<and> a \<noteq> [] \<and> allowance_ready D a spender n s s'"
proof -
  obtain a tok current s1 where a: "address = Some a" "a \<noteq> []"
    and tok: "token_forUSDC (d_sdk D) (activeConfig s) = Inr tok"
    and cur: "token_allowance (d_sdk D) tok a spender a s = (Inr current, s1)"
    and rest: "(if n \<le> current then returnIO () else approve_spender D tok a spender n) s1 = (Inr u, s')"
    using assms unfolding ensureAllowance_def with_address_eq
    by (auto simp: bindIO_eq_Inr forUSDC_def)
  show ?thesis
  proof (cases "n \<le> current")
    case True
    then show ?thesis using a tok cur rest by (auto simp: allowance_ready_def returnIO_def)
  next
    case False
    then show ?thesis
      using a tok cur rest approve_spender_written [of D tok a spender n s1 u s']
      unfolding allowance_ready_def by auto
  qed
qed

subsection \<open>Prompts\<close>

definition prompts_at_most :: "nat \<Rightarrow> ('w, 'a, 't, 'v, 'r) sdk_io \<Rightarrow> bool" where
  "prompts_at_most n m \<longleftrightarrow> runs m (\<lambda>cfg es r. length (prompts es) \<le> n)"

lemma prompts_append: "prompts (es @ fs) = prompts es @ prompts fs"
  by (induction es rule: prompts.induct) auto

lemma prompts_bind:
  assumes "prompts_at_most n m" and "\<And>x. prompts_at_most k (f x)"
  shows "prompts_at_most (n + k) (bindIO m f)"
  unfolding prompts_at_most_def
  by (rule runs_bind [OF assms(1) [unfolded prompts_at_most_def]])
    (auto simp: prompts_append intro!: runs_conseq [OF assms(2) [unfolded prompts_at_most_def]])

lemma prompts_bind_pure:
  "prompts_at_most 0 m \<Longrightarrow> (\<And>x. prompts_at_most k (f x)) \<Longrightarrow> prompts_at_most k (bindIO m f)"
  using prompts_bind [of 0 m k f] by simp

lemma prompts_mono: "prompts_at_most n m \<Longrightarrow> n \<le> k \<Longrightarrow> prompts_at_most k m"
  unfolding prompts_at_most_def by (erule runs_conseq) simp

lemma prompts_pure: "prompts_at_most k (returnIO x)" "prompts_at_most k (throwIO e)" "prompts_at_most k (liftE y)"
  unfolding prompts_at_most_def by (auto intro!: runs_return runs_throw runs_liftE)

lemma prompts_quiet:
  "prompts_at_most 0 (readServer E)" "prompts_at_most 0 (latestLedger D url)" "prompts_at_most 0 (forUSDC D)"
  unfolding prompts_at_most_def
  by (auto simp: runs_def readServer_def latestLedger_def forUSDC_def Let_def split: prod.split)

lemma prompts_with_address: "(\<And>a. prompts_at_most k (body a)) \<Longrightarrow> prompts_at_most k (with_address address body)"
  by (auto simp: with_address_def prompts_pure split: option.split)

context sdk_mutation
begin

lemma prompts_once: "prompts_at_most 1 op"
  unfolding prompts_at_most_def by (rule runs_conseq [OF disciplined]) (auto simp: sends_ok_def)

end

context sdk_query
begin

lemma prompts_never: "prompts_at_most 0 op"
  unfolding prompts_at_most_def
  by (rule runs_conseq [OF reads_only]) (simp add: views_prepare list_all_read_prepare)

end

lemma prompts_if: "prompts_at_most k m \<Longrightarrow> prompts_at_most k m' \<Longrightarrow> prompts_at_most k (if b then m else m')"
  by simp

lemma prompts_then: "prompts_at_most k m \<Longrightarrow> (\<And>x. prompts_at_most 0 (f x)) \<Longrightarrow> prompts_at_most k (bindIO m f)"
  using prompts_bind [of k m 0 f] by simp

lemmas prompt_rules = prompts_with_address prompts_bind_pure prompts_pure prompts_quiet prompts_if

lemma approve_spender_prompts: "prompts_at_most 1 (approve_spender D tok a spender n)"
  unfolding approve_spender_def
  by (intro prompts_bind_pure prompts_quiet prompts_then token_approve.prompts_once prompts_pure)

lemma ensureAllowance_prompts: "prompts_at_most 1 (ensureAllowance D address spender n)"
  unfolding ensureAllowance_def
  by (intro prompt_rules token_allowance.prompts_never approve_spender_prompts)

text \<open>What the promise of a repayment did when it stopped before the repayment itself.\<close>

definition stopped_before_repayment ::
  "('w, 'a, 't, 'v) dapp_env \<Rightarrow> string option \<Rightarrow> string \<Rightarrow> ('w, 'a, 't, 'v) sdk_state \<Rightarrow>
   ('w, 'a, 't, 'v) sdk_state \<Rightarrow> bool" where
  "stopped_before_repayment D address invoiceId s s' \<longleftrightarrow>
     s' = s \<or>
     (\<exists>a client r s1. invoice_get (d_sdk D) (d_zparse D) client invoiceId a s = (r, s1) \<and>
        (s' = s1 \<or> (\<exists>iv. r = Inr iv \<and>
           s' = snd (ensureAllowance D address (invoiceContractID D) (face_value iv) s1))))"

lemma stopped_intros:
  "stopped_before_repayment D address invoiceId s s"
  "invoice_get (d_sdk D) (d_zparse D) client invoiceId a s = (r, s1) \<Longrightarrow>
     stopped_before_repayment D address invoiceId s s1"
  "invoice_get (d_sdk D) (d_zparse D) client invoiceId a s = (Inr iv, s1) \<Longrightarrow>
     stopped_before_repayment D address invoiceId s
       (snd (ensureAllowance D address (invoiceContractID D) (face_value iv) s1))"
  unfolding stopped_before_repayment_def by blast+

lemma repay_allowance_eq:
  "repay_allowance D address n s = (r, s') \<Longrightarrow>
     snd (ensureAllowance D address (invoiceContractID D) n s) = s' \<and>
     (\<forall>u. r = Inr u \<longrightarrow> ensureAllowance D address (invoiceContractID D) n s = (Inr u, s'))"
  by (auto simp: repay_allowance_def catchIO_def throwIO_def split: prod.splits sum.splits if_splits)

lemma repay_allowance_prompts: "prompts_at_most 1 (repay_allowance D address n)"
  unfolding repay_allowance_def prompts_at_most_def
  by (rule runs_catch [OF ensureAllowance_prompts [unfolded prompts_at_most_def]])
    (auto intro!: runs_throw)

lemma repay_prompts: "prompts_at_most 2 (repayInvoice_fn D address invoiceId)"
proof -
  have gate: "prompts_at_most 2 (bindIO (repay_allowance D address n) (\<lambda>_. invoice_repay (d_sdk D) client invoiceId a))"
    for n client a
    unfolding one_add_one [symmetric] by (intro prompts_bind repay_allowance_prompts invoice_repay.prompts_once)
  show ?thesis unfolding repayInvoice_fn_def getInvoiceClient_def
    by (intro prompts_with_address prompts_bind_pure [OF prompts_pure(3)]
        prompts_bind_pure [OF invoice_get.prompts_never] gate)
qed

lemma repay_stages:
  assumes "repayInvoice_fn D address invoiceId s = (r, s')"
  shows "(\<exists>e. r = Inl e) \<and> stopped_before_repayment D address invoiceId s s' \<or>
    (\<exists>a client iv s1 s2. address = Some a \<and> a \<noteq> [] \<and>
       newClient (d_sdk D) (invoiceContractID D) noOptions = Inr client \<and>
       invoice_get (d_sdk D) (d_zparse D) client invoiceId a s = (Inr iv, s1) \<and>
       allowance_ready D a (invoiceContractID D) (face_value iv) s1 s2 \<and>
       invoice_repay (d_sdk D) client invoiceId a s2 = (r, s'))"
proof (cases "present address")
  case False
  then show ?thesis using assms unfolding repayInvoice_fn_def with_address_eq
    by (auto simp: stopped_before_repayment_def present_def)
next
  case True
  then obtain a where a: "address = Some a" "a \<noteq> []" by (auto simp: present_def)
  show ?thesis
  proof (cases "newClient (d_sdk D) (invoiceContractID D) noOptions")
    case (Inl e)
    then show ?thesis using assms a
      by (auto simp: repayInvoice_fn_def with_address_eq getInvoiceClient_def throwIO_def stopped_before_repayment_def)
  next
    case (Inr client)
    obtain g s1 where g: "invoice_get (d_sdk D) (d_zparse D) client invoiceId a s = (g, s1)" by fastforce
    have run: "(case g of Inl e \<Rightarrow> (Inl e, s1) | Inr iv \<Rightarrow>
        bindIO (repay_allowance D address (face_value iv)) (\<lambda>_. invoice_repay (d_sdk D) client invoiceId a) s1) = (r, s')"
      using assms Inr g unfolding a(1) by (simp add: a(2) repayInvoice_fn_def with_address_eq getInvoiceClient_def bindIO_def [of "invoice_get _ _ _ _ _"])
    show ?thesis
    proof (cases g)
      case (Inl e)
      then show ?thesis using run stopped_intros(2) [OF g] by auto
    next
      case iv: (Inr iv)
      obtain q s2 where q: "repay_allowance D address (face_value iv) s1 = (q, s2)" by fastforce
      note al = repay_allowance_eq [OF q]
      show ?thesis
      proof (cases q)
        case (Inl e)
        then show ?thesis using run iv q al stopped_intros(3) [OF g [unfolded iv], of address] by (auto simp: bindIO_def)
      next
        case u: (Inr u)
        then have "allowance_ready D a (invoiceContractID D) (face_value iv) s1 s2"
          using al ensureAllowance_ready a by fastforce
        then show ?thesis using run iv g q u a \<open>newClient _ _ _ = Inr client\<close> by (auto simp: bindIO_def)
      qed
    qed
  qed
qed

lemma deposit_prompts: "prompts_at_most 2 (deposit_fn D address n asset)"
proof -
  have pay: "prompts_at_most 1 (bindIO (getPoolClient D) (\<lambda>c. pool_deposit (d_sdk D) c a n a))" for a
    unfolding getPoolClient_def by (intro prompts_bind_pure prompts_pure pool_deposit.prompts_once)
  have gate: "prompts_at_most 1 (if asset = USDC then ensureAllowance D address (poolContractID D) n else returnIO ())"
    by (intro prompts_if ensureAllowance_prompts prompts_pure)
  show ?thesis unfolding deposit_fn_def one_add_one [symmetric]
    by (intro prompts_with_address prompts_bind gate pay)
qed

lemma deposit_stages:
  assumes "deposit_fn D address n asset s = (r, s')"
  shows "(\<exists>e. r = Inl e) \<and>
      (s' = s \<or> asset = USDC \<and> s' = snd (ensureAllowance D address (poolContractID D) n s)) \<or>
    (\<exists>a client s2. address = Some a \<and> a \<noteq> [] \<and>
       newClient (d_sdk D) (poolContractID D) noOptions = Inr client \<and>
       (if asset = USDC then allowance_ready D a (poolContractID D) n s s2 else s2 = s) \<and>
       pool_deposit (d_sdk D) client a n a s2 = (r, s'))"
proof (cases "present address")
  case False
  then show ?thesis using assms unfolding deposit_fn_def with_address_eq by (auto simp: present_def)
next
  case True
  then obtain a where a: "address = Some a" "a \<noteq> []" by (auto simp: present_def)
  let ?gate = "if asset = USDC then ensureAllowance D address (poolContractID D) n else returnIO ()"
  obtain q s2 where q: "?gate s = (q, s2)" by fastforce
  have run: "(case q of Inl e \<Rightarrow> (Inl e, s2) | Inr u \<Rightarrow>
      bindIO (getPoolClient D) (\<lambda>c. pool_deposit (d_sdk D) c a n a) s2) = (r, s')"
    using assms q unfolding a(1) by (simp add: a(2) deposit_fn_def with_address_eq bindIO_def [of "if _ then _ else _"])
  show ?thesis
  proof (cases q)
    case (Inl e)
    then show ?thesis using run q by (auto simp: returnIO_def split: if_splits)
  next
    case (Inr u)
    have ready: "if asset = USDC then allowance_ready D a (poolContractID D) n s s2 else s2 = s"
      using q Inr a ensureAllowance_ready [of D address "poolContractID D" n s u s2]
      by (auto simp: returnIO_def split: if_splits)
    show ?thesis
    proof (cases "newClient (d_sdk D) (poolContractID D) noOptions")
      case (Inl e)
      then show ?thesis using run q Inr by (auto simp: getPoolClient_def throwIO_def returnIO_def split: if_splits)
    next
      case client: (Inr client)
      then show ?thesis using run Inr a ready by (auto simp: getPoolClient_def)
    qed
  qed
qed

subsection \<open>Outcomes of the mutations\<close>

text \<open>Neither kind of call touches the part of the state that the user sees.\<close>

definition same_screen ::
  "('h, 'w, 'a, 't, 'v, 'z) dapp_state_scheme \<Rightarrow> ('h, 'w, 'a, 't, 'v, 'z) dapp_state_scheme \<Rightarrow> bool" where
  "same_screen s t \<longleftrightarrow>
     toasts t = toasts s \<and> ui_state.console t = ui_state.console s \<and> clock t = clock s \<and> ticks t = ticks s \<and>
     invalidated t = invalidated s \<and> appError t = appError s \<and> wallet t = wallet s"

lemma same_screen_viaSdk: "same_screen s (snd (viaSdk m s))"
  by (simp add: viaSdk_def same_screen_def split: prod.split)

lemma same_screen_refl [simp]: "same_screen s s"
  by (simp add: same_screen_def)

lemma same_screen_trans: "same_screen s t \<Longrightarrow> same_screen t u \<Longrightarrow> same_screen s u"
  by (simp add: same_screen_def)

lemma same_screen_request:
  assumes "one_request f" shows "same_screen s (snd (f s))"
proof -
  obtain w rs where "snd (f s) = s\<lparr>http := w, requests := requests s @ rs\<rparr>"
    using assms unfolding one_request_def by blast
  then show ?thesis by (simp add: same_screen_def)
qed

lemma same_screen_then:
  "one_request f \<Longrightarrow> same_screen s (snd (bindIO f (\<lambda>x. viaSdk (m x)) s))"
  using same_screen_request [of f s]
  by (auto simp: bindIO_def split: prod.split sum.split intro: same_screen_trans same_screen_viaSdk)

lemma same_screen_confirm: "same_screen s (snd (confirmDelivery_fn D api address i s))"
  by (simp add: confirmDelivery_fn_def with_address_def throwIO_def same_screen_then [OF getInvoiceByID.one]
      split: option.split)

text \<open>The handlers always return, so the contract of \<open>mutateAsync\<close> decides every mutation.\<close>

lemma invoice_onSuccess_run:
  "invoice_onSuccess address msg s =
     (Inr (), s\<lparr>invalidated := invalidated s @ [[''invoices''], [''invoiceStats''], [''poolStats'']] @
                  (if present address then [[''lpPosition'', the address]] else []),
                toasts := toasts s @ [SuccessToast msg None]\<rparr>)"
  by (simp add: invoice_onSuccess_def invalidateInvoiceQueries_def invalidateQueries_def showSuccessToast_def io_defs)

definition logged ::
  "string \<Rightarrow> exn \<Rightarrow> ('h, 'w, 'a, 't, 'v, 'z) dapp_state_scheme \<Rightarrow> (string \<times> exn) list" where
  "logged ctx e s =
     ui_state.console s @ [(log_line (clock s (ticks s)) ctx (classifyError e) (extractMessage e), e)]"

definition error_toast :: "string \<Rightarrow> exn \<Rightarrow> toast" where
  "error_toast title e = ErrorToast title (if extractMessage e \<noteq> [] then Some (extractMessage e) else None)"

lemma invoice_onError_run:
  "invoice_onError msg e s =
     (Inr (), s\<lparr>ui_state.console := logged ''useInvoices'' e s, toasts := toasts s @ [error_toast msg e],
                ticks := Suc (Suc (ticks s))\<rparr>)"
  by (simp add: invoice_onError_def handleMutationError_run logged_def error_toast_def)

lemma pool_onSuccess_run:
  "pool_onSuccess (Some a) msg h s =
     (Inr (), s\<lparr>appError := None, invalidated := invalidated s @ [[''poolStats''], [''lpPosition'', a]],
                toasts := toasts s @ [SuccessToast msg (if h \<noteq> [] then Some (explorerUrl h) else None)]\<rparr>)"
  by (simp add: pool_onSuccess_def clearError_def invalidateQueries_def showSuccessToast_def io_defs)

lemma pool_onError_run:
  "pool_onError msg fallback e s =
     (Inr (), s\<lparr>ui_state.console := logged ''usePool'' e s, toasts := toasts s @ [error_toast msg e],
                ticks := Suc (Suc (ticks s)), appError := Some (inline_error e (Some fallback))\<rparr>)"
  by (simp add: pool_onError_def bindIO_Inr [OF handleMutationError_run] inlineHandleError_def modifyIO_def
      logged_def error_toast_def)

text \<open>What the user sees after a mutation of \<open>useInvoices\<close> settled.\<close>

definition invoice_outcome ::
  "string option \<Rightarrow> string \<Rightarrow> string \<Rightarrow> ('h, 'w, 'a, 't, 'v, 'z) dapp_state_scheme \<Rightarrow>
   (exn + 'r) \<times> ('h, 'w, 'a, 't, 'v, 'z) dapp_state_scheme \<Rightarrow> bool" where
  "invoice_outcome address good bad s out \<longleftrightarrow>
     (case fst out of
        Inr x \<Rightarrow> toasts (snd out) = toasts s @ [SuccessToast good None] \<and>
          ui_state.console (snd out) = ui_state.console s \<and>
          invalidated (snd out) = invalidated s @ [[''invoices''], [''invoiceStats''], [''poolStats'']] @
            (if present address then [[''lpPosition'', the address]] else [])
      | Inl e \<Rightarrow> toasts (snd out) = toasts s @ [error_toast bad e] \<and>
          ui_state.console (snd out) = logged ''useInvoices'' e s \<and> invalidated (snd out) = invalidated s)"

lemma mutation_outcome:
  assumes law: "mutation_law run" and screen: "same_screen s (snd (f s))"
  shows "invoice_outcome address good bad s
           (run f (\<lambda>_. invoice_onSuccess address good) (invoice_onError bad) s) \<and>
         fst (run f (\<lambda>_. invoice_onSuccess address good) (invoice_onError bad) s) = fst (f s)"
proof (cases "f s")
  case (Pair r s1)
  show ?thesis
  proof (cases r)
    case (Inl e)
    then have "run f (\<lambda>_. invoice_onSuccess address good) (invoice_onError bad) s =
        (Inl e, snd (invoice_onError bad e s1))"
      using law Pair unfolding mutation_law_def invoice_onError_run by auto
    then show ?thesis using screen Pair Inl
      by (simp add: invoice_outcome_def invoice_onError_run same_screen_def logged_def)
  next
    case (Inr x)
    then have "run f (\<lambda>_. invoice_onSuccess address good) (invoice_onError bad) s =
        (Inr x, snd (invoice_onSuccess address good s1))"
      using law Pair unfolding mutation_law_def invoice_onSuccess_run by auto
    then show ?thesis using screen Pair Inr
      by (simp add: invoice_outcome_def invoice_onSuccess_run same_screen_def)
  qed
qed

lemma one_request_createInvoice: "same_screen s (snd (createInvoice api b fv d asset s))"
  by (rule same_screen_request [OF createInvoice.one])

lemma sdk_mutation_outcome:
  "mutation_law run \<Longrightarrow> invoice_outcome address good bad s
     (run (viaSdk m) (\<lambda>_. invoice_onSuccess address good) (invoice_onError bad) s)"
  using mutation_outcome [where f = "viaSdk m"] same_screen_viaSdk by blast

lemma sdk_mutation_settles:
  "mutation_law run \<Longrightarrow>
     fst (run (viaSdk m) (\<lambda>_. invoice_onSuccess address good) (invoice_onError bad) s) = fst (viaSdk m s)"
  using mutation_outcome [where f = "viaSdk m"] same_screen_viaSdk by blast

lemma confirm_outcome:
  "mutation_law run \<Longrightarrow> invoice_outcome address good bad s
     (run (confirmDelivery_fn D api a i) (\<lambda>_. invoice_onSuccess address good) (invoice_onError bad) s)"
  using mutation_outcome [where f = "confirmDelivery_fn D api a i"] same_screen_confirm by blast

lemma create_outcome:
  "mutation_law run \<Longrightarrow> invoice_outcome address good bad s
     (run (createInvoice api b fv d asset) (\<lambda>_. invoice_onSuccess address good) (invoice_onError bad) s)"
  using mutation_outcome [where f = "createInvoice api b fv d asset"] one_request_createInvoice by blast

text \<open>A way to keep the contract of \<open>mutateAsync\<close>.\<close>

definition ref_mutate :: "('s, 'r) mutate" where
  "ref_mutate f ok bad = (\<lambda>s. case f s of
     (Inr x, s1) \<Rightarrow> (Inr x, snd (ok x s1)) | (Inl e, s1) \<Rightarrow> (Inl e, snd (bad e s1)))"

lemma ref_mutate_law: "mutation_law ref_mutate"
  by (simp add: mutation_law_def ref_mutate_def)

text \<open>\<open>handleAction\<close> never throws and always ends with \<open>submitting\<close> reset.\<close>

lemma handleAction_run:
  "handleAction act refetch txt msg (d, s) =
     (let d0 = d\<lparr>submitting := False, detail_error := None, pendingText := txt, pendingHash := None,
                   showPending := True\<rparr>;
          failed = (\<lambda>d e. d\<lparr>detail_error := Some (getErrorMessage e msg), showPending := False\<rparr>)
      in (Inr (), case act s of
            (Inl e, s1) \<Rightarrow> (failed d0 e, s1)
          | (Inr v, s1) \<Rightarrow>
              (let d1 = (case v of JStr h \<Rightarrow> d0\<lparr>pendingHash := Some h\<rparr> | _ \<Rightarrow> d0)
               in case refetch s1 of (Inl e, s2) \<Rightarrow> (failed d1 e, s2) | (Inr q, s2) \<Rightarrow> (d1, s2))))"
proof (cases "act s")
  case (Pair r s1)
  show ?thesis
  proof (cases r)
    case (Inl e)
    then show ?thesis using Pair
      by (simp add: handleAction_def catchIO_def bindIO_def on_page_def setDetail_def Let_def)
  next
    case (Inr v)
    obtain q s2 where "refetch s1 = (q, s2)" by fastforce
    then show ?thesis using Pair Inr
      by (cases q; cases v) (simp_all add: handleAction_def catchIO_def bindIO_def on_page_def setDetail_def
          returnIO_def Let_def)
  qed
qed

lemma handleAction_outcome:
  "\<exists>d' s'. handleAction act refetch txt msg (d, s) = (Inr (), (d', s')) \<and>
     \<not> submitting d' \<and> (showPending d' \<longleftrightarrow> detail_error d' = None)"
  by (auto simp: handleAction_run Let_def split: prod.split sum.split jsval.split)

text \<open>
  The four actions of the page resolve to a boolean, never to a string: the page shows no
  transaction hash for any of them.
\<close>

lemma detail_no_hash:
  "pendingHash (fst (snd (handleAction (jsBool m) refetch txt msg (d, s)))) = None"
  by (auto simp: handleAction_run jsBool_def bindIO_def returnIO_def Let_def split: prod.split sum.split)

text \<open>One invoice more changes the counts of the loop independently of the others.\<close>

lemma foldl_count:
  "foldl count_invoice st xs =
     st\<lparr>totalListed := totalListed st + length (filter (has_status [''Listed'']) xs),
        totalFundedActive := totalFundedActive st + length (filter (has_status [''Funded'', ''Active'', ''Confirmed'']) xs),
        totalRepaid := totalRepaid st + length (filter (has_status [''Repaid'']) xs),
        totalFunded := totalFunded st + sum_list (map fundedAmount_of xs)\<rparr>"
  by (induction xs arbitrary: st) (simp_all add: count_invoice_def Let_def)

lemma has_status_sole: "has_status sts ob \<Longrightarrow> obj_get ob ''status'' = JStr st \<Longrightarrow> st \<in> set sts"
  by (auto simp: has_status_def)

subsection \<open>Properties\<close>

text \<open>
  C3. A repayment is asked for only when the invoice contract may take the money. Whatever
  happens, the user is prompted at most twice; and either the call stops with an error before the
  repayment (having read the invoice and checked the allowance at most), or the invoice was read
  from the chain, the allowance for its face value was found sufficient or an approval of exactly
  that amount was confirmed, and the rest of the call is the repayment of that invoice.
\<close>

theorem repay_needs_allowance:
  "\<exists>es r s'. repayInvoice_fn D address invoiceId s = (r, s') \<and> history s' = history s @ es \<and>
     length (prompts es) \<le> 2 \<and>
     ((\<exists>e. r = Inl e) \<and> stopped_before_repayment D address invoiceId s s' \<or>
      (\<exists>a client iv s1 s2. address = Some a \<and> a \<noteq> [] \<and>
         newClient (d_sdk D) (invoiceContractID D) noOptions = Inr client \<and>
         invoice_get (d_sdk D) (d_zparse D) client invoiceId a s = (Inr iv, s1) \<and>
         allowance_ready D a (invoiceContractID D) (face_value iv) s1 s2 \<and>
         invoice_repay (d_sdk D) client invoiceId a s2 = (r, s')))"
proof -
  obtain r s' where run: "repayInvoice_fn D address invoiceId s = (r, s')" by fastforce
  moreover obtain es where "history s' = history s @ es" "length (prompts es) \<le> 2"
    using runsD [OF repay_prompts [unfolded prompts_at_most_def] run] by blast
  ultimately show ?thesis using repay_stages [OF run] by blast
qed

text \<open>
  C4. A deposit of USDC reaches the pool only after the pool may take the amount: the user is
  prompted at most twice, and either the call stops with an error before the deposit, or (for USDC)
  the allowance was sufficient or an approval of exactly the amount was confirmed, and the rest of
  the call is the deposit of that amount from the connected address. XLM needs no allowance.
\<close>

theorem deposit_needs_allowance:
  "\<exists>es r s'. deposit_fn D address n asset s = (r, s') \<and> history s' = history s @ es \<and>
     length (prompts es) \<le> 2 \<and>
     ((\<exists>e. r = Inl e) \<and>
        (s' = s \<or> asset = USDC \<and> s' = snd (ensureAllowance D address (poolContractID D) n s)) \<or>
      (\<exists>a client s2. address = Some a \<and> a \<noteq> [] \<and>
         newClient (d_sdk D) (poolContractID D) noOptions = Inr client \<and>
         (if asset = USDC then allowance_ready D a (poolContractID D) n s s2 else s2 = s) \<and>
         pool_deposit (d_sdk D) client a n a s2 = (r, s')))"
proof -
  obtain r s' where run: "deposit_fn D address n asset s = (r, s')" by fastforce
  moreover obtain es where "history s' = history s @ es" "length (prompts es) \<le> 2"
    using runsD [OF deposit_prompts [unfolded prompts_at_most_def] run] by blast
  ultimately show ?thesis using deposit_stages [OF run] by blast
qed

text \<open>
  C26. Every mutation of \<open>useInvoices\<close> tells the user exactly once how it ended: with one success
  toast and the invoice, statistics and pool queries invalidated, or with one error toast that
  carries the message of the error, one line in the console and no query invalidated. The promise
  settles like the function that was run.
\<close>

theorem invoice_mutations_outcome:
  assumes "mutation_law run" and "mutation_law run'"
  shows "invoice_outcome address ''Invoice Created'' ''Invoice Creation Failed'' s
           (mutate_createInvoice run' api address buyer fv due asset s) \<and>
         invoice_outcome address ''Invoice Listed for Financing'' ''Listing Failed'' s
           (mutate_listInvoice run D address i bps s) \<and>
         invoice_outcome address ''Invoice Funded'' ''Funding Failed'' s (mutate_fundInvoice run D address i s) \<and>
         invoice_outcome address ''Invoice Shipped'' ''Shipping Failed'' s (mutate_shipInvoice run D address i s) \<and>
         invoice_outcome address ''Delivery Confirmed'' ''Confirmation Failed'' s
           (mutate_confirmDelivery run D api address i s) \<and>
         invoice_outcome address ''Invoice Repaid'' ''Repayment Failed'' s (mutate_repayInvoice run D address i s) \<and>
         invoice_outcome address ''Invoice Defaulted'' ''Default Action Failed'' s
           (mutate_defaultInvoice run D address i s) \<and>
         fst (mutate_repayInvoice run D address i s) = fst (repayInvoice_fn D address i (sdk s))"
proof -
  have repay: "fst (viaSdk (repayInvoice_fn D address i) s) = fst (repayInvoice_fn D address i (sdk s))"
    by (simp add: viaSdk_def split: prod.split)
  show ?thesis
    unfolding mutate_createInvoice_def mutate_listInvoice_def mutate_fundInvoice_def mutate_shipInvoice_def
      mutate_confirmDelivery_def mutate_repayInvoice_def mutate_defaultInvoice_def
    by (intro conjI sdk_mutation_outcome [OF assms(1)] confirm_outcome [OF assms(1)] create_outcome [OF assms(2)])
      (simp add: sdk_mutation_settles [OF assms(1)] repay)
qed

text \<open>
  C27. The totals of \<open>computeInvoiceStats\<close> are those of its specification: the number of invoices,
  the numbers with the statuses of each group and the sum of the funded amounts. They do not
  depend on the order of the invoices, and no invoice is counted in two groups.
\<close>

theorem computeInvoiceStats_spec:
  "computeInvoiceStats xs =
     \<lparr>totalInvoicesCreated = length xs,
      totalListed = length (filter (has_status [''Listed'']) xs),
      totalFundedActive = length (filter (has_status [''Funded'', ''Active'', ''Confirmed'']) xs),
      totalRepaid = length (filter (has_status [''Repaid'']) xs),
      totalFunded = sum_list (map fundedAmount_of xs)\<rparr> \<and>
   computeInvoiceStats (rev xs) = computeInvoiceStats xs \<and>
   totalListed (computeInvoiceStats xs) + totalFundedActive (computeInvoiceStats xs) +
     totalRepaid (computeInvoiceStats xs) \<le> length xs"
proof -
  have eq: "computeInvoiceStats xs =
     \<lparr>totalInvoicesCreated = length xs,
      totalListed = length (filter (has_status [''Listed'']) xs),
      totalFundedActive = length (filter (has_status [''Funded'', ''Active'', ''Confirmed'']) xs),
      totalRepaid = length (filter (has_status [''Repaid'']) xs),
      totalFunded = sum_list (map fundedAmount_of xs)\<rparr>" for xs
    by (simp add: computeInvoiceStats_def foldl_count EMPTY_INVOICE_STATS_def)
  have "length (filter (has_status [''Listed'']) xs) +
      length (filter (has_status [''Funded'', ''Active'', ''Confirmed'']) xs) +
      length (filter (has_status [''Repaid'']) xs) \<le> length xs"
  proof (induction xs)
    case (Cons ob xs)
    then show ?case by (cases "obj_get ob ''status''") (auto simp: has_status_def)
  qed simp
  then show ?thesis by (simp add: eq rev_filter [symmetric] rev_map [symmetric] sum_list_rev)
qed


subsection \<open>A concrete application\<close>

definition demo_dapp :: "(SendResponse list, string, string, jsval) dapp_env" where
  "demo_dapp = \<lparr>d_sdk = demo_env, getLatestLedger = (\<lambda>url w. (Inr (Fin 1000), w)), invoiceContractID = ''CI'',
                poolContractID = ''CP'', registryContractID = ''CR'', d_zparse = ref_zparse\<rparr>"

definition demo_dapp_state :: "(unit, SendResponse list, string, string, jsval) dapp_state" where
  "demo_dapp_state =
     \<lparr>ui_state.console = [], toasts = [], clock = (\<lambda>n. 0), ticks = 0, wallet = wallet_init, http = (), requests = [],
      sdk = demo_state [demo_send PENDING], invalidated = [], appError = None\<rparr>"

theorem invoice_mutations_outcome_witness:
  "toasts (snd (mutate_repayInvoice ref_mutate demo_dapp None ''ab'' demo_dapp_state)) =
     [ErrorToast ''Repayment Failed'' (Some ''Wallet not connected'')]"
proof -
  have err: "repayInvoice_fn demo_dapp None ''ab'' (sdk demo_dapp_state) =
      (Inl wallet_not_connected, sdk demo_dapp_state)"
    by (simp add: repayInvoice_fn_def with_address_def throwIO_def)
  have out: "invoice_outcome None ''Invoice Repaid'' ''Repayment Failed'' demo_dapp_state
      (mutate_repayInvoice ref_mutate demo_dapp None ''ab'' demo_dapp_state)"
    and res: "fst (mutate_repayInvoice ref_mutate demo_dapp None ''ab'' demo_dapp_state) = Inl wallet_not_connected"
    using invoice_mutations_outcome [OF ref_mutate_law ref_mutate_law, of None demo_dapp_state demo_api "''G''" "''1''"
        "Fin 0" None demo_dapp "''ab''" "Fin 500"] unfolding err fst_conv by blast+
  have "toasts (snd (mutate_repayInvoice ref_mutate demo_dapp None ''ab'' demo_dapp_state)) =
      toasts demo_dapp_state @ [error_toast ''Repayment Failed'' wallet_not_connected]"
    using out unfolding invoice_outcome_def res by simp
  then show ?thesis
    by (simp only: error_toast_def wallet_not_connected_def extractMessage_def) (simp add: demo_dapp_state_def)
qed

end
