(* ===== verification/TxHistory.thy ===== *)
theory TxHistory
  imports JsValue JsDate
begin

text \<open>
  The transaction history (\<open>apps/web/hooks/useTxHistory.ts\<close>): one page of an account's
  transactions with the operations of each, filtered to the program's contracts, and the pager that
  walks over the pages with a stack of cursors.

  The Horizon server is a parameter: two calls over a state \<open>'w\<close>. The cached lookup of operations
  goes through the query library, whose \<open>fetchQuery\<close> is a parameter as well. The reading of a date
  by \<open>new Date(text)\<close> outside of the ISO format is left to the implementation by the language, so the
  time of a transaction is a parameter too.
\<close>

record HorizonAssetBalanceChange =
  bc_from :: "string option"
  bc_to :: "string option"
  bc_amount :: "string option"
  bc_asset_type :: "string option"
  bc_asset_code :: "string option"

record HorizonOperationRecord =
  op_type :: "string option"
  op_type_i :: "int option"
  op_amount :: "string option"
  op_asset_type :: "string option"
  op_asset_code :: "string option"
  op_contract_id :: "string option"
  op_function :: "string option"
  op_changes :: "HorizonAssetBalanceChange list option"

record HorizonTransaction =
  tx_hash :: string
  tx_created_at :: string
  tx_successful :: bool
  tx_paging_token :: string

record TxHistoryItem =
  it_id :: string
  it_type :: js_text
  it_amount :: "string option"
  it_token :: "string option"
  it_timestamp :: jsnum
  it_hash :: string
  it_status :: string

record 'w horizon_env =
  transactions :: "string \<Rightarrow> string option \<Rightarrow> (exn, 'w, HorizonTransaction list) io"
    \<comment> \<open>of an account, ten at most, newest first, after a cursor\<close>
  operations :: "string \<Rightarrow> (exn, 'w, HorizonOperationRecord list) io"
  dateTime :: "string \<Rightarrow> jsnum" \<comment> \<open>\<open>new Date(text).getTime()\<close>\<close>
  contractIDs :: "string option list" \<comment> \<open>the four environment variables\<close>

subsection \<open>Labels and errors\<close>

definition FUNCTION_LABELS :: "(string \<times> string) list" where
  "FUNCTION_LABELS =
     [(''create'', ''Create Invoice''), (''list_for_financing'', ''List Invoice''),
      (''mark_shipped'', ''Mark Shipped''), (''confirm_delivery'', ''Confirm Delivery''),
      (''repay'', ''Repay Invoice''), (''trigger_default'', ''Trigger Default''),
      (''deposit'', ''Pool Deposit''), (''withdraw'', ''Pool Withdraw''),
      (''fund_invoice'', ''Fund Invoice''), (''receive_repayment'', ''Receive Repayment''),
      (''register_issuer'', ''Register Issuer''), (''register_buyer'', ''Register Buyer''),
      (''is_verified'', ''Verify Identity''), (''revoke'', ''Revoke Profile''), (''lock'', ''Lock Escrow''),
      (''release_to_issuer'', ''Release to Issuer''), (''release_to_pool'', ''Release to Pool''),
      (''handle_default'', ''Handle Default'')]"

definition getTxType :: "string \<Rightarrow> js_text" where
  "getTxType funcName = table_or FUNCTION_LABELS funcName ''Contract Invocation''"

definition rate_limit_error :: exn where
  "rate_limit_error =
     HorizonRateLimitError ''Horizon rate limit reached (429). Please wait a moment and try again.''"

definition status_429 :: "jsval \<Rightarrow> bool" where
  "status_429 v \<longleftrightarrow> v = JNum (Fin 429)"

definition isRateLimitError :: "exn \<Rightarrow> bool" where
  "isRateLimitError err \<longleftrightarrow>
     (case err of
        HorizonRateLimitError m \<Rightarrow> True
      | Thrown v \<Rightarrow> (case v of
          JObj ob \<Rightarrow> status_429 (obj_get ob ''status'') \<or>
            (case obj_get ob ''response'' of JObj r \<Rightarrow> status_429 (obj_get r ''status'') | _ \<Rightarrow> False)
        | _ \<Rightarrow> False)
      | _ \<Rightarrow> status_429 (exn_prop err ''status'') \<or>
            (case exn_prop err ''response'' of JObj r \<Rightarrow> status_429 (obj_get r ''status'') | _ \<Rightarrow> False))"

text \<open>\<open>try \<dots> catch\<close> around a call of Horizon: a 429 becomes the typed error.\<close>

definition typed_429 :: "(exn, 's, 'r) io \<Rightarrow> (exn, 's, 'r) io" where
  "typed_429 m = catchIO m (\<lambda>err. if isRateLimitError err then throwIO rate_limit_error else throwIO err)"

definition fetchOperationsForTx :: "'w horizon_env \<Rightarrow> string \<Rightarrow> (exn, 'w, HorizonOperationRecord list) io" where
  "fetchOperationsForTx H hash = typed_429 (operations H hash)"

subsection \<open>The cache of operations\<close>

definition txOpsQueryKey :: "string \<Rightarrow> string \<Rightarrow> string list" where
  "txOpsQueryKey horizonURL hash = [''txOps'', horizonURL, hash]"

definition TX_OPS_GC_TIME :: int where
  "TX_OPS_GC_TIME = 30 * 60 * 1000"

text \<open>\<open>fetchQuery\<close> of the query library with \<open>staleTime: Infinity\<close> and no retry: a key and the function to run.\<close>

definition createCachedOpsFetcher ::
  "(string list \<Rightarrow> (exn, 's, 'r) io \<Rightarrow> (exn, 's, 'r) io) \<Rightarrow> string \<Rightarrow> (string \<Rightarrow> (exn, 's, 'r) io) \<Rightarrow>
   string \<Rightarrow> (exn, 's, 'r) io" where
  "createCachedOpsFetcher fetchQuery horizonURL fetchOperations hash =
     fetchQuery (txOpsQueryKey horizonURL hash) (fetchOperations hash)"

subsection \<open>Amounts\<close>

text \<open>A missing or an empty text counts as none.\<close>

definition amount_token ::
  "string option \<Rightarrow> string option \<Rightarrow> string option \<Rightarrow> (string \<times> string) option" where
  "amount_token amount asset_type asset_code =
     (let token = (if asset_type = Some ''native'' then Some ''XLM'' else asset_code)
      in case (amount, token) of
           (Some a, Some t) \<Rightarrow> if a \<noteq> [] \<and> t \<noteq> [] then Some (a, t) else None
         | _ \<Rightarrow> None)"

definition concerns :: "string \<Rightarrow> HorizonAssetBalanceChange \<Rightarrow> bool" where
  "concerns userAddress change \<longleftrightarrow> bc_from change = Some userAddress \<or> bc_to change = Some userAddress"

definition extractOpAmount :: "HorizonOperationRecord \<Rightarrow> string \<Rightarrow> (string \<times> string) option" where
  "extractOpAmount op userAddress =
     (if op_type op = Some ''payment'' \<or> op_type_i op = Some 1
      then amount_token (op_amount op) (op_asset_type op) (op_asset_code op)
      else if op_type op = Some ''invoke_host_function'' \<or> op_type_i op = Some 24
      then (case op_changes op of
              None \<Rightarrow> None
            | Some changes \<Rightarrow> (case List.find (concerns userAddress) changes of
                Some c \<Rightarrow> amount_token (bc_amount c) (bc_asset_type c) (bc_asset_code c)
              | None \<Rightarrow> None))
      else None)"

subsection \<open>A page\<close>

definition CONTRACT_IDS :: "'w horizon_env \<Rightarrow> string list" where
  "CONTRACT_IDS H = filter (\<lambda>c. c \<noteq> []) (List.map_filter (\<lambda>c. c) (contractIDs H))"

text \<open>\<open>Promise.allSettled(hashes.map(fetchOps))\<close>: all lookups are made, whatever the others do.\<close>

fun allSettled :: "('h \<Rightarrow> (exn, 's, 'r) io) \<Rightarrow> 'h list \<Rightarrow> 's \<Rightarrow> (exn + 'r) list \<times> 's" where
  "allSettled f [] s = ([], s)"
| "allSettled f (h # hs) s = (let (r, s1) = f h s; (rs, s2) = allSettled f hs s1 in (r # rs, s2))"

definition rejected :: "exn + 'r \<Rightarrow> bool" where
  "rejected r \<longleftrightarrow> isl r"

text \<open>The loop that collects the hashes of the failed lookups and the first reason that is not \<open>undefined\<close>.\<close>

fun failures :: "HorizonTransaction list \<Rightarrow> (exn + 'r) list \<Rightarrow> string list \<times> exn option" where
  "failures (tx # txs) (Inl e # rs) =
     (let (hs, later) = failures txs rs
      in (tx_hash tx # hs,
          Some (case later of None \<Rightarrow> e | Some e' \<Rightarrow> if e = Thrown JUndef then e' else e)))"
| "failures (tx # txs) (Inr x # rs) = failures txs rs"
| "failures txs rs = ([], None)"

definition is_contract_op :: "'w horizon_env \<Rightarrow> HorizonOperationRecord \<Rightarrow> bool" where
  "is_contract_op H op \<longleftrightarrow> (\<exists>c. op_contract_id op = Some c \<and> c \<noteq> [] \<and> c \<in> set (CONTRACT_IDS H))"

definition history_item ::
  "'w horizon_env \<Rightarrow> string \<Rightarrow> HorizonTransaction \<Rightarrow> HorizonOperationRecord \<Rightarrow> TxHistoryItem" where
  "history_item H address tx mainOp =
     (let amountToken = extractOpAmount mainOp address
      in \<lparr>it_id = tx_hash tx,
          it_type = getTxType (case op_function mainOp of Some f \<Rightarrow> f | None \<Rightarrow> []),
          it_amount = map_option fst amountToken, it_token = map_option snd amountToken,
          it_timestamp = num_over (dateTime H (tx_created_at tx)) 1000,
          it_hash = tx_hash tx, it_status = (if tx_successful tx then ''success'' else ''failed'')\<rparr>)"

text \<open>The loop over the records and their settled lookups; a rejected lookup is skipped.\<close>

fun page_items ::
  "'w horizon_env \<Rightarrow> string \<Rightarrow> HorizonTransaction list \<Rightarrow> (exn + HorizonOperationRecord list) list \<Rightarrow>
   TxHistoryItem list" where
  "page_items H address (tx # txs) (Inr ops # rs) =
     (case filter (is_contract_op H) ops of
        [] \<Rightarrow> page_items H address txs rs
      | mainOp # _ \<Rightarrow> history_item H address tx mainOp # page_items H address txs rs)"
| "page_items H address (tx # txs) (Inl e # rs) = page_items H address txs rs"
| "page_items H address txs rs = []"

definition settle_page ::
  "'w horizon_env \<Rightarrow> string \<Rightarrow> HorizonTransaction list \<Rightarrow> (exn + HorizonOperationRecord list) list \<Rightarrow>
   exn + TxHistoryItem list \<times> string option" where
  "settle_page H address records opsResults =
     (if list_ex (\<lambda>r. case r of Inl e \<Rightarrow> isRateLimitError e | Inr ops \<Rightarrow> False) opsResults
      then Inl rate_limit_error
      else case failures records opsResults of
        (failedHashes, Some firstFailure) \<Rightarrow> Inl (HorizonOperationsError failedHashes firstFailure)
      | (failedHashes, None) \<Rightarrow>
          Inr (page_items H address records opsResults,
               if length records = 10 then Some (tx_paging_token (last records)) else None))"

definition fetchPage ::
  "'w horizon_env \<Rightarrow> (string \<Rightarrow> (exn, 'w, HorizonOperationRecord list) io) \<Rightarrow> string \<Rightarrow> string option \<Rightarrow>
   (exn, 'w, TxHistoryItem list \<times> string option) io" where
  "fetchPage H fetchOps address cursor =
     bindIO (typed_429 (transactions H address (case cursor of Some c \<Rightarrow> if c \<noteq> [] then Some c else None | None \<Rightarrow> None)))
       (\<lambda>records.
        if records = [] then returnIO ([], None)
        else (\<lambda>s. let (opsResults, s') = allSettled fetchOps (map tx_hash records) s
                  in (settle_page H address records opsResults, s')))"

subsection \<open>The pager\<close>

record pager =
  cursorStack :: "string option list"
  page :: nat

definition pager_init :: pager where
  "pager_init = \<lparr>cursorStack = [None], page = 0\<rparr>"

text \<open>\<open>cursorStack[page]\<close>, \<open>undefined\<close> outside of the stack.\<close>

definition cursor :: "pager \<Rightarrow> string option" where
  "cursor p = (if page p < length (cursorStack p) then cursorStack p ! page p else None)"

text \<open>\<open>goNext\<close>, given \<open>data?.nextCursor\<close> of the page shown.\<close>

definition goNext :: "string option \<Rightarrow> pager \<Rightarrow> pager" where
  "goNext nextCursor p =
     (case nextCursor of
        Some c \<Rightarrow> if c \<noteq> [] then \<lparr>cursorStack = cursorStack p @ [Some c], page = page p + 1\<rparr> else p
      | None \<Rightarrow> p)"

definition goPrev :: "pager \<Rightarrow> pager" where
  "goPrev p = (if 0 < page p then p\<lparr>page := page p - 1\<rparr> else p)"

text \<open>The effect on a change of the address.\<close>

definition pager_reset :: "pager \<Rightarrow> pager" where
  "pager_reset p = pager_init"

text \<open>
  Runs of the pager against an account whose page at cursor \<open>c\<close> has the next cursor \<open>nxt c\<close>: a
  click while the page is still loading does nothing, one on a loaded page uses its next cursor.
\<close>

datatype pager_event = Next | Prev | AddressChange

fun pager_run :: "(string option \<Rightarrow> string option) \<Rightarrow> pager_event list \<Rightarrow> pager \<Rightarrow> pager" where
  "pager_run nxt [] p = p"
| "pager_run nxt (Next # es) p = pager_run nxt es (goNext (nxt (cursor p)) p)"
| "pager_run nxt (Prev # es) p = pager_run nxt es (goPrev p)"
| "pager_run nxt (AddressChange # es) p = pager_run nxt es (pager_reset p)"

text \<open>The cursor of the \<open>k\<close>-th page (from 0): the first page has none.\<close>

definition page_cursor :: "(string option \<Rightarrow> string option) \<Rightarrow> nat \<Rightarrow> string option" where
  "page_cursor nxt k = (nxt ^^ k) None"

subsection \<open>Lemmas\<close>

lemma isRateLimitError_typed [simp]: "isRateLimitError rate_limit_error"
  by (simp add: isRateLimitError_def rate_limit_error_def)

lemma typed_429_run:
  "typed_429 m s = (case m s of
     (Inr x, s') \<Rightarrow> (Inr x, s')
   | (Inl e, s') \<Rightarrow> (Inl (if isRateLimitError e then rate_limit_error else e), s'))"
  by (auto simp: typed_429_def catchIO_def throwIO_def split: prod.split sum.split)

lemma allSettled_length: "length (fst (allSettled f hs s)) = length hs"
  by (induction hs arbitrary: s) (simp_all add: Let_def case_prod_beta)

lemma failures_hashes:
  "length rs = length txs \<Longrightarrow>
     fst (failures txs rs) = map (tx_hash \<circ> fst) (filter (\<lambda>(tx, r). rejected r) (zip txs rs))"
proof (induction txs rs rule: list_induct2')
  case (4 tx txs r rs)
  then show ?case by (cases r) (auto simp: Let_def rejected_def split: prod.split)
qed auto

lemma failures_none:
  "length rs = length txs \<Longrightarrow> snd (failures txs rs) = None \<longleftrightarrow> (\<forall>r \<in> set rs. \<not> rejected r)"
proof (induction txs rs rule: list_induct2')
  case (4 tx txs r rs)
  then show ?case by (cases r) (auto simp: Let_def rejected_def split: prod.split)
qed auto

lemma failures_reason:
  "snd (failures txs rs) = Some e \<Longrightarrow> Inl e \<in> set rs"
proof (induction txs rs arbitrary: e rule: list_induct2')
  case (4 tx txs r rs)
  then show ?case
    by (cases r) (auto simp: Let_def split: prod.splits option.splits if_splits)
qed auto

text \<open>The first operation of a program's contract stands for its transaction.\<close>

definition main_op :: "'w horizon_env \<Rightarrow> HorizonOperationRecord list \<Rightarrow> HorizonOperationRecord option" where
  "main_op H ops = List.find (is_contract_op H) ops"

lemma find_filter: "List.find P xs = (case filter P xs of [] \<Rightarrow> None | x # _ \<Rightarrow> Some x)"
  by (induction xs) auto

lemma page_items_ok:
  "length opss = length txs \<Longrightarrow> page_items H address txs (map Inr opss) =
     List.map_filter (\<lambda>(tx, ops). map_option (history_item H address tx) (main_op H ops)) (zip txs opss)"
proof (induction txs opss rule: list_induct2')
  case (4 tx txs ops opss)
  then show ?case
    by (simp add: map_filter_simps main_op_def find_filter split: list.split)
qed (auto simp: map_filter_simps)

lemma all_fulfilled: "(\<forall>r \<in> set rs. \<not> rejected r) \<Longrightarrow> \<exists>opss. rs = map Inr opss"
proof (induction rs)
  case (Cons r rs)
  then obtain x opss where "r = Inr x" "rs = map Inr opss" by (cases r) (auto simp: rejected_def)
  then have "r # rs = map Inr (x # opss)" by simp
  then show ?case by (rule exI)
qed simp

lemma page_lt: "page p < length (cursorStack p) \<Longrightarrow> page (pager_run nxt es p) < length (cursorStack (pager_run nxt es p))"
proof (induction nxt es p rule: pager_run.induct)
  case (2 nxt es p)
  then show ?case by (simp add: goNext_def split: option.split)
qed (auto simp: goPrev_def pager_reset_def pager_init_def)

text \<open>Walking forward from the start, the stack holds the cursors of the pages in order.\<close>

lemma pager_run_append: "pager_run nxt (es @ fs) p = pager_run nxt fs (pager_run nxt es p)"
  by (induction nxt es p rule: pager_run.induct) auto

lemma pager_forward:
  assumes "\<forall>k < n. \<exists>c. page_cursor nxt (Suc k) = Some c \<and> c \<noteq> []"
  shows "pager_run nxt (replicate n Next) pager_init =
           \<lparr>cursorStack = map (page_cursor nxt) [0 ..< Suc n], page = n\<rparr>"
  using assms
proof (induction n)
  case (Suc n)
  let ?p = "\<lparr>cursorStack = map (page_cursor nxt) [0 ..< Suc n], page = n\<rparr>"
  have "cursor ?p = page_cursor nxt n" by (simp add: cursor_def del: upt_Suc)
  moreover obtain c where "page_cursor nxt (Suc n) = Some c" "c \<noteq> []" using Suc.prems by blast
  ultimately have "pager_run nxt [Next] ?p =
      \<lparr>cursorStack = map (page_cursor nxt) [0 ..< Suc (Suc n)], page = Suc n\<rparr>"
    by (simp add: goNext_def page_cursor_def del: upt_Suc) (simp add: upt_Suc_append page_cursor_def)
  then show ?case
    using Suc pager_run_append [of nxt "replicate n Next" "[Next]" pager_init]
    by (simp add: replicate_append_same del: upt_Suc pager_run.simps)
qed (simp add: pager_init_def page_cursor_def)

lemma pager_back: "pager_run nxt (replicate m Prev) p = p\<lparr>page := page p - m\<rparr>"
  by (induction m arbitrary: p) (auto simp: goPrev_def)


subsection \<open>Properties\<close>


text \<open>
  Walking forward page by page and then back, the pager shows the cursor of the page it
  numbers, as long as no step forward follows a step back.
\<close>

theorem pager_forward_back:
  assumes "\<forall>k < n. \<exists>c. page_cursor nxt (Suc k) = Some c \<and> c \<noteq> []"
  shows "page (pager_run nxt (replicate n Next @ replicate m Prev) pager_init) = n - m \<and>
         cursor (pager_run nxt (replicate n Next @ replicate m Prev) pager_init) = page_cursor nxt (n - m)"
  using pager_forward [OF assms]
  by (simp add: pager_run_append pager_back cursor_def diff_less_Suc del: upt_Suc)

text \<open>
  A step forward after a step back breaks the pager: \<open>goNext\<close> appends the next cursor to the
  stack instead of replacing what is above the current page. After forward, back, forward, forward
  the pager says page 3 and shows page 2 again.
\<close>

theorem pager_repeats_page:
  assumes "nxt None = Some c1" and "nxt (Some c1) = Some c2" and "c1 \<noteq> []" and "c2 \<noteq> []" and "c1 \<noteq> c2"
  shows "page (pager_run nxt [Next, Prev, Next, Next] pager_init) = 2 \<and>
         cursor (pager_run nxt [Next, Prev, Next, Next] pager_init) = page_cursor nxt 1 \<and>
         page_cursor nxt 1 \<noteq> page_cursor nxt 2"
  using assms
  by (simp add: pager_init_def goNext_def goPrev_def cursor_def page_cursor_def numeral_2_eq_2)


subsection \<open>A concrete account\<close>

definition demo_op :: HorizonOperationRecord where
  "demo_op = \<lparr>op_type = Some ''invoke_host_function'', op_type_i = Some 24, op_amount = None, op_asset_type = None,
              op_asset_code = None, op_contract_id = Some ''CP'', op_function = Some ''deposit'',
              op_changes = Some [\<lparr>bc_from = Some ''GA'', bc_to = Some ''CP'', bc_amount = Some ''5.0'',
                                  bc_asset_type = Some ''credit_alphanum4'', bc_asset_code = Some ''USDC''\<rparr>]\<rparr>"

definition demo_horizon :: "unit horizon_env" where
  "demo_horizon =
     \<lparr>transactions = (\<lambda>a c w. (Inr [\<lparr>tx_hash = ''h1'', tx_created_at = [], tx_successful = True, tx_paging_token = ''p1''\<rparr>], w)),
      operations = (\<lambda>h w. (Inr [demo_op], w)), dateTime = (\<lambda>t. Fin 0), contractIDs = [None, Some ''CP'']\<rparr>"


theorem pager_forward_back_witness:
  "cursor (pager_run (\<lambda>c. case c of None \<Rightarrow> Some ''a'' | Some x \<Rightarrow> Some (x @ ''a'')) [Next, Next, Prev] pager_init) = Some ''a''"
  using pager_forward_back [of 2 "\<lambda>c. case c of None \<Rightarrow> Some ''a'' | Some x \<Rightarrow> Some (x @ ''a'')" 1]
  by (simp add: page_cursor_def numeral_2_eq_2 less_Suc_eq)

theorem pager_repeats_page_witness:
  "cursor (pager_run (\<lambda>c. case c of None \<Rightarrow> Some ''a'' | Some x \<Rightarrow> Some ''b'') [Next, Prev, Next, Next] pager_init) = Some ''a''"
  using pager_repeats_page [of "\<lambda>c. case c of None \<Rightarrow> Some ''a'' | Some x \<Rightarrow> Some ''b''" "''a''" "''b''"]
  by (simp add: page_cursor_def)


end
