(* ===== verification/Storage.thy ===== *)
theory Storage
  imports Json
begin

text \<open>
  What the web application keeps in the browser (\<open>apps/web/lib/storage.ts\<close>,
  \<open>lib/notification-preferences.ts\<close>, \<open>lib/theme.ts\<close>, \<open>hooks/useTheme.ts\<close>, \<open>store/onboarding.ts\<close>).

  \<open>localStorage\<close> is the list of its entries in the order of their keys. The browser may refuse every
  access (\<open>ls_blocked\<close>) or only writing (\<open>ls_full\<close>); a refused call throws.
\<close>

record local_storage =
  ls_items :: "(string \<times> string) list"
  ls_blocked :: bool
  ls_full :: bool

definition storage_error :: exn where
  "storage_error = JsError ''The operation is insecure.'' [(''name'', JStr ''SecurityError'')]"

definition quota_error :: exn where
  "quota_error = JsError ''Setting the value exceeded the quota.'' [(''name'', JStr ''QuotaExceededError'')]"

definition getItem :: "string \<Rightarrow> local_storage \<Rightarrow> exn + string option" where
  "getItem key ls = (if ls_blocked ls then Inl storage_error else Inr (map_of (ls_items ls) key))"

definition setItem :: "string \<Rightarrow> string \<Rightarrow> local_storage \<Rightarrow> exn + local_storage" where
  "setItem key v ls =
     (if ls_blocked ls then Inl storage_error
      else if ls_full ls then Inl quota_error
      else Inr (ls\<lparr>ls_items := obj_set key v (ls_items ls)\<rparr>))"

definition removeItem :: "string \<Rightarrow> local_storage \<Rightarrow> exn + local_storage" where
  "removeItem key ls =
     (if ls_blocked ls then Inl storage_error
      else Inr (ls\<lparr>ls_items := filter (\<lambda>(k, v). k \<noteq> key) (ls_items ls)\<rparr>))"

text \<open>\<open>try { localStorage.setItem(key, v) } catch {}\<close>.\<close>

definition trySetItem :: "string \<Rightarrow> string \<Rightarrow> local_storage \<Rightarrow> local_storage" where
  "trySetItem key v ls = (case setItem key v ls of Inl e \<Rightarrow> ls | Inr ls' \<Rightarrow> ls')"

definition wf_storage :: "local_storage \<Rightarrow> bool" where
  "wf_storage ls \<longleftrightarrow> distinct (map fst (ls_items ls))"

subsection \<open>Keys\<close>

definition STORAGE_NAMESPACE :: string where
  "STORAGE_NAMESPACE = ''trusttrove''"

definition STORAGE_KEY_PREFIXES :: "string list" where
  "STORAGE_KEY_PREFIXES = [STORAGE_NAMESPACE @ '':'', STORAGE_NAMESPACE @ ''_'']"

definition notificationHistoryKey :: "string \<Rightarrow> string" where
  "notificationHistoryKey address = STORAGE_NAMESPACE @ ''_notifs_'' @ address"

definition isAppStorageKey :: "string \<Rightarrow> bool" where
  "isAppStorageKey key \<longleftrightarrow> list_ex (\<lambda>prefix. js_startsWith key prefix) STORAGE_KEY_PREFIXES"

text \<open>The keys are collected first and removed afterwards; the empty key is not collected.\<close>

fun remove_all :: "string list \<Rightarrow> local_storage \<Rightarrow> exn + local_storage" where
  "remove_all [] ls = Inr ls"
| "remove_all (k # ks) ls = bindE (removeItem k ls) (remove_all ks)"

definition clearAppStorage :: "local_storage \<Rightarrow> exn + string list \<times> local_storage" where
  "clearAppStorage ls =
     (if ls_blocked ls then Inl storage_error
      else let owned = filter (\<lambda>key. key \<noteq> [] \<and> isAppStorageKey key) (map fst (ls_items ls))
           in bindE (remove_all owned ls) (\<lambda>ls'. Inr (owned, ls')))"

subsection \<open>Notification preferences\<close>

definition NOTIFICATION_CATEGORIES :: "string list" where
  "NOTIFICATION_CATEGORIES =
     [''Invoice Created'', ''Invoice Listed'', ''Invoice Funded'', ''Invoice Shipped'', ''Delivery Confirmed'',
      ''Invoice Repaid'', ''Invoice Defaulted'']"

definition prefsStorageKey :: "string \<Rightarrow> string" where
  "prefsStorageKey address = ''trusttrove_prefs_'' @ address"

definition default_prefs :: jsval where
  "default_prefs = JObj (foldl (\<lambda>ob category. obj_set category (JBool True) ob) [] NOTIFICATION_CATEGORIES)"

definition readStoredPrefs :: "string \<Rightarrow> local_storage \<Rightarrow> jsval" where
  "readStoredPrefs storageKey ls =
     (case bindE (getItem storageKey ls) (\<lambda>stored.
             case stored of
               Some p \<Rightarrow> if p \<noteq> [] then bindE (JSON_parse p) (\<lambda>v. Inr (Some v)) else Inr None
             | None \<Rightarrow> Inr None) of
        Inr (Some v) \<Rightarrow> v
      | _ \<Rightarrow> default_prefs)"

subsection \<open>Onboarding\<close>

definition ONBOARDING_SEEN_KEY :: string where
  "ONBOARDING_SEEN_KEY = ''trusttrove:onboarding-tour-seen''"

definition hasSeenOnboarding :: "local_storage \<Rightarrow> bool" where
  "hasSeenOnboarding ls =
     (case getItem ONBOARDING_SEEN_KEY ls of Inr v \<Rightarrow> v = Some ''true'' | Inl e \<Rightarrow> True)"

definition markOnboardingSeen :: "local_storage \<Rightarrow> local_storage" where
  "markOnboardingSeen ls = trySetItem ONBOARDING_SEEN_KEY ''true'' ls"

record OnboardingState =
  tour_open :: bool

definition onboarding_init :: OnboardingState where
  "onboarding_init = \<lparr>tour_open = False\<rparr>"

definition onboarding_start :: "OnboardingState \<Rightarrow> OnboardingState" where
  "onboarding_start st = st\<lparr>tour_open := True\<rparr>"

definition onboarding_close :: "OnboardingState \<Rightarrow> OnboardingState" where
  "onboarding_close st = st\<lparr>tour_open := False\<rparr>"

subsection \<open>Theme\<close>

datatype Theme = light | dark

fun theme_string :: "Theme \<Rightarrow> string" where
  "theme_string light = ''light''"
| "theme_string dark = ''dark''"

definition THEME_STORAGE_KEY :: string where
  "THEME_STORAGE_KEY = ''trusttrove:theme''"

definition DEFAULT_THEME :: Theme where
  "DEFAULT_THEME = dark"

definition theme_of :: "string option \<Rightarrow> Theme option" where
  "theme_of s = (if s = Some ''light'' then Some light else if s = Some ''dark'' then Some dark else None)"

definition readStoredTheme :: "local_storage \<Rightarrow> Theme option" where
  "readStoredTheme ls = (case getItem THEME_STORAGE_KEY ls of Inr s \<Rightarrow> theme_of s | Inl e \<Rightarrow> None)"

definition storeTheme :: "Theme \<Rightarrow> local_storage \<Rightarrow> local_storage" where
  "storeTheme t ls = trySetItem THEME_STORAGE_KEY (theme_string t) ls"

text \<open>\<open>matchMedia\<close>: absent, throwing, or answering whether the light scheme is preferred.\<close>

type_synonym match_media = "(exn + bool) option"

definition getSystemTheme :: "match_media \<Rightarrow> Theme" where
  "getSystemTheme mm =
     (case mm of
        None \<Rightarrow> DEFAULT_THEME
      | Some (Inl e) \<Rightarrow> DEFAULT_THEME
      | Some (Inr prefers_light) \<Rightarrow> if prefers_light then light else dark)"

definition resolveInitialTheme :: "match_media \<Rightarrow> local_storage \<Rightarrow> Theme" where
  "resolveInitialTheme mm ls = (case readStoredTheme ls of Some t \<Rightarrow> t | None \<Rightarrow> getSystemTheme mm)"

text \<open>The document element: the class \<open>dark\<close> and the style \<open>color-scheme\<close>.\<close>

record document =
  dark_class :: bool
  colorScheme :: string

definition applyTheme :: "Theme \<Rightarrow> document \<Rightarrow> document" where
  "applyTheme t doc = doc\<lparr>dark_class := (t = dark), colorScheme := theme_string t\<rparr>"

record theme_state =
  th_theme :: Theme
  th_mounted :: bool
  th_doc :: document
  th_storage :: local_storage

definition show_theme :: "Theme \<Rightarrow> theme_state \<Rightarrow> theme_state" where
  "show_theme t st = st\<lparr>th_theme := t, th_doc := applyTheme t (th_doc st)\<rparr>"

definition theme_mount :: "match_media \<Rightarrow> theme_state \<Rightarrow> theme_state" where
  "theme_mount mm st = (show_theme (resolveInitialTheme mm (th_storage st)) st)\<lparr>th_mounted := True\<rparr>"

text \<open>The listener on the colour scheme of the system is only installed where \<open>matchMedia\<close> exists.\<close>

definition theme_system_change :: "match_media \<Rightarrow> theme_state \<Rightarrow> theme_state" where
  "theme_system_change mm st =
     (if readStoredTheme (th_storage st) \<noteq> None then st else show_theme (getSystemTheme mm) st)"

text \<open>Another tab wrote to the storage: the event names the key, or none for a wipe.\<close>

definition theme_storage_event :: "match_media \<Rightarrow> string option \<Rightarrow> local_storage \<Rightarrow> theme_state \<Rightarrow> theme_state" where
  "theme_storage_event mm key ls st =
     (let st' = st\<lparr>th_storage := ls\<rparr>
      in if key \<noteq> None \<and> key \<noteq> Some THEME_STORAGE_KEY then st'
         else show_theme (resolveInitialTheme mm ls) st')"

definition setTheme :: "Theme \<Rightarrow> theme_state \<Rightarrow> theme_state" where
  "setTheme t st = show_theme t (st\<lparr>th_storage := storeTheme t (th_storage st)\<rparr>)"

definition toggleTheme :: "theme_state \<Rightarrow> theme_state" where
  "toggleTheme st = setTheme (if dark_class (th_doc st) then light else dark) st"

subsection \<open>Lemmas\<close>

lemma getItem_setItem:
  "setItem key v ls = Inr ls' \<Longrightarrow> getItem k ls' = (if k = key then Inr (Some v) else getItem k ls)"
  by (auto simp: setItem_def getItem_def split: if_splits)

lemma wf_setItem: "wf_storage ls \<Longrightarrow> setItem key v ls = Inr ls' \<Longrightarrow> wf_storage ls'"
  by (auto simp: setItem_def wf_storage_def distinct_obj_set split: if_splits)

lemma getItem_trySetItem:
  "getItem k (trySetItem key v ls) =
     (if k = key \<and> \<not> ls_blocked ls \<and> \<not> ls_full ls then Inr (Some v) else getItem k ls)"
  by (auto simp: trySetItem_def setItem_def getItem_def)

lemma remove_all_run:
  "\<not> ls_blocked ls \<Longrightarrow>
     remove_all ks ls = Inr (ls\<lparr>ls_items := filter (\<lambda>(k, v). k \<notin> set ks) (ls_items ls)\<rparr>)"
proof (induction ks arbitrary: ls)
  case (Cons k ks)
  have "filter (\<lambda>(k', v). k' \<notin> set ks) (filter (\<lambda>(k', v). k' \<noteq> k) xs) =
      filter (\<lambda>(k', v). k' \<notin> set (k # ks)) xs" for xs :: "(string \<times> string) list"
    by (induction xs) auto
  then show ?case using Cons by (simp add: removeItem_def)
qed (simp add: case_prod_unfold)

text \<open>The two kinds of per-wallet keys belong to the application and never collide.\<close>

lemma app_keys:
  "isAppStorageKey (notificationHistoryKey a)" "isAppStorageKey (prefsStorageKey a)"
  "isAppStorageKey ONBOARDING_SEEN_KEY" "isAppStorageKey THEME_STORAGE_KEY"
  by (simp_all add: isAppStorageKey_def STORAGE_KEY_PREFIXES_def STORAGE_NAMESPACE_def
      notificationHistoryKey_def prefsStorageKey_def ONBOARDING_SEEN_KEY_def THEME_STORAGE_KEY_def js_startsWith_def)

lemma keys_differ: "notificationHistoryKey a \<noteq> prefsStorageKey b"
  by (simp add: notificationHistoryKey_def prefsStorageKey_def STORAGE_NAMESPACE_def)

text \<open>
  The store of the wallet persists its role under \<open>wallet-storage\<close>, a key that the application does
  not count as its own.
\<close>

lemma wallet_storage_not_owned: "\<not> isAppStorageKey ''wallet-storage''"
  by (simp add: isAppStorageKey_def STORAGE_KEY_PREFIXES_def STORAGE_NAMESPACE_def js_startsWith_def)

lemma theme_of_string [simp]: "theme_of (Some (theme_string t)) = Some t"
  by (cases t) (simp_all add: theme_of_def)

text \<open>A chosen theme survives a reload when it could be stored, whatever the system prefers.\<close>

lemma setTheme_survives:
  "\<not> ls_blocked (th_storage st) \<Longrightarrow> \<not> ls_full (th_storage st) \<Longrightarrow>
     resolveInitialTheme mm (th_storage (setTheme t st)) = t"
  by (simp add: resolveInitialTheme_def readStoredTheme_def setTheme_def show_theme_def storeTheme_def getItem_trySetItem)

subsection \<open>Properties\<close>

text \<open>
  A wipe removes exactly what the application owns: afterwards no key of the application is
  left, every other entry is still there in its order, and the keys reported are those that were
  removed.
\<close>

theorem clearAppStorage_exact:
  assumes "\<not> ls_blocked ls"
  shows "\<exists>ls'. clearAppStorage ls = Inr (filter isAppStorageKey (map fst (ls_items ls)), ls') \<and>
           ls_items ls' = filter (\<lambda>(k, v). \<not> isAppStorageKey k) (ls_items ls) \<and>
           (\<forall>k. getItem k ls' = (if isAppStorageKey k then Inr None else getItem k ls))"
proof -
  have ne: "k \<noteq> [] \<and> isAppStorageKey k \<longleftrightarrow> isAppStorageKey k" for k
    by (auto simp: isAppStorageKey_def STORAGE_KEY_PREFIXES_def STORAGE_NAMESPACE_def js_startsWith_def)
  have items: "filter (\<lambda>(k, v). k \<notin> set (filter isAppStorageKey (map fst xs))) xs =
      filter (\<lambda>(k, v). \<not> isAppStorageKey k) xs" for xs :: "(string \<times> string) list"
    by (rule filter_cong) (auto intro: rev_image_eqI)
  have look: "map_of (filter (\<lambda>(k, v). \<not> isAppStorageKey k) xs) k =
      (if isAppStorageKey k then None else map_of xs k)" for xs :: "(string \<times> string) list" and k
    by (induction xs) auto
  show ?thesis using assms
    by (simp add: clearAppStorage_def ne remove_all_run items [simplified] getItem_def look Let_def)
qed

theorem clearAppStorage_exact_witness:
  "\<exists>ls'. clearAppStorage \<lparr>ls_items = [(''trusttrove:theme'', ''dark''), (''other'', ''1'')], ls_blocked = False, ls_full = True\<rparr> =
     Inr ([''trusttrove:theme''], ls') \<and> ls_items ls' = [(''other'', ''1'')]"
  using clearAppStorage_exact [of "\<lparr>ls_items = [(''trusttrove:theme'', ''dark''), (''other'', ''1'')], ls_blocked = False, ls_full = True\<rparr>"]
  by (auto simp: isAppStorageKey_def STORAGE_KEY_PREFIXES_def STORAGE_NAMESPACE_def js_startsWith_def)

end
