(* ===== verification/Notifications.thy ===== *)
theory Notifications
  imports Storage Parsers WalletStore
begin

text \<open>
  Notifications (\<open>apps/web/types/notifications.ts\<close>, \<open>apps/web/hooks/useNotifications.ts\<close>): events
  of the chain become messages, are merged with the history kept in the browser per wallet and
  filtered by the user's preferences.

  A notification read from the storage is any object with a text as \<open>id\<close> and as \<open>type\<close>, so
  notifications are untyped objects here. Timestamps are finite numbers; what \<open>sort\<close> does when its
  comparison is not a number is left open by the language and not modelled.
\<close>

definition typeMap :: "(string \<times> string) list" where
  "typeMap =
     [(''InvoiceCreated'', ''Invoice Created''), (''create'', ''Invoice Created''),
      (''InvoiceListed'', ''Invoice Listed''), (''list_for_financing'', ''Invoice Listed''),
      (''InvoiceFunded'', ''Invoice Funded''), (''fund_invoice'', ''Invoice Funded''),
      (''InvoiceShipped'', ''Invoice Shipped''), (''mark_shipped'', ''Invoice Shipped''),
      (''DeliveryConfirmed'', ''Delivery Confirmed''), (''confirm_delivery'', ''Delivery Confirmed''),
      (''InvoiceRepaid'', ''Invoice Repaid''), (''repay'', ''Invoice Repaid''),
      (''InvoiceDefaulted'', ''Invoice Defaulted''), (''trigger_default'', ''Invoice Defaulted'')]"

definition notification_message :: "string \<Rightarrow> string \<Rightarrow> string" where
  "notification_message event_type invShort =
     (if event_type \<in> {''InvoiceCreated'', ''create''} then ''New invoice '' @ invShort @ '' issued on-chain''
      else if event_type \<in> {''InvoiceListed'', ''list_for_financing''} then invShort @ '' listed for financing''
      else if event_type \<in> {''InvoiceFunded'', ''fund_invoice''} then invShort @ '' fully funded''
      else if event_type \<in> {''InvoiceShipped'', ''mark_shipped''} then invShort @ '' marked as shipped''
      else if event_type \<in> {''DeliveryConfirmed'', ''confirm_delivery''}
        then ''Buyer confirmed delivery for '' @ invShort
      else if event_type \<in> {''InvoiceRepaid'', ''repay''} then invShort @ '' repaid''
      else if event_type \<in> {''InvoiceDefaulted'', ''trigger_default''} then invShort @ '' defaulted''
      else if invShort \<noteq> [] then invShort else ''Event occurred'')"

text \<open>
  A member that the table inherits is a function: neither a text nor anything that JSON prints. It
  is \<open>undefined\<close> here.
\<close>

definition text_value :: "js_text \<Rightarrow> jsval" where
  "text_value t = (case t of Text s \<Rightarrow> JStr s | Member k \<Rightarrow> JUndef)"

definition mapEventToNotification :: "EventLog \<Rightarrow> jsobj" where
  "mapEventToNotification event =
     (let invId = (case getEventDataString event ''invoice_id'' of Some s \<Rightarrow> s | None \<Rightarrow> []);
          invShort = (if invId \<noteq> [] then ''INV#'' @ js_slice0 4 invId @ ''...'' else [])
      in [(''id'', JStr (num_toString (ev_id event))),
          (''type'', text_value (table_or typeMap (ev_event_type event) (ev_event_type event))),
          (''invoiceId'', JStr invId),
          (''message'', JStr (notification_message (ev_event_type event) invShort)),
          (''timestamp'', JNum (ev_ledger_closed_at event)),
          (''read'', JBool False)])"

subsection \<open>The stored history\<close>

definition isNotificationEvent :: "jsval \<Rightarrow> bool" where
  "isNotificationEvent v =
     (case v of
        JObj ob \<Rightarrow> (case (obj_get ob ''id'', obj_get ob ''type'') of (JStr i, JStr t) \<Rightarrow> True | _ \<Rightarrow> False)
      | _ \<Rightarrow> False)"

record StoredNotifications =
  sn_items :: "jsobj list"
  sn_canPersist :: bool
  sn_hasStored :: bool

definition readStoredNotifications :: "string \<Rightarrow> local_storage \<Rightarrow> StoredNotifications" where
  "readStoredNotifications storageKey ls =
     (case getItem storageKey ls of
        Inl e \<Rightarrow> \<lparr>sn_items = [], sn_canPersist = False, sn_hasStored = False\<rparr>
      | Inr None \<Rightarrow> \<lparr>sn_items = [], sn_canPersist = True, sn_hasStored = False\<rparr>
      | Inr (Some raw) \<Rightarrow>
          (case JSON_parse raw of
             Inr (JArr parsed) \<Rightarrow>
               (let items = filter isNotificationEvent parsed
                in \<lparr>sn_items = map own_entries items,
                    sn_canPersist = (length items = length parsed), sn_hasStored = True\<rparr>)
           | _ \<Rightarrow> \<lparr>sn_items = [], sn_canPersist = False, sn_hasStored = True\<rparr>))"

subsection \<open>Merging\<close>

definition notif_id :: "jsobj \<Rightarrow> string" where
  "notif_id n = (case obj_get n ''id'' of JStr s \<Rightarrow> s | _ \<Rightarrow> [])"

text \<open>\<open>notifMap.set\<close> for the saved ones, then the fresh ones with the read flag of the saved.\<close>

definition add_saved :: "(string \<times> jsobj) list \<Rightarrow> jsobj \<Rightarrow> (string \<times> jsobj) list" where
  "add_saved m n = obj_set (notif_id n) n m"

definition add_fresh :: "(string \<times> jsobj) list \<Rightarrow> jsobj \<Rightarrow> (string \<times> jsobj) list" where
  "add_fresh m n =
     (case map_of m (notif_id n) of
        None \<Rightarrow> obj_set (notif_id n) n m
      | Some existing \<Rightarrow> obj_set (notif_id n) (obj_set ''read'' (obj_get existing ''read'') n) m)"

definition merge_notifications :: "jsobj list \<Rightarrow> jsobj list \<Rightarrow> jsobj list" where
  "merge_notifications saved mapped = map snd (foldl add_fresh (foldl add_saved [] saved) mapped)"

subsection \<open>The hook\<close>

definition LP_EVENTS :: "string list" where
  "LP_EVENTS =
     [''InvoiceListed'', ''list_for_financing'', ''InvoiceFunded'', ''fund_invoice'', ''InvoiceRepaid'', ''repay'',
      ''InvoiceDefaulted'', ''trigger_default'']"

definition relevantInvoiceIds :: "string \<Rightarrow> jsval \<Rightarrow> jsobj list \<Rightarrow> jsval list" where
  "relevantInvoiceIds address role invoices =
     map (\<lambda>ob. obj_get ob ''id'')
       (filter (\<lambda>ob. obj_get ob ''issuer'' = JStr address \<or> obj_get ob ''buyer'' = JStr address \<or>
                     role = JStr ''lp'') invoices)"

definition relevant :: "jsval \<Rightarrow> jsval list \<Rightarrow> EventLog \<Rightarrow> bool" where
  "relevant role ids e \<longleftrightarrow>
     (case getEventDataString e ''invoice_id'' of
        None \<Rightarrow> False
      | Some invId \<Rightarrow>
          invId \<noteq> [] \<and>
          (if role = JStr ''lp'' \<and> JStr invId \<in> set ids then ev_event_type e \<in> set LP_EVENTS
           else JStr invId \<in> set ids))"

text \<open>\<open>prefs[n.type] !== false\<close>; indexing \<open>null\<close> throws.\<close>

definition allowed :: "jsval \<Rightarrow> jsobj \<Rightarrow> exn + bool" where
  "allowed prefs n =
     (case prefs of
        JNull \<Rightarrow> Inl (JsTypeError ''Cannot read properties of null'')
      | v \<Rightarrow> Inr (obj_get (own_entries v) (js_String (obj_get n ''type'')) \<noteq> JBool False))"

fun filterE :: "('a \<Rightarrow> exn + bool) \<Rightarrow> 'a list \<Rightarrow> exn + 'a list" where
  "filterE p [] = Inr []"
| "filterE p (x # xs) = bindE (p x) (\<lambda>b. bindE (filterE p xs) (\<lambda>ys. Inr (if b then x # ys else ys)))"

definition notif_time :: "jsobj \<Rightarrow> rat" where
  "notif_time n = (case js_Number (obj_get n ''timestamp'') of Fin q \<Rightarrow> q | _ \<Rightarrow> 0)"

definition stored_prefs :: "string \<Rightarrow> local_storage \<Rightarrow> jsval" where
  "stored_prefs address ls =
     (case getItem (prefsStorageKey address) ls of
        Inr (Some p) \<Rightarrow> if p \<noteq> [] then (case JSON_parse p of Inr v \<Rightarrow> v | Inl e \<Rightarrow> JObj []) else JObj []
      | _ \<Rightarrow> JObj [])"

record notif_state =
  notifications :: "jsobj list"
  browser :: local_storage

text \<open>\<open>JSON.stringify(allNotifs)\<close> and the write, both inside the same \<open>try\<close>.\<close>

definition persist :: "string \<Rightarrow> jsobj list \<Rightarrow> local_storage \<Rightarrow> local_storage" where
  "persist storageKey ns ls =
     (case JSON_stringify (JArr (map JObj ns)) of Inl e \<Rightarrow> ls | Inr txt \<Rightarrow> trySetItem storageKey txt ls)"

definition notif_effect ::
  "string option \<Rightarrow> jsval \<Rightarrow> EventLog list \<Rightarrow> jsobj list \<Rightarrow> notif_state \<Rightarrow> (exn + unit) \<times> notif_state" where
  "notif_effect address role events invoices st =
     (if \<not> present address then (Inr (), st\<lparr>notifications := []\<rparr>)
      else
       (let a = the address;
            mappedNotifs = map mapEventToNotification
              (filter (relevant role (relevantInvoiceIds a role invoices)) events);
            storageKey = notificationHistoryKey a;
            stored = readStoredNotifications storageKey (browser st);
            allNotifs = merge_notifications (sn_items stored) mappedNotifs
        in case filterE (allowed (stored_prefs a (browser st))) allNotifs of
             Inl e \<Rightarrow> (Inl e, st)
           | Inr kept \<Rightarrow>
               (Inr (), \<lparr>notifications = sort_key (\<lambda>n. - notif_time n) kept,
                         browser = (if sn_canPersist stored then persist storageKey allNotifs (browser st)
                                    else browser st)\<rparr>)))"

definition mark_read :: "jsobj \<Rightarrow> jsobj" where
  "mark_read n = obj_set ''read'' (JBool True) n"

definition markAllAsRead :: "string option \<Rightarrow> notif_state \<Rightarrow> notif_state" where
  "markAllAsRead address st =
     (if \<not> present address then st
      else
       (let storageKey = notificationHistoryKey (the address);
            stored = readStoredNotifications storageKey (browser st);
            st' = st\<lparr>notifications := map mark_read (notifications st)\<rparr>
        in if \<not> sn_hasStored stored \<or> \<not> sn_canPersist stored then st'
           else st'\<lparr>browser := persist storageKey (map mark_read (sn_items stored)) (browser st)\<rparr>))"

subsection \<open>Lemmas\<close>

definition keyed :: "(string \<times> jsobj) list \<Rightarrow> bool" where
  "keyed m \<longleftrightarrow> distinct (map fst m) \<and> (\<forall>(k, n) \<in> set m. notif_id n = k)"

lemma obj_set_all: "\<forall>n \<in> snd ` set m. P n \<Longrightarrow> P v \<Longrightarrow> \<forall>n \<in> snd ` set (obj_set k v m). P n"
  using set_obj_set [of k v m] by fastforce

lemma keyed_obj_set: "keyed m \<Longrightarrow> notif_id n = k \<Longrightarrow> keyed (obj_set k n m)"
  unfolding keyed_def using set_obj_set [of k n m] distinct_obj_set [of m k n] by fastforce

lemma notif_id_read [simp]: "notif_id (obj_set ''read'' v n) = notif_id n"
  by (simp add: notif_id_def)

lemma keyed_saved: "keyed m \<Longrightarrow> keyed (foldl add_saved m saved)"
  by (induction saved arbitrary: m) (simp_all add: add_saved_def keyed_obj_set)

lemma keyed_fresh: "keyed m \<Longrightarrow> keyed (foldl add_fresh m mapped)"
  by (induction mapped arbitrary: m) (simp_all add: add_fresh_def keyed_obj_set split: option.split)

lemma keyed_ids: "keyed m \<Longrightarrow> map notif_id (map snd m) = map fst m"
  by (auto simp: keyed_def)

text \<open>No identifier occurs twice.\<close>

lemma merge_distinct: "distinct (map notif_id (merge_notifications saved mapped))"
proof -
  let ?M = "foldl add_fresh (foldl add_saved [] saved) mapped"
  have k: "keyed ?M" by (intro keyed_fresh keyed_saved) (simp add: keyed_def)
  then have "distinct (map fst ?M)" by (simp add: keyed_def)
  then show ?thesis unfolding merge_notifications_def keyed_ids [OF k] .
qed

text \<open>The saved notification of an identifier is the last one.\<close>

lemma map_of_saved: "map_of (foldl add_saved m saved) k =
    (case filter (\<lambda>n. notif_id n = k) saved of [] \<Rightarrow> map_of m k | ns \<Rightarrow> Some (last ns))"
  by (induction saved arbitrary: m) (auto simp: add_saved_def split: list.split)

lemma fresh_keeps_read:
  "map_of m k = Some n \<Longrightarrow>
     \<exists>n'. map_of (foldl add_fresh m mapped) k = Some n' \<and> obj_get n' ''read'' = obj_get n ''read''"
proof (induction mapped arbitrary: m n)
  case (Cons x mapped)
  have "\<exists>n1. map_of (add_fresh m x) k = Some n1 \<and> obj_get n1 ''read'' = obj_get n ''read''"
    using Cons.prems by (auto simp: add_fresh_def split: option.split)
  then show ?case using Cons.IH by fastforce
qed simp

lemma fresh_present: "n \<in> set mapped \<Longrightarrow> notif_id n \<in> dom (map_of (foldl add_fresh m mapped))"
proof (induction mapped arbitrary: m)
  case (Cons x mapped)
  show ?case
  proof (cases "n = x")
    case True
    then obtain n1 where "map_of (add_fresh m x) (notif_id n) = Some n1"
      by (cases "map_of m (notif_id x)") (auto simp: add_fresh_def)
    then show ?thesis using fresh_keeps_read [of "add_fresh m x" "notif_id n" n1 mapped] by auto
  next
    case False
    then show ?thesis using Cons by simp
  qed
qed simp

text \<open>Merging drops nothing and keeps the read flag of every saved notification.\<close>

lemma merge_keeps:
  assumes "n \<in> set saved" and "distinct (map notif_id saved)"
  shows "\<exists>m \<in> set (merge_notifications saved mapped).
           notif_id m = notif_id n \<and> obj_get m ''read'' = obj_get n ''read''"
proof -
  let ?M = "foldl add_fresh (foldl add_saved [] saved) mapped"
  have "filter (\<lambda>x. notif_id x = notif_id n) saved = [n]"
    using assms by (induction saved) (auto simp: filter_empty_conv intro: rev_image_eqI)
  then have "map_of (foldl add_saved [] saved) (notif_id n) = Some n" by (simp add: map_of_saved)
  then obtain m where m: "map_of ?M (notif_id n) = Some m" "obj_get m ''read'' = obj_get n ''read''"
    using fresh_keeps_read by blast
  have "keyed ?M" by (intro keyed_fresh keyed_saved) (simp add: keyed_def)
  then have "notif_id m = notif_id n" using map_of_SomeD [OF m(1)] by (auto simp: keyed_def)
  then show ?thesis using m map_of_SomeD [OF m(1)] by (force simp: merge_notifications_def)
qed

lemma merge_covers:
  assumes "n \<in> set mapped"
  shows "notif_id n \<in> notif_id ` set (merge_notifications saved mapped)"
proof -
  let ?M = "foldl add_fresh (foldl add_saved [] saved) mapped"
  have "keyed ?M" by (intro keyed_fresh keyed_saved) (simp add: keyed_def)
  moreover obtain m where "map_of ?M (notif_id n) = Some m" using fresh_present [OF assms] by blast
  ultimately have "(notif_id n, m) \<in> set ?M" "notif_id m = notif_id n"
    using map_of_SomeD by (auto simp: keyed_def)
  then show ?thesis unfolding merge_notifications_def set_map by (metis image_eqI snd_conv)
qed

text \<open>Every merged notification is a saved one, or a fresh one up to its read flag.\<close>

lemma merge_all:
  assumes "\<forall>n \<in> set saved. P n" and "\<forall>n \<in> set mapped. P n"
    and "\<And>n e. P n \<Longrightarrow> P e \<Longrightarrow> P (obj_set ''read'' (obj_get e ''read'') n)"
  shows "\<forall>n \<in> set (merge_notifications saved mapped). P n"
proof -
  have 1: "\<forall>n \<in> snd ` set (foldl add_saved m saved). P n" if "\<forall>n \<in> snd ` set m. P n" for m
    using that assms(1)
  proof (induction saved arbitrary: m)
    case (Cons x saved)
    have "P x" using Cons.prems(2) by simp
    then have "\<forall>n \<in> snd ` set (add_saved m x). P n"
      unfolding add_saved_def by (rule obj_set_all [OF Cons.prems(1)])
    moreover have "\<forall>n \<in> set saved. P n" using Cons.prems(2) by simp
    ultimately show ?case unfolding foldl_Cons by (rule Cons.IH)
  qed simp
  have 2: "\<forall>n \<in> snd ` set (foldl add_fresh m mapped). P n" if "\<forall>n \<in> snd ` set m. P n" for m
    using that assms(2)
  proof (induction mapped arbitrary: m)
    case (Cons x mapped)
    have "\<forall>n \<in> snd ` set (add_fresh m x). P n"
    proof (cases "map_of m (notif_id x)")
      case None
      have "P x" using Cons.prems(2) by simp
      then show ?thesis using obj_set_all [OF Cons.prems(1)] None by (simp only: add_fresh_def option.case)
    next
      case (Some e)
      then have "e \<in> snd ` set m" using map_of_SomeD by (metis image_eqI snd_conv)
      then have "P e" using Cons.prems(1) by blast
      then have "P (obj_set ''read'' (obj_get e ''read'') x)" using assms(3) Cons.prems(2) by simp
      then show ?thesis
        using obj_set_all [OF Cons.prems(1)] Some by (simp only: add_fresh_def option.case)
    qed
    moreover have "\<forall>n \<in> set mapped. P n" using Cons.prems(2) by simp
    ultimately show ?case unfolding foldl_Cons by (rule Cons.IH)
  qed simp
  show ?thesis using 2 [OF 1, of "[]"] by (auto simp: merge_notifications_def)
qed


subsection \<open>What is stored\<close>

text \<open>A notification that JSON prints and reads back as itself, with a read flag.\<close>

definition storable :: "jsobj \<Rightarrow> bool" where
  "storable n \<longleftrightarrow> json_plain (JObj n) \<and> isNotificationEvent (JObj n) \<and> (\<exists>b. obj_get n ''read'' = JBool b)"

lemma json_plain_obj_set:
  assumes "json_plain (JObj n)" and "json_plain v"
  shows "json_plain (JObj (obj_set k v n))"
proof -
  have n: "distinct (map fst n) \<and> (\<forall>w \<in> snd ` set n. json_plain w)" using assms(1) by simp
  show ?thesis unfolding json_plain.simps
    by (rule conjI [OF distinct_obj_set [OF conjunct1 [OF n]]
          obj_set_all [where P = json_plain, OF conjunct2 [OF n] assms(2)]])
qed

lemma isNotificationEvent_read [simp]:
  "isNotificationEvent (JObj (obj_set ''read'' v n)) = isNotificationEvent (JObj n)"
  by (simp add: isNotificationEvent_def)

lemma storable_flag: "storable n \<Longrightarrow> storable (obj_set ''read'' (JBool b) n)"
  by (auto simp: storable_def intro!: json_plain_obj_set simp del: json_plain.simps(6))

lemma storable_read: "storable n \<Longrightarrow> storable e \<Longrightarrow> storable (obj_set ''read'' (obj_get e ''read'') n)"
  using storable_flag by (auto simp: storable_def [of e])

lemma storable_mapped:
  assumes "json_num_ok (ev_ledger_closed_at e)" and "ev_event_type e \<notin> set prototype_members"
  shows "storable (mapEventToNotification e)"
proof -
  obtain t where t: "table_or typeMap (ev_event_type e) (ev_event_type e) = Text t"
    using assms(2) by (cases "map_of typeMap (ev_event_type e)") (auto simp: table_or_def)
  show ?thesis using assms(1)
    by (simp add: storable_def mapEventToNotification_def Let_def t text_value_def isNotificationEvent_def obj_get_def) blast
qed

lemma persist_round_trip:
  assumes "\<forall>n \<in> set ns. storable n" and "\<not> ls_blocked ls" and "\<not> ls_full ls"
  shows "readStoredNotifications key (persist key ns ls) =
           \<lparr>sn_items = ns, sn_canPersist = True, sn_hasStored = True\<rparr>"
proof -
  have "json_plain (JArr (map JObj ns))" using assms(1) by (auto simp: storable_def simp del: json_plain.simps(6))
  then obtain doc where doc: "JSON_stringify (JArr (map JObj ns)) = Inr doc"
    "JSON_parse doc = Inr (JArr (map JObj ns))" using JSON_round_trip by blast
  have all: "filter isNotificationEvent (map JObj ns) = map JObj ns"
    using assms(1) by (auto simp: filter_id_conv storable_def)
  have ids: "map (own_entries \<circ> JObj) ns = ns" by (rule map_idI) simp
  show ?thesis using assms(2,3)
    by (simp add: readStoredNotifications_def persist_def doc getItem_trySetItem all ids Let_def)
qed

lemma readStored_valid:
  "n \<in> set (sn_items (readStoredNotifications key ls)) \<Longrightarrow> isNotificationEvent (JObj n)"
proof -
  have own: "isNotificationEvent v \<Longrightarrow> isNotificationEvent (JObj (own_entries v))" for v
    by (cases v) (simp_all add: isNotificationEvent_def)
  assume "n \<in> set (sn_items (readStoredNotifications key ls))"
  then obtain vs where "n \<in> set (map own_entries (filter isNotificationEvent vs))"
    unfolding readStoredNotifications_def Let_def by (auto split: sum.splits option.splits jsval.splits)
  then show ?thesis using own by auto
qed

lemma persist_blocked: "ls_blocked ls \<or> ls_full ls \<Longrightarrow> persist key ns ls = ls"
  by (auto simp: persist_def trySetItem_def setItem_def split: sum.split)


text \<open>Only preferences that are \<open>null\<close> make the effect throw.\<close>

lemma filterE_allowed: "prefs \<noteq> JNull \<Longrightarrow> filterE (allowed prefs) ns \<noteq> Inl e"
proof (induction ns arbitrary: e)
  case (Cons n ns)
  moreover obtain b where "allowed prefs n = Inr b" using Cons.prems by (cases prefs) (simp_all add: allowed_def)
  ultimately show ?case by (auto simp: bindE_eq_Inl)
qed simp

lemma notif_effect_returns:
  "stored_prefs (the address) (browser st) \<noteq> JNull \<Longrightarrow>
     notif_effect address role events invoices st = (Inr (), snd (notif_effect address role events invoices st))"
  by (simp add: notif_effect_def Let_def filterE_allowed split: sum.split)

text \<open>Marking as read changes nothing but the flags, here and in the storage.\<close>

lemma markAllAsRead_stored:
  assumes "a \<noteq> []" "\<not> ls_blocked (browser st)" "\<not> ls_full (browser st)"
    and "readStoredNotifications (notificationHistoryKey a) (browser st) =
           \<lparr>sn_items = saved, sn_canPersist = True, sn_hasStored = True\<rparr>"
    and "\<forall>n \<in> set saved. storable n"
  shows "readStoredNotifications (notificationHistoryKey a) (browser (markAllAsRead (Some a) st)) =
           \<lparr>sn_items = map mark_read saved, sn_canPersist = True, sn_hasStored = True\<rparr>"
proof -
  have "\<forall>n \<in> set (map mark_read saved). storable n"
    using assms(5) storable_flag by (auto simp: mark_read_def)
  then show ?thesis using assms(1-4) by (simp add: markAllAsRead_def persist_round_trip Let_def)
qed

subsection \<open>Properties\<close>

text \<open>
  C17. The history of notifications survives a reload: after the effect ran over a readable history,
  what a later visit reads is the merged history, with one notification for every saved
  identifier that keeps its read flag, one for every relevant event, and no identifier twice.
\<close>

theorem notifications_survive_reload:
  assumes "a \<noteq> []" and "\<not> ls_blocked (browser st)" and "\<not> ls_full (browser st)"
    and "readStoredNotifications (notificationHistoryKey a) (browser st) =
           \<lparr>sn_items = saved, sn_canPersist = True, sn_hasStored = h\<rparr>"
    and "\<forall>n \<in> set saved. storable n" and "distinct (map notif_id saved)"
    and "\<forall>e \<in> set events. json_num_ok (ev_ledger_closed_at e) \<and> ev_event_type e \<notin> set prototype_members"
    and "notif_effect (Some a) role events invoices st = (Inr (), st')"
  shows "\<exists>items. readStoredNotifications (notificationHistoryKey a) (browser st') =
             \<lparr>sn_items = items, sn_canPersist = True, sn_hasStored = True\<rparr> \<and>
           distinct (map notif_id items) \<and>
           (\<forall>n \<in> set saved. \<exists>m \<in> set items. notif_id m = notif_id n \<and> obj_get m ''read'' = obj_get n ''read'') \<and>
           (\<forall>e \<in> set events. relevant role (relevantInvoiceIds a role invoices) e \<longrightarrow>
              notif_id (mapEventToNotification e) \<in> notif_id ` set items)"
proof -
  let ?mapped = "map mapEventToNotification (filter (relevant role (relevantInvoiceIds a role invoices)) events)"
  let ?all = "merge_notifications saved ?mapped"
  have "\<forall>n \<in> set ?mapped. storable n" using assms(7) storable_mapped by auto
  then have good: "\<forall>n \<in> set ?all. storable n" by (intro merge_all assms(5) storable_read)
  have "browser st' = persist (notificationHistoryKey a) ?all (browser st)"
    using assms(1,4,8) by (auto simp: notif_effect_def Let_def split: sum.splits)
  then have "readStoredNotifications (notificationHistoryKey a) (browser st') =
      \<lparr>sn_items = ?all, sn_canPersist = True, sn_hasStored = True\<rparr>"
    using persist_round_trip [OF good assms(2,3)] by simp
  moreover have "\<forall>e \<in> set events. relevant role (relevantInvoiceIds a role invoices) e \<longrightarrow>
      notif_id (mapEventToNotification e) \<in> notif_id ` set ?all"
    using merge_covers [of _ ?mapped saved] by simp
  ultimately show ?thesis using merge_distinct [of saved ?mapped] merge_keeps [OF _ assms(6)] by blast
qed


subsection \<open>A concrete browser\<close>

definition demo_event :: EventLog where
  "demo_event = \<lparr>ev_id = Fin 7, ev_event_id = ''e'', ev_contract_id = ''C'', ev_ledger = Fin 1,
     ev_ledger_closed_at = Fin 5, ev_event_type = ''repay'', ev_data = JObj [(''invoice_id'', JStr ''abcdef'')]\<rparr>"

definition demo_browser :: "(string \<times> string) list \<Rightarrow> notif_state" where
  "demo_browser items =
     \<lparr>notifications = [], browser = \<lparr>ls_items = items, ls_blocked = False, ls_full = False\<rparr>\<rparr>"



theorem notifications_survive_reload_witness:
  "\<exists>items. readStoredNotifications (notificationHistoryKey ''G'')
     (browser (snd (notif_effect (Some ''G'') (JStr ''lp'') [demo_event] [[(''id'', JStr ''abcdef'')]] (demo_browser [])))) =
       \<lparr>sn_items = items, sn_canPersist = True, sn_hasStored = True\<rparr> \<and> ''7'' \<in> notif_id ` set items"
proof -
  let ?run = "notif_effect (Some ''G'') (JStr ''lp'') [demo_event] [[(''id'', JStr ''abcdef'')]] (demo_browser [])"
  have prefs: "stored_prefs ''G'' (browser (demo_browser [])) \<noteq> JNull"
    by (simp add: stored_prefs_def demo_browser_def getItem_def)
  have ok: "?run = (Inr (), snd ?run)"
    using prefs by (intro notif_effect_returns) simp
  have rel: "relevant (JStr ''lp'') (relevantInvoiceIds ''G'' (JStr ''lp'') [[(''id'', JStr ''abcdef'')]]) demo_event"
    by (simp add: relevant_def relevantInvoiceIds_def getEventDataString_def event_field_def demo_event_def
        obj_get_def LP_EVENTS_def)
  have seven: "notif_id (mapEventToNotification demo_event) = ''7''"
  proof -
    have "num_toString (Fin 7) = ''7''" by code_simp
    then show ?thesis by (simp add: notif_id_def mapEventToNotification_def obj_get_def demo_event_def Let_def)
  qed
  have num: "json_num_ok (Fin 5)" by code_simp
  have read: "readStoredNotifications (notificationHistoryKey ''G'') (browser (demo_browser [])) =
      \<lparr>sn_items = [], sn_canPersist = True, sn_hasStored = False\<rparr>"
    by (simp add: readStoredNotifications_def demo_browser_def getItem_def)
  show ?thesis
    using notifications_survive_reload [OF _ _ _ read _ _ _ ok] rel seven num
    by (auto simp: demo_browser_def demo_event_def prototype_members_def)
qed


end
