(* ===== verification/Marketplace.thy ===== *)
theory Marketplace
  imports Storage Schemas "HOL-Library.Multiset"
begin

text \<open>
  The logic of the marketplace page and of the invoice table (\<open>apps/web/app/marketplace/page.tsx\<close>,
  \<open>apps/web/components/invoice/InvoiceTable.tsx\<close>): filtering and sorting the invoices, the saved
  filters and the presets of each wallet, the selection of rows and the page controls. The page itself
  is in \<open>MarketplacePage\<close>.
\<close>

subsection \<open>Filters\<close>

text \<open>\<open>Math.round\<close>: the nearest integer, halves upwards.\<close>

fun num_round :: "jsnum \<Rightarrow> jsnum" where
  "num_round (Fin q) = Fin (of_int \<lfloor>q + 1 / 2\<rfloor>)"
| "num_round x = x"

definition parseFilterStroops :: "string \<Rightarrow> exn + int option" where
  "parseFilterStroops v =
     (if js_trim v = [] then Inr None
      else
       (let parsed = js_parseFloat v
        in if \<not> num_isFinite parsed \<or> num_less parsed (Fin 0) then Inr None
           else
            (let stroops = num_round (num_scale parsed 10000000)
             in if \<not> num_isFinite stroops then Inr None
                else bindE (bigint_of_num stroops) (\<lambda>i. Inr (Some i)))))"

record MarketplaceFilters =
  statusFilter :: jsval
  minAmount :: string
  maxAmount :: string
  maxDiscount :: string

definition discount_within :: "string \<Rightarrow> Invoice \<Rightarrow> bool" where
  "discount_within maxDisc iv \<longleftrightarrow>
     (let discBps = js_parseInt maxDisc in discBps = NaN \<or> num_le (inv_discountBps iv) discBps)"

definition filteredAndSortedInvoices ::
  "string \<Rightarrow> string \<Rightarrow> string \<Rightarrow> Invoice list \<Rightarrow> exn + Invoice list" where
  "filteredAndSortedInvoices minA maxA maxD invoices =
     bindE (parseFilterStroops minA) (\<lambda>minStroops.
     bindE (parseFilterStroops maxA) (\<lambda>maxStroops.
       (let r1 = (case minStroops of Some m \<Rightarrow> filter (\<lambda>iv. m \<le> inv_faceValue iv) invoices | None \<Rightarrow> invoices);
            r2 = (case maxStroops of Some m \<Rightarrow> filter (\<lambda>iv. inv_faceValue iv \<le> m) r1 | None \<Rightarrow> r1);
            r3 = filter (discount_within maxD) r2
        in Inr (sort_key (\<lambda>iv. - inv_faceValue iv) r3))))"

subsection \<open>What the page keeps in the browser\<close>

definition MARKETPLACE_FILTERS_KEY :: string where
  "MARKETPLACE_FILTERS_KEY = ''trusttrove:marketplace:filters''"

definition MARKETPLACE_PRESETS_KEY :: string where
  "MARKETPLACE_PRESETS_KEY = ''trusttrove:marketplace:presets''"

text \<open>Reading a property of a stored value; reading one of \<open>null\<close> throws, which is caught.\<close>

definition stored_field :: "jsval \<Rightarrow> string \<Rightarrow> jsval \<Rightarrow> exn + jsval" where
  "stored_field parsed k d =
     (if parsed = JNull then Inl (JsTypeError ''Cannot read properties of null'')
      else Inr (coalesce (obj_get (own_entries parsed) k) d))"

definition readFiltersFromStorage :: "local_storage \<Rightarrow> (jsval \<times> jsval \<times> jsval \<times> jsval) option" where
  "readFiltersFromStorage ls =
     (case bindE (getItem MARKETPLACE_FILTERS_KEY ls) (\<lambda>stored.
        case stored of
          None \<Rightarrow> Inr None
        | Some s \<Rightarrow> if s = [] then Inr None
            else bindE (JSON_parse s) (\<lambda>parsed.
              bindE (stored_field parsed ''statusFilter'' (JStr ''Listed'')) (\<lambda>st.
              bindE (stored_field parsed ''minAmount'' (JStr [])) (\<lambda>mn.
              bindE (stored_field parsed ''maxAmount'' (JStr [])) (\<lambda>mx.
              bindE (stored_field parsed ''maxDiscount'' (JStr ''500'')) (\<lambda>md.
              Inr (Some (st, mn, mx, md)))))))) of
        Inr r \<Rightarrow> r
      | Inl e \<Rightarrow> None)"

definition filters_value :: "MarketplaceFilters \<Rightarrow> jsval" where
  "filters_value f =
     JObj [(''statusFilter'', statusFilter f), (''minAmount'', JStr (minAmount f)),
           (''maxAmount'', JStr (maxAmount f)), (''maxDiscount'', JStr (maxDiscount f))]"

definition try_write :: "string \<Rightarrow> jsval \<Rightarrow> local_storage \<Rightarrow> local_storage" where
  "try_write key v ls = (case JSON_stringify v of Inl e \<Rightarrow> ls | Inr doc \<Rightarrow> trySetItem key doc ls)"

definition writeFiltersToStorage :: "MarketplaceFilters \<Rightarrow> local_storage \<Rightarrow> local_storage" where
  "writeFiltersToStorage f ls = try_write MARKETPLACE_FILTERS_KEY (filters_value f) ls"

definition presets_key :: "string option \<Rightarrow> string" where
  "presets_key address =
     (case address of
        Some a \<Rightarrow> if a \<noteq> [] then MARKETPLACE_PRESETS_KEY @ ''_'' @ a else MARKETPLACE_PRESETS_KEY
      | None \<Rightarrow> MARKETPLACE_PRESETS_KEY)"

definition readPresetsFromStorage :: "string option \<Rightarrow> local_storage \<Rightarrow> jsval list" where
  "readPresetsFromStorage address ls =
     (case getItem (presets_key address) ls of
        Inr (Some s) \<Rightarrow> if s = [] then [] else (case JSON_parse s of Inr (JArr ps) \<Rightarrow> ps | _ \<Rightarrow> [])
      | _ \<Rightarrow> [])"

definition writePresetsToStorage :: "jsval list \<Rightarrow> string option \<Rightarrow> local_storage \<Rightarrow> local_storage" where
  "writePresetsToStorage presets address ls = try_write (presets_key address) (JArr presets) ls"

subsection \<open>Presets\<close>

record market_state =
  mk_address :: "string option"
  mk_presets :: "jsval list"
  mk_loaded :: "string option" \<comment> \<open>\<open>loadedPresetAddress\<close>\<close>
  mk_storage :: local_storage

definition market_init :: "string option \<Rightarrow> local_storage \<Rightarrow> market_state" where
  "market_init address ls =
     \<lparr>mk_address = address, mk_presets = readPresetsFromStorage address ls, mk_loaded = address, mk_storage = ls\<rparr>"

text \<open>The two effects, in the order in which they are declared.\<close>

definition reload_presets :: "market_state \<Rightarrow> market_state" where
  "reload_presets st =
     st\<lparr>mk_presets := readPresetsFromStorage (mk_address st) (mk_storage st), mk_loaded := mk_address st\<rparr>"

definition persist_presets :: "market_state \<Rightarrow> market_state" where
  "persist_presets st =
     (if mk_loaded st \<noteq> mk_address st then st
      else st\<lparr>mk_storage := writePresetsToStorage (mk_presets st) (mk_address st) (mk_storage st)\<rparr>)"

text \<open>
  A change of the account: the render with the new address runs both effects, where the state set
  by the first is seen only in the next render, which runs the second one again.
\<close>

definition switch_account :: "string option \<Rightarrow> market_state \<Rightarrow> market_state" where
  "switch_account address st =
     (let rendered = st\<lparr>mk_address := address\<rparr>;
          after = rendered\<lparr>mk_storage := mk_storage (persist_presets rendered)\<rparr>
      in persist_presets
           (after\<lparr>mk_presets := readPresetsFromStorage address (mk_storage rendered), mk_loaded := address\<rparr>))"

text \<open>The handlers; each is followed by the render that persists the list.\<close>

definition preset_value :: "string \<Rightarrow> MarketplaceFilters \<Rightarrow> int \<Rightarrow> jsval" where
  "preset_value name f now =
     JObj [(''name'', JStr name), (''filters'', filters_value f), (''createdAt'', JNum (num_int now))]"

definition savePreset :: "string \<Rightarrow> MarketplaceFilters \<Rightarrow> int \<Rightarrow> market_state \<Rightarrow> market_state" where
  "savePreset newPresetName f now st =
     (if js_trim newPresetName = [] then st
      else if 10 \<le> length (mk_presets st) then st
      else persist_presets (st\<lparr>mk_presets := mk_presets st @ [preset_value (js_trim newPresetName) f now]\<rparr>))"

definition deletePreset :: "string \<Rightarrow> market_state \<Rightarrow> market_state" where
  "deletePreset i st =
     persist_presets (st\<lparr>mk_presets :=
       map snd (filter (\<lambda>(index, p). show_nat index \<noteq> i) (enumerate 0 (mk_presets st)))\<rparr>)"

definition saveEditedPreset :: "string \<Rightarrow> string \<Rightarrow> market_state \<Rightarrow> market_state" where
  "saveEditedPreset i editingPresetName st =
     (if js_trim editingPresetName = [] then st
      else persist_presets (st\<lparr>mk_presets :=
        map (\<lambda>(index, p). if show_nat index = i
               then JObj (obj_set ''name'' (JStr (js_trim editingPresetName)) (own_entries p)) else p)
          (enumerate 0 (mk_presets st))\<rparr>))"

subsection \<open>Selection and pages\<close>

definition toggleRowSelection :: "string \<Rightarrow> string list \<Rightarrow> string list" where
  "toggleRowSelection i selection =
     (if i \<in> set selection then filter (\<lambda>s. s \<noteq> i) selection else selection @ [i])"

definition allOnPageSelected :: "string list \<Rightarrow> string list \<Rightarrow> bool" where
  "allOnPageSelected pageIds selection \<longleftrightarrow>
     pageIds \<noteq> [] \<and> length (filter (\<lambda>i. i \<in> set selection) pageIds) = length pageIds"

text \<open>\<open>Array.from(new Set(\<dots>))\<close> keeps the first occurrence of every element.\<close>

fun set_add :: "string list \<Rightarrow> string \<Rightarrow> string list" where
  "set_add s x = (if x \<in> set s then s else s @ [x])"

definition toggleAllOnPage :: "string list \<Rightarrow> string list \<Rightarrow> string list" where
  "toggleAllOnPage pageIds selection =
     (if allOnPageSelected pageIds selection then filter (\<lambda>i. i \<notin> set pageIds) selection
      else foldl set_add (foldl set_add [] selection) pageIds)"

definition clearSelection :: "string list \<Rightarrow> string list" where
  "clearSelection selection = []"

definition handleSelectionChange :: "string list \<Rightarrow> string list" where
  "handleSelectionChange ids = take 4 ids"

definition clampPage :: "int \<Rightarrow> int \<Rightarrow> int" where
  "clampPage page totalPages = min (max page 1) (max totalPages 1)"

definition page_range :: "int \<Rightarrow> int \<Rightarrow> int \<Rightarrow> int \<times> int" where
  "page_range page limit matches =
     (if matches = 0 then (0, 0) else ((page - 1) * limit + 1, min (page * limit) matches))"

subsection \<open>Lemmas\<close>

text \<open>The input is rounded before it becomes a bigint, so parsing a filter never throws.\<close>

lemma parseFilterStroops_total: "\<exists>m. parseFilterStroops v = Inr m"
proof -
  have "\<exists>m. bindE (bigint_of_num (num_round x)) (\<lambda>i. Inr (Some i)) = Inr m" if "num_isFinite (num_round x)" for x
    using that by (cases x) auto
  then show ?thesis unfolding parseFilterStroops_def Let_def by (simp split: if_split)
qed

definition passes :: "int option \<Rightarrow> int option \<Rightarrow> string \<Rightarrow> Invoice \<Rightarrow> bool" where
  "passes lo hi maxD iv \<longleftrightarrow>
     (\<forall>m. lo = Some m \<longrightarrow> m \<le> inv_faceValue iv) \<and> (\<forall>m. hi = Some m \<longrightarrow> inv_faceValue iv \<le> m) \<and>
     discount_within maxD iv"

lemma filtered_eq:
  assumes "parseFilterStroops minA = Inr lo" and "parseFilterStroops maxA = Inr hi"
  shows "filteredAndSortedInvoices minA maxA maxD invoices =
           Inr (sort_key (\<lambda>iv. - inv_faceValue iv) (filter (passes lo hi maxD) invoices))"
  using assms unfolding filteredAndSortedInvoices_def passes_def
  by (cases lo; cases hi) (simp_all add: Let_def conj_commute conj_left_commute)

lemma presets_key_inj: "presets_key (Some a) = presets_key (Some b) \<Longrightarrow> a = b \<or> a = [] \<or> b = []"
  by (auto simp: presets_key_def split: if_splits)

lemma app_presets_key: "isAppStorageKey (presets_key address)"
  by (simp add: presets_key_def isAppStorageKey_def STORAGE_KEY_PREFIXES_def STORAGE_NAMESPACE_def
      MARKETPLACE_PRESETS_KEY_def js_startsWith_def split: option.split)

lemma getItem_try_write: "k \<noteq> key \<Longrightarrow> getItem k (try_write key v ls) = getItem k ls"
  by (simp add: try_write_def getItem_trySetItem split: sum.split)

lemma JSON_array_not_empty: "JSON_parse [] \<noteq> Inr (JArr ps)"
proof -
  have "isl (JSON_parse [])" by code_simp
  then show ?thesis by (auto simp: isl_def)
qed

lemma read_write_presets:
  assumes "\<forall>p \<in> set ps. json_plain p" and "ls_blocked ls \<or> ls_full ls \<Longrightarrow> readPresetsFromStorage address ls = ps"
  shows "readPresetsFromStorage address (writePresetsToStorage ps address ls) = ps"
proof (cases "ls_blocked ls \<or> ls_full ls")
  case True
  then have "writePresetsToStorage ps address ls = ls"
    by (auto simp: writePresetsToStorage_def try_write_def trySetItem_def setItem_def split: sum.split)
  then show ?thesis using True assms(2) by simp
next
  case False
  have "json_plain (JArr ps)" using assms(1) by simp
  then obtain doc where "JSON_stringify (JArr ps) = Inr doc" "JSON_parse doc = Inr (JArr ps)"
    using JSON_round_trip by blast
  moreover from this have "doc \<noteq> []" using JSON_array_not_empty by metis
  ultimately show ?thesis using False
    by (simp add: readPresetsFromStorage_def writePresetsToStorage_def try_write_def getItem_trySetItem)
qed

text \<open>Selecting keeps the selection free of repetitions and touches only the rows of the page.\<close>

lemma set_add_fold: "distinct s \<Longrightarrow> distinct (foldl set_add s xs) \<and> set (foldl set_add s xs) = set s \<union> set xs"
proof (induction xs arbitrary: s)
  case (Cons x xs)
  then show ?case using Cons.IH [of "set_add s x"] by auto
qed simp

lemma toggleAllOnPage_set:
  "set (toggleAllOnPage pageIds selection) =
     (if allOnPageSelected pageIds selection then set selection - set pageIds else set selection \<union> set pageIds)"
  using set_add_fold [of "[]" selection] set_add_fold [of "foldl set_add [] selection" pageIds]
  by (auto simp: toggleAllOnPage_def)

lemma toggleAllOnPage_distinct: "distinct selection \<Longrightarrow> distinct (toggleAllOnPage pageIds selection)"
  using set_add_fold [of "[]" selection] set_add_fold [of "foldl set_add [] selection" pageIds]
  by (auto simp: toggleAllOnPage_def)

lemma toggleRow_twice: "distinct s \<Longrightarrow> set (toggleRowSelection i (toggleRowSelection i s)) = set s"
  by (auto simp: toggleRowSelection_def)

lemma clampPage_bounds: "1 \<le> clampPage p n \<and> clampPage p n \<le> max n 1"
  by (auto simp: clampPage_def)

lemma savePreset_bound: "length (mk_presets st) \<le> 10 \<Longrightarrow> length (mk_presets (savePreset name f now st)) \<le> 10"
  by (auto simp: savePreset_def persist_presets_def)

subsection \<open>Properties\<close>

text \<open>
  C28. The list of the marketplace is exactly the invoices that pass the filters, by falling face
  value, and invoices of equal face value keep their order. It is computed for every input of the
  filter fields: no input makes the page throw.
\<close>

theorem marketplace_list_spec:
  "\<exists>lo hi xs. parseFilterStroops minA = Inr lo \<and> parseFilterStroops maxA = Inr hi \<and>
     filteredAndSortedInvoices minA maxA maxD invoices = Inr xs \<and>
     mset xs = mset (filter (passes lo hi maxD) invoices) \<and>
     sorted_wrt (\<lambda>a b. inv_faceValue b \<le> inv_faceValue a) xs \<and>
     (\<forall>v. filter (\<lambda>iv. inv_faceValue iv = v) xs =
          filter (\<lambda>iv. inv_faceValue iv = v) (filter (passes lo hi maxD) invoices))"
proof -
  obtain lo hi where p: "parseFilterStroops minA = Inr lo" "parseFilterStroops maxA = Inr hi"
    using parseFilterStroops_total by blast
  let ?f = "\<lambda>iv. - inv_faceValue iv"
  let ?ys = "filter (passes lo hi maxD) invoices"
  have "sorted (map ?f (sort_key ?f ?ys))" by (rule sorted_sort_key)
  then have "sorted_wrt (\<lambda>a b. inv_faceValue b \<le> inv_faceValue a) (sort_key ?f ?ys)"
    by (simp add: sorted_wrt_map)
  moreover have "filter (\<lambda>iv. inv_faceValue iv = v) (sort_key ?f ?ys) = filter (\<lambda>iv. inv_faceValue iv = v) ?ys" for v
    using sort_key_stable [of ?f "- v" ?ys] by simp
  ultimately show ?thesis using p filtered_eq [OF p] by auto
qed

lemma persist_presets_other:
  "k \<noteq> presets_key (mk_address st) \<Longrightarrow> getItem k (mk_storage (persist_presets st)) = getItem k (mk_storage st)"
  by (simp add: persist_presets_def writePresetsToStorage_def getItem_try_write)

lemma savePreset_frame:
  "mk_address (savePreset name f now st) = mk_address st \<and> mk_loaded (savePreset name f now st) = mk_loaded st \<and>
   (\<forall>k. k \<noteq> presets_key (mk_address st) \<longrightarrow>
      getItem k (mk_storage (savePreset name f now st)) = getItem k (mk_storage st))"
  using persist_presets_other [of _ "st\<lparr>mk_presets := mk_presets st @ [preset_value (js_trim name) f now]\<rparr>"]
  by (auto simp: savePreset_def) (auto simp: persist_presets_def)

lemma readPresets_cong:
  "getItem (presets_key address) ls' = getItem (presets_key address) ls \<Longrightarrow>
     readPresetsFromStorage address ls' = readPresetsFromStorage address ls"
  by (simp add: readPresetsFromStorage_def)

lemma switch_account_spec:
  assumes "mk_loaded st = mk_address st" and "address \<noteq> mk_address st"
    and "\<forall>p \<in> set (readPresetsFromStorage address (mk_storage st)). json_plain p"
  shows "mk_presets (switch_account address st) = readPresetsFromStorage address (mk_storage st) \<and>
         readPresetsFromStorage address (mk_storage (switch_account address st)) =
           readPresetsFromStorage address (mk_storage st) \<and>
         mk_loaded (switch_account address st) = mk_address (switch_account address st) \<and>
         (\<forall>k. k \<noteq> presets_key address \<longrightarrow>
            getItem k (mk_storage (switch_account address st)) = getItem k (mk_storage st))"
  using assms(1,2) read_write_presets [OF assms(3)]
  by (auto simp: switch_account_def persist_presets_def Let_def)
    (simp_all add: writePresetsToStorage_def getItem_try_write)

text \<open>
  C29. The presets of one wallet never reach another: after saving a preset under wallet \<open>a\<close>, a
  switch to another wallet \<open>b\<close> shows exactly the presets that were stored for \<open>b\<close> before, leaves
  them stored as they were, and keeps those of \<open>a\<close>; and the render between the switch and the
  reading writes nothing.
\<close>

theorem presets_stay_with_wallet:
  assumes "mk_address st = Some a" and "mk_loaded st = Some a" and "a \<noteq> b" and "a \<noteq> []" and "b \<noteq> []"
    and "\<forall>p \<in> set (readPresetsFromStorage (Some b) (mk_storage st)). json_plain p"
  shows "let saved = savePreset name f now st; switched = switch_account (Some b) saved
         in mk_presets switched = readPresetsFromStorage (Some b) (mk_storage st) \<and>
            readPresetsFromStorage (Some b) (mk_storage switched) = readPresetsFromStorage (Some b) (mk_storage st) \<and>
            readPresetsFromStorage (Some a) (mk_storage switched) = readPresetsFromStorage (Some a) (mk_storage saved) \<and>
            mk_storage (persist_presets (saved\<lparr>mk_address := Some b\<rparr>)) = mk_storage saved"
proof -
  let ?saved = "savePreset name f now st"
  have keys: "presets_key (Some b) \<noteq> presets_key (Some a)" using presets_key_inj assms(3-5) by blast
  have frame: "mk_address ?saved = Some a" "mk_loaded ?saved = Some a"
    "getItem (presets_key (Some b)) (mk_storage ?saved) = getItem (presets_key (Some b)) (mk_storage st)"
    using savePreset_frame [of name f now st] assms(1,2) keys by simp_all
  then have rb: "readPresetsFromStorage (Some b) (mk_storage ?saved) = readPresetsFromStorage (Some b) (mk_storage st)"
    by (intro readPresets_cong)
  have pre: "mk_loaded ?saved = mk_address ?saved" "Some b \<noteq> mk_address ?saved"
    "\<forall>p \<in> set (readPresetsFromStorage (Some b) (mk_storage ?saved)). json_plain p"
    using frame(1,2) assms(3,6) unfolding rb by simp_all
  note sw = switch_account_spec [OF pre]
  have "readPresetsFromStorage (Some a) (mk_storage (switch_account (Some b) ?saved)) =
      readPresetsFromStorage (Some a) (mk_storage ?saved)"
    using sw keys by (intro readPresets_cong) metis
  moreover have "mk_storage (persist_presets (?saved\<lparr>mk_address := Some b\<rparr>)) = mk_storage ?saved"
    using frame(2) assms(3) by (simp add: persist_presets_def)
  ultimately show ?thesis using sw unfolding Let_def rb by blast
qed

theorem presets_stay_with_wallet_witness:
  "mk_presets (switch_account (Some ''B'') (savePreset ''p'' \<lparr>statusFilter = JStr ''ALL'', minAmount = [],
     maxAmount = [], maxDiscount = []\<rparr> 1 (market_init (Some ''A'') \<lparr>ls_items = [], ls_blocked = False, ls_full = False\<rparr>))) = []"
proof -
  let ?ls = "\<lparr>ls_items = [], ls_blocked = False, ls_full = False\<rparr>"
  have "readPresetsFromStorage (Some ''B'') ?ls = []" by (simp add: readPresetsFromStorage_def getItem_def)
  then show ?thesis
    using presets_stay_with_wallet [of "market_init (Some ''A'') ?ls" "''A''" "''B''" "''p''"
        "\<lparr>statusFilter = JStr ''ALL'', minAmount = [], maxAmount = [], maxDiscount = []\<rparr>" 1]
    by (simp add: market_init_def Let_def)
qed

end
