(* ===== verification/JsMath.thy ===== *)
theory JsMath
  imports JsDate
begin

text \<open>
  More of the standard library, for the forms, the calculators and the pages: products and quotients
  of doubles, \<open>Math\<close>, formatting with grouped digits, and dates in local time. The time zone is a
  parameter, two functions between universal and local time; what a browser prints in its own
  language (\<open>toLocaleString()\<close> without a locale) is a parameter of the components that use it.
\<close>

subsection \<open>Numbers\<close>

text \<open>
  Products and quotients. There is one zero, so a quotient by zero has the sign of the dividend;
  no quotient of the program has a negative zero below it.
\<close>

definition inf_signed :: "bool \<Rightarrow> jsnum" where
  "inf_signed pos = (if pos then PosInf else NegInf)"

fun num_pos :: "jsnum \<Rightarrow> bool" where
  "num_pos (Fin q) \<longleftrightarrow> 0 < q"
| "num_pos PosInf \<longleftrightarrow> True"
| "num_pos x \<longleftrightarrow> False"

fun num_mul :: "jsnum \<Rightarrow> jsnum \<Rightarrow> jsnum" where
  "num_mul (Fin p) (Fin q) = fl (p * q)"
| "num_mul NaN y = NaN"
| "num_mul x NaN = NaN"
| "num_mul x y = (if x = Fin 0 \<or> y = Fin 0 then NaN else inf_signed (num_pos x = num_pos y))"

fun num_div :: "jsnum \<Rightarrow> jsnum \<Rightarrow> jsnum" where
  "num_div (Fin p) (Fin q) =
     (if q = 0 then (if p = 0 then NaN else inf_signed (0 < p)) else fl (p / q))"
| "num_div NaN y = NaN"
| "num_div x NaN = NaN"
| "num_div (Fin p) y = Fin 0"
| "num_div x (Fin q) = inf_signed (num_pos x = (0 \<le> q))"
| "num_div x y = NaN"

fun num_ceil :: "jsnum \<Rightarrow> jsnum" where
  "num_ceil (Fin q) = Fin (of_int \<lceil>q\<rceil>)"
| "num_ceil x = x"

definition num_min :: "jsnum \<Rightarrow> jsnum \<Rightarrow> jsnum" where
  "num_min x y = (if x = NaN \<or> y = NaN then NaN else if num_less y x then y else x)"

definition num_max :: "jsnum \<Rightarrow> jsnum \<Rightarrow> jsnum" where
  "num_max x y = (if x = NaN \<or> y = NaN then NaN else if num_less x y then y else x)"

text \<open>\<open>x || 0\<close> of a number.\<close>

definition num_or_zero :: "jsnum \<Rightarrow> jsnum" where
  "num_or_zero x = (if num_truthy x then x else Fin 0)"

text \<open>\<open>s.replace(/,/g, "")\<close>.\<close>

definition strip_commas :: "string \<Rightarrow> string" where
  "strip_commas s = filter (\<lambda>c. c \<noteq> CHR '','') s"

text \<open>
  \<open>toLocaleString("en-US", ...)\<close> with at least \<open>mn\<close> and at most \<open>mx\<close> fraction digits: rounded to
  \<open>mx\<close> digits, halves away from zero, then zeros beyond the first \<open>mn\<close> are dropped.
\<close>

definition trim_fraction :: "nat \<Rightarrow> string \<Rightarrow> string" where
  "trim_fraction mn ds =
     (let kept = rev (dropWhile (\<lambda>c. c = CHR ''0'') (rev (drop mn ds)))
      in take mn ds @ kept)"

fun num_toLocale :: "nat \<Rightarrow> nat \<Rightarrow> jsnum \<Rightarrow> string" where
  "num_toLocale mn mx (Fin q) =
     (let ds = js_padStart (Suc mx) (CHR ''0'') (show_nat (nat \<lfloor>\<bar>q\<bar> * 10 ^ mx + 1 / 2\<rfloor>));
          k = length ds - mx;
          frac = trim_fraction mn (drop k ds)
      in (if q < 0 then ''-'' else '''') @ group3 (take k ds) @ (if frac = [] then [] else ''.'' @ frac))"
| "num_toLocale mn mx x = num_toString x"

subsection \<open>Local time\<close>

record time_zone =
  to_local :: "int \<Rightarrow> int" \<comment> \<open>the local clock at a time value, in milliseconds\<close>
  to_utc :: "int \<Rightarrow> int" \<comment> \<open>the time value at which the local clock shows this\<close>

definition DAY_MS :: int where
  "DAY_MS = 86400000"

text \<open>\<open>d.setHours(0, 0, 0, 0)\<close>, and \<open>d.setDate(d.getDate() + n)\<close>, of a valid date.\<close>

definition local_midnight :: "time_zone \<Rightarrow> int \<Rightarrow> int" where
  "local_midnight tz t = to_utc tz (to_local tz t div DAY_MS * DAY_MS)"

definition add_days :: "time_zone \<Rightarrow> int \<Rightarrow> int \<Rightarrow> int" where
  "add_days tz n t = to_utc tz (to_local tz t + n * DAY_MS)"

text \<open>A zone whose clock is \<open>off\<close> milliseconds ahead all year.\<close>

definition fixed_zone :: "int \<Rightarrow> time_zone" where
  "fixed_zone off = \<lparr>to_local = (\<lambda>t. t + off), to_utc = (\<lambda>t. t - off)\<rparr>"

lemma fixed_zone_days [simp]:
  "local_midnight (fixed_zone off) t = (t + off) div DAY_MS * DAY_MS - off"
  "add_days (fixed_zone off) n t = t + n * DAY_MS"
  by (simp_all add: local_midnight_def add_days_def fixed_zone_def)

text \<open>The calendar day of a local clock, as \<open>yyyy-MM-dd\<close>.\<close>

definition iso_date :: "int \<Rightarrow> string" where
  "iso_date d = (let (y, m, dd) = civil_from_day d in iso_year y @ ''-'' @ two_digits m @ ''-'' @ two_digits dd)"

text \<open>
  \<open>new Date(s)\<close> of a date-only string: midnight of that day in universal time. Other forms of date
  strings are not read by the program with this constructor.
\<close>

definition date_only :: "string \<Rightarrow> int option" where
  "date_only s =
     (let y = take 4 s; m = take 2 (drop 5 s); d = drop 8 s
      in if length s = 10 \<and> s ! 4 = CHR ''-'' \<and> s ! 7 = CHR ''-'' \<and> list_all is_digit (y @ m @ d) \<and>
            1 \<le> read_nat m \<and> read_nat m \<le> 12 \<and> 1 \<le> read_nat d \<and> read_nat d \<le> 31
         then Some (DAY_MS * (day_from_year (int (read_nat y)) +
                     sum_list (take (read_nat m - 1) (month_lengths (int (read_nat y)))) + int (read_nat d) - 1))
         else None)"

definition time_value :: "int option \<Rightarrow> jsnum" where
  "time_value t = (case t of Some i \<Rightarrow> num_int i | None \<Rightarrow> NaN)"

subsection \<open>The calendar reads back what it prints\<close>

lemma div_next:
  fixes x k :: int
  assumes "0 < k"
  shows "(x + 1) div k = x div k + (if k dvd x + 1 then 1 else 0)"
proof (cases "k dvd x + 1")
  case True
  then obtain c where c: "x + 1 = k * c" by blast
  then have "x = k * (c - 1) + (k - 1)" by (simp add: algebra_simps)
  then have "x div k = c - 1" using assms by simp
  then show ?thesis using True assms by (simp add: c)
next
  case False
  define r where "r = x mod k"
  have x: "x = k * (x div k) + r" and "0 \<le> r" "r < k"
    using assms by (simp_all add: r_def)
  have "r \<noteq> k - 1"
  proof
    assume "r = k - 1"
    then have "x + 1 = k * (x div k + 1)" using x by (simp add: algebra_simps)
    then show False using False by (metis dvd_triv_left)
  qed
  with \<open>r < k\<close> have "r + 1 < k" by simp
  with \<open>0 \<le> r\<close> have "(k * (x div k) + (r + 1)) div k = x div k" using assms by simp
  moreover have "x + 1 = k * (x div k) + (r + 1)" using x by simp
  ultimately show ?thesis using False by (metis add_0_right)
qed

lemma year_length: "day_from_year (y + 1) - day_from_year y = sum_list (month_lengths y)"
proof -
  have shift: "(4 :: int) dvd y - 1968 \<longleftrightarrow> 4 dvd y" "(100 :: int) dvd y - 1900 \<longleftrightarrow> 100 dvd y"
    "(400 :: int) dvd y - 1600 \<longleftrightarrow> 400 dvd y"
    using dvd_add_left_iff [of "4 :: int" "- 1968" y] dvd_add_left_iff [of "100 :: int" "- 1900" y]
      dvd_add_left_iff [of "400 :: int" "- 1600" y] by simp_all
  have mods: "(400 :: int) dvd y \<Longrightarrow> 100 dvd y" "(100 :: int) dvd y \<Longrightarrow> 4 dvd y"
    using dvd_trans [of "100 :: int" 400 y] dvd_trans [of "4 :: int" 100 y] by simp_all
  have leap: "leap_year y \<longleftrightarrow> 4 dvd y \<and> (\<not> 100 dvd y \<or> 400 dvd y)"
    unfolding leap_year_def by (simp only: dvd_eq_mod_eq_0)
  have "day_from_year (y + 1) - day_from_year y =
      365 + (if 4 dvd y then 1 else 0) - (if 100 dvd y then 1 else 0) + (if 400 dvd y then 1 else 0)"
    using div_next [of 4 "y - 1969"] div_next [of 100 "y - 1901"] div_next [of 400 "y - 1601"]
    by (simp add: day_from_year_def shift)
  moreover have "sum_list (month_lengths y) = (if leap_year y then 366 else 365)"
    by (simp add: month_lengths_def)
  moreover obtain a b c where abc: "a = (4 dvd y)" "b = (100 dvd y)" "c = (400 dvd y)" by blast
  ultimately show ?thesis
    using mods unfolding leap abc [symmetric] by (cases a; cases b; cases c) simp_all
qed

lemma month_day_spec:
  assumes "0 \<le> r" "r < sum_list ls" "list_all (\<lambda>l. 28 \<le> l \<and> l \<le> 31) ls"
    and "month_day ls m r = (m', dd)"
  shows "\<exists>k. m' = m + int k \<and> k < length ls \<and> r = sum_list (take k ls) + dd - 1 \<and> 1 \<le> dd \<and> dd \<le> 31"
  using assms
proof (induction ls arbitrary: m r)
  case (Cons l ls)
  show ?case
  proof (cases "r < l")
    case True
    with Cons.prems show ?thesis by (auto intro!: exI [of _ 0])
  next
    case False
    with Cons.prems have "\<exists>k. m' = m + 1 + int k \<and> k < length ls \<and>
        r - l = sum_list (take k ls) + dd - 1 \<and> 1 \<le> dd \<and> dd \<le> 31"
      by (intro Cons.IH) auto
    then obtain k where "m' = m + 1 + int k" "k < length ls" "r - l = sum_list (take k ls) + dd - 1"
      "1 \<le> dd" "dd \<le> 31" by blast
    then show ?thesis by (auto intro!: exI [of _ "Suc k"])
  qed
qed simp

lemma civil_from_day_spec:
  assumes "civil_from_day d = (y, m, dd)"
  shows "y = year_from_day d \<and> 1 \<le> m \<and> m \<le> 12 \<and> 1 \<le> dd \<and> dd \<le> 31 \<and>
    d = day_from_year y + sum_list (take (nat m - 1) (month_lengths y)) + dd - 1"
proof -
  obtain m' where md: "month_day (month_lengths (year_from_day d)) 0 (d - day_from_year (year_from_day d)) = (m', dd)"
    and y: "y = year_from_day d" and m: "m = m' + 1"
    using assms by (auto simp: civil_from_day_def Let_def split: prod.splits)
  have "0 \<le> d - day_from_year y" "d - day_from_year y < sum_list (month_lengths y)"
    using year_from_day_bounds [of d] year_length [of y] y by auto
  moreover have "list_all (\<lambda>l. 28 \<le> l \<and> l \<le> 31) (month_lengths y)"
    by (simp add: month_lengths_def)
  ultimately obtain k where "m' = int k" "k < length (month_lengths y)" "1 \<le> dd" "dd \<le> 31"
    "d - day_from_year y = sum_list (take k (month_lengths y)) + dd - 1"
    using month_day_spec [OF _ _ _ md [folded y]] by auto
  then show ?thesis using y m by (auto simp: month_lengths_def nat_add_distrib)
qed

lemma pad_digits:
  assumes "n < 10 ^ k" "0 < k"
  shows "length (js_padStart k (CHR ''0'') (show_nat n)) = k \<and>
    list_all is_digit (js_padStart k (CHR ''0'') (show_nat n)) \<and>
    read_nat (js_padStart k (CHR ''0'') (show_nat n)) = n"
proof -
  have "list_all is_digit (replicate j (CHR ''0''))" for j
    by (auto simp: list_all_iff is_digit_def)
  moreover have "list_all is_digit (show_nat n)" using show_nat_digits by (simp add: list_all_iff)
  ultimately show ?thesis
    using show_nat_length [OF assms] by (simp add: js_padStart_def read_nat_append)
qed

lemma two_digits_read:
  assumes "1 \<le> n" "n \<le> 31"
  shows "length (two_digits n) = 2" "list_all is_digit (two_digits n)" "int (read_nat (two_digits n)) = n"
  using pad_digits [of "nat n" 2] assms by (simp_all add: two_digits_def)

lemma iso_year_read:
  assumes "0 \<le> y" "y \<le> 9999"
  shows "length (iso_year y) = 4" "list_all is_digit (iso_year y)" "int (read_nat (iso_year y)) = y"
  using pad_digits [of "nat y" 4] assms by (simp_all add: iso_year_def)

text \<open>A calendar day of a year with four digits is read back.\<close>

theorem date_only_iso_date:
  assumes "0 \<le> year_from_day d" "year_from_day d \<le> 9999"
  shows "date_only (iso_date d) = Some (DAY_MS * d)"
proof -
  obtain y m dd where c: "civil_from_day d = (y, m, dd)" by (cases "civil_from_day d")
  note s = civil_from_day_spec [OF c]
  have y: "0 \<le> y" "y \<le> 9999" and m: "1 \<le> m" "m \<le> 31" and dd: "1 \<le> dd" "dd \<le> 31" and "m \<le> 12"
    and d: "d = day_from_year y + sum_list (take (nat m - 1) (month_lengths y)) + dd - 1"
    using assms s by linarith+
  note r = iso_year_read [OF y] two_digits_read [OF m] two_digits_read [OF dd]
  have split: "iso_date d = iso_year y @ ''-'' @ two_digits m @ ''-'' @ two_digits dd"
    by (simp add: iso_date_def c)
  have parts: "take 4 (iso_date d) = iso_year y" "take 2 (drop 5 (iso_date d)) = two_digits m"
    "drop 8 (iso_date d) = two_digits dd" "length (iso_date d) = 10"
    "iso_date d ! 4 = CHR ''-''" "iso_date d ! 7 = CHR ''-''"
    unfolding split using r(1,4,7) by (simp_all add: nth_append)
  have n: "read_nat (two_digits m) = nat m" "read_nat (two_digits dd) = nat dd" using r(6,9) by simp_all
  have "list_all is_digit (iso_year y @ two_digits m @ two_digits dd)" using r by simp
  moreover have "1 \<le> nat m \<and> nat m \<le> 12 \<and> 1 \<le> nat dd \<and> nat dd \<le> 31" using m dd \<open>m \<le> 12\<close> by linarith
  ultimately show ?thesis
    unfolding date_only_def Let_def parts n r(3) using dd(1) d by simp
qed

text \<open>A string of digits is read exactly.\<close>

lemma js_parseFloat_digits:
  assumes "ds \<noteq> []" and "list_all is_digit ds" and "read_nat ds \<le> 2 ^ 53"
  shows "js_parseFloat ds = num_int (int (read_nat ds))"
proof -
  obtain c r where ds: "ds = c # r" using assms(1) by (cases ds) auto
  have c: "is_digit c" using assms(2) ds by simp
  then have "c \<noteq> CHR ''-''" "c \<noteq> CHR ''+''" "c \<noteq> CHR ''I''" "\<not> js_space c"
    by (auto simp: is_digit_def js_space_def)
  then have trim: "js_trimStart ds = ds" and sign: "hd ds \<noteq> CHR ''-''" "hd ds \<noteq> CHR ''+''"
    and inf: "\<not> js_startsWith ds ''Infinity''"
    by (auto simp: js_trimStart_def js_startsWith_def ds)
  have while: "takeWhile is_digit ds = ds" "dropWhile is_digit ds = []"
    using assms(2) by (auto simp: list_all_iff takeWhile_eq_all_conv dropWhile_eq_Nil_conv)
  have "scan_decimal ds = Some (of_nat (read_nat ds), [])"
    using assms(1) by (simp add: scan_decimal_def while scan_exp_def pow10_def Let_def)
  moreover have "fl (of_int (int (read_nat ds))) = num_int (int (read_nat ds))"
    using assms(3) by (intro fl_of_int) simp
  ultimately show ?thesis
    using sign inf by (simp add: js_parseFloat_def trim scan_number_def)
qed

end
