(* ===== verification/Views.thy ===== *)
theory Views
  imports Prelude
begin

text \<open>
  What a component renders: a tree of elements, with the attributes and handlers that matter to a
  user (styling is left out, and so are icons, which have no text). A handler is a name of type
  \<open>'h\<close>, one constructor per control of the component; the component's theory says what each control
  does to its state. From a tree one reads what can be clicked, what is written on the page, and
  whether every label, description and panel refers to an element that is there.
\<close>

datatype 'h el =
    Txt string
  | El string "(string \<times> string) list" "(string \<times> 'h) list" "'h el list"

abbreviation el :: "string \<Rightarrow> 'h el list \<Rightarrow> 'h el" where
  "el tag cs \<equiv> El tag [] [] cs"

abbreviation para :: "string \<Rightarrow> string \<Rightarrow> 'h el" where
  "para tag s \<equiv> El tag [] [] [Txt s]"

definition shown :: "bool \<Rightarrow> 'a list \<Rightarrow> 'a list" where
  "shown b xs = (if b then xs else [])"

text \<open>A boolean attribute is present or absent; an absent value leaves the attribute out.\<close>

definition flag :: "string \<Rightarrow> bool \<Rightarrow> (string \<times> string) list" where
  "flag k b = (if b then [(k, [])] else [])"

definition attr :: "string \<Rightarrow> string option \<Rightarrow> (string \<times> string) list" where
  "attr k v = (case v of Some x \<Rightarrow> [(k, x)] | None \<Rightarrow> [])"

definition aria_bool :: "bool \<Rightarrow> string" where
  "aria_bool b = (if b then ''true'' else ''false'')"

text \<open>A button with a label; the handler of a disabled button never runs.\<close>

definition button :: "'h \<Rightarrow> bool \<Rightarrow> string \<Rightarrow> 'h el" where
  "button h dis label = El ''button'' (flag ''disabled'' dis) [(''onClick'', h)] [Txt label]"

text \<open>The dash U+2013 and the sign U+00D7, one character each, as \<open>em_dash\<close> is.\<close>

definition en_dash :: string where
  "en_dash = [char_of (150 :: nat)]"

definition times_sign :: string where
  "times_sign = [char_of (215 :: nat)]"

subsection \<open>Reading a tree\<close>

fun nodes :: "'h el \<Rightarrow> 'h el list" where
  "nodes (Txt s) = [Txt s]"
| "nodes (El t as hs cs) = El t as hs cs # concat (map nodes cs)"

definition values_of :: "string \<Rightarrow> (string \<times> 'v) list \<Rightarrow> 'v list" where
  "values_of k kvs = map snd (filter (\<lambda>kv. fst kv = k) kvs)"

definition disabled :: "(string \<times> string) list \<Rightarrow> bool" where
  "disabled as \<longleftrightarrow> values_of ''disabled'' as \<noteq> []"

fun clicks :: "'h el \<Rightarrow> 'h list" where
  "clicks (Txt s) = []"
| "clicks (El t as hs cs) =
     (if disabled as then [] else values_of ''onClick'' hs) @ concat (map clicks cs)"

fun text_content :: "'h el \<Rightarrow> string" where
  "text_content (Txt s) = s"
| "text_content (El t as hs cs) = concat (map text_content cs)"

fun ids :: "'h el \<Rightarrow> string list" where
  "ids (Txt s) = []"
| "ids (El t as hs cs) = values_of ''id'' as @ concat (map ids cs)"

fun idrefs :: "'h el \<Rightarrow> string list" where
  "idrefs (Txt s) = []"
| "idrefs (El t as hs cs) =
     concat (map (\<lambda>k. values_of k as) [''htmlFor'', ''aria-labelledby'', ''aria-describedby'', ''aria-controls'']) @
     concat (map idrefs cs)"

text \<open>Identifiers are unique, and every reference to one finds its element.\<close>

definition well_labelled :: "'h el \<Rightarrow> bool" where
  "well_labelled e \<longleftrightarrow> distinct (ids e) \<and> set (idrefs e) \<subseteq> set (ids e)"

fun alerts :: "'h el \<Rightarrow> string list" where
  "alerts (Txt s) = []"
| "alerts (El t as hs cs) =
     (if ''alert'' \<in> set (values_of ''role'' as) then [text_content (El t as hs cs)] else []) @ concat (map alerts cs)"

text \<open>Open dialogs.\<close>

fun dialogs :: "'h el \<Rightarrow> 'h el list" where
  "dialogs (Txt s) = []"
| "dialogs (El t as hs cs) =
     (if ''dialog'' \<in> set (values_of ''role'' as) then [El t as hs cs] else []) @ concat (map dialogs cs)"

lemma shown_simps [simp]: "shown True xs = xs" "shown False xs = []"
  by (simp_all add: shown_def)

lemma concat_map_shown [simp]: "concat (map f (shown b xs)) = (if b then concat (map f xs) else [])"
  by (simp add: shown_def)

lemma set_shown [simp]: "set (shown b xs) = (if b then set xs else {})"
  by (simp add: shown_def)

lemma values_of_simps [simp]:
  "values_of k [] = []"
  "values_of k ((k', v) # kvs) = (if k' = k then v # values_of k kvs else values_of k kvs)"
  "values_of k (xs @ ys) = values_of k xs @ values_of k ys"
  by (simp_all add: values_of_def)

lemma values_of_flag [simp]: "values_of k (flag k' b) = (if k' = k \<and> b then [[]] else [])"
  by (simp add: flag_def)

lemma values_of_attr [simp]:
  "values_of k (attr k' v) = (if k' = k then (case v of Some x \<Rightarrow> [x] | None \<Rightarrow> []) else [])"
  by (simp add: attr_def split: option.split)

lemma disabled_simps [simp]:
  "\<not> disabled []" "disabled ((k, v) # as) \<longleftrightarrow> k = ''disabled'' \<or> disabled as"
  "disabled (as @ bs) \<longleftrightarrow> disabled as \<or> disabled bs"
  "disabled (flag k b) \<longleftrightarrow> k = ''disabled'' \<and> b" "disabled (attr k w) \<longleftrightarrow> k = ''disabled'' \<and> w \<noteq> None"
  by (auto simp: disabled_def split: option.split)

lemma button_simps [simp]:
  "clicks (button h dis label) = (if dis then [] else [h])"
  "ids (button h dis label) = []" "idrefs (button h dis label) = []"
  "text_content (button h dis label) = label"
  by (simp_all add: button_def)

lemma nodes_button [simp]:
  "nodes (button h dis label) = [button h dis label, Txt label]"
  by (simp add: button_def)

lemma nodes_self: "e \<in> set (nodes e)"
  by (cases e) simp_all

text \<open>A click is on an enabled element of the tree, and a node of a node is a node.\<close>

lemma clicks_node:
  "h \<in> set (clicks e) \<longleftrightarrow>
     (\<exists>t as hs cs. El t as hs cs \<in> set (nodes e) \<and> \<not> disabled as \<and> h \<in> set (values_of ''onClick'' hs))"
proof (induction e)
  case (El t as hs cs)
  then show ?case by (auto; blast)
qed simp

lemma nodes_trans: "n \<in> set (nodes e) \<Longrightarrow> set (nodes n) \<subseteq> set (nodes e)"
proof (induction e)
  case (El t as hs cs)
  then show ?case by (auto; blast)
qed simp

lemma button_roles [simp]: "dialogs (button h dis label) = []" "alerts (button h dis label) = []"
  by (simp_all add: button_def flag_def)

text \<open>Renaming the handlers changes nothing else.\<close>

lemma values_of_map [simp]: "values_of k (map (map_prod id f) hs) = map f (values_of k hs)"
  by (induction hs) (auto simp: map_prod_def)

lemma map_el_reads [simp]:
  "text_content (map_el f e) = text_content e" "ids (map_el f e) = ids e" "idrefs (map_el f e) = idrefs e"
  "clicks (map_el f e) = map f (clicks e)" "alerts (map_el f e) = alerts e"
  "dialogs (map_el f e) = map (map_el f) (dialogs e)"
  by (induction e) (simp_all add: comp_def map_concat cong: map_cong)

end
