(* ===== verification/InvoiceForm.thy ===== *)
theory InvoiceForm
  imports Actions JsMath Views
begin

text \<open>
  The form that creates an invoice (\<open>components/invoice/InvoiceForm.tsx\<close>) with its two inputs
  \<open>components/shared/AmountInput.tsx\<close> and \<open>components/ui/date-picker.tsx\<close>.

  The state of the form is the record \<open>invoice_form\<close>. \<open>handleNextStep\<close> validates it, given the key
  check of the Stellar library (loading that library may fail), the time zone and the clock.
  \<open>handleCreate\<close> runs on the form together with the state of the application; its two local variables,
  which the error path reads, are the record \<open>creation\<close>. The mutations it calls are those of
  \<open>Actions\<close>. The rest of the theory shows what is validated, that an invoice that could not be
  listed is cancelled, and that the form's labels find their controls.
\<close>

subsection \<open>Inputs\<close>

definition parseAmount :: "string \<Rightarrow> jsnum" where
  "parseAmount raw = num_or_zero (js_parseFloat (strip_commas raw))"

text \<open>\<open>AmountInput\<close>; \<open>loc\<close> prints a number in the language of the browser.\<close>

record 'h amount_props =
  am_value :: string
  am_change :: 'h
  am_asset :: AssetInfo
  am_label :: "string option"
  am_placeholder :: string
  am_disabled :: bool
  am_required :: bool
  am_preview :: "jsnum option" \<comment> \<open>\<open>previewValue\<close> when \<open>showPreview\<close> is set\<close>
  am_previewLabel :: "string option"

definition AmountInput :: "(jsnum \<Rightarrow> string) \<Rightarrow> string \<Rightarrow> 'h amount_props \<Rightarrow> 'h el" where
  "AmountInput loc inputId p =
     el ''div''
       ([El ''label'' [(''htmlFor'', inputId)] []
           [Txt (case am_label p of Some l \<Rightarrow> if l \<noteq> [] then l else ''Amount ('' @ ai_label (am_asset p) @ '')''
                 | None \<Rightarrow> ''Amount ('' @ ai_label (am_asset p) @ '')'')],
         el ''div''
           [El ''input''
              ([(''id'', inputId), (''type'', ''text''), (''inputMode'', ''decimal''),
                (''placeholder'', am_placeholder p), (''value'', am_value p)] @
               flag ''disabled'' (am_disabled p) @ flag ''required'' (am_required p))
              [(''onChange'', am_change p)] [],
            el ''div'' [para ''span'' (ai_label (am_asset p))]]] @
        shown (am_preview p \<noteq> None)
          [para ''span''
             (case am_previewLabel p of
                Some l \<Rightarrow> if l \<noteq> [] then l else loc (parseAmount (am_value p)) @ '' '' @ ai_label (am_asset p)
              | None \<Rightarrow> loc (parseAmount (am_value p)) @ '' '' @ ai_label (am_asset p))])"

text \<open>
  \<open>DatePicker\<close>: whether it is open, what choosing a day does, and which days are greyed out. The
  functions \<open>format\<close> and \<open>parse\<close> of the library \<open>date-fns\<close> are parameters; a date is a time value.
\<close>

record date_fns =
  df_format :: "int \<Rightarrow> string \<Rightarrow> string"
  df_parse :: "string \<Rightarrow> string \<Rightarrow> int"

definition picker_select ::
  "date_fns \<Rightarrow> (string \<Rightarrow> 's \<Rightarrow> 's) \<Rightarrow> int option \<Rightarrow> bool \<times> 's \<Rightarrow> bool \<times> 's" where
  "picker_select F onChange date = (\<lambda>(open, s).
     case date of Some d \<Rightarrow> (False, onChange (df_format F d ''yyyy-MM-dd'') s) | None \<Rightarrow> (open, s))"

definition picker_day_disabled :: "time_zone \<Rightarrow> int option \<Rightarrow> int \<Rightarrow> bool" where
  "picker_day_disabled tz minDate date =
     (case minDate of Some m \<Rightarrow> local_midnight tz date < local_midnight tz m | None \<Rightarrow> False)"

definition DatePicker ::
  "date_fns \<Rightarrow> string \<Rightarrow> 'h \<Rightarrow> bool \<Rightarrow> string option \<Rightarrow> string option \<Rightarrow> string option \<Rightarrow> 'h el" where
  "DatePicker F v toggle dis i describedBy labelledBy =
     El ''button''
       (attr ''id'' i @ attr ''aria-describedby'' describedBy @ attr ''aria-labelledby'' labelledBy @
        flag ''disabled'' dis)
       [(''onClick'', toggle)]
       [para ''span'' (if v \<noteq> [] then df_format F (df_parse F v ''yyyy-MM-dd'') ''PPP'' else ''Select due date'')]"

subsection \<open>The form\<close>

record invoice_form =
  fm_buyer :: string
  fm_faceValue :: string
  fm_asset :: AssetType
  fm_dueDate :: string
  fm_discountBps :: jsnum
  fm_immediateList :: bool
  fm_error :: "string option"
  fm_step :: nat
  fm_isListing :: bool

definition form_init :: invoice_form where
  "form_init = \<lparr>fm_buyer = [], fm_faceValue = [], fm_asset = USDC, fm_dueDate = [], fm_discountBps = Fin 200,
                fm_immediateList = True, fm_error = None, fm_step = 1, fm_isListing = False\<rparr>"

definition parsedValue :: "invoice_form \<Rightarrow> jsnum" where
  "parsedValue f = parseAmount (fm_faceValue f)"

definition form_discountPaid :: "invoice_form \<Rightarrow> jsnum" where
  "form_discountPaid f = num_mul (parsedValue f) (num_over (fm_discountBps f) 10000)"

definition form_payoutAmount :: "invoice_form \<Rightarrow> jsnum" where
  "form_payoutAmount f = num_sub (parsedValue f) (form_discountPaid f)"

text \<open>The checks on the due date, in their order; the first one that fails gives the message.\<close>

definition due_error :: "time_zone \<Rightarrow> int \<Rightarrow> string \<Rightarrow> string option" where
  "due_error tz now dueDate =
     (if dueDate = [] then Some ''Please select a due date''
      else let selected = time_value (date_only dueDate);
               today = local_midnight tz now
           in if num_le selected (num_int today) then Some ''Due date must be in the future''
              else if num_less selected (num_int (add_days tz 7 today))
                   then Some ''Due date must be at least 7 days from today''
              else if num_less (num_int (add_days tz 365 today)) selected
                   then Some ''Due date must be within 365 days from today''
              else None)"

definition handleNextStep ::
  "exn + (string \<Rightarrow> bool) \<Rightarrow> time_zone \<Rightarrow> int \<Rightarrow> (exn, invoice_form, unit) io" where
  "handleNextStep strKey tz now = (\<lambda>f0.
     let f = f0\<lparr>fm_error := None\<rparr>; trimmedBuyer = js_trim (fm_buyer f0)
     in case strKey of
          Inl e \<Rightarrow> (Inl e, f)
        | Inr isValid \<Rightarrow>
            if trimmedBuyer = [] \<or> \<not> isValid trimmedBuyer
            then (Inr (), f\<lparr>fm_error := Some ''Buyer must be a valid Stellar public key (G... account address)''\<rparr>)
            else let f = (if trimmedBuyer \<noteq> fm_buyer f then f\<lparr>fm_buyer := trimmedBuyer\<rparr> else f)
                 in if num_le (parsedValue f) (Fin 0)
                    then (Inr (), f\<lparr>fm_error := Some ''Face value must be a positive number''\<rparr>)
                    else case due_error tz now (fm_dueDate f) of
                           Some m \<Rightarrow> (Inr (), f\<lparr>fm_error := Some m\<rparr>)
                         | None \<Rightarrow> (Inr (), f\<lparr>fm_step := 2\<rparr>))"

subsection \<open>Creating and listing\<close>

record creation =
  createdInvoiceId :: "string option"
  listingFailed :: bool

type_synonym ('s, 'r) create_io = "(exn, creation \<times> invoice_form \<times> 's, 'r) io"

definition inApp :: "(exn, 's, 'r) io \<Rightarrow> ('s, 'r) create_io" where
  "inApp m = (\<lambda>(c, f, s). case m s of (r, s') \<Rightarrow> (r, (c, f, s')))"

definition setForm :: "(invoice_form \<Rightarrow> invoice_form) \<Rightarrow> ('s, unit) create_io" where
  "setForm g = (\<lambda>(c, f, s). (Inr (), (c, g f, s)))"

definition setCreation :: "(creation \<Rightarrow> creation) \<Rightarrow> ('s, unit) create_io" where
  "setCreation g = (\<lambda>(c, f, s). (Inr (), (g c, f, s)))"

definition cancelCreatedInvoice :: "'h api_env \<Rightarrow> string \<Rightarrow> ('h, 'z, unit) api_io" where
  "cancelCreatedInvoice api invoiceId =
     bindIO (updateInvoiceStatus api invoiceId ''Cancelled'') (\<lambda>_. returnIO ())"

text \<open>A field of the answer that the types say is a string, \<open>null\<close> when it is not there.\<close>

definition text_or_null :: "jsval \<Rightarrow> string \<Rightarrow> exn + string option" where
  "text_or_null v k = bindE (js_prop v k) (\<lambda>x. Inr (if truthy x then Some (js_String x) else None))"

text \<open>The preview of the listing; whatever it throws is wrapped.\<close>

definition simulateListing ::
  "('w, 'a, 't, 'v) dapp_env \<Rightarrow> string \<Rightarrow> jsnum \<Rightarrow> string \<Rightarrow> ('w, 'a, 't, 'v, unit) sdk_io" where
  "simulateListing D invoiceId discountBps address =
     catchIO
       (bindIO (getInvoiceClient D) (\<lambda>invoiceClient.
        withArgs [idArg (d_sdk D) invoiceId, nativeToScVal (d_sdk D) (JNum discountBps) (Some ''u32'')] (\<lambda>args.
        bindIO (simulateTransaction (d_sdk D) invoiceClient ''list_for_financing'' args address)
          (\<lambda>_. returnIO ()))))
       (\<lambda>simulationError. throwIO (new_Error (''Simulation failed: '' @ getErrorMessage simulationError UNEXPECTED)))"

definition listCreated where
  "listCreated listInvoice D address f invoiceId =
     bindIO (setCreation (\<lambda>c. c\<lparr>listingFailed := True\<rparr>)) (\<lambda>_.
     bindIO (setForm (\<lambda>f. f\<lparr>fm_isListing := True\<rparr>)) (\<lambda>_.
     bindIO (if present address then returnIO ()
             else throwIO (new_Error ''Connect your wallet before listing the invoice'')) (\<lambda>_.
     bindIO (inApp (viaSdk (simulateListing D invoiceId (fm_discountBps f) (the address)))) (\<lambda>_.
     bindIO (inApp (listInvoice invoiceId (fm_discountBps f))) (\<lambda>_.
     setCreation (\<lambda>c. c\<lparr>listingFailed := False\<rparr>))))))"

definition createAndList where
  "createAndList create listInvoice D address f =
     bindIO (liftE (bigint_of_num (num_floor (num_scale (parsedValue f) 10000000)))) (\<lambda>stroops.
     let dueDateTimestamp = num_floor (num_over (time_value (date_only (fm_dueDate f))) 1000) in
     bindIO (inApp (create (fm_buyer f) (show_int stroops) dueDateTimestamp (Some (fm_asset f)))) (\<lambda>response.
     bindIO (liftE (text_or_null response ''invoice_id'')) (\<lambda>i.
     bindIO (setCreation (\<lambda>c. c\<lparr>createdInvoiceId := i\<rparr>)) (\<lambda>_.
     case i of
       None \<Rightarrow> throwIO (new_Error ''Invoice creation did not return a valid invoice ID'')
     | Some invoiceId \<Rightarrow>
         bindIO (liftE (text_or_null response ''transaction_hash'')) (\<lambda>h.
         case h of
           None \<Rightarrow> throwIO (new_Error ''Invoice creation did not return a transaction hash'')
         | Some txHash \<Rightarrow>
             bindIO (if fm_immediateList f then listCreated listInvoice D address f invoiceId else returnIO ()) (\<lambda>_.
             setForm (\<lambda>f. f\<lparr>fm_buyer := [], fm_faceValue := [], fm_dueDate := [], fm_step := 1\<rparr>)))))))"

definition creationFailed :: "'h api_env \<Rightarrow> exn \<Rightarrow> (('h, 'z) api_state_scheme, unit) create_io" where
  "creationFailed api err = (\<lambda>(c, f, s).
     let originalMessage = getErrorMessage err UNEXPECTED
     in case createdInvoiceId c of
          Some i \<Rightarrow>
            if listingFailed c then
              catchIO
                (bindIO (inApp (cancelCreatedInvoice api i)) (\<lambda>_.
                 setForm (\<lambda>f. f\<lparr>fm_error := Some (originalMessage @
                   ''. The created invoice was cancelled and will not remain pending listing.'')\<rparr>)))
                (\<lambda>cleanupError.
                 bindIO (setForm (\<lambda>f. f\<lparr>fm_error := Some (originalMessage @
                   ''. We could not automatically cancel the created invoice; please refresh and contact support if it remains visible.'')\<rparr>)) (\<lambda>_.
                 inApp (consoleErr ''Failed to cancel invoice after listing failure'' cleanupError)))
                (c, f, s)
            else (Inr (), (c, f\<lparr>fm_error := Some originalMessage\<rparr>, s))
        | None \<Rightarrow> (Inr (), (c, f\<lparr>fm_error := Some originalMessage\<rparr>, s)))"

text \<open>\<open>handleCreate\<close>; \<open>f\<close> is the form of the render in which the button was pressed.\<close>

definition handleCreate where
  "handleCreate create listInvoice D api address f =
     bindIO (setForm (\<lambda>f. f\<lparr>fm_error := None\<rparr>)) (\<lambda>_.
     bindIO (setCreation (\<lambda>_. \<lparr>createdInvoiceId = None, listingFailed = False\<rparr>)) (\<lambda>_.
     bindIO (catchIO (createAndList create listInvoice D address f) (creationFailed api)) (\<lambda>_.
     setForm (\<lambda>f. f\<lparr>fm_isListing := False\<rparr>))))"

subsection \<open>What the form shows\<close>

text \<open>
  The controls of the form, and what an edit does. \<open>parseInt\<close> reads the slider; the select
  offers the two assets.
\<close>

datatype form_control =
    BuyerInput | FaceValueInput | AssetSelect | DueDatePicker | DiscountSlider | ImmediateBox
  | ReviewSubmit | BackButton | CreateButton

fun form_edit :: "form_control \<Rightarrow> string \<Rightarrow> invoice_form \<Rightarrow> invoice_form" where
  "form_edit BuyerInput v f = f\<lparr>fm_buyer := v\<rparr>"
| "form_edit FaceValueInput v f = f\<lparr>fm_faceValue := v\<rparr>"
| "form_edit AssetSelect v f = f\<lparr>fm_asset := if v = ''XLM'' then XLM else USDC\<rparr>"
| "form_edit DueDatePicker v f = f\<lparr>fm_dueDate := v\<rparr>"
| "form_edit DiscountSlider v f = f\<lparr>fm_discountBps := js_parseInt v\<rparr>"
| "form_edit ImmediateBox v f = f\<lparr>fm_immediateList := (v = ''true'')\<rparr>"
| "form_edit BackButton v f = f\<lparr>fm_error := None, fm_step := 1\<rparr>"
| "form_edit h v f = f"

definition rate_text :: "jsnum \<Rightarrow> string" where
  "rate_text bps = num_toFixed 2 (num_over bps 100)"

definition alert_box :: "string option \<Rightarrow> 'h el list" where
  "alert_box msg = (case msg of
     Some m \<Rightarrow> shown (m \<noteq> []) [El ''div'' [(''role'', ''alert'')] [] [para ''span'' m]] | None \<Rightarrow> [])"

definition form_terms :: "date_fns \<Rightarrow> (jsnum \<Rightarrow> string) \<Rightarrow> string \<Rightarrow> string \<Rightarrow> string \<Rightarrow> invoice_form \<Rightarrow> form_control el list" where
  "form_terms F loc usdcIssuer fieldId amountId f =
     [el ''div''
        [El ''label'' [(''htmlFor'', fieldId @ ''-buyer'')] [] [Txt ''Buyer Wallet Address''],
         El ''input''
           ([(''id'', fieldId @ ''-buyer''), (''type'', ''text''),
             (''placeholder'', ''e.g. GBBD47IF6L... (Stellar Public Key)''), (''value'', fm_buyer f)] @ flag ''required'' True)
           [(''onChange'', BuyerInput)] []],
      el ''div''
        [el ''div''
           [AmountInput loc amountId
              \<lparr>am_value = fm_faceValue f, am_change = FaceValueInput, am_asset = ASSET_INFO usdcIssuer (fm_asset f),
               am_label = Some ''Face Value'', am_placeholder = ''50,000.00'', am_disabled = False,
               am_required = True, am_preview = None, am_previewLabel = None\<rparr>],
         el ''div''
           [El ''label'' [(''htmlFor'', fieldId @ ''-asset'')] [] [Txt ''Asset''],
            El ''select'' [(''id'', fieldId @ ''-asset''), (''value'', asset_string (fm_asset f))]
              [(''onChange'', AssetSelect)]
              (map (\<lambda>(v, l). El ''option'' [(''value'', asset_string v)] [] [Txt l]) ASSET_OPTIONS)],
         el ''div''
           [El ''label'' [(''htmlFor'', fieldId @ ''-due-date'')] [] [Txt ''Due Date''],
            DatePicker F (fm_dueDate f) DueDatePicker False (Some (fieldId @ ''-due-date''))
              (Some (fieldId @ ''-due-date-help'')) None,
            El ''span'' [(''id'', fieldId @ ''-due-date-help'')] [] [Txt ''Select invoice maturity date'']]]]"

definition form_rate :: "invoice_form \<Rightarrow> form_control el list" where
  "form_rate f =
     [el ''div''
        [el ''div''
           [para ''span'' ''Financing Discount Rate'',
            para ''span'' (rate_text (fm_discountBps f) @ ''% ('' @ num_toString (fm_discountBps f) @ '' bps)'')],
         El ''input''
           [(''type'', ''range''), (''min'', ''50''), (''max'', ''500''), (''step'', ''10''),
            (''value'', num_toString (fm_discountBps f)), (''aria-label'', ''Financing Discount Rate'')]
           [(''onChange'', DiscountSlider)] [],
         el ''div'' [para ''span'' ''0.5% (50 bps)'', para ''span'' ''5.0% (500 bps)'']],
      el ''div''
        [El ''input'' ([(''type'', ''checkbox''), (''id'', ''immediateList'')] @ flag ''checked'' (fm_immediateList f))
           [(''onChange'', ImmediateBox)] [],
         El ''label'' [(''htmlFor'', ''immediateList'')] [] [Txt ''List for immediate LP financing at creation'']]]"

definition form_step1 :: "date_fns \<Rightarrow> (jsnum \<Rightarrow> string) \<Rightarrow> string \<Rightarrow> string \<Rightarrow> string \<Rightarrow> invoice_form \<Rightarrow> form_control el" where
  "form_step1 F loc usdcIssuer fieldId amountId f =
     El ''form'' [] [(''onSubmit'', ReviewSubmit)]
       (form_terms F loc usdcIssuer fieldId amountId f @ form_rate f @ alert_box (fm_error f) @
        [El ''button'' [(''type'', ''submit'')] [] [Txt ''REVIEW FINANCING TERMS'']])"

text \<open>\<open>isBusy\<close> disables both buttons; \<open>isCreating\<close> is what the query library reports.\<close>

definition form_step2 :: "(jsnum \<Rightarrow> string) \<Rightarrow> bool \<Rightarrow> invoice_form \<Rightarrow> form_control el" where
  "form_step2 loc isCreating f =
     (let isBusy = isCreating \<or> fm_isListing f; unit = '' '' @ asset_string (fm_asset f) in
      el ''div''
        ([el ''div''
            ([el ''div'' [para ''span'' ''Invoice Face Value:'', para ''span'' (loc (parsedValue f) @ unit)]] @
             shown (fm_immediateList f)
               [el ''div'' [para ''span'' (''Discount ('' @ rate_text (fm_discountBps f) @ ''%):''),
                            para ''span'' (''-'' @ loc (form_discountPaid f) @ unit)],
                el ''div'' [para ''span'' ''Net Payout Today:'', para ''span'' (loc (form_payoutAmount f) @ unit)]] @
             [el ''div'' [para ''span'' ''Buyer:'', para ''span'' (fm_buyer f)],
              el ''div'' [para ''span'' ''Due Date:'', para ''span'' (fm_dueDate f)]])] @
         alert_box (fm_error f) @
         [el ''div''
            [button BackButton isBusy ''BACK'',
             button CreateButton isBusy
               (if fm_isListing f then ''LISTING...'' else if isCreating then ''CREATING...'' else ''CREATE INVOICE'')]]))"

definition InvoiceForm where
  "InvoiceForm F loc usdcIssuer fieldId amountId isCreating f =
     el ''div''
       [el ''div'' [para ''h2'' ''Create trade Invoice''],
        el ''div'' [el ''div'' [para ''div'' ''1'', para ''span'' ''Terms''],
                    el ''div'' [para ''div'' ''2'', para ''span'' ''Sign'']],
        if fm_step f = 1 then form_step1 F loc usdcIssuer fieldId amountId f else form_step2 loc isCreating f]"

subsection \<open>Validation\<close>

lemma num_le_int: "num_le (num_int a) (num_int b) \<longleftrightarrow> a \<le> b" "num_less (num_int a) (num_int b) \<longleftrightarrow> a < b"
  by (auto simp: num_le_def num_eq_def)

lemma due_error_window:
  assumes "date_only d = Some t" and "local_midnight tz now < add_days tz 7 (local_midnight tz now)"
  shows "due_error tz now d = None \<longleftrightarrow>
    add_days tz 7 (local_midnight tz now) \<le> t \<and> t \<le> add_days tz 365 (local_midnight tz now)"
proof -
  have "d \<noteq> []" using assms(1) by (auto simp: date_only_def)
  then show ?thesis using assms by (auto simp: due_error_def Let_def time_value_def num_le_int)
qed

lemma due_error_text: "due_error tz now d = Some m \<Longrightarrow> m \<noteq> []"
  by (auto simp: due_error_def Let_def split: if_splits)



text \<open>
  The window of due dates depends on where the user is. Picking the day \<open>n\<close> days after today in
  the picker, with a clock \<open>off\<close> ahead of universal time, is accepted for \<open>n\<close> from 7 to 365 only on
  the meridian: west of it the seventh day is refused, east of it the last one, because the picked
  day is read as midnight in universal time and compared with the local midnight.
\<close>

theorem due_date_window:
  assumes "- DAY_MS < off" "off < DAY_MS" and "today = (now + off) div DAY_MS"
    and "0 \<le> year_from_day (today + n)" "year_from_day (today + n) \<le> 9999"
    and "\<And>d. df_format F d ''yyyy-MM-dd'' = iso_date (to_local (fixed_zone off) d div DAY_MS)"
  shows "due_error (fixed_zone off) now
           (snd (picker_select F (\<lambda>v _. v) (Some (DAY_MS * (today + n) - off)) (True, []))) = None \<longleftrightarrow>
         (if off < 0 then 8 else 7) \<le> n \<and> n \<le> (if off > 0 then 364 else 365)"
proof -
  have day: "to_local (fixed_zone off) (DAY_MS * (today + n) - off) div DAY_MS = today + n"
    by (simp add: fixed_zone_def DAY_MS_def)
  have picked: "snd (picker_select F (\<lambda>v _. v) (Some (DAY_MS * (today + n) - off)) (True, [])) = iso_date (today + n)"
    using assms(6) [of "DAY_MS * (today + n) - off"] day by (simp add: picker_select_def)
  have "0 < DAY_MS" by (simp add: DAY_MS_def)
  then have "due_error (fixed_zone off) now (iso_date (today + n)) = None \<longleftrightarrow>
      today * DAY_MS - off + 7 * DAY_MS \<le> DAY_MS * (today + n) \<and>
      DAY_MS * (today + n) \<le> today * DAY_MS - off + 365 * DAY_MS"
    using due_error_window [OF date_only_iso_date [OF assms(4,5)], of "fixed_zone off" now] assms(3) by simp
  also have "\<dots> \<longleftrightarrow> (if off < 0 then 8 else 7) \<le> n \<and> n \<le> (if off > 0 then 364 else 365)"
    using assms(1,2) unfolding DAY_MS_def by (auto simp: algebra_simps)
  finally show ?thesis unfolding picked .
qed

text \<open>New York in winter: the seventh day from today is refused, the eighth is not.\<close>

definition demo_date_fns :: "int \<Rightarrow> date_fns" where
  "demo_date_fns off =
     \<lparr>df_format = (\<lambda>d p. iso_date (to_local (fixed_zone off) d div DAY_MS)), df_parse = (\<lambda>s p. 0)\<rparr>"

theorem due_date_window_witness:
  "due_error (fixed_zone (- 18000000)) 18000000
     (snd (picker_select (demo_date_fns (- 18000000)) (\<lambda>v _. v) (Some (DAY_MS * (0 + 7) - - 18000000)) (True, []))) \<noteq> None \<and>
   due_error (fixed_zone (- 18000000)) 18000000
     (snd (picker_select (demo_date_fns (- 18000000)) (\<lambda>v _. v) (Some (DAY_MS * (0 + 8) - - 18000000)) (True, []))) = None"
proof -
  have y: "year_from_day (0 + 7) = 1970" "year_from_day (0 + 8) = 1970" by code_simp+
  show ?thesis
    using due_date_window [of "- 18000000" 0 18000000 7 "demo_date_fns (- 18000000)"]
      due_date_window [of "- 18000000" 0 18000000 8 "demo_date_fns (- 18000000)"]
    unfolding y by (simp add: demo_date_fns_def DAY_MS_def)
qed

subsection \<open>Creating an invoice\<close>

text \<open>
  What creating and listing may do before the error path: the session stays, no request is a
  \<open>PATCH\<close>, and the message of the form is not touched.
\<close>

definition is_cancel :: "'h api_env \<Rightarrow> string \<Rightarrow> api_request \<Rightarrow> bool" where
  "is_cancel api i rq \<longleftrightarrow>
     rq_url rq = getApiUrl api @ ''/invoices/'' @ encodeURIComponent i @ ''/status'' \<and>
     rq_method rq = Some ''PATCH'' \<and> Inr (the (rq_body rq)) = JSON_stringify (JObj [(''status'', JStr ''Cancelled'')])"

abbreviation no_patch :: "api_request list \<Rightarrow> bool" where
  "no_patch rs \<equiv> list_all (\<lambda>rq. rq_method rq \<noteq> Some ''PATCH'') rs"

definition app_frame :: "('h, 'z) api_state_scheme \<Rightarrow> ('h, 'z) api_state_scheme \<Rightarrow> bool" where
  "app_frame s t \<longleftrightarrow> wallet t = wallet s \<and> (\<exists>rs. requests t = requests s @ rs \<and> no_patch rs)"

definition create_frame ::
  "creation \<times> invoice_form \<times> ('h, 'z) api_state_scheme \<Rightarrow> creation \<times> invoice_form \<times> ('h, 'z) api_state_scheme \<Rightarrow> bool" where
  "create_frame = (\<lambda>(c, f, s) (d, g, t). fm_error g = fm_error f \<and> app_frame s t)"

lemma app_frame_refl [simp]: "app_frame s s"
  by (simp add: app_frame_def)

lemma app_frame_trans: "app_frame s t \<Longrightarrow> app_frame t u \<Longrightarrow> app_frame s u"
  by (fastforce simp: app_frame_def)

lemma create_frame_refl [simp]: "reflp create_frame"
  by (auto simp: reflp_def create_frame_def)

lemma create_frame_trans [simp]: "transp create_frame"
  by (auto simp: transp_def create_frame_def intro: app_frame_trans)

lemma preserves_inApp: "(\<And>s. app_frame s (snd (m s))) \<Longrightarrow> preserves create_frame (inApp m)"
  by (rule preservesI) (auto simp: inApp_def create_frame_def split: prod.split, metis snd_conv)

lemma preserves_setCreation: "preserves create_frame (setCreation g)"
  by (rule preservesI) (auto simp: setCreation_def create_frame_def split: prod.split)

lemma preserves_setForm: "(\<And>f. fm_error (g f) = fm_error f) \<Longrightarrow> preserves create_frame (setForm g)"
  by (rule preservesI) (auto simp: setForm_def create_frame_def split: prod.split)

lemma apiFetch_frame:
  "ri_method options \<noteq> Some ''PATCH'' \<Longrightarrow> app_frame s (snd (apiFetch E path options s))"
  by (auto simp: apiFetch_run app_frame_def Let_def split: sum.split)

lemma createInvoice_frame: "app_frame s (snd (createInvoice api b fv d asset s))"
  unfolding createInvoice_def apiSend_def with_body_def
  by (cases "JSON_stringify (JObj [(''buyer'', JStr b), (''face_value'', JStr fv), (''due_date'', JNum d), (''asset'', JStr (asset_string asset))])")
    (auto simp: throwIO_apply intro!: apiFetch_frame)

lemma viaSdk_frame: "app_frame s (snd (viaSdk m s))"
  by (simp add: viaSdk_def app_frame_def split: prod.split)

text \<open>A mutation of \<open>useInvoices\<close> keeps the frame its function keeps, and settles like it.\<close>

lemma mutation_frame:
  assumes "mutation_law run" and "\<And>s. app_frame s (snd (f s))"
  shows "app_frame s (snd (run f (\<lambda>_. invoice_onSuccess address good) (invoice_onError bad) s))"
proof (cases "f s")
  case (Pair r s1)
  have fr: "app_frame s s1" using assms(2) [of s] Pair by simp
  show ?thesis
  proof (cases r)
    case (Inl e)
    then have "run f (\<lambda>_. invoice_onSuccess address good) (invoice_onError bad) s = (Inl e, snd (invoice_onError bad e s1))"
      using assms(1) Pair unfolding mutation_law_def invoice_onError_run by auto
    then show ?thesis using fr by (simp add: invoice_onError_run app_frame_def)
  next
    case (Inr x)
    then have "run f (\<lambda>_. invoice_onSuccess address good) (invoice_onError bad) s = (Inr x, snd (invoice_onSuccess address good s1))"
      using assms(1) Pair unfolding mutation_law_def invoice_onSuccess_run by auto
    then show ?thesis using fr by (simp add: invoice_onSuccess_run app_frame_def)
  qed
qed

lemma mutate_frames:
  "mutation_law run \<Longrightarrow> app_frame s (snd (mutate_createInvoice run api address b fv d asset s))"
  "mutation_law run' \<Longrightarrow> app_frame s (snd (mutate_listInvoice run' D address i bps s))"
  unfolding mutate_createInvoice_def mutate_listInvoice_def
  by (rule mutation_frame; simp add: createInvoice_frame viaSdk_frame)+

lemma preserves_if: "preserves R m \<Longrightarrow> preserves R n \<Longrightarrow> preserves R (if b then m else n)"
  by simp

lemmas create_rules = preserves_bind [OF create_frame_trans] preserves_inApp preserves_setCreation preserves_setForm
  preserves_return [OF create_frame_refl] preserves_throw [OF create_frame_refl] preserves_liftE [OF create_frame_refl]

lemma createAndList_frame:
  assumes "\<And>b fv d asset s. app_frame s (snd (create b fv d asset s))" and "\<And>i bps s. app_frame s (snd (list i bps s))"
  shows "preserves create_frame (createAndList create list D address f)"
proof -
  have "preserves create_frame (listCreated list D address f i)" for i
    unfolding listCreated_def
    by (intro create_rules preserves_if) (simp_all add: assms viaSdk_frame)
  then show ?thesis
    unfolding createAndList_def Let_def
    by (auto intro!: create_rules assms(1) split: option.split)
qed

text \<open>How the two local variables relate to the result.\<close>

lemma listCreated_ends:
  "listCreated list D address f i (c, g, s) = (r, (c', g', s')) \<Longrightarrow>
     createdInvoiceId c' = createdInvoiceId c \<and> (listingFailed c' \<longleftrightarrow> isl r)"
  unfolding listCreated_def
  by (auto simp: io_defs setCreation_def setForm_def inApp_def split: prod.splits sum.splits if_splits)

abbreviation no_hash :: exn where
  "no_hash \<equiv> new_Error ''Invoice creation did not return a transaction hash''"

lemma no_hash_message: "getErrorMessage no_hash UNEXPECTED = ''Invoice creation did not return a transaction hash''"
  by code_simp

lemma text_or_null_again: "text_or_null v k = Inr x \<Longrightarrow> \<exists>y. text_or_null v k' = Inr y"
  by (cases v) (auto simp: text_or_null_def js_prop_def bindE_def split: sum.splits)

lemma createAndList_ends:
  assumes "createAndList create list D address f (\<lparr>createdInvoiceId = None, listingFailed = False\<rparr>, g, s) = (r, (c', g', s'))"
  shows "(listingFailed c' \<longrightarrow> createdInvoiceId c' \<noteq> None) \<and>
    (\<not> isl r \<longrightarrow> \<not> listingFailed c' \<and> fm_buyer g' = [] \<and> fm_faceValue g' = [] \<and> fm_dueDate g' = [] \<and> fm_step g' = 1) \<and>
    (isl r \<and> fm_immediateList f \<and> createdInvoiceId c' \<noteq> None \<longrightarrow> listingFailed c' \<or> r = Inl no_hash)"
  using assms unfolding createAndList_def Let_def
  by (auto simp: bindIO_def liftE_def throwIO_def returnIO_def setCreation_def setForm_def inApp_def
      dest!: listCreated_ends dest: text_or_null_again [where k' = "''transaction_hash''"]
      split: prod.splits sum.splits if_splits option.splits)

lemma cancel_run:
  assumes "session_token (wallet s)"
  shows "\<exists>rq. is_cancel api i rq \<and> requests (snd (cancelCreatedInvoice api i s)) = requests s @ [rq]"
proof -
  let ?body = "JSON_stringify (JObj [(''status'', JStr ''Cancelled'')])"
  obtain b where b: "?body = Inr b" by (simp add: JSON_stringify_def)
  let ?o = "\<lparr>ri_method = Some ''PATCH'', ri_headers = [], ri_body = Some b\<rparr>"
  obtain hs where hs: "request_headers (w_token (wallet s)) ?o = Inr hs"
    using request_headers_session [OF assms, of ?o] by auto
  have "with_body ''PATCH'' [(''status'', JStr ''Cancelled'')] = Inr ?o" by (simp add: with_body_def b)
  then have "updateInvoiceStatus api i ''Cancelled'' s =
      apiFetch api (''/invoices/'' @ encodeURIComponent i @ ''/status'') ?o s"
    unfolding updateInvoiceStatus_def apiSend_def by simp
  then have "snd (cancelCreatedInvoice api i s) =
      snd (apiFetch api (''/invoices/'' @ encodeURIComponent i @ ''/status'') ?o s)"
    unfolding cancelCreatedInvoice_def bindIO_def returnIO_def by (simp split: prod.split sum.split)
  then show ?thesis
    by (auto simp: apiFetch_run hs Let_def is_cancel_def b split: sum.split)
qed

lemma creationFailed_run:
  assumes "session_token (wallet s)"
  shows "\<exists>f' s' m. creationFailed api e (c, f, s) = (Inr (), (c, f', s')) \<and>
     fm_error f' = Some m \<and> (listingFailed c \<or> m = getErrorMessage e UNEXPECTED) \<and>
     (case createdInvoiceId c of
        Some i \<Rightarrow> if listingFailed c then \<exists>rq. is_cancel api i rq \<and> requests s' = requests s @ [rq]
                  else requests s' = requests s
      | None \<Rightarrow> requests s' = requests s)"
proof (cases "createdInvoiceId c")
  case None
  then show ?thesis by (simp add: creationFailed_def Let_def)
next
  case (Some i)
  show ?thesis
  proof (cases "listingFailed c")
    case False
    then show ?thesis using Some by (simp add: creationFailed_def Let_def)
  next
    case True
    obtain r t where run: "cancelCreatedInvoice api i s = (r, t)" by fastforce
    moreover obtain rq where "is_cancel api i rq" "requests t = requests s @ [rq]"
      using cancel_run [OF assms, of api i] run by auto
    ultimately show ?thesis
      using Some True by (cases r) (auto simp: creationFailed_def Let_def io_defs inApp_def setForm_def consoleErr_def)
  qed
qed


text \<open>A server that creates every invoice, and a user without a wallet: the listing cannot start.\<close>

definition creating_api :: "unit api_env" where
  "creating_api =
     \<lparr>fetch = (\<lambda>rq w. (Inr \<lparr>rs_status = 201,
         rs_text = Inr (''{'' @ [CHR 0x22] @ ''invoice_id'' @ [CHR 0x22] @ '':'' @ [CHR 0x22] @ ''ab'' @ [CHR 0x22] @ '','' @
           [CHR 0x22] @ ''transaction_hash'' @ [CHR 0x22] @ '':'' @ [CHR 0x22] @ ''cd'' @ [CHR 0x22] @ ''}'')\<rparr>, w)),
      apiBaseUrl = None\<rparr>"

definition demo_create where
  "demo_create =
     handleCreate (mutate_createInvoice ref_mutate creating_api None) (mutate_listInvoice ref_mutate demo_dapp None)
       demo_dapp creating_api None form_init (\<lparr>createdInvoiceId = None, listingFailed = False\<rparr>, form_init, demo_dapp_state)"

lemma demo_create_fails: "listingFailed (fst (snd demo_create))"
  by code_simp


subsection \<open>Labels\<close>

text \<open>The suffixes of the form's own identifiers keep them apart, and apart from the amount's.\<close>

lemma alert_box_ids [simp]: "concat (map ids (alert_box m)) = []" "concat (map idrefs (alert_box m)) = []"
  by (cases m; simp add: alert_box_def)+

lemma form_step2_ids [simp]: "ids (form_step2 loc busy f) = []" "idrefs (form_step2 loc busy f) = []"
  by (simp_all add: form_step2_def Let_def)

text \<open>
  Every label and description of the invoice form points to a control that is on the page, and no
  two controls share an identifier, whatever the form holds, provided that the two identifiers that
  React hands out are different from each other's suffixes and from \<open>immediateList\<close>.
\<close>

theorem InvoiceForm_labelled:
  assumes "amountId \<notin> {fieldId @ ''-buyer'', fieldId @ ''-asset'', fieldId @ ''-due-date'', fieldId @ ''-due-date-help''}"
    and "''immediateList'' \<notin> {amountId, fieldId @ ''-buyer'', fieldId @ ''-asset'', fieldId @ ''-due-date'', fieldId @ ''-due-date-help''}"
  shows "well_labelled (InvoiceForm F loc issuerKey fieldId amountId busy f)"
  using assms
  by (simp add: well_labelled_def InvoiceForm_def form_step1_def form_terms_def form_rate_def AmountInput_def
      DatePicker_def ASSET_OPTIONS_def) (auto simp: eq_commute)

end
