(* ===== verification/Dialogs.thy ===== *)
theory Dialogs
  imports Actions Machines Views
begin

text \<open>
  Modal dialogs: the focus trap (\<open>hooks/useFocusTrap.ts\<close>), the confirmation in front of every action
  (\<open>components/shared/ConfirmationDialog.tsx\<close>), the dialog of a running transaction
  (\<open>components/shared/TransactionPending.tsx\<close>) and the registration form
  (\<open>components/profile/RegistrationModal.tsx\<close>).

  The document is abstract: a container is the list of its elements in document order, focus is the
  active element, and what the browser does on Tab by itself is a parameter that is only assumed to
  stay inside between the first and the last element.
\<close>

subsection \<open>Focus trap\<close>

record dom_el =
  d_tag :: string
  d_href :: bool
  d_disabled :: bool
  d_tabindex :: "string option"
  d_display :: string
  d_visibility :: string
  d_name :: string \<comment> \<open>what tells two elements apart\<close>

definition matches_selectors :: "dom_el \<Rightarrow> bool" where
  "matches_selectors e \<longleftrightarrow>
     d_tag e = ''a'' \<and> d_href e \<or>
     d_tag e \<in> {''button'', ''textarea'', ''input'', ''select''} \<and> \<not> d_disabled e \<or>
     d_tabindex e \<noteq> None \<and> d_tabindex e \<noteq> Some ''-1''"

definition getFocusableElements :: "dom_el list \<Rightarrow> dom_el list" where
  "getFocusableElements container =
     filter (\<lambda>e. matches_selectors e \<and> d_display e \<noteq> ''none'' \<and> d_visibility e \<noteq> ''hidden'') container"

datatype key = Escape | Tab | OtherKey string

text \<open>
  The trap holds the element to return to. Switching it on moves the focus into the container, to
  the container itself (\<open>box\<close>) when nothing in it can be focused.
\<close>

definition trap_activate :: "dom_el \<Rightarrow> dom_el list \<Rightarrow> dom_el \<Rightarrow> dom_el \<times> dom_el" where
  "trap_activate box container active =
     (active, case getFocusableElements container of [] \<Rightarrow> box | first # _ \<Rightarrow> first)"

definition trap_release :: "dom_el option \<Rightarrow> dom_el \<Rightarrow> dom_el" where
  "trap_release previousFocus active = (case previousFocus of Some p \<Rightarrow> p | None \<Rightarrow> active)"

record trap_effect =
  te_escape :: bool
  te_prevent :: bool
  te_focus :: "dom_el option"

definition trap_key :: "dom_el list option \<Rightarrow> key \<Rightarrow> bool \<Rightarrow> dom_el \<Rightarrow> trap_effect" where
  "trap_key container k shiftKey active =
     (let ignored = \<lparr>te_escape = False, te_prevent = False, te_focus = None\<rparr> in
      case k of
        Escape \<Rightarrow> ignored\<lparr>te_escape := True\<rparr>
      | OtherKey _ \<Rightarrow> ignored
      | Tab \<Rightarrow>
          (case container of
             None \<Rightarrow> ignored
           | Some els \<Rightarrow>
               let focusable = getFocusableElements els
               in if focusable = [] then ignored\<lparr>te_prevent := True\<rparr>
                  else if shiftKey \<and> active = hd focusable
                       then ignored\<lparr>te_prevent := True, te_focus := Some (List.last focusable)\<rparr>
                  else if \<not> shiftKey \<and> active = List.last focusable
                       then ignored\<lparr>te_prevent := True, te_focus := Some (hd focusable)\<rparr>
                  else ignored))"

text \<open>A key press in the browser: unless the trap prevents it, Tab does what it does by default.\<close>

definition press :: "(bool \<Rightarrow> dom_el \<Rightarrow> dom_el) \<Rightarrow> dom_el list \<Rightarrow> key \<Rightarrow> bool \<Rightarrow> dom_el \<Rightarrow> dom_el" where
  "press tab_default els k shiftKey active =
     (let e = trap_key (Some els) k shiftKey active
      in case te_focus e of
           Some x \<Rightarrow> x
         | None \<Rightarrow> if k = Tab \<and> \<not> te_prevent e then tab_default shiftKey active else active)"

text \<open>
  What is documented of sequential navigation: from an element of the container that is not the
  last one, Tab leads to another element of the container, and likewise backwards.
\<close>

definition tab_inside :: "(bool \<Rightarrow> dom_el \<Rightarrow> dom_el) \<Rightarrow> dom_el list \<Rightarrow> bool" where
  "tab_inside tab_default els \<longleftrightarrow>
     (\<forall>x \<in> set (getFocusableElements els).
        (x \<noteq> List.last (getFocusableElements els) \<longrightarrow> tab_default False x \<in> set (getFocusableElements els)) \<and>
        (x \<noteq> hd (getFocusableElements els) \<longrightarrow> tab_default True x \<in> set (getFocusableElements els)))"

lemma press_inside:
  assumes "tab_inside tab_default els" and "active \<in> set (getFocusableElements els)"
  shows "press tab_default els k shiftKey active \<in> set (getFocusableElements els)"
proof -
  have "getFocusableElements els \<noteq> []" using assms(2) by auto
  then have "hd (getFocusableElements els) \<in> set (getFocusableElements els)"
    "List.last (getFocusableElements els) \<in> set (getFocusableElements els)" by auto
  then show ?thesis
    using assms by (cases k; cases shiftKey) (auto simp: press_def trap_key_def Let_def tab_inside_def)
qed

text \<open>The focus while the trap is on, as a machine over key presses.\<close>

inductive trap_step :: "(bool \<Rightarrow> dom_el \<Rightarrow> dom_el) \<Rightarrow> dom_el list \<Rightarrow> dom_el \<Rightarrow> dom_el \<Rightarrow> bool" for tab_default els where
  "trap_step tab_default els x (press tab_default els k shiftKey x)"

locale focus_trap =
  fixes tab_default :: "bool \<Rightarrow> dom_el \<Rightarrow> dom_el" and els :: "dom_el list" and box previous :: dom_el
  assumes inside: "tab_inside tab_default els" and some: "getFocusableElements els \<noteq> []"
begin

sublocale invariant_system "\<lambda>x. x = snd (trap_activate box els previous)" "trap_step tab_default els"
  "\<lambda>x. x \<in> set (getFocusableElements els)"
proof
  fix x
  assume "x = snd (trap_activate box els previous)"
  then show "x \<in> set (getFocusableElements els)"
    using some by (simp add: trap_activate_def split: list.splits)
next
  fix x y
  assume "x \<in> set (getFocusableElements els)" "trap_step tab_default els x y"
  then show "y \<in> set (getFocusableElements els)"
    using press_inside [OF inside] by (auto elim: trap_step.cases)
qed

end

text \<open>
  Navigation in document order: the next element of the container that can be focused, or some
  element beyond of it. The elements are read off a rendered tree; the number tells them apart.
\<close>

fun next_of :: "'a \<Rightarrow> 'a list \<Rightarrow> 'a option" where
  "next_of x (a # b # xs) = (if x = a then Some b else next_of x (b # xs))"
| "next_of x _ = None"

definition document_tab :: "dom_el \<Rightarrow> dom_el list \<Rightarrow> bool \<Rightarrow> dom_el \<Rightarrow> dom_el" where
  "document_tab beyond els shiftKey x =
     (let fs = getFocusableElements els
      in case next_of x (if shiftKey then rev fs else fs) of Some y \<Rightarrow> y | None \<Rightarrow> beyond)"

lemma next_of_inside: "x \<in> set xs \<Longrightarrow> x \<noteq> List.last xs \<Longrightarrow> \<exists>y. next_of x xs = Some y \<and> y \<in> set xs"
  by (induction x xs rule: next_of.induct) auto

lemma document_tab_inside: "tab_inside (document_tab beyond els) els"
proof -
  let ?fs = "getFocusableElements els"
  have "x \<in> set ?fs \<Longrightarrow> x \<noteq> List.last ?fs \<Longrightarrow> document_tab beyond els False x \<in> set ?fs" for x
    using next_of_inside [of x ?fs] by (auto simp: document_tab_def Let_def)
  moreover have "x \<in> set ?fs \<Longrightarrow> x \<noteq> hd ?fs \<Longrightarrow> document_tab beyond els True x \<in> set ?fs" for x
    using next_of_inside [of x "rev ?fs"] by (auto simp: document_tab_def Let_def last_rev)
  ultimately show ?thesis unfolding tab_inside_def by blast
qed

fun dom_of :: "nat \<Rightarrow> 'h el \<Rightarrow> dom_el option" where
  "dom_of i (Txt s) = None"
| "dom_of i (El t as hs cs) =
     Some \<lparr>d_tag = t, d_href = (values_of ''href'' as \<noteq> []), d_disabled = disabled as,
           d_tabindex = (case values_of ''tabIndex'' as of [] \<Rightarrow> None | v # _ \<Rightarrow> Some v),
           d_display = ''block'', d_visibility = ''visible'', d_name = show_nat i\<rparr>"

definition dom_els :: "'h el \<Rightarrow> dom_el list" where
  "dom_els e = concat (map (\<lambda>(i, n). case dom_of i n of Some d \<Rightarrow> [d] | None \<Rightarrow> []) (enumerate 0 (tl (nodes e))))"

subsection \<open>Confirmation\<close>

text \<open>
  \<open>handleConfirm\<close> closes the dialog and starts the action; every other way out only closes. The
  list records the actions started.
\<close>

datatype 'f dialog_event = Request "'f PendingAction" | Cancel | Confirm

fun dialog_step :: "'f dialog_event \<Rightarrow> 'f ConfirmDialogState \<times> 'f list \<Rightarrow> 'f ConfirmDialogState \<times> 'f list" where
  "dialog_step (Request a) (st, started) = (dialog_request a st, started)"
| "dialog_step Cancel (st, started) = (dialog_cancel st, started)"
| "dialog_step Confirm (st, started) =
     (case st of None \<Rightarrow> (st, started) | Some action \<Rightarrow> (dialog_cancel st, started @ [pa_fn action]))"

datatype dialog_control = CancelControl | ConfirmControl

definition ConfirmationDialog :: "'f ConfirmDialogState \<Rightarrow> dialog_control el list" where
  "ConfirmationDialog st =
     (case st of
        None \<Rightarrow> []
      | Some a \<Rightarrow>
          [El ''div'' [(''role'', ''dialog''), (''aria-modal'', ''true''), (''aria-labelledby'', ''confirmation-dialog-title'')]
             [(''onClick'', CancelControl)]
             [el ''div''
                [el ''div''
                   [El ''h4'' [(''id'', ''confirmation-dialog-title'')] [] [Txt (''Confirm '' @ pa_label a)],
                    El ''button'' [(''aria-label'', ''Close confirmation dialog'')] [(''onClick'', CancelControl)] []],
                 el ''div''
                   [el ''div'' [para ''span'' ''Action:'', para ''span'' (pa_label a)],
                    el ''div'' [para ''span'' ''Invoice ID:'',
                                El ''span'' [(''title'', pa_invoiceId a)] [] [Txt (truncateAddress (pa_invoiceId a))]],
                    el ''div'' [para ''span'' ''Estimated Fee:'', para ''span'' ''Network fee applies'']],
                 para ''p'' ''This action is irreversible once submitted on-chain. Review carefully before confirming.'',
                 el ''div'' [button CancelControl False ''Cancel'', button ConfirmControl False ''CONFIRM'']]]])"

text \<open>What was asked for last and not settled since.\<close>

fun pending :: "'f dialog_event list \<Rightarrow> 'f PendingAction option" where
  "pending [] = None"
| "pending (Request a # es) = Some a"
| "pending (_ # es) = None"

text \<open>The actions an ideal dialog starts, most recent event first.\<close>

fun confirmed :: "'f dialog_event list \<Rightarrow> 'f list" where
  "confirmed [] = []"
| "confirmed (Confirm # es) = (case pending es of Some a \<Rightarrow> confirmed es @ [pa_fn a] | None \<Rightarrow> confirmed es)"
| "confirmed (_ # es) = confirmed es"

text \<open>
  C32. An action of an invoice page runs only when the user confirms it: whatever the user clicks, in
  any order, the actions started are exactly those whose request was directly followed by a
  confirmation, each of them once and in order; closing the dialog starts nothing.
\<close>

theorem confirmation_required:
  "foldl (\<lambda>st e. dialog_step e st) (None, []) es = (pending (rev es), confirmed (rev es))"
proof (induction es rule: rev_induct)
  case (snoc e es)
  then show ?case
    by (cases e) (auto simp: dialog_request_def dialog_cancel_def split: option.split)
qed simp

text \<open>Once the confirmation is open, Tab never leaves it.\<close>

abbreviation confirmation_els :: "'f PendingAction \<Rightarrow> dom_el list" where
  "confirmation_els a \<equiv> dom_els (hd (ConfirmationDialog (Some a)))"

lemma confirmation_focusable:
  "map d_tag (getFocusableElements (confirmation_els a)) = [''button'', ''button'', ''button'']"
  by (simp add: ConfirmationDialog_def dom_els_def enumerate_eq_zip button_def getFocusableElements_def
      matches_selectors_def flag_def upt_rec)

interpretation confirmation: focus_trap "document_tab beyond (confirmation_els a)" "confirmation_els a" box previous
  for beyond a box previous
  by unfold_locales (auto simp: document_tab_inside dest: arg_cong [of _ _ "map d_tag"] simp: confirmation_focusable)

subsection \<open>A running transaction\<close>

record pending_props =
  pp_isOpen :: bool
  pp_txHash :: "string option"
  pp_statusText :: string
  pp_onClose :: bool \<comment> \<open>whether a callback was given\<close>

record pending_state =
  tp_localStatus :: "string option"
  tp_timedOut :: bool
  tp_timer :: "int option" \<comment> \<open>when the timer fires\<close>

definition pending_init :: pending_state where
  "pending_init = \<lparr>tp_localStatus = None, tp_timedOut = False, tp_timer = None\<rparr>"

text \<open>The effect on \<open>isOpen\<close> and \<open>txHash\<close>, after the cleanup of its last run.\<close>

definition pending_effect :: "int \<Rightarrow> pending_props \<Rightarrow> pending_state \<Rightarrow> pending_state" where
  "pending_effect now p st =
     (if \<not> pp_isOpen p \<or> present (pp_txHash p) then st\<lparr>tp_timer := None\<rparr>
      else \<lparr>tp_localStatus = Some ''Waiting for confirmation...'', tp_timedOut = False, tp_timer = Some (now + 60000)\<rparr>)"

definition pending_tick :: "int \<Rightarrow> pending_state \<Rightarrow> pending_state" where
  "pending_tick now st =
     (case tp_timer st of
        Some t \<Rightarrow> if t \<le> now then \<lparr>tp_localStatus = Some ''Confirmation timed out. You can close and check status manually.'',
                                   tp_timedOut = True, tp_timer = None\<rparr> else st
      | None \<Rightarrow> st)"

definition canDismiss :: "pending_props \<Rightarrow> pending_state \<Rightarrow> bool" where
  "canDismiss p st \<longleftrightarrow> pp_onClose p \<and> (tp_timedOut st \<or> present (pp_txHash p))"

definition pending_text :: "pending_props \<Rightarrow> pending_state \<Rightarrow> string" where
  "pending_text p st =
     (if tp_timedOut st \<and> present (tp_localStatus st) then the (tp_localStatus st) else pp_statusText p)"

datatype pending_control = Backdrop | CloseDialog

text \<open>A click on the backdrop closes exactly when \<open>canDismiss\<close>; the button is there with any callback.\<close>

definition TransactionPending :: "pending_props \<Rightarrow> pending_state \<Rightarrow> pending_control el list" where
  "TransactionPending p st =
     shown (pp_isOpen p)
       [El ''div'' [(''role'', ''dialog''), (''aria-modal'', ''true''), (''aria-label'', ''Transaction Pending''), (''tabIndex'', ''-1'')]
          (if canDismiss p st then [(''onClick'', Backdrop)] else [])
          [el ''div''
             ([para ''h3'' ''TRANSACTION SIGNED'', para ''p'' (pending_text p st)] @
              shown (present (pp_txHash p))
                [el ''div''
                   [el ''div'' [para ''span'' ''TX HASH'', para ''span'' ''TESTNET''],
                    para ''div'' (the (pp_txHash p)),
                    El ''a'' [(''href'', ''https://stellar.expert/explorer/testnet/tx/'' @ the (pp_txHash p)),
                              (''target'', ''_blank''), (''rel'', ''noopener noreferrer'')] []
                      [para ''span'' ''VIEW ON STELLAR EXPERT'']]] @
              shown (pp_onClose p) [button CloseDialog False ''Close Dialog''])]]"

text \<open>
  A hash that arrives after the timeout is shown below the old text: the effect returns before it
  resets \<open>timedOut\<close>.
\<close>

lemma pending_late_hash:
  assumes "pp_isOpen p" "pp_txHash p = None" "h \<noteq> []" "now + 60000 \<le> later"
  shows "pending_text (p\<lparr>pp_txHash := Some h\<rparr>)
           (pending_effect later (p\<lparr>pp_txHash := Some h\<rparr>) (pending_tick later (pending_effect now p st))) =
         ''Confirmation timed out. You can close and check status manually.''"
  using assms by (simp add: pending_effect_def pending_tick_def pending_text_def present_def)

text \<open>Without a hash the backdrop stays dead until a minute has passed.\<close>

lemma pending_waits:
  assumes "pp_isOpen p" "pp_txHash p = None"
  shows "canDismiss p (pending_tick later (pending_effect now p st)) \<longleftrightarrow> pp_onClose p \<and> now + 60000 \<le> later"
  using assms by (simp add: canDismiss_def pending_tick_def pending_effect_def present_def)

subsection \<open>Registration\<close>

record reg_form =
  rg_issuer :: bool \<comment> \<open>\<open>regRole\<close> is issuer or buyer\<close>
  rg_companyName :: string
  rg_taxId :: string
  rg_country :: string
  rg_website :: string
  rg_email :: string
  rg_localError :: "string option"
  rg_showPending :: bool
  rg_pendingHash :: "string option"
  rg_pendingText :: string
  rg_isOpen :: bool \<comment> \<open>kept by the page\<close>

definition reg_init :: reg_form where
  "reg_init = \<lparr>rg_issuer = True, rg_companyName = [], rg_taxId = [], rg_country = [], rg_website = [], rg_email = [],
               rg_localError = None, rg_showPending = False, rg_pendingHash = None,
               rg_pendingText = ''Waiting for confirmation...'', rg_isOpen = False\<rparr>"

text \<open>The page opens the dialog, and the effect clears the message of an earlier attempt.\<close>

definition reg_open :: "reg_form \<Rightarrow> reg_form" where
  "reg_open f = f\<lparr>rg_isOpen := True, rg_localError := None\<rparr>"

definition reg_close :: "reg_form \<Rightarrow> reg_form" where
  "reg_close f = f\<lparr>rg_isOpen := False\<rparr>"

definition reg_missing :: "reg_form \<Rightarrow> string option" where
  "reg_missing f =
     (if js_trim (rg_companyName f) = [] then Some ''Company name is required''
      else if js_trim (rg_taxId f) = [] then Some ''Tax ID/Registration number is required''
      else if js_trim (rg_country f) = [] then Some ''Country of incorporation is required''
      else None)"

definition reg_metadata :: "reg_form \<Rightarrow> (string \<times> string) list" where
  "reg_metadata f =
     [(''companyName'', js_trim (rg_companyName f)), (''taxId'', js_trim (rg_taxId f)),
      (''country'', js_trim (rg_country f)), (''website'', js_trim (rg_website f)), (''email'', js_trim (rg_email f))]"

text \<open>The part of \<open>handleRegisterSubmit\<close> before the first \<open>await\<close>, when nothing is missing.\<close>

definition reg_start :: "reg_form \<Rightarrow> reg_form" where
  "reg_start f =
     (reg_close (f\<lparr>rg_pendingText := ''Registering business as verified '' @
                     (if rg_issuer f then ''SME / Issuer'' else ''Buyer'') @ ''...'', rg_pendingHash := None\<rparr>))
       \<lparr>rg_showPending := True\<rparr>"

text \<open>\<open>err.message || "..."\<close>; reading a property of a thrown null throws again.\<close>

definition reg_error :: "exn \<Rightarrow> exn + string" where
  "reg_error err =
     (case err of
        Thrown v \<Rightarrow> bindE (js_prop v ''message'') (\<lambda>m. Inr (if truthy m then js_String m else ''Registration transaction failed''))
      | _ \<Rightarrow> Inr (if exn_message err \<noteq> [] then exn_message err else ''Registration transaction failed''))"

definition reg_settle :: "exn + string \<Rightarrow> reg_form \<Rightarrow> (exn + unit) \<times> reg_form" where
  "reg_settle r f =
     (case r of
        Inr txHash \<Rightarrow> (Inr (), f\<lparr>rg_pendingHash := Some txHash\<rparr>)
      | Inl err \<Rightarrow>
          (case reg_error err of
             Inl e \<Rightarrow> (Inl e, f)
           | Inr m \<Rightarrow> (Inr (), f\<lparr>rg_localError := Some m, rg_showPending := False\<rparr>)))"

definition handleRegisterSubmit ::
  "(bool \<Rightarrow> (string \<times> string) list \<Rightarrow> (exn, 's, string) io) \<Rightarrow> (exn, reg_form \<times> 's, unit) io" where
  "handleRegisterSubmit register = (\<lambda>(f0, s).
     let f = f0\<lparr>rg_localError := None\<rparr>
     in case reg_missing f of
          Some m \<Rightarrow> (Inr (), (f\<lparr>rg_localError := Some m\<rparr>, s))
        | None \<Rightarrow>
            (case register (rg_issuer f) (reg_metadata f) s of
               (r, s') \<Rightarrow> (case reg_settle r (reg_start f) of (q, f') \<Rightarrow> (q, (f', s')))))"

datatype reg_control =
    RoleRadio bool | CompanyInput | TaxInput | CountryInput | WebsiteInput | EmailInput
  | CloseRegistration | CancelRegistration | RegistrationBackdrop | SubmitRegistration | PendingControl pending_control

fun reg_edit :: "reg_control \<Rightarrow> string \<Rightarrow> reg_form \<Rightarrow> reg_form" where
  "reg_edit (RoleRadio b) v f = f\<lparr>rg_issuer := b\<rparr>"
| "reg_edit CompanyInput v f = f\<lparr>rg_companyName := v\<rparr>"
| "reg_edit TaxInput v f = f\<lparr>rg_taxId := v\<rparr>"
| "reg_edit CountryInput v f = f\<lparr>rg_country := v\<rparr>"
| "reg_edit WebsiteInput v f = f\<lparr>rg_website := v\<rparr>"
| "reg_edit EmailInput v f = f\<lparr>rg_email := v\<rparr>"
| "reg_edit c v f = f"

definition reg_field :: "string \<Rightarrow> string \<Rightarrow> string \<Rightarrow> bool \<Rightarrow> string \<Rightarrow> string \<Rightarrow> reg_control \<Rightarrow> reg_control el" where
  "reg_field i lab ty req ph v c =
     el ''div''
       [El ''label'' [(''htmlFor'', i)] [] [Txt lab],
        el ''div''
          [El ''input'' ([(''id'', i), (''type'', ty), (''placeholder'', ph), (''value'', v)] @ flag ''required'' req)
             [(''onChange'', c)] []]]"

definition reg_role :: "reg_form \<Rightarrow> reg_control el" where
  "reg_role f =
     el ''fieldset''
       [para ''legend'' ''Select On-Chain Business Role'',
        el ''div''
          (map (\<lambda>(v, b, lab).
             el ''label''
               [El ''input'' ([(''type'', ''radio''), (''name'', ''registration-role''), (''value'', v)] @
                  flag ''checked'' (rg_issuer f = b)) [(''onChange'', RoleRadio b)] [],
                Txt lab]) [(''issuer'', True, ''SME / Issuer''), (''buyer'', False, ''Obligor / Buyer'')])]"

definition reg_fields :: "reg_form \<Rightarrow> reg_control el list" where
  "reg_fields f =
     [reg_role f,
      reg_field ''registration-company-name'' ''Company Name'' ''text'' True ''e.g. Acme Corporation'' (rg_companyName f) CompanyInput,
      el ''div''
        [reg_field ''registration-tax-id'' ''Tax ID / Registration No.'' ''text'' True ''e.g. EU123456789'' (rg_taxId f) TaxInput,
         reg_field ''registration-country'' ''Country of Incorporation'' ''text'' True ''e.g. Germany'' (rg_country f) CountryInput],
      reg_field ''registration-website'' ''Corporate Website URL (Optional)'' ''url'' False ''e.g. https://acme.corp'' (rg_website f) WebsiteInput,
      reg_field ''registration-email'' ''Contact Email (Optional)'' ''email'' False ''e.g. contact@acme.corp'' (rg_email f) EmailInput]"

text \<open>The message: the local one, else the one of the mutation (\<open>registerError\<close>), else a fixed text.\<close>

definition reg_alert :: "exn option \<Rightarrow> reg_form \<Rightarrow> string option" where
  "reg_alert registerError f =
     (if present (rg_localError f) then rg_localError f
      else case registerError of
             None \<Rightarrow> None
           | Some e \<Rightarrow> Some (if exn_message e \<noteq> [] then exn_message e else ''Failed to submit registration''))"

definition reg_dialog :: "bool \<Rightarrow> exn option \<Rightarrow> reg_form \<Rightarrow> reg_control el" where
  "reg_dialog isRegistering registerError f =
     El ''div'' [(''role'', ''dialog''), (''aria-modal'', ''true''), (''aria-labelledby'', ''registration-dialog-title''), (''tabIndex'', ''-1'')]
       [(''onClick'', RegistrationBackdrop)]
       [el ''div''
          [El ''button'' [(''aria-label'', ''Close registration dialog'')] [(''onClick'', CloseRegistration)] [Txt ''[Close]''],
           el ''div''
             [El ''h2'' [(''id'', ''registration-dialog-title'')] [] [Txt ''Register Business Metadata''],
              para ''p'' ''Input your company credentials. This metadata maps to your wallet address on-chain.''],
           El ''form'' [] [(''onSubmit'', SubmitRegistration)]
             (reg_fields f @
              (case reg_alert registerError f of
                 Some m \<Rightarrow> [El ''div'' [(''role'', ''alert'')] [] [para ''span'' m]] | None \<Rightarrow> []) @
              [el ''div'' [para ''span'' ''Signing this registration requires Freighter authorization. You will submit a Soroban write transaction, which whitelists your wallet address and locks your business credentials.''],
               el ''div''
                 [El ''button'' ([(''type'', ''button'')] @ flag ''disabled'' isRegistering) [(''onClick'', CancelRegistration)] [Txt ''Cancel''],
                  El ''button'' ([(''type'', ''submit'')] @ flag ''disabled'' isRegistering) []
                    [Txt (if isRegistering then ''Signing...'' else ''Register Profile'')]]])]]"

definition reg_pending_props :: "reg_form \<Rightarrow> pending_props" where
  "reg_pending_props f =
     \<lparr>pp_isOpen = rg_showPending f, pp_txHash = rg_pendingHash f, pp_statusText = rg_pendingText f,
      pp_onClose = present (rg_pendingHash f)\<rparr>"

definition RegistrationModal :: "bool \<Rightarrow> exn option \<Rightarrow> pending_state \<Rightarrow> reg_form \<Rightarrow> reg_control el" where
  "RegistrationModal isRegistering registerError st f =
     el ''div''
       (shown (rg_isOpen f) [reg_dialog isRegistering registerError f] @
        map (map_el PendingControl) (TransactionPending (reg_pending_props f) st))"

text \<open>Closing the dialog of the transaction, which is possible once there is a hash.\<close>

definition reg_dismiss :: "reg_form \<Rightarrow> reg_form" where
  "reg_dismiss f = (if present (rg_pendingHash f) then reg_close (f\<lparr>rg_showPending := False\<rparr>) else f)"

text \<open>
  The dialog as a machine. The button that opens it lies on the page, behind whatever dialog is
  open; a registration that was started settles at any later time.
\<close>

inductive reg_step :: "reg_form \<Rightarrow> reg_form \<Rightarrow> bool" where
  openDialog: "\<not> rg_showPending f \<Longrightarrow> reg_step f (reg_open f)"
| closeDialog: "rg_isOpen f \<Longrightarrow> reg_step f (reg_close f)"
| edit: "rg_isOpen f \<Longrightarrow> reg_step f (reg_edit c v f)"
| refuse: "rg_isOpen f \<Longrightarrow> reg_missing f = Some m \<Longrightarrow> reg_step f (f\<lparr>rg_localError := Some m\<rparr>)"
| submit: "rg_isOpen f \<Longrightarrow> reg_missing f = None \<Longrightarrow> reg_step f (reg_start (f\<lparr>rg_localError := None\<rparr>))"
| settle: "rg_showPending f \<Longrightarrow> reg_step f (snd (reg_settle r f))"
| dismiss: "rg_showPending f \<Longrightarrow> reg_step f (reg_dismiss f)"

lemma reg_edit_frame [simp]:
  "rg_isOpen (reg_edit c v f) = rg_isOpen f" "rg_showPending (reg_edit c v f) = rg_showPending f"
  by (cases c; simp)+

lemma reg_settle_frame:
  "rg_isOpen (snd (reg_settle r f)) = rg_isOpen f"
  by (auto simp: reg_settle_def split: sum.split)

interpretation registration: invariant_system "\<lambda>f. f = reg_init" reg_step "\<lambda>f. \<not> (rg_isOpen f \<and> rg_showPending f)"
proof
  fix f assume "f = reg_init"
  then show "\<not> (rg_isOpen f \<and> rg_showPending f)" by (simp add: reg_init_def)
next
  fix f g
  assume "\<not> (rg_isOpen f \<and> rg_showPending f)" and "reg_step f g"
  from this(2,1) show "\<not> (rg_isOpen g \<and> rg_showPending g)"
    by cases (auto simp: reg_open_def reg_close_def reg_start_def reg_dismiss_def reg_settle_frame)
qed

subsection \<open>Properties of the registration\<close>

lemma TransactionPending_reads:
  "concat (map dialogs (TransactionPending p st)) = (if pp_isOpen p then TransactionPending p st else [])"
  "concat (map alerts (TransactionPending p st)) = []"
  "concat (map ids (TransactionPending p st)) = []" "concat (map idrefs (TransactionPending p st)) = []"
  by (simp_all add: TransactionPending_def)

lemma reg_field_reads [simp]:
  "dialogs (reg_field i lab ty req ph v c) = []" "alerts (reg_field i lab ty req ph v c) = []"
  "ids (reg_field i lab ty req ph v c) = [i]" "idrefs (reg_field i lab ty req ph v c) = [i]"
  by (simp_all add: reg_field_def flag_def)

lemma reg_fields_reads:
  "concat (map dialogs (reg_fields f)) = []" "concat (map alerts (reg_fields f)) = []"
  "concat (map ids (reg_fields f)) = [''registration-company-name'', ''registration-tax-id'', ''registration-country'',
     ''registration-website'', ''registration-email'']"
  "concat (map idrefs (reg_fields f)) = concat (map ids (reg_fields f))"
  by (simp_all add: reg_fields_def reg_role_def)

lemma reg_dialog_reads:
  "dialogs (reg_dialog busy e f) = [reg_dialog busy e f]"
  "alerts (reg_dialog busy e f) = (case reg_alert e f of Some m \<Rightarrow> [m] | None \<Rightarrow> [])"
  "ids (reg_dialog busy e f) = ''registration-dialog-title'' # concat (map ids (reg_fields f))"
  "idrefs (reg_dialog busy e f) = ''registration-dialog-title'' # concat (map idrefs (reg_fields f))"
  by (cases "reg_alert e f"; simp add: reg_dialog_def reg_fields_reads)+

text \<open>
  Registering never shows two modal dialogs at once, however the user opens, edits, submits and
  closes and whenever the transaction settles; and every label of what is shown finds its control.
\<close>

theorem registration_one_dialog:
  assumes "reachable (\<lambda>f. f = reg_init) reg_step f"
  shows "length (dialogs (RegistrationModal busy e st f)) \<le> 1 \<and> well_labelled (RegistrationModal busy e st f)"
  using registration.reachable_inv [OF assms]
  by (auto simp: RegistrationModal_def TransactionPending_reads reg_dialog_reads reg_fields_reads well_labelled_def
      reg_pending_props_def TransactionPending_def comp_def map_concat [symmetric])

theorem registration_one_dialog_witness:
  "length (dialogs (RegistrationModal False None pending_init (reg_open reg_init))) \<le> 1 \<and>
   dialogs (RegistrationModal False None pending_init (reg_open reg_init)) \<noteq> []"
proof -
  have "reachable (\<lambda>f. f = reg_init) reg_step (reg_open reg_init)"
    using reg_step.openDialog [of reg_init] by (auto intro: reachable.intros simp: reg_init_def)
  then show ?thesis
    using registration_one_dialog [of "reg_open reg_init" False None pending_init]
    by (simp add: RegistrationModal_def reg_dialog_reads reg_open_def)
qed

text \<open>
  The message of a failed registration reaches nobody. The dialog is closed before the transaction
  is sent, so when it fails no alert is on the page; and opening the dialog again first clears
  the message: what is shown then is the error that the query library kept, if it kept one.
\<close>

theorem registration_failure_hidden:
  assumes "reg_missing f = None" and "register (rg_issuer f) (reg_metadata f) s = (Inl err, s')"
    and "reg_error err = Inr m"
  shows "\<exists>f'. handleRegisterSubmit register (f, s) = (Inr (), (f', s')) \<and> rg_localError f' = Some m \<and>
    alerts (RegistrationModal busy (Some err) st f') = [] \<and>
    alerts (RegistrationModal busy e st (reg_open f')) =
      (case e of Some e' \<Rightarrow> [if exn_message e' \<noteq> [] then exn_message e' else ''Failed to submit registration''] | None \<Rightarrow> [])"
proof -
  have "reg_missing (f\<lparr>rg_localError := None\<rparr>) = None" "reg_metadata (f\<lparr>rg_localError := None\<rparr>) = reg_metadata f"
    using assms(1) by (auto simp: reg_missing_def reg_metadata_def split: if_splits)
  then show ?thesis
    using assms(2,3)
    by (auto simp: handleRegisterSubmit_def reg_settle_def reg_start_def reg_close_def RegistrationModal_def
        TransactionPending_reads reg_dialog_reads reg_open_def reg_alert_def present_def Let_def comp_def split: option.split)
qed

theorem registration_failure_hidden_witness:
  "\<exists>f'. handleRegisterSubmit (\<lambda>r m s. (Inl (new_Error ''rejected''), s))
       (reg_init\<lparr>rg_companyName := ''A'', rg_taxId := ''B'', rg_country := ''C''\<rparr>, ()) = (Inr (), (f', ())) \<and>
     rg_localError f' = Some ''rejected'' \<and> alerts (RegistrationModal False None pending_init f') = []"
proof -
  let ?f = "reg_init\<lparr>rg_companyName := ''A'', rg_taxId := ''B'', rg_country := ''C''\<rparr>"
  have "reg_missing ?f = None" by code_simp
  moreover have "reg_error (new_Error ''rejected'') = Inr ''rejected''" by code_simp
  ultimately obtain f' where f': "handleRegisterSubmit (\<lambda>r m s. (Inl (new_Error ''rejected''), s)) (?f, ()) = (Inr (), (f', ()))"
    "rg_localError f' = Some ''rejected''" "alerts (RegistrationModal False (Some (new_Error ''rejected'')) pending_init f') = []"
    using registration_failure_hidden [of ?f "\<lambda>r m s. (Inl (new_Error ''rejected''), s)" "()" "new_Error ''rejected''" "()"
        "''rejected''" False pending_init None] by blast
  then have "\<not> rg_isOpen f'"
    by (auto simp: RegistrationModal_def reg_dialog_reads reg_alert_def present_def split: if_splits)
  then have "alerts (RegistrationModal False None pending_init f') = []"
    by (simp add: RegistrationModal_def TransactionPending_reads comp_def)
  with f' show ?thesis by blast
qed

end
