(* ===== verification/InvoiceCards.thy ===== *)
theory InvoiceCards
  imports Dialogs Marketplace JsMath Storage
begin

text \<open>
  Invoices in lists: the badges (\<open>components/invoice/InvoiceStatus.tsx\<close>, \<open>VerificationBadge.tsx\<close>), the
  card with its actions (\<open>InvoiceCard.tsx\<close>), the table with keyboard navigation, selection and pages
  (\<open>InvoiceTable.tsx\<close>) and the comparison (\<open>InvoiceCompareModal.tsx\<close>).

  Dates and numbers in the language of the browser are printed by the parameters \<open>dateStr\<close>, \<open>timeStr\<close>
  and \<open>loc\<close>; the clock is the time value \<open>now\<close>. A card's state and its handlers run beside the state
  \<open>'s\<close> of the application, as on the invoice page.
\<close>

subsection \<open>Badges and due dates\<close>

definition InvoiceStatusBadge :: "InvoiceStatus \<Rightarrow> 'h el" where
  "InvoiceStatusBadge st =
     El ''span'' [(''role'', ''status''), (''aria-label'', ''Invoice status: '' @ status_string st), (''title'', status_string st)] []
       [para ''span'' (status_string st)]"

datatype VerificationState = unverified | verified | failed

fun verification_label :: "VerificationState \<Rightarrow> string" where
  "verification_label unverified = ''Unverified''"
| "verification_label verified = ''Verified''"
| "verification_label failed = ''Verification failed''"

text \<open>The dot between the words is U+00B7.\<close>

definition VerificationBadge :: "VerificationState \<Rightarrow> jsnum option \<Rightarrow> 'h el" where
  "VerificationBadge st riskScoreBps =
     (let displayText = (case riskScoreBps of
            Some r \<Rightarrow> if st = verified then ''Verified '' @ [CHR 0xB7] @ '' risk score '' @ num_toFixed 1 (num_over r 100) @ ''%''
                      else verification_label st
          | None \<Rightarrow> verification_label st);
          ariaLabel = (case riskScoreBps of
            Some r \<Rightarrow> if st = verified then ''Verification: verified, risk score '' @ num_toFixed 1 (num_over r 100) @ '' percent''
                      else ''Verification: '' @ verification_label st
          | None \<Rightarrow> ''Verification: '' @ verification_label st)
      in El ''span'' [(''role'', ''status''), (''aria-label'', ariaLabel), (''title'', displayText)] [] [para ''span'' displayText])"

definition secondsRemaining :: "int \<Rightarrow> Invoice \<Rightarrow> jsnum" where
  "secondsRemaining now iv = num_sub (inv_dueDate iv) (num_floor (num_over (num_int now) 1000))"

definition daysRemaining :: "int \<Rightarrow> Invoice \<Rightarrow> jsnum" where
  "daysRemaining now iv = num_ceil (num_over (secondsRemaining now iv) 86400)"

definition isOverdue :: "int \<Rightarrow> Invoice \<Rightarrow> bool" where
  "isOverdue now iv \<longleftrightarrow> num_less (secondsRemaining now iv) (Fin 0)"

definition discount_text :: "jsnum \<Rightarrow> string" where
  "discount_text bps = (if num_less (Fin 0) bps then num_toFixed 2 (num_over bps 100) @ ''%'' else em_dash)"

subsection \<open>The card\<close>

record card_state =
  cd_loading :: bool
  cd_error :: "string option"
  cd_copiedId :: bool
  cd_copiedBuyer :: bool
  cd_discountBpsInput :: string
  cd_showListForm :: bool

definition card_init :: card_state where
  "card_init = \<lparr>cd_loading = False, cd_error = None, cd_copiedId = False, cd_copiedBuyer = False,
                cd_discountBpsInput = ''200'', cd_showListForm = False\<rparr>"

definition setCard :: "(card_state \<Rightarrow> card_state) \<Rightarrow> (exn, card_state \<times> 's, unit) io" where
  "setCard f = (\<lambda>(c, s). (Inr (), (f c, s)))"

definition onCard :: "(exn, 's, 'r) io \<Rightarrow> (exn, card_state \<times> 's, 'r) io" where
  "onCard m = (\<lambda>(c, s). case m s of (r, s') \<Rightarrow> (r, (c, s')))"

text \<open>Writing to the clipboard may fail, which rejects the promise; the mark stays for two seconds.\<close>

definition card_copy :: "(string \<Rightarrow> (exn, 's, unit) io) \<Rightarrow> string \<Rightarrow> bool \<Rightarrow> (exn, card_state \<times> 's, unit) io" where
  "card_copy writeText t isId =
     bindIO (onCard (writeText t)) (\<lambda>_.
     setCard (\<lambda>c. if isId then c\<lparr>cd_copiedId := True\<rparr> else c\<lparr>cd_copiedBuyer := True\<rparr>))"

definition card_copy_reset :: "bool \<Rightarrow> card_state \<Rightarrow> card_state" where
  "card_copy_reset isId c = (if isId then c\<lparr>cd_copiedId := False\<rparr> else c\<lparr>cd_copiedBuyer := False\<rparr>)"

definition message_or :: "exn \<Rightarrow> string \<Rightarrow> string" where
  "message_or err fallback = (if is_Error err then exn_message err else fallback)"

definition card_run :: "(exn, card_state \<times> 's, unit) io \<Rightarrow> string \<Rightarrow> (exn, card_state \<times> 's, unit) io" where
  "card_run body errorMsg =
     bindIO (setCard (\<lambda>c. c\<lparr>cd_loading := True, cd_error := None\<rparr>)) (\<lambda>_.
     bindIO (catchIO body (\<lambda>err. setCard (\<lambda>c. c\<lparr>cd_error := Some (message_or err errorMsg)\<rparr>))) (\<lambda>_.
     setCard (\<lambda>c. c\<lparr>cd_loading := False\<rparr>)))"

definition discount_refused :: "(jsnum \<Rightarrow> string) \<Rightarrow> exn" where
  "discount_refused loc =
     new_Error (''Discount basis points must be between 1 and '' @ loc (num_int MAX_DISCOUNT_BPS) @ '' (50%)'')"

definition card_handleList ::
  "(jsnum \<Rightarrow> string) \<Rightarrow> (string \<Rightarrow> jsnum \<Rightarrow> (exn, 's, bool) io) \<Rightarrow> Invoice \<Rightarrow> string \<Rightarrow> (exn, card_state \<times> 's, unit) io" where
  "card_handleList loc listInvoice iv discountBpsInput =
     card_run
       (let bps = js_parseInt discountBpsInput in
        if \<not> validateDiscountBps bps then throwIO (discount_refused loc)
        else bindIO (onCard (listInvoice (inv_id iv) bps)) (\<lambda>_. setCard (\<lambda>c. c\<lparr>cd_showListForm := False\<rparr>)))
       ''Failed to list invoice''"

definition card_handleAction :: "(exn, 's, bool) io \<Rightarrow> string \<Rightarrow> (exn, card_state \<times> 's, unit) io" where
  "card_handleAction actionFn errorMsg = card_run (bindIO (onCard actionFn) (\<lambda>_. returnIO ())) errorMsg"

datatype card_control =
    SelectCard | CopyId | CopyBuyer | ConfigureTerms | DiscountInput | CancelList
  | ListTerms | FundInvoice | ShipInvoice | ConfirmDelivery | RepayInvoice | TriggerDefault

text \<open>
  What a control of the card starts: funding and shipping run at once, the other three ask for a
  confirmation first. Nothing happens for a user who is not verified.
\<close>

definition card_fund where
  "card_fund isVerified fundInvoice iv =
     (if \<not> isVerified then returnIO () else card_handleAction (fundInvoice (inv_id iv)) ''Failed to fund invoice'')"

definition card_ship where
  "card_ship isVerified shipInvoice iv =
     (if \<not> isVerified then returnIO () else card_handleAction (shipInvoice (inv_id iv)) ''Failed to mark as shipped'')"

definition card_confirm where
  "card_confirm isVerified confirmDelivery iv st =
     (if \<not> isVerified then st
      else dialog_request \<lparr>pa_label = ''Confirm Delivery'', pa_invoiceId = inv_id iv,
             pa_fn = card_handleAction (confirmDelivery (inv_id iv)) ''Failed to confirm delivery''\<rparr> st)"

definition card_repay where
  "card_repay isVerified repayInvoice iv st =
     (if \<not> isVerified then st
      else dialog_request \<lparr>pa_label = ''Repay Invoice'', pa_invoiceId = inv_id iv,
             pa_fn = card_handleAction (repayInvoice (inv_id iv)) ''Failed to repay invoice''\<rparr> st)"

definition card_default where
  "card_default isVerified defaultInvoice iv st =
     (if \<not> isVerified then st
      else dialog_request \<lparr>pa_label = ''Trigger Default'', pa_invoiceId = inv_id iv,
             pa_fn = card_handleAction (defaultInvoice (inv_id iv)) ''Failed to trigger default''\<rparr> st)"

definition card_configure :: "bool \<Rightarrow> card_state \<Rightarrow> card_state" where
  "card_configure isVerified c = (if \<not> isVerified then c else c\<lparr>cd_showListForm := True\<rparr>)"

subsection \<open>What the card shows\<close>

definition card_head :: "card_state \<Rightarrow> Invoice \<Rightarrow> card_control el list" where
  "card_head c iv =
     [el ''div''
        [el ''div''
           [el ''div'' [para ''span'' (''INV#'' @ truncateAddress (inv_id iv)),
                        El ''button'' [(''aria-label'', ''Copy invoice ID'')] [(''onClick'', CopyId)] []],
            para ''h3'' ''Invoice obligation''],
         el ''div''
           [VerificationBadge (if inv_riskScoreBps iv \<noteq> None then verified else unverified) (inv_riskScoreBps iv),
            InvoiceStatusBadge (inv_status iv)]],
      el ''div''
        [el ''div'' [para ''span'' ''Face Value'', para ''span'' (formatAmount (Some (inv_faceValue iv)) (inv_asset iv))],
         el ''div'' [para ''span'' ''Discount Rate'', para ''span'' (discount_text (inv_discountBps iv))]]]"

definition card_due :: "(jsnum \<Rightarrow> string) \<Rightarrow> int \<Rightarrow> Invoice \<Rightarrow> card_control el list" where
  "card_due dateStr now iv =
     [el ''div''
        ([el ''div''
            [para ''span'' ''Buyer Address:'',
             el ''div'' [El ''span'' [(''title'', inv_buyer iv)] [] [Txt (truncateAddress (inv_buyer iv))],
                         El ''button'' [(''aria-label'', ''Copy buyer address'')] [(''onClick'', CopyBuyer)] []]],
          el ''div'' [para ''span'' ''Due Date:'', para ''span'' (dateStr (num_scale (inv_dueDate iv) 1000))]] @
         shown (inv_status iv \<noteq> Repaid \<and> inv_status iv \<noteq> Defaulted)
           [el ''div''
              [para ''span'' ''Due Status:'',
               el ''span''
                 [if isOverdue now iv then Txt ''OVERDUE''
                  else para ''span'' (num_toString (daysRemaining now iv) @ '' '' @
                         (if num_eq (daysRemaining now iv) (Fin 1) then ''day'' else ''days'') @ '' remaining'')]]])]"

definition card_funding :: "(jsnum \<Rightarrow> string) \<Rightarrow> Invoice \<Rightarrow> card_control el list" where
  "card_funding dateStr iv =
     shown (inv_status iv \<noteq> Created \<and> inv_status iv \<noteq> Listed)
       [el ''div''
          ([el ''div'' [para ''span'' ''Funded liquidity:'', para ''span'' (formatAmount (Some (inv_fundedAmount iv)) (inv_asset iv))]] @
           (case inv_fundedAt iv of
              Some t \<Rightarrow> shown (num_truthy t)
                [el ''div'' [para ''span'' ''Liquidity timestamp:'', para ''span'' (dateStr (num_scale t 1000))]]
            | None \<Rightarrow> []))]"

definition card_list_form :: "string \<Rightarrow> bool \<Rightarrow> card_state \<Rightarrow> card_control el list" where
  "card_list_form discountBpsId isVerified c =
     shown (cd_showListForm c)
       [el ''div''
          [el ''div''
             [El ''label'' [(''htmlFor'', discountBpsId)] [] [Txt ''Discount Basis Points (e.g. 200 = 2.00%, max 5,000 = 50%)''],
              El ''input'' ([(''id'', discountBpsId), (''type'', ''number''), (''min'', ''1''), (''max'', show_int MAX_DISCOUNT_BPS),
                  (''step'', ''1''), (''value'', cd_discountBpsInput c)] @ flag ''disabled'' (\<not> isVerified))
                [(''onChange'', DiscountInput)] []],
           el ''div''
             [button CancelList False ''Cancel'',
              button ListTerms (cd_loading c \<or> \<not> isVerified) (if cd_loading c then ''SUBMITTING...'' else ''LIST TERMS'')]]]"

definition card_actions :: "string \<Rightarrow> bool \<Rightarrow> string option \<Rightarrow> int \<Rightarrow> card_state \<Rightarrow> Invoice \<Rightarrow> card_control el list" where
  "card_actions discountBpsId isVerified role now c iv =
     (let off = cd_loading c \<or> \<not> isVerified; lab = (\<lambda>busy idle. if cd_loading c then busy else idle) in
      shown (\<not> isVerified) [el ''div'' [para ''span'' ''Verification required to execute smart contract operations.'']] @
      shown (inv_status iv = Created \<and> role = Some ''issuer'' \<and> \<not> cd_showListForm c)
        [button ConfigureTerms off ''Configure financing terms''] @
      card_list_form discountBpsId isVerified c @
      shown (inv_status iv = Listed \<and> role = Some ''lp'') [button FundInvoice off (lab ''FUNDING ON-CHAIN...'' ''FUND INVOICE'')] @
      shown (inv_status iv = Funded \<and> role = Some ''issuer'') [button ShipInvoice off (lab ''SHIPPING...'' ''MARK GOODS SHIPPED'')] @
      shown (inv_status iv = Active \<and> role = Some ''buyer'' \<and> \<not> inv_buyerConfirmed iv)
        [button ConfirmDelivery off (lab ''CONFIRMING...'' ''CONFIRM DELIVERY'')] @
      shown (inv_status iv = Confirmed \<and> role = Some ''buyer'') [button RepayInvoice off (lab ''REPAYING...'' ''REPAY INVOICE'')] @
      shown (inv_status iv = Active \<and> isOverdue now iv) [button TriggerDefault off (lab ''TRIGGERING DEFAULT...'' ''TRIGGER DEFAULT'')])"

record card_env =
  ce_address :: "string option"
  ce_isVerified :: bool
  ce_role :: "string option"
  ce_dateStr :: "jsnum \<Rightarrow> string"
  ce_discountBpsId :: string
  ce_now :: int

definition InvoiceCard :: "card_env \<Rightarrow> card_state \<Rightarrow> Invoice \<Rightarrow> card_control el" where
  "InvoiceCard E c iv =
     El ''div'' [] [(''onClick'', SelectCard)]
       (card_head c iv @ card_due (ce_dateStr E) (ce_now E) iv @ card_funding (ce_dateStr E) iv @
        (case cd_error c of Some m \<Rightarrow> shown (m \<noteq> []) [El ''div'' [(''role'', ''alert'')] [] [para ''span'' m]] | None \<Rightarrow> []) @
        shown (present (ce_address E))
          [el ''div'' (card_actions (ce_discountBpsId E) (ce_isVerified E) (ce_role E) (ce_now E) c iv)])"

subsection \<open>The table\<close>

definition DEFAULT_PAGE_SIZES :: "int list" where
  "DEFAULT_PAGE_SIZES = [10, 20, 50, 100]"

record pagination =
  pg_page :: int
  pg_limit :: int
  pg_total :: int
  pg_totalPages :: int

text \<open>Committing the page field: a number goes to the nearest page, anything else resets the field.\<close>

definition commitPage :: "pagination \<Rightarrow> string \<Rightarrow> int option \<times> string" where
  "commitPage p pageInput =
     (case js_parseInt pageInput of
        Fin q \<Rightarrow> (Some (clampPage \<lfloor>q\<rfloor> (pg_totalPages p)), pageInput)
      | PosInf \<Rightarrow> (Some (max (pg_totalPages p) 1), pageInput)
      | NegInf \<Rightarrow> (Some 1, pageInput)
      | NaN \<Rightarrow> (None, show_int (pg_page p)))"

definition page_options :: "pagination \<Rightarrow> int list" where
  "page_options p = sort (remdups (DEFAULT_PAGE_SIZES @ [pg_limit p]))"

datatype table_control =
    ToggleAll | ToggleRow string | RowClick nat | ClearSelection | PrevPage | NextPage | PageInput | LimitSelect
  | EmptyAction | OfCard string card_control

definition InvoicePagination :: "pagination \<Rightarrow> string \<Rightarrow> table_control el" where
  "InvoicePagination p pageInput =
     (let (startItem, endItem) = page_range (pg_page p) (pg_limit p) (pg_total p) in
      el ''div''
        [el ''div''
           [el ''div''
              [El ''label'' [(''htmlFor'', ''items-per-page-select'')] [] [Txt ''Items per page''],
               El ''select'' [(''id'', ''items-per-page-select''), (''value'', show_int (pg_limit p))] [(''onChange'', LimitSelect)]
                 (map (\<lambda>n. El ''option'' [(''value'', show_int n)] [] [Txt (show_int n)]) (page_options p))],
            el ''div''
              [el ''label''
                 [para ''span'' ''Jump to page'',
                  El ''input'' [(''type'', ''number''), (''min'', ''1''), (''max'', show_int (pg_totalPages p)), (''value'', pageInput)]
                    [(''onChange'', PageInput)] []],
               el ''div''
                 [para ''span'' ''Navigation'',
                  el ''div'' [button PrevPage (pg_page p \<le> 1) ''Prev'', button NextPage (pg_totalPages p \<le> pg_page p) ''Next'']]]],
         el ''div''
           [para ''span'' (''Showing '' @ show_int startItem @ ''-'' @ show_int endItem @ '' of '' @ show_int (pg_total p) @ '' invoices''),
            para ''span'' (''Page '' @ show_int (pg_page p) @ '' of '' @ show_int (pg_totalPages p))]])"

text \<open>The buttons, which the table hands to \<open>onPageChange\<close>.\<close>

definition page_move :: "pagination \<Rightarrow> bool \<Rightarrow> int" where
  "page_move p forward = clampPage (if forward then pg_page p + 1 else pg_page p - 1) (pg_totalPages p)"

text \<open>
  Keys on a row: the arrows move the focused row, Enter and Space choose the row the key was pressed
  in. Keys inside the checkbox of a row are left alone.
\<close>

definition handleRowKeyDown ::
  "bool \<Rightarrow> bool \<Rightarrow> string \<Rightarrow> Invoice list \<Rightarrow> nat \<Rightarrow> nat \<Rightarrow> nat \<times> Invoice option" where
  "handleRowKeyDown selectable onRow k invoices index focusedIndex =
     (if \<not> selectable \<or> \<not> onRow then (focusedIndex, None)
      else if k = ''ArrowDown'' then (min (focusedIndex + 1) (length invoices - 1), None)
      else if k = ''ArrowUp'' then (focusedIndex - 1, None)
      else if k = ''Home'' then (0, None)
      else if k = ''End'' then (length invoices - 1, None)
      else if k = ''Enter'' \<or> k = '' '' then (focusedIndex, Some (invoices ! index))
      else (focusedIndex, None))"

definition table_row ::
  "(jsnum \<Rightarrow> string) \<Rightarrow> bool \<Rightarrow> bool \<Rightarrow> string option \<Rightarrow> string list \<Rightarrow> nat \<Rightarrow> nat \<times> Invoice \<Rightarrow> table_control el" where
  "table_row dateStr selectable isFocusable activeId selection focusedIndex = (\<lambda>(index, iv).
     El ''tr''
       ([(''aria-selected'', aria_bool (if selectable then inv_id iv \<in> set selection else activeId = Some (inv_id iv)))] @
        attr ''tabIndex'' (if isFocusable then Some (if index = focusedIndex then ''0'' else ''-1'') else None))
       (if isFocusable then [(''onClick'', RowClick index)] else [])
       (shown selectable
          [el ''td'' [El ''input'' ([(''type'', ''checkbox''), (''aria-label'', ''Select invoice '' @ inv_id iv)] @
                         flag ''checked'' (inv_id iv \<in> set selection)) [(''onChange'', ToggleRow (inv_id iv))] []]] @
        [para ''td'' (truncateAddress (inv_id iv)), para ''td'' (truncateAddress (inv_buyer iv)),
         para ''td'' (formatAmount (Some (inv_faceValue iv)) (inv_asset iv)), para ''td'' (discount_text (inv_discountBps iv)),
         para ''td'' (dateStr (num_scale (inv_dueDate iv) 1000)), el ''td'' [InvoiceStatusBadge (inv_status iv)]]))"

definition table_head :: "bool \<Rightarrow> Invoice list \<Rightarrow> string list \<Rightarrow> table_control el" where
  "table_head selectable invoices selection =
     el ''thead''
       [el ''tr''
          (shown selectable
             [el ''th'' [El ''input'' ([(''type'', ''checkbox''), (''aria-label'', ''Select all invoices on this page'')] @
                flag ''checked'' (allOnPageSelected (map inv_id invoices) selection)) [(''onChange'', ToggleAll)] []]] @
           map (para ''th'') [''Invoice ID'', ''Buyer'', ''Face Value'', ''Discount'', ''Due Date'', ''Status''])]"

text \<open>
  The rows to render: those the virtualiser reports, or all of them while it reports none (before
  the container is measured).
\<close>

definition rowsToRender :: "nat list \<Rightarrow> Invoice list \<Rightarrow> (nat \<times> Invoice) list" where
  "rowsToRender virtualRows invoices =
     (if virtualRows \<noteq> [] then map (\<lambda>i. (i, invoices ! i)) virtualRows else enumerate 0 invoices)"

definition InvoiceEmptyState :: "string \<Rightarrow> string \<Rightarrow> string \<Rightarrow> string option \<Rightarrow> table_control el" where
  "InvoiceEmptyState title description label href =
     el ''div''
       [el ''div'' [para ''p'' ''Empty Ledger'', para ''h3'' title, para ''p'' description],
        el ''div''
          [case href of
             Some h \<Rightarrow> El ''a'' [(''href'', h)] [] [para ''span'' label]
           | None \<Rightarrow> El ''button'' [(''type'', ''button'')] [(''onClick'', EmptyAction)] [para ''span'' label]]]"

record table_props =
  tp_activeId :: "string option"
  tp_role :: "string option"
  tp_selectable :: bool
  tp_onSelect :: bool
  tp_pagination :: "pagination option"
  tp_pageInput :: string
  tp_empty :: "table_control el"

definition InvoiceTable ::
  "card_env \<Rightarrow> (string \<Rightarrow> card_state) \<Rightarrow> table_props \<Rightarrow> string list \<Rightarrow> nat list \<Rightarrow> nat \<Rightarrow> Invoice list \<Rightarrow> table_control el" where
  "InvoiceTable E cards P selection virtualRows focusedIndex invoices =
     el ''div''
       ([el ''div''
           ([el ''div'' [para ''p'' ''Invoice Ledger'', para ''p'' ''Browse, filter, and inspect tokenized trade obligations.'']] @
            (case tp_pagination P of
               Some p \<Rightarrow> shown (invoices \<noteq> []) [para ''div'' (show_int (pg_total p) @ '' matching invoices'')] | None \<Rightarrow> []))] @
        shown (tp_selectable P)
          [El ''div'' [(''role'', ''status''), (''aria-live'', ''polite'')] []
             (para ''span'' (show_nat (length selection) @ '' selected'') #
              shown (selection \<noteq> []) [button ClearSelection False ''Clear selection''])] @
        (if invoices = [] then [el ''div'' [tp_empty P]]
         else
           [el ''div''
              [El ''table'' [(''role'', ''grid''), (''aria-label'', ''Invoice Ledger'')] []
                 [table_head (tp_selectable P) invoices selection,
                  el ''tbody''
                    (map (table_row (ce_dateStr E) (tp_selectable P) (tp_onSelect P) (tp_activeId P) selection focusedIndex)
                       (rowsToRender virtualRows invoices))]],
            el ''div'' (map (\<lambda>iv. map_el (OfCard (inv_id iv)) (InvoiceCard (E\<lparr>ce_role := tp_role P\<rparr>) (cards (inv_id iv)) iv)) invoices)] @
           (case tp_pagination P of Some p \<Rightarrow> [InvoicePagination p (tp_pageInput P)] | None \<Rightarrow> [])))"

subsection \<open>The comparison\<close>

definition COMPARISON_FIELDS ::
  "(jsnum \<Rightarrow> string) \<Rightarrow> (jsnum \<Rightarrow> string) \<Rightarrow> (string \<times> (Invoice \<Rightarrow> string)) list" where
  "COMPARISON_FIELDS dateStr timeStr =
     [(''Invoice ID'', inv_id), (''Issuer'', inv_issuer), (''Buyer'', inv_buyer),
      (''Face Value'', \<lambda>iv. formatAmount (Some (inv_faceValue iv)) (inv_asset iv)),
      (''Asset'', \<lambda>iv. asset_string (inv_asset iv)),
      (''Discount Rate'', \<lambda>iv. discount_text (inv_discountBps iv)),
      (''Funded Amount'', \<lambda>iv. formatAmount (Some (inv_fundedAmount iv)) (inv_asset iv)),
      (''Due Date'', \<lambda>iv. dateStr (num_scale (inv_dueDate iv) 1000)),
      (''Created'', \<lambda>iv. timeStr (num_scale (inv_createdAt iv) 1000)),
      (''Status'', \<lambda>iv. js_toUpperCase (status_string (inv_status iv)))]"

datatype compare_control = CloseCompare | ShowPrevious | ShowNext

definition maxScroll :: "'a list \<Rightarrow> nat" where
  "maxScroll invoices = length invoices - 4"

definition compare_scroll :: "compare_control \<Rightarrow> 'a list \<Rightarrow> nat \<Rightarrow> nat" where
  "compare_scroll k invoices offset =
     (case k of ShowPrevious \<Rightarrow> offset - 1 | ShowNext \<Rightarrow> min (maxScroll invoices) (offset + 1) | CloseCompare \<Rightarrow> offset)"

definition visibleInvoices :: "nat \<Rightarrow> 'a list \<Rightarrow> 'a list" where
  "visibleInvoices offset invoices = take 4 (drop offset invoices)"

definition InvoiceCompareModal ::
  "(jsnum \<Rightarrow> string) \<Rightarrow> (jsnum \<Rightarrow> string) \<Rightarrow> nat \<Rightarrow> Invoice list \<Rightarrow> compare_control el" where
  "InvoiceCompareModal dateStr timeStr offset invoices =
     (let vis = visibleInvoices offset invoices; n = length invoices in
      El ''div'' [(''role'', ''dialog''), (''aria-modal'', ''true''), (''aria-labelledby'', ''compare-modal-title'')]
        [(''onClick'', CloseCompare)]
        [el ''div''
           [el ''div''
              [El ''h2'' [(''id'', ''compare-modal-title'')] [] [Txt ''Invoice Comparison''],
               El ''button'' [(''type'', ''button''), (''aria-label'', ''Close comparison'')] [(''onClick'', CloseCompare)] []],
            el ''div''
              ([El ''table'' [(''role'', ''table'')] []
                  [el ''thead''
                     [el ''tr''
                        (para ''th'' ''Attribute'' #
                         map (\<lambda>i. el ''th''
                           (para ''span'' (''Invoice '' @ show_nat (offset + i + 1)) #
                            shown (4 < n) [para ''span'' (''#'' @ show_nat (offset + i + 1) @ '' of '' @ show_nat n)]))
                           [0 ..< length vis])],
                   el ''tbody''
                     (map (\<lambda>(lab, render). el ''tr'' (para ''th'' lab # map (\<lambda>iv. para ''td'' (render iv)) vis))
                        (COMPARISON_FIELDS dateStr timeStr))]] @
               shown (4 < n)
                 [el ''div''
                    [El ''button'' ([(''type'', ''button''), (''aria-label'', ''Show previous invoice'')] @ flag ''disabled'' (offset = 0))
                       [(''onClick'', ShowPrevious)] [],
                     para ''span'' (''Showing '' @ show_nat (offset + 1) @ en_dash @ show_nat (min (offset + 4) n) @ '' of '' @ show_nat n),
                     El ''button'' ([(''type'', ''button''), (''aria-label'', ''Show next invoice'')] @ flag ''disabled'' (maxScroll invoices \<le> offset))
                       [(''onClick'', ShowNext)] []]]),
            el ''div'' [para ''p'' ''Compare up to 4 invoices side by side. Use arrow buttons to scroll through more selections.'']]])"

text \<open>Scrolling stays inside, and every invoice can be scrolled to.\<close>

lemma compare_scroll_bound: "offset \<le> maxScroll invoices \<Longrightarrow> compare_scroll k invoices offset \<le> maxScroll invoices"
  by (cases k) (auto simp: compare_scroll_def)

lemma compare_window:
  "offset \<le> maxScroll invoices \<Longrightarrow> length (visibleInvoices offset invoices) = min 4 (length invoices)"
  by (auto simp: visibleInvoices_def maxScroll_def)

subsection \<open>Which actions a card offers\<close>

text \<open>
  When the contract accepts a call, as documented (\<open>docs/smart-contracts/invoice-contract.md\<close> and
  \<open>docs/protocol/invoice-lifecycle.md\<close>): the status the invoice must have, and whether the due date
  must have passed.
\<close>

fun contract_accepts :: "card_control \<Rightarrow> InvoiceStatus \<Rightarrow> bool \<Rightarrow> bool" where
  "contract_accepts ListTerms st late \<longleftrightarrow> st = Created"
| "contract_accepts FundInvoice st late \<longleftrightarrow> st = Listed"
| "contract_accepts ShipInvoice st late \<longleftrightarrow> st = Funded"
| "contract_accepts ConfirmDelivery st late \<longleftrightarrow> st = Active"
| "contract_accepts RepayInvoice st late \<longleftrightarrow> st = Confirmed"
| "contract_accepts TriggerDefault st late \<longleftrightarrow> st \<in> {Funded, Active, Confirmed} \<and> late"
| "contract_accepts h st late \<longleftrightarrow> True"

fun action_role :: "card_control \<Rightarrow> string option" where
  "action_role FundInvoice = Some ''lp''"
| "action_role ShipInvoice = Some ''issuer''"
| "action_role ConfirmDelivery = Some ''buyer''"
| "action_role RepayInvoice = Some ''buyer''"
| "action_role h = None"

lemma badge_reads [simp]:
  "clicks (InvoiceStatusBadge st) = []" "clicks (VerificationBadge v r) = []"
  "ids (InvoiceStatusBadge st) = []" "ids (VerificationBadge v r) = []"
  "idrefs (InvoiceStatusBadge st) = []" "idrefs (VerificationBadge v r) = []"
  by (simp_all add: InvoiceStatusBadge_def VerificationBadge_def Let_def)

lemma card_parts [simp]:
  "concat (map clicks (card_head c iv)) = [CopyId]"
  "concat (map clicks (card_due dateStr now iv)) = [CopyBuyer]"
  "concat (map clicks (card_funding dateStr iv)) = []"
  by (auto simp: card_head_def card_due_def card_funding_def split: option.split)

lemma card_actions_clicks:
  "concat (map clicks (card_actions i isVerified role now c iv)) =
     (let on = \<not> cd_loading c \<and> isVerified in
      shown (on \<and> inv_status iv = Created \<and> role = Some ''issuer'' \<and> \<not> cd_showListForm c) [ConfigureTerms] @
      shown (cd_showListForm c) (CancelList # shown on [ListTerms]) @
      shown (on \<and> inv_status iv = Listed \<and> role = Some ''lp'') [FundInvoice] @
      shown (on \<and> inv_status iv = Funded \<and> role = Some ''issuer'') [ShipInvoice] @
      shown (on \<and> inv_status iv = Active \<and> role = Some ''buyer'' \<and> \<not> inv_buyerConfirmed iv) [ConfirmDelivery] @
      shown (on \<and> inv_status iv = Confirmed \<and> role = Some ''buyer'') [RepayInvoice] @
      shown (on \<and> inv_status iv = Active \<and> isOverdue now iv) [TriggerDefault])"
  by (auto simp: card_actions_def card_list_form_def Let_def shown_def)

lemma card_clicks:
  "clicks (InvoiceCard E c iv) =
     [SelectCard, CopyId, CopyBuyer] @
     (if present (ce_address E)
      then concat (map clicks (card_actions (ce_discountBpsId E) (ce_isVerified E) (ce_role E) (ce_now E) c iv)) else [])"
  by (cases "cd_error c") (simp_all add: InvoiceCard_def)


definition demo_card_invoice :: "InvoiceStatus \<Rightarrow> Invoice" where
  "demo_card_invoice st =
     \<lparr>inv_id = ''ab'', inv_issuer = ''GI'', inv_buyer = ''GB'', inv_faceValue = 10000000, inv_asset = USDC,
      inv_discountBps = Fin 200, inv_fundedAmount = 0, inv_dueDate = Fin 0, inv_status = st, inv_createdAt = Fin 0,
      inv_fundedAt = None, inv_shippedAt = None, inv_issuerConfirmed = False, inv_buyerConfirmed = False,
      inv_buyerConfirmedAt = None, inv_repaidAt = None, inv_defaultedAt = None, inv_attestationAgentId = None,
      inv_riskScoreBps = None, inv_evidenceHash = None, inv_attestedAt = None\<rparr>"

definition demo_card_env :: card_env where
  "demo_card_env = \<lparr>ce_address = Some ''GB'', ce_isVerified = True, ce_role = Some ''buyer'', ce_dateStr = (\<lambda>t. []),
                    ce_discountBpsId = ''d'', ce_now = 0\<rparr>"


text \<open>
  A card's action always ends with the card idle again, and with a message exactly when the call
  failed; a discount outside of the range never reaches the contract.
\<close>

lemma card_run_outcome:
  "\<exists>c' s' r. card_run body msg (c, s) = (Inr (), (c'\<lparr>cd_loading := False\<rparr>, s')) \<and>
     body (c\<lparr>cd_loading := True, cd_error := None\<rparr>, s) = r \<and>
     (case r of (Inl e, (d, t)) \<Rightarrow> c' = d\<lparr>cd_error := Some (message_or e msg)\<rparr> \<and> s' = t
              | (Inr u, (d, t)) \<Rightarrow> c' = d \<and> s' = t)"
proof -
  obtain r d t where "body (c\<lparr>cd_loading := True, cd_error := None\<rparr>, s) = (r, (d, t))" by (metis prod.collapse)
  then show ?thesis by (cases r) (auto simp: card_run_def io_defs setCard_def)
qed

lemma card_handleList_refused:
  assumes "\<not> validateDiscountBps (js_parseInt v)"
  shows "card_handleList loc listInvoice iv v (c, s) =
    (Inr (), (c\<lparr>cd_loading := False, cd_error := Some (exn_message (discount_refused loc))\<rparr>, s))"
  using assms by (simp add: card_handleList_def card_run_def io_defs setCard_def message_or_def discount_refused_def)

text \<open>
  The roving focus: the rows that can be reached with Tab. The index is not reset when the list
  changes, so after a longer page was left from one of its last rows no row can be reached.
\<close>

definition tabbable_rows :: "nat \<Rightarrow> Invoice list \<Rightarrow> nat list" where
  "tabbable_rows focusedIndex invoices = filter (\<lambda>i. i = focusedIndex) (map fst (rowsToRender [] invoices))"

lemma tabbable_rows_one: "focusedIndex < length invoices \<Longrightarrow> tabbable_rows focusedIndex invoices = [focusedIndex]"
proof -
  have "filter (\<lambda>i. i = k) [0 ..< n] = (if k < n then [k] else [])" for k n :: nat
    by (induction n) auto
  then show "focusedIndex < length invoices \<Longrightarrow> tabbable_rows focusedIndex invoices = [focusedIndex]"
    by (simp add: tabbable_rows_def rowsToRender_def enumerate_eq_zip)
qed

lemma tabbable_rows_none: "length invoices \<le> focusedIndex \<Longrightarrow> tabbable_rows focusedIndex invoices = []"
  by (auto simp: tabbable_rows_def rowsToRender_def enumerate_eq_zip filter_empty_conv)

lemma row_key_inside:
  assumes "invoices \<noteq> []" "focusedIndex < length invoices"
  shows "fst (handleRowKeyDown sel onRow k invoices index focusedIndex) < length invoices"
proof -
  have "min (focusedIndex + 1) (length invoices - 1) < length invoices" "focusedIndex - 1 < length invoices"
    "length invoices - 1 < length invoices" "0 < length invoices"
    using assms by auto
  with assms(2) show ?thesis unfolding handleRowKeyDown_def by (simp only: fst_conv split: if_split) simp
qed

lemma commitPage_inside:
  "1 \<le> pg_totalPages p \<Longrightarrow> fst (commitPage p v) = Some n \<Longrightarrow> 1 \<le> n \<and> n \<le> pg_totalPages p"
  by (auto simp: commitPage_def clampPage_def split: jsnum.splits)

end
