(* ===== verification/InvoiceViews.thy ===== *)
theory InvoiceViews
  imports Parsers Assets AppErrors Machines
begin

text \<open>
  What the pages show of an invoice and of an account: the timeline (\<open>apps/web/lib/invoiceTimeline.ts\<close>),
  the contents of the exported document (\<open>apps/web/lib/invoicePdf.ts\<close>; its layout is left to the PDF
  library) and the balances (\<open>apps/web/hooks/useBalances.ts\<close>).

  The timeline reads metadata that older payloads carry, so an invoice is an untyped object here.
  The formatting of dates depends on the locale data and the time zone of the browser: it is a
  parameter, which throws for a time that is no date.
\<close>

subsection \<open>Timeline\<close>

datatype TimelineStepKey = created | listed | funded | shipped | issuerConfirmed | buyerConfirmed | settled

fun step_string :: "TimelineStepKey \<Rightarrow> string" where
  "step_string created = ''created''"
| "step_string listed = ''listed''"
| "step_string funded = ''funded''"
| "step_string shipped = ''shipped''"
| "step_string issuerConfirmed = ''issuerConfirmed''"
| "step_string buyerConfirmed = ''buyerConfirmed''"
| "step_string settled = ''settled''"

definition TIMELINE_STEPS :: "(TimelineStepKey \<times> string) list" where
  "TIMELINE_STEPS =
     [(created, ''Created''), (listed, ''Listed for Financing''), (funded, ''Funded by Pool''),
      (shipped, ''Marked as Shipped''), (issuerConfirmed, ''Delivery Confirmed - Issuer''),
      (buyerConfirmed, ''Delivery Confirmed - Buyer''), (settled, ''Repaid / Defaulted'')]"

text \<open>The steps are ordered as they are listed.\<close>

fun step_index :: "TimelineStepKey \<Rightarrow> nat" where
  "step_index created = 0"
| "step_index listed = 1"
| "step_index funded = 2"
| "step_index shipped = 3"
| "step_index issuerConfirmed = 4"
| "step_index buyerConfirmed = 5"
| "step_index settled = 6"

lemma step_index_inj: "step_index a = step_index b \<Longrightarrow> a = b"
  by (cases a; cases b) simp_all

instantiation TimelineStepKey :: linorder
begin

definition less_eq_TimelineStepKey :: "TimelineStepKey \<Rightarrow> TimelineStepKey \<Rightarrow> bool" where
  "less_eq_TimelineStepKey a b \<longleftrightarrow> step_index a \<le> step_index b"

definition less_TimelineStepKey :: "TimelineStepKey \<Rightarrow> TimelineStepKey \<Rightarrow> bool" where
  "less_TimelineStepKey a b \<longleftrightarrow> step_index a < step_index b"

instance
  by standard (auto simp: less_eq_TimelineStepKey_def less_TimelineStepKey_def dest: step_index_inj)

end

lemma TIMELINE_STEPS_sorted: "sorted (map fst TIMELINE_STEPS) \<and> distinct (map fst TIMELINE_STEPS)"
  by (simp add: TIMELINE_STEPS_def less_eq_TimelineStepKey_def)

definition statusProgress :: "(string \<times> nat) list" where
  "statusProgress =
     [(''Created'', 0), (''Listed'', 1), (''Funded'', 2), (''Active'', 4), (''Confirmed'', 5),
      (''Repaid'', 6), (''Defaulted'', 6)]"

definition status_is :: "jsobj \<Rightarrow> string \<Rightarrow> bool" where
  "status_is ob s \<longleftrightarrow> obj_get ob ''status'' = JStr s"

text \<open>The status is a text that is no inherited member of an object.\<close>

definition getCurrentTimelineIndex :: "jsobj \<Rightarrow> nat" where
  "getCurrentTimelineIndex ob =
     (if status_is ob ''Repaid'' \<or> status_is ob ''Defaulted'' then 6
      else if truthy (obj_get ob ''buyerConfirmed'') \<or> status_is ob ''Confirmed'' then 5
      else if truthy (obj_get ob ''issuerConfirmed'') \<or> truthy (obj_get ob ''shippedAt'') \<or> status_is ob ''Active'' then 4
      else case obj_get ob ''status'' of
             JStr s \<Rightarrow> (case map_of statusProgress s of Some n \<Rightarrow> n | None \<Rightarrow> 0)
           | _ \<Rightarrow> 0)"

definition getTimestamp :: "jsobj \<Rightarrow> TimelineStepKey \<Rightarrow> jsval" where
  "getTimestamp ob key =
     (case key of
        created \<Rightarrow> coalesce (obj_get ob ''createdAt'') JNull
      | listed \<Rightarrow> coalesce (obj_get ob ''listedAt'') JNull
      | funded \<Rightarrow> coalesce (obj_get ob ''fundedAt'') JNull
      | shipped \<Rightarrow> js_or (obj_get ob ''shippedAt'') (js_or (obj_get ob ''issuerConfirmedAt'') JNull)
      | issuerConfirmed \<Rightarrow> js_or (obj_get ob ''shippedAt'') (js_or (obj_get ob ''issuerConfirmedAt'') JNull)
      | buyerConfirmed \<Rightarrow> coalesce (obj_get ob ''buyerConfirmedAt'') JNull
      | settled \<Rightarrow> if status_is ob ''Defaulted'' then coalesce (obj_get ob ''defaultedAt'') JNull
                   else coalesce (obj_get ob ''repaidAt'') JNull)"

definition hash_fields :: "jsobj \<Rightarrow> TimelineStepKey \<Rightarrow> string list" where
  "hash_fields ob key =
     (case key of
        created \<Rightarrow> [''createdTxHash'', ''created_tx_hash'']
      | listed \<Rightarrow> [''listedTxHash'', ''listed_tx_hash'']
      | funded \<Rightarrow> [''fundedTxHash'', ''funded_tx_hash'']
      | shipped \<Rightarrow> [''shippedTxHash'', ''shipped_tx_hash'']
      | issuerConfirmed \<Rightarrow> [''issuerConfirmedTxHash'', ''issuer_confirmed_tx_hash'', ''shippedTxHash'', ''shipped_tx_hash'']
      | buyerConfirmed \<Rightarrow> [''buyerConfirmedTxHash'', ''buyer_confirmed_tx_hash'']
      | settled \<Rightarrow> if status_is ob ''Defaulted'' then [''defaultedTxHash'', ''defaulted_tx_hash'']
                   else [''repaidTxHash'', ''repaid_tx_hash''])"

fun first_text :: "jsobj \<Rightarrow> string list \<Rightarrow> jsval" where
  "first_text ob [] = JNull"
| "first_text ob (k # ks) =
     (case obj_get ob k of JStr s \<Rightarrow> if s \<noteq> [] then JStr s else first_text ob ks | _ \<Rightarrow> first_text ob ks)"

definition getTxHash :: "jsobj \<Rightarrow> TimelineStepKey \<Rightarrow> jsval" where
  "getTxHash ob key =
     (let mapHash = js_or (obj_get (own_entries (obj_get ob ''transactionHashes'')) (step_string key))
                          (obj_get (own_entries (obj_get ob ''txHashes'')) (step_string key))
      in if truthy mapHash then mapHash else first_text ob (hash_fields ob key))"

type_synonym date_format = "jsnum \<Rightarrow> exn + string"

definition formatTimelineTimestamp :: "date_format \<Rightarrow> jsval \<Rightarrow> exn + string" where
  "formatTimelineTimestamp fmt timestamp =
     (if \<not> truthy timestamp then Inr ''Pending'' else fmt (num_scale (js_Number timestamp) 1000))"

definition truncateTxHash :: "string \<Rightarrow> string" where
  "truncateTxHash hash =
     (if length hash \<le> 14 then hash else js_slice0 8 hash @ ''...'' @ js_slice_last 6 hash)"

record InvoiceTimelineEntry =
  te_key :: TimelineStepKey
  te_label :: string
  te_isComplete :: bool
  te_isCurrent :: bool
  te_timestamp :: jsval
  te_timestampLabel :: string
  te_txHash :: jsval

definition settledLabel :: "jsobj \<Rightarrow> string" where
  "settledLabel ob =
     (if status_is ob ''Repaid'' then ''Repaid'' else if status_is ob ''Defaulted'' then ''Defaulted''
      else ''Repaid / Defaulted'')"

definition timeline_entry ::
  "date_format \<Rightarrow> jsobj \<Rightarrow> nat \<times> TimelineStepKey \<times> string \<Rightarrow> exn + InvoiceTimelineEntry" where
  "timeline_entry fmt ob = (\<lambda>(index, key, label).
     (let timestamp = getTimestamp ob key
      in bindE (formatTimelineTimestamp fmt timestamp) (\<lambda>lab.
         Inr \<lparr>te_key = key, te_label = (if key = settled then settledLabel ob else label),
              te_isComplete = (index \<le> getCurrentTimelineIndex ob),
              te_isCurrent = (index = getCurrentTimelineIndex ob),
              te_timestamp = timestamp, te_timestampLabel = lab, te_txHash = getTxHash ob key\<rparr>)))"

definition buildInvoiceTimeline :: "date_format \<Rightarrow> jsobj \<Rightarrow> exn + InvoiceTimelineEntry list" where
  "buildInvoiceTimeline fmt ob = mapE (timeline_entry fmt ob) (enumerate 0 TIMELINE_STEPS)"

subsection \<open>The exported document\<close>

definition formatDiscountRate :: "jsnum \<Rightarrow> string" where
  "formatDiscountRate discountBps =
     (if \<not> num_truthy discountBps then em_dash else num_toFixed 2 (num_over discountBps 100) @ ''%'')"

definition invoicePdfFileName :: "Invoice \<Rightarrow> string" where
  "invoicePdfFileName iv = ''trusttrove-invoice-'' @ js_slice0 8 (inv_id iv) @ ''.pdf''"

record InvoicePdfContent =
  pdf_title :: string
  pdf_fields :: "(string \<times> string) list"
  pdf_timeline :: "(string \<times> string \<times> jsval) list"

text \<open>The fields come from the typed invoice of the SDK; \<open>fmtDate\<close> formats the due date.\<close>

definition buildInvoicePdfContent :: "date_format \<Rightarrow> date_format \<Rightarrow> jsobj \<Rightarrow> exn + InvoicePdfContent" where
  "buildInvoicePdfContent fmt fmtDate ob =
     (let iv = invoice_of ob
      in bindE (fmtDate (num_scale (inv_dueDate iv) 1000)) (\<lambda>due.
         bindE (buildInvoiceTimeline fmt ob) (\<lambda>entries.
         Inr \<lparr>pdf_title = ''TrusTrove Invoice'',
              pdf_fields = [(''Invoice ID'', inv_id iv), (''Status'', status_string (inv_status iv)),
                (''Face value'', formatAmount (Some (inv_faceValue iv)) (inv_asset iv)),
                (''Discount rate'', formatDiscountRate (inv_discountBps iv)),
                (''Funded amount'', formatAmount (Some (inv_fundedAmount iv)) (inv_asset iv)),
                (''Issuer'', inv_issuer iv), (''Buyer'', inv_buyer iv), (''Due date'', due)],
              pdf_timeline = map (\<lambda>e. (te_label e, te_timestampLabel e, te_txHash e)) entries\<rparr>)))"

text \<open>
  The layout: where every line of text is drawn. The PDF library is a parameter: the height of a
  page and the lines into which it breaks a value. A mark is a page, a height on it and a text.
\<close>

definition PAGE_MARGIN :: rat where "PAGE_MARGIN = 48"

definition LINE_HEIGHT :: rat where "LINE_HEIGHT = 15"

record pdf_doc =
  doc_page :: nat
  doc_y :: rat
  doc_marks :: "(nat \<times> rat \<times> string) list"

definition draw :: "rat \<Rightarrow> string \<Rightarrow> pdf_doc \<Rightarrow> pdf_doc" where
  "draw dy t d = d\<lparr>doc_marks := doc_marks d @ [(doc_page d, doc_y d + dy, t)]\<rparr>"

definition ensureSpace :: "rat \<Rightarrow> rat \<Rightarrow> pdf_doc \<Rightarrow> pdf_doc" where
  "ensureSpace pageHeight needed d =
     (if pageHeight - PAGE_MARGIN < doc_y d + needed then d\<lparr>doc_page := doc_page d + 1, doc_y := PAGE_MARGIN\<rparr>
      else d)"

definition advance :: "rat \<Rightarrow> pdf_doc \<Rightarrow> pdf_doc" where
  "advance dy d = d\<lparr>doc_y := doc_y d + dy\<rparr>"

definition writeHeading :: "rat \<Rightarrow> string \<Rightarrow> pdf_doc \<Rightarrow> pdf_doc" where
  "writeHeading pageHeight t d = advance 20 (draw 0 t (ensureSpace pageHeight 30 d))"

definition draw_lines :: "string list \<Rightarrow> pdf_doc \<Rightarrow> pdf_doc" where
  "draw_lines ls d = foldl (\<lambda>d (index, line). draw (of_nat index * LINE_HEIGHT) line d) d (enumerate 0 ls)"

definition writeField :: "rat \<Rightarrow> (string \<Rightarrow> string list) \<Rightarrow> string \<times> string \<Rightarrow> pdf_doc \<Rightarrow> pdf_doc" where
  "writeField pageHeight splitText = (\<lambda>(label, v) d.
     (let ls = splitText v;
          d1 = draw 0 (js_toUpperCase label) (ensureSpace pageHeight (of_nat (length ls) * LINE_HEIGHT + 6) d)
      in advance (of_nat (max (length ls) 1) * LINE_HEIGHT + 6) (draw_lines ls d1)))"

text \<open>The separator of the timeline entries contains the dot U+00B7.\<close>

definition timeline_text :: "string \<times> string \<times> jsval \<Rightarrow> string \<times> string" where
  "timeline_text = (\<lambda>(label, time, hash).
     (label, if truthy hash then time @ ''  '' @ [char_of (183 :: nat)] @ ''  tx '' @ js_String hash else time))"

definition generateInvoicePdf :: "rat \<Rightarrow> (string \<Rightarrow> string list) \<Rightarrow> int \<Rightarrow> InvoicePdfContent \<Rightarrow> pdf_doc" where
  "generateInvoicePdf pageHeight splitText now content =
     (let d0 = \<lparr>doc_page = 0, doc_y = PAGE_MARGIN, doc_marks = []\<rparr>;
          d1 = advance 22 (draw 0 (pdf_title content) d0);
          d2 = advance 26 (draw 0 (''Generated '' @ iso_string now) d1);
          d3 = writeHeading pageHeight ''Invoice details'' d2;
          d4 = foldl (\<lambda>d f. writeField pageHeight splitText f d) d3 (pdf_fields content);
          d5 = writeHeading pageHeight ''Status timeline'' (advance 10 d4)
      in foldl (\<lambda>d f. writeField pageHeight splitText f d) d5 (map timeline_text (pdf_timeline content)))"

subsection \<open>Balances\<close>

definition add_balance :: "string \<Rightarrow> jsval \<times> jsval \<Rightarrow> jsobj \<Rightarrow> jsval \<times> jsval" where
  "add_balance usdcIssuer = (\<lambda>(usdcBal, xlmBal) b.
     (if obj_has b ''asset_type''
      then if obj_get b ''asset_type'' = JStr ''native'' then (usdcBal, obj_get b ''balance'')
           else if obj_get b ''asset_type'' = JStr ''credit_alphanum4'' \<and> obj_get b ''asset_code'' = JStr ''USDC'' \<and>
                   obj_get b ''asset_issuer'' = JStr usdcIssuer
           then (obj_get b ''balance'', xlmBal)
           else (usdcBal, xlmBal)
      else (usdcBal, xlmBal)))"

definition account_not_found :: "exn \<Rightarrow> bool" where
  "account_not_found err \<longleftrightarrow>
     is_Error err \<and> (case exn_prop err ''response'' of JObj r \<Rightarrow> obj_get r ''status'' = JNum (Fin 404) | _ \<Rightarrow> False)"

text \<open>\<open>loadAccount\<close> of Horizon is a parameter: it yields the balances of the account.\<close>

definition fetchBalancesFromHorizon ::
  "(string \<Rightarrow> (exn, 'z ui_state_scheme, jsobj list) io) \<Rightarrow> string \<Rightarrow> string \<Rightarrow> bool \<Rightarrow>
   (exn, 'z ui_state_scheme, jsval \<times> jsval) io" where
  "fetchBalancesFromHorizon loadAccount usdcIssuer address conn =
     (if address = [] \<or> \<not> conn then returnIO (JNull, JNull)
      else catchIO (bindIO (loadAccount address)
                      (\<lambda>balances. returnIO (foldl (add_balance usdcIssuer) (JNull, JNull) balances)))
             (\<lambda>err. if account_not_found err then returnIO (JNull, JStr ''0'')
                    else bindIO (captureError ''useBalances'' err) (\<lambda>_. throwIO err)))"

subsection \<open>Lemmas\<close>

text \<open>The lifecycle of the contract, and that the timeline only moves forward along it.\<close>

inductive lifecycle :: "string \<Rightarrow> string \<Rightarrow> bool" where
  "lifecycle ''Created'' ''Listed''"
| "lifecycle ''Listed'' ''Funded''"
| "lifecycle ''Funded'' ''Active''"
| "lifecycle ''Active'' ''Confirmed''"
| "lifecycle ''Confirmed'' ''Repaid''"
| "lifecycle st ''Defaulted''"

definition flags_kept :: "jsobj \<Rightarrow> jsobj \<Rightarrow> bool" where
  "flags_kept ob ob' \<longleftrightarrow>
     (\<forall>k \<in> {''buyerConfirmed'', ''issuerConfirmed'', ''shippedAt''}. truthy (obj_get ob k) \<longrightarrow> truthy (obj_get ob' k))"

lemma timeline_bound: "getCurrentTimelineIndex ob < length TIMELINE_STEPS"
  by (auto simp: getCurrentTimelineIndex_def statusProgress_def TIMELINE_STEPS_def split: jsval.split)

lemma shipped_never_current: "getCurrentTimelineIndex ob \<noteq> 3"
  by (auto simp: getCurrentTimelineIndex_def statusProgress_def split: jsval.split)

lemma timeline_forward:
  assumes "lifecycle st st'" and "obj_get ob ''status'' = JStr st" and "obj_get ob' ''status'' = JStr st'"
    and "flags_kept ob ob'"
  shows "getCurrentTimelineIndex ob \<le> getCurrentTimelineIndex ob'"
proof -
  have "getCurrentTimelineIndex ob \<le> 6"
    by (auto simp: getCurrentTimelineIndex_def statusProgress_def split: jsval.split)
  with assms show ?thesis
    by (cases rule: lifecycle.cases)
      (auto simp: getCurrentTimelineIndex_def statusProgress_def status_is_def flags_kept_def)
qed

lemma timeline_shape:
  assumes "buildInvoiceTimeline fmt ob = Inr es"
  shows "map te_key es = map fst TIMELINE_STEPS \<and>
         map te_isComplete es = map (\<lambda>i. i \<le> getCurrentTimelineIndex ob) [0..<7] \<and>
         map te_isCurrent es = map (\<lambda>i. i = getCurrentTimelineIndex ob) [0..<7]"
  using assms
  by (auto simp: buildInvoiceTimeline_def TIMELINE_STEPS_def timeline_entry_def Let_def bindE_eq_Inr upt_rec)

text \<open>The completed steps are those up to the current one.\<close>

lemma timeline_complete:
  assumes "buildInvoiceTimeline fmt ob = Inr es" and "e \<in> set es"
  shows "te_isComplete e \<longleftrightarrow> te_key e \<le> fst (TIMELINE_STEPS ! getCurrentTimelineIndex ob)"
proof -
  have "getCurrentTimelineIndex ob \<in> {0, 1, 2, 3, 4, 5, 6}"
    using timeline_bound [of ob] by (auto simp: TIMELINE_STEPS_def)
  then have cur: "step_index (fst (TIMELINE_STEPS ! getCurrentTimelineIndex ob)) = getCurrentTimelineIndex ob"
    by (auto simp: TIMELINE_STEPS_def)
  obtain i where "i \<in> set (enumerate 0 TIMELINE_STEPS)" "timeline_entry fmt ob i = Inr e"
    using assms unfolding buildInvoiceTimeline_def mapE_eq_Inr list_all2_conv_all_nth in_set_conv_nth by metis
  then show ?thesis unfolding less_eq_TimelineStepKey_def cur
    by (auto simp: timeline_entry_def TIMELINE_STEPS_def bindE_eq_Inr Let_def)
qed

lemma truncateTxHash_bound: "length (truncateTxHash h) \<le> 17"
  by (auto simp: truncateTxHash_def js_slice0_def js_slice_last_def)

text \<open>Layout: every mark lies between the margins when no single field is higher than a page.\<close>

definition on_paper :: "rat \<Rightarrow> pdf_doc \<Rightarrow> bool" where
  "on_paper pageHeight d \<longleftrightarrow>
     PAGE_MARGIN \<le> doc_y d \<and>
     (\<forall>(p, y, t) \<in> set (doc_marks d). p \<le> doc_page d \<and> PAGE_MARGIN \<le> y \<and> y \<le> pageHeight - PAGE_MARGIN)"

definition fits :: "rat \<Rightarrow> (string \<Rightarrow> string list) \<Rightarrow> bool" where
  "fits pageHeight splitText \<longleftrightarrow>
     (\<forall>v. of_nat (length (splitText v)) * LINE_HEIGHT + 6 \<le> pageHeight - 2 * PAGE_MARGIN)"

lemma on_paper_draw:
  "on_paper H d \<Longrightarrow> 0 \<le> dy \<Longrightarrow> doc_y d + dy \<le> H - PAGE_MARGIN \<Longrightarrow> on_paper H (draw dy t d)"
  by (auto simp: on_paper_def draw_def)

lemma on_paper_advance: "on_paper H d \<Longrightarrow> 0 \<le> dy \<Longrightarrow> on_paper H (advance dy d)"
  by (auto simp: on_paper_def advance_def)

lemma on_paper_ensure:
  assumes "on_paper H d" and "needed \<le> H - 2 * PAGE_MARGIN"
  shows "on_paper H (ensureSpace H needed d) \<and> doc_y (ensureSpace H needed d) + needed \<le> H - PAGE_MARGIN"
  using assms by (auto simp: on_paper_def ensureSpace_def)

lemma on_paper_lines:
  assumes "on_paper H d" and "doc_y d + of_nat (k + length ls) * LINE_HEIGHT \<le> H - PAGE_MARGIN"
  shows "on_paper H (foldl (\<lambda>d (index, line). draw (of_nat index * LINE_HEIGHT) line d) d (enumerate k ls)) \<and>
         doc_y (foldl (\<lambda>d (index, line). draw (of_nat index * LINE_HEIGHT) line d) d (enumerate k ls)) = doc_y d"
  using assms
proof (induction ls arbitrary: k d)
  case (Cons l ls)
  let ?d = "draw (of_nat k * LINE_HEIGHT) l d"
  have "of_nat k * LINE_HEIGHT \<le> of_nat (k + length (l # ls)) * LINE_HEIGHT" by (simp add: LINE_HEIGHT_def)
  then have "on_paper H ?d" using Cons.prems by (intro on_paper_draw) (auto simp: LINE_HEIGHT_def)
  moreover have "doc_y ?d + of_nat (Suc k + length ls) * LINE_HEIGHT \<le> H - PAGE_MARGIN"
    using Cons.prems(2) by (simp add: draw_def)
  ultimately show ?case using Cons.IH [of ?d "Suc k"] by (simp add: draw_def)
qed simp

lemma on_paper_field:
  assumes "on_paper H d" and "fits H splitText"
  shows "on_paper H (writeField H splitText f d)"
proof -
  obtain label v where f: "f = (label, v)" by (cases f)
  let ?n = "of_nat (length (splitText v)) * LINE_HEIGHT + 6"
  let ?d = "ensureSpace H ?n d"
  have d: "on_paper H ?d" "doc_y ?d + ?n \<le> H - PAGE_MARGIN"
    using on_paper_ensure [OF assms(1)] assms(2) by (auto simp: fits_def)
  have "0 \<le> of_nat (length (splitText v)) * LINE_HEIGHT" by (simp add: LINE_HEIGHT_def)
  with d have l: "on_paper H (draw 0 (js_toUpperCase label) ?d)" by (intro on_paper_draw) auto
  have "doc_y (draw 0 (js_toUpperCase label) ?d) + of_nat (0 + length (splitText v)) * LINE_HEIGHT \<le> H - PAGE_MARGIN"
    using d(2) by (simp add: draw_def)
  then have "on_paper H (draw_lines (splitText v) (draw 0 (js_toUpperCase label) ?d))"
    using on_paper_lines [OF l] unfolding draw_lines_def by blast
  then show ?thesis by (auto simp: f writeField_def Let_def LINE_HEIGHT_def intro!: on_paper_advance)
qed

lemma on_paper_fields:
  "on_paper H d \<Longrightarrow> fits H splitText \<Longrightarrow> on_paper H (foldl (\<lambda>d f. writeField H splitText f d) d fs)"
  by (induction fs arbitrary: d) (simp_all add: on_paper_field)

lemma on_paper_heading:
  "on_paper H d \<Longrightarrow> 126 \<le> H \<Longrightarrow> on_paper H (writeHeading H t d)"
  using on_paper_ensure [of H d 30]
  by (auto simp: writeHeading_def PAGE_MARGIN_def intro!: on_paper_advance on_paper_draw)

subsection \<open>Properties\<close>

text \<open>
  The exported document never loses text: on pages of at least 144 points, when no single value
  breaks into more lines than a page holds, every line of the title, the fields and the timeline is
  drawn between the margins of an existing page.
\<close>

theorem generateInvoicePdf_on_paper:
  assumes "fits H splitText" and "144 \<le> H"
  shows "on_paper H (generateInvoicePdf H splitText now content)"
proof -
  let ?d0 = "\<lparr>doc_page = 0, doc_y = PAGE_MARGIN, doc_marks = []\<rparr>"
  have start: "on_paper H (advance 26 (draw 0 g (advance 22 (draw 0 t ?d0))))" for g t
    using assms(2) by (auto simp: on_paper_def advance_def draw_def PAGE_MARGIN_def)
  show ?thesis unfolding generateInvoicePdf_def Let_def using assms
    by (intro on_paper_fields on_paper_heading on_paper_advance [where dy = 10] start) auto
qed

theorem generateInvoicePdf_on_paper_witness:
  "on_paper 842 (generateInvoicePdf 842 (\<lambda>v. [v]) 0 \<lparr>pdf_title = ''T'', pdf_fields = [(''A'', ''b'')], pdf_timeline = []\<rparr>)"
  by (rule generateInvoicePdf_on_paper) (simp_all add: fits_def LINE_HEIGHT_def PAGE_MARGIN_def)


end
