(* ===== verification/InvoiceDetail.thy ===== *)
theory InvoiceDetail
  imports InvoiceCards InvoiceViews Api
begin

text \<open>
  The page of one invoice: what the server renders for it (\<open>app/invoice/[invoiceId]/page.tsx\<close>), its
  timeline (\<open>components/invoice/InvoiceStatusTimeline.tsx\<close>) and the page itself
  (\<open>app/invoice/[invoiceId]/InvoiceDetailClient.tsx\<close>). The four actions and the state of the running
  transaction are those of \<open>Actions\<close>; the page decides which of them it offers.
\<close>

subsection \<open>The server's part\<close>

record 'w page_env =
  pe_fetch :: "string \<Rightarrow> 'w \<Rightarrow> (exn + api_response) \<times> 'w"
  pe_apiBaseUrl :: "string option"
  pe_appUrl :: "string option"
  pe_zparse :: zparser
  pe_dueFormat :: date_format \<comment> \<open>throws for a time that is no date\<close>

definition getIndexerApiUrl :: "'w page_env \<Rightarrow> string" where
  "getIndexerApiUrl E = (if present (pe_apiBaseUrl E) then the (pe_apiBaseUrl E) else ''http://localhost:8080'')"

text \<open>Whatever goes wrong, the payload is \<open>null\<close>. It is fetched once per request and kept.\<close>

definition fetchInvoiceRaw :: "'w page_env \<Rightarrow> string \<Rightarrow> 'w \<Rightarrow> jsval \<times> 'w" where
  "fetchInvoiceRaw E invoiceId w =
     (case pe_fetch E (getIndexerApiUrl E @ ''/invoices/'' @ invoiceId) w of
        (Inl e, w') \<Rightarrow> (JNull, w')
      | (Inr res, w') \<Rightarrow>
          (if \<not> response_ok res then JNull
           else case bindE (rs_text res) JSON_parse of Inl e \<Rightarrow> JNull | Inr v \<Rightarrow> v, w'))"

definition fetchInvoiceById :: "'w page_env \<Rightarrow> jsval \<Rightarrow> exn + jsobj option" where
  "fetchInvoiceById E raw =
     (if raw = JNull then Inr None else bindE (parseInvoiceResponse (pe_zparse E) raw) (\<lambda>ob. Inr (Some ob)))"

record Metadata =
  md_title :: string
  md_description :: string
  md_image :: string

definition strip_slash :: "string \<Rightarrow> string" where
  "strip_slash s = (if s \<noteq> [] \<and> List.last s = CHR ''/'' then butlast s else s)"

definition share_amount :: "Invoice \<Rightarrow> string" where
  "share_amount iv = formatAmount (Some (inv_faceValue iv)) USDC @ '' USDC''"

definition generateMetadata :: "'w page_env \<Rightarrow> jsval \<Rightarrow> exn + Metadata" where
  "generateMetadata E raw =
     bindE (fetchInvoiceById E raw) (\<lambda>found.
       let origin = (if present (pe_appUrl E) then the (pe_appUrl E) else ''http://localhost:3000'');
           ogImage = strip_slash origin @ ''/og-image.png'' in
       case found of
         None \<Rightarrow> Inr \<lparr>md_title = ''TrusTrove Invoice'', md_description = ''Trade finance invoice on Stellar.'', md_image = ogImage\<rparr>
       | Some ob \<Rightarrow>
           let iv = invoice_of ob in
           bindE (pe_dueFormat E (num_scale (inv_dueDate iv) 1000)) (\<lambda>dueDate.
             Inr \<lparr>md_title = ''TrusTrove Invoice #'' @ inv_id iv @ '' '' @ em_dash @ '' '' @ share_amount iv,
                  md_description = ''Trade finance invoice on Stellar. Status: '' @ status_string (inv_status iv) @
                    ''. Due: '' @ dueDate @ ''.'',
                  md_image = ogImage\<rparr>))"

text \<open>What the page hands to the client, and what the client makes of it.\<close>

definition initialInvoice :: "jsval \<Rightarrow> jsval" where
  "initialInvoice raw = coalesce raw JUndef"

definition seedInvoice :: "zparser \<Rightarrow> jsval \<Rightarrow> exn + jsobj option" where
  "seedInvoice zparse v =
     (if v = JUndef then Inr None else bindE (parseInvoiceResponse zparse v) (\<lambda>ob. Inr (Some ob)))"

subsection \<open>Timeline\<close>

definition timeline_item :: "InvoiceTimelineEntry \<Rightarrow> 'h el" where
  "timeline_item e =
     El ''li'' (attr ''aria-current'' (if te_isCurrent e then Some ''step'' else None)) []
       [para ''span'' (if te_isCurrent e then ''Current step'' else if te_isComplete e then ''Completed'' else ''Upcoming''),
        el ''div''
          [el ''div'' [para ''span'' (te_label e), para ''span'' (te_timestampLabel e)],
           el ''div''
             [if truthy (te_txHash e)
              then El ''a'' [(''href'', ''https://stellar.expert/explorer/testnet/tx/'' @ js_String (te_txHash e)),
                             (''target'', ''_blank''), (''rel'', ''noreferrer'')] []
                     [para ''span'' (truncateTxHash (js_String (te_txHash e)))]
              else para ''span'' ''No tx hash recorded'']]]"

definition InvoiceStatusTimeline :: "date_format \<Rightarrow> jsobj \<Rightarrow> exn + 'h el" where
  "InvoiceStatusTimeline fmt ob =
     bindE (buildInvoiceTimeline fmt ob) (\<lambda>entries. Inr (el ''ol'' (map timeline_item entries)))"

subsection \<open>Copying\<close>

datatype CopyKey = KeyId | KeyIssuer | KeyBuyer | KeyLink

text \<open>
  \<open>copyToClipboard\<close> in three parts, since the user may press another button while it waits: what
  happens at once, what happens when the clipboard answered, and the timer. \<open>cp_live\<close> are the timers
  that have not fired, \<open>cp_ref\<close> is the one that the component can still cancel.
\<close>

record copy_state =
  cp_copied :: "CopyKey option"
  cp_failed :: "CopyKey option"
  cp_announcement :: string
  cp_ref :: "nat option"
  cp_live :: "nat list"
  cp_next :: nat

definition copy_init :: copy_state where
  "copy_init = \<lparr>cp_copied = None, cp_failed = None, cp_announcement = [], cp_ref = None, cp_live = [], cp_next = 0\<rparr>"

definition copy_begin :: "copy_state \<Rightarrow> copy_state" where
  "copy_begin c =
     (case cp_ref c of Some t \<Rightarrow> c\<lparr>cp_live := remove1 t (cp_live c), cp_ref := None\<rparr> | None \<Rightarrow> c)"

definition copy_settle :: "CopyKey \<Rightarrow> bool \<Rightarrow> copy_state \<Rightarrow> copy_state" where
  "copy_settle k ok c =
     (if ok then c\<lparr>cp_copied := Some k, cp_failed := None, cp_announcement := ''Copied''\<rparr>
      else c\<lparr>cp_copied := None, cp_failed := Some k, cp_announcement := ''Copy failed''\<rparr>)
       \<lparr>cp_ref := Some (cp_next c), cp_live := cp_live c @ [cp_next c], cp_next := Suc (cp_next c)\<rparr>"

definition copy_timer :: "nat \<Rightarrow> copy_state \<Rightarrow> copy_state" where
  "copy_timer t c =
     c\<lparr>cp_copied := None, cp_failed := None, cp_announcement := [], cp_ref := None, cp_live := remove1 t (cp_live c)\<rparr>"

inductive copy_step :: "copy_state \<Rightarrow> copy_state \<Rightarrow> bool" where
  "copy_step c (copy_begin c)"
| "copy_step c (copy_settle k ok c)"
| "t \<in> set (cp_live c) \<Longrightarrow> copy_step c (copy_timer t c)"

definition copy_inv :: "copy_state \<Rightarrow> bool" where
  "copy_inv c \<longleftrightarrow>
     (cp_copied c = None \<or> cp_failed c = None) \<and>
     cp_announcement c = (if cp_copied c \<noteq> None then ''Copied'' else if cp_failed c \<noteq> None then ''Copy failed'' else [])"

interpretation copying: invariant_system "\<lambda>c. c = copy_init" copy_step copy_inv
proof
  fix c d
  assume "copy_inv c" "copy_step c d"
  from this(2,1) show "copy_inv d"
    by cases (auto simp: copy_inv_def copy_begin_def copy_settle_def copy_timer_def split: option.split)
qed (simp add: copy_inv_def copy_init_def)

subsection \<open>The page\<close>

record detail_page =
  dp_copy :: copy_state
  dp_url :: string
  dp_exporting :: bool
  dp_pdfError :: "string option"
  dp_detail :: detail_state

text \<open>Exporting: a second press while one is under way is ignored.\<close>

definition downloadPdf :: "(exn, 's, unit) io \<Rightarrow> bool \<Rightarrow> (exn, detail_page \<times> 's, unit) io" where
  "downloadPdf generate hasInvoice = (\<lambda>(d, s).
     if \<not> hasInvoice \<or> dp_exporting d then (Inr (), (d, s))
     else case generate s of
       (Inr u, s') \<Rightarrow> (Inr (), (d\<lparr>dp_exporting := False, dp_pdfError := None\<rparr>, s'))
     | (Inl e, s') \<Rightarrow> (Inr (), (d\<lparr>dp_exporting := False,
          dp_pdfError := Some (message_or e ''Could not generate the invoice PDF.'')\<rparr>, s')))"

definition shareMessage :: "Invoice option \<Rightarrow> string" where
  "shareMessage found = (case found of
     None \<Rightarrow> [] | Some iv \<Rightarrow> ''TrusTrove Invoice '' @ inv_id iv @ '' '' @ em_dash @ '' '' @ share_amount iv)"

text \<open>The dash is three bytes in UTF-8.\<close>

definition encode_text :: "string \<Rightarrow> string" where
  "encode_text s = concat (map (\<lambda>c. if [c] = em_dash then ''%E2%80%94'' else encodeURIComponent [c]) s)"

definition whatsappUrl :: "string \<Rightarrow> string \<Rightarrow> string" where
  "whatsappUrl msg url = ''https://wa.me/?text='' @ encode_text (msg @ '' '' @ url)"

definition telegramUrl :: "string \<Rightarrow> string \<Rightarrow> string" where
  "telegramUrl msg url = ''https://t.me/share/url?url='' @ encode_text url @ ''&text='' @ encode_text msg"

definition canShip :: "bool \<Rightarrow> string \<Rightarrow> Invoice \<Rightarrow> bool" where
  "canShip con role iv \<longleftrightarrow> con \<and> role = ''issuer'' \<and> inv_status iv = Funded"

definition canConfirm :: "bool \<Rightarrow> string \<Rightarrow> Invoice \<Rightarrow> bool" where
  "canConfirm con role iv \<longleftrightarrow> con \<and> role = ''buyer'' \<and> inv_status iv = Active"

definition canRepay :: "bool \<Rightarrow> string \<Rightarrow> Invoice \<Rightarrow> bool" where
  "canRepay con role iv \<longleftrightarrow> con \<and> role = ''buyer'' \<and> inv_status iv = Confirmed"

definition canDefault :: "bool \<Rightarrow> int \<Rightarrow> Invoice \<Rightarrow> bool" where
  "canDefault con now iv \<longleftrightarrow> con \<and> inv_status iv = Confirmed \<and> isOverdue now iv"

datatype detail_control =
    CopyOf CopyKey | DownloadPdf | ShipButton | ConfirmButton | RepayButton | DefaultButton | ClosePending pending_control

definition copy_button :: "copy_state \<Rightarrow> CopyKey \<Rightarrow> string \<Rightarrow> bool \<Rightarrow> detail_control el" where
  "copy_button c k lab withText =
     El ''button'' [(''type'', ''button''), (''aria-label'', lab)] [(''onClick'', CopyOf k)]
       (shown withText [El ''span'' [(''aria-hidden'', ''true'')] [] [Txt (if cp_copied c = Some k then ''COPIED'' else ''COPY'')]])"

definition detail_head :: "copy_state \<Rightarrow> Invoice \<Rightarrow> detail_control el list" where
  "detail_head c iv =
     [El ''p'' [(''role'', ''status''), (''aria-live'', ''polite'')] [] [Txt (cp_announcement c)],
      El ''nav'' [(''aria-label'', ''Breadcrumb'')] []
        [el ''ol'' [el ''li'' [El ''a'' [(''href'', ''/dashboard'')] [] [Txt ''Dashboard'']],
                    El ''li'' [(''aria-hidden'', ''true'')] [] [],
                    el ''li'' [El ''span'' [(''aria-current'', ''page'')] [] [Txt (''Invoice #'' @ truncateAddress (inv_id iv))]]]],
      el ''div''
        [el ''div''
           [el ''div'' [para ''h1'' ''INVOICE AUDIT LEDGER'', InvoiceStatusBadge (inv_status iv)],
            el ''div'' [el ''span'' [Txt ''HASH: '', para ''strong'' (inv_id iv)], copy_button c KeyId ''Copy invoice ID'' False]],
         el ''div'' [para ''span'' ''Face Value Obligations'', para ''span'' (formatAmount (Some (inv_faceValue iv)) USDC)]]]"

definition detail_parties :: "copy_state \<Rightarrow> Invoice \<Rightarrow> detail_control el" where
  "detail_parties c iv =
     el ''div''
       [para ''h2'' ''Obligation Parties'',
        el ''div''
          [el ''div'' [el ''div'' [para ''span'' ''SME Issuer (Vendor)'', para ''span'' (inv_issuer iv)],
                       copy_button c KeyIssuer ''Copy issuer address'' True],
           el ''div'' [el ''div'' [para ''span'' ''Buyer Party (Debtor)'', para ''span'' (inv_buyer iv)],
                       copy_button c KeyBuyer ''Copy buyer address'' True]]]"

definition escrowCondition :: "InvoiceStatus \<Rightarrow> string" where
  "escrowCondition st =
     (case st of
        Funded \<Rightarrow> ''Locked (Awaiting SME shipment proof)''
      | Active \<Rightarrow> ''Locked (Goods Shipped, Awaiting Buyer delivery confirmation)''
      | Confirmed \<Rightarrow> ''Active (Delivered, Awaiting Buyer repayment)''
      | Repaid \<Rightarrow> ''Released (Repayment completed)''
      | _ \<Rightarrow> ''Unlocked / Empty'')"

definition escrowAmount :: "Invoice \<Rightarrow> string" where
  "escrowAmount iv =
     (if inv_status iv \<in> {Funded, Active, Confirmed} then formatAmount (Some (inv_faceValue iv)) (inv_asset iv)
      else ''0.00 '' @ asset_string (inv_asset iv))"

definition detail_escrow :: "Invoice \<Rightarrow> detail_control el" where
  "detail_escrow iv =
     el ''div''
       [para ''h2'' ''Escrow Security Vault'',
        el ''div''
          [el ''div'' [para ''span'' (asset_string (inv_asset iv) @ '' Locked in Escrow''), para ''span'' (escrowAmount iv)],
           el ''div'' [para ''span'' ''Escrow Condition'', para ''span'' (escrowCondition (inv_status iv))]]]"

definition maturityStatus :: "int \<Rightarrow> Invoice \<Rightarrow> string" where
  "maturityStatus now iv =
     (if isOverdue now iv \<and> inv_status iv \<noteq> Repaid then ''OVERDUE''
      else num_toString (daysRemaining now iv) @ '' days remaining'')"

definition detail_maturity :: "(jsnum \<Rightarrow> string) \<Rightarrow> int \<Rightarrow> Invoice \<Rightarrow> detail_control el" where
  "detail_maturity dateStr now iv =
     el ''div''
       [para ''h2'' ''Maturity Parameters'',
        el ''div''
          [el ''div'' [para ''span'' ''Maturity Date:'', para ''span'' (dateStr (num_scale (inv_dueDate iv) 1000))],
           el ''div'' [para ''span'' ''Maturity Status:'', para ''span'' (maturityStatus now iv)],
           el ''div'' [para ''span'' ''Discount Rate:'', para ''span'' (discount_text (inv_discountBps iv))],
           el ''div'' [para ''span'' ''Net Discount Fee:'',
                       para ''span'' (formatAmount (Some (inv_faceValue iv - inv_fundedAmount iv)) (inv_asset iv))]]]"

definition detail_share :: "detail_page \<Rightarrow> Invoice \<Rightarrow> detail_control el" where
  "detail_share d iv =
     (let msg = shareMessage (Some iv) in
      el ''div''
        [para ''h2'' ''Share Invoice'',
         el ''div''
           ([El ''button'' ([(''aria-busy'', aria_bool (dp_exporting d))] @ flag ''disabled'' (dp_exporting d)) [(''onClick'', DownloadPdf)]
               [para ''span'' (if dp_exporting d then ''Generating PDF...'' else ''Download PDF'')]] @
            (case dp_pdfError d of Some m \<Rightarrow> shown (m \<noteq> []) [El ''p'' [(''role'', ''alert'')] [] [Txt m]] | None \<Rightarrow> []) @
            [button (CopyOf KeyLink) (dp_url d = [])
               (if cp_copied (dp_copy d) = Some KeyLink then ''LINK COPIED'' else ''Copy Invoice Link''),
             el ''div'' [El ''a'' [(''href'', whatsappUrl msg (dp_url d)), (''target'', ''_blank''), (''rel'', ''noreferrer'')] [] [Txt ''WhatsApp''],
                         El ''a'' [(''href'', telegramUrl msg (dp_url d)), (''target'', ''_blank''), (''rel'', ''noreferrer'')] [] [Txt ''Telegram'']]])])"

definition detail_actions :: "bool \<Rightarrow> string \<Rightarrow> int \<Rightarrow> detail_state \<Rightarrow> Invoice \<Rightarrow> detail_control el list" where
  "detail_actions con role now ds iv =
     shown (canShip con role iv \<or> canConfirm con role iv \<or> canRepay con role iv \<or> canDefault con now iv)
       [el ''div''
          ([para ''h2'' ''Available Action''] @
           shown (canShip con role iv) [button ShipButton (submitting ds) ''MARK GOODS SHIPPED''] @
           shown (canConfirm con role iv) [button ConfirmButton (submitting ds) ''CONFIRM DELIVERY''] @
           shown (canRepay con role iv) [button RepayButton (submitting ds) ''REPAY INVOICE''] @
           shown (canDefault con now iv) [button DefaultButton (submitting ds) ''DEFAULT INVOICE''] @
           (case detail_error ds of Some m \<Rightarrow> shown (m \<noteq> []) [El ''p'' [(''role'', ''alert'')] [] [Txt m]] | None \<Rightarrow> []))]"

definition detail_pending :: "detail_state \<Rightarrow> pending_state \<Rightarrow> detail_control el list" where
  "detail_pending ds st =
     map (map_el ClosePending)
       (TransactionPending \<lparr>pp_isOpen = showPending ds, pp_txHash = pendingHash ds, pp_statusText = pendingText ds,
                            pp_onClose = True\<rparr> st)"

record detail_env =
  de_connected :: bool
  de_role :: string
  de_now :: int
  de_dateStr :: "jsnum \<Rightarrow> string"
  de_dateFormat :: date_format

text \<open>
  The page: loading, not found, or the invoice. The timeline throws when a timestamp is no date,
  and then the page is the nearest error boundary's.
\<close>

definition InvoiceDetailClient ::
  "detail_env \<Rightarrow> string \<Rightarrow> bool \<Rightarrow> jsobj option \<Rightarrow> detail_page \<Rightarrow> pending_state \<Rightarrow> exn + detail_control el" where
  "InvoiceDetailClient E invoiceId isLoading found d st =
     (if isLoading then Inr (El ''div'' [(''role'', ''status'')] [] [Txt ''Fetching invoice state from ledger...''])
      else case found of
        None \<Rightarrow> Inr (el ''div''
          [para ''h1'' ''Ledger entry not found'',
           para ''p'' (''The invoice ID: '' @ invoiceId @ '' was not found on-chain. Please verify the address.''),
           El ''a'' [(''href'', ''/dashboard'')] [] [Txt ''Return to Dashboard'']])
      | Some ob \<Rightarrow>
          let iv = invoice_of ob in
          bindE (InvoiceStatusTimeline (de_dateFormat E) ob) (\<lambda>timeline.
          Inr (el ''div''
            (detail_head (dp_copy d) iv @
             [el ''div'' [para ''h2'' ''Soroban Transaction Progress'', timeline],
              detail_parties (dp_copy d) iv, detail_escrow iv, detail_maturity (de_dateStr E) (de_now E) iv, detail_share d iv] @
             detail_actions (de_connected E) (de_role E) (de_now E) (dp_detail d) iv @
             detail_pending (dp_detail d) st))))"

subsection \<open>Properties\<close>

lemma timeline_reads:
  "InvoiceStatusTimeline fmt ob = Inr e \<Longrightarrow> clicks e = []"
  by (auto simp: InvoiceStatusTimeline_def bindE_def timeline_item_def split: sum.splits)

lemma detail_parts [simp]:
  "concat (map clicks (detail_head c iv)) = [CopyOf KeyId]"
  "clicks (detail_parties c iv) = [CopyOf KeyIssuer, CopyOf KeyBuyer]" "clicks (detail_escrow iv) = []"
  "clicks (detail_maturity dateStr now iv) = []"
  "clicks (detail_share d iv) = shown (\<not> dp_exporting d) [DownloadPdf] @ shown (dp_url d \<noteq> []) [CopyOf KeyLink]"
  by (auto simp: detail_head_def detail_parties_def detail_escrow_def detail_maturity_def detail_share_def copy_button_def
      Let_def shown_def split: option.split)

lemma detail_actions_clicks:
  "concat (map clicks (detail_actions con role now ds iv)) =
     shown (\<not> submitting ds)
       (shown (canShip con role iv) [ShipButton] @ shown (canConfirm con role iv) [ConfirmButton] @
        shown (canRepay con role iv) [RepayButton] @ shown (canDefault con now iv) [DefaultButton])"
  by (cases "detail_error ds") (auto simp: detail_actions_def shown_def)

lemma detail_pending_clicks: "set (concat (map clicks (detail_pending ds st))) \<subseteq> {ClosePending Backdrop, ClosePending CloseDialog}"
  by (auto simp: detail_pending_def TransactionPending_def comp_def)

definition action_of :: "detail_control \<Rightarrow> card_control option" where
  "action_of h = (case h of ShipButton \<Rightarrow> Some ShipInvoice | ConfirmButton \<Rightarrow> Some ConfirmDelivery
     | RepayButton \<Rightarrow> Some RepayInvoice | DefaultButton \<Rightarrow> Some TriggerDefault | _ \<Rightarrow> None)"

lemma detail_clicks:
  assumes "InvoiceDetailClient E i False (Some ob) d st = Inr page"
  shows "set (clicks page) \<subseteq> {CopyOf k | k. True} \<union> {DownloadPdf, ClosePending Backdrop, ClosePending CloseDialog} \<union>
      set (concat (map clicks (detail_actions (de_connected E) (de_role E) (de_now E) (dp_detail d) (invoice_of ob)))) \<and>
    set (concat (map clicks (detail_actions (de_connected E) (de_role E) (de_now E) (dp_detail d) (invoice_of ob)))) \<subseteq> set (clicks page)"
proof -
  obtain t :: "detail_control el" where t: "InvoiceStatusTimeline (de_dateFormat E) ob = Inr t"
    using assms by (auto simp: InvoiceDetailClient_def bindE_def Let_def split: sum.splits)
  then have "clicks page = CopyOf KeyId # CopyOf KeyIssuer # CopyOf KeyBuyer #
      shown (\<not> dp_exporting d) [DownloadPdf] @ shown (dp_url d \<noteq> []) [CopyOf KeyLink] @
      concat (map clicks (detail_actions (de_connected E) (de_role E) (de_now E) (dp_detail d) (invoice_of ob))) @
      concat (map clicks (detail_pending (dp_detail d) st))"
    using assms timeline_reads [OF t] by (auto simp: InvoiceDetailClient_def Let_def)
  then show ?thesis
    using detail_pending_clicks [of "dp_detail d" st] by auto
qed


text \<open>A page without timestamps, whatever the browser's date format.\<close>

definition demo_detail_env :: detail_env where
  "demo_detail_env = \<lparr>de_connected = True, de_role = ''buyer'', de_now = 0, de_dateStr = (\<lambda>t. []), de_dateFormat = (\<lambda>t. Inr [])\<rparr>"

definition demo_detail_page :: detail_page where
  "demo_detail_page = \<lparr>dp_copy = copy_init, dp_url = [], dp_exporting = False, dp_pdfError = None, dp_detail = detail_init\<rparr>"

definition demo_detail_invoice :: "string \<Rightarrow> jsobj" where
  "demo_detail_invoice st = [(''id'', JStr ''ab''), (''status'', JStr st), (''dueDate'', JNum (Fin (- 5))), (''discountBps'', JNum (Fin 0)),
     (''asset'', JStr ''USDC''), (''faceValue'', JBigInt 0), (''fundedAmount'', JBigInt 0)]"

lemma bindE_isl: "\<not> isl r \<Longrightarrow> bindE r (\<lambda>x. Inr (f x)) = Inr (f (projr r))"
  by (cases r) auto


text \<open>
  The card and the page of the same invoice never offer to trigger the default together: the card
  offers it for overdue invoices that were shipped (Active), the page for overdue ones that were
  confirmed. The contract accepts both, and funded ones too, which neither offers.
\<close>

theorem default_views_disagree:
  assumes "InvoiceDetailClient E i False (Some ob) d st = Inr page"
  shows "\<not> (TriggerDefault \<in> set (clicks (InvoiceCard C c (invoice_of ob))) \<and> DefaultButton \<in> set (clicks page)) \<and>
    (inv_status (invoice_of ob) = Funded \<longrightarrow>
       TriggerDefault \<notin> set (clicks (InvoiceCard C c (invoice_of ob))) \<and> DefaultButton \<notin> set (clicks page))"
proof -
  have "DefaultButton \<in> set (clicks page) \<Longrightarrow> inv_status (invoice_of ob) = Confirmed"
    using detail_clicks [OF assms] unfolding detail_actions_clicks by (auto simp: canDefault_def split: if_splits)
  then show ?thesis
    by (auto simp: card_clicks card_actions_clicks Let_def split: if_splits)
qed

theorem default_views_disagree_witness:
  "\<exists>page. InvoiceDetailClient demo_detail_env ''ab'' False (Some (demo_detail_invoice ''Funded'')) demo_detail_page pending_init = Inr page \<and>
     DefaultButton \<notin> set (clicks page)"
proof -
  let ?ob = "demo_detail_invoice ''Funded''"
  have "\<not> isl (buildInvoiceTimeline (\<lambda>t. Inr []) ?ob)" by code_simp
  then have "\<not> isl (InvoiceStatusTimeline (\<lambda>t. Inr []) ?ob :: exn + detail_control el)"
    unfolding InvoiceStatusTimeline_def by (subst bindE_isl) simp_all
  then obtain page where page: "InvoiceDetailClient demo_detail_env ''ab'' False (Some ?ob) demo_detail_page pending_init = Inr page"
    by (simp add: InvoiceDetailClient_def Let_def demo_detail_env_def bindE_isl)
  moreover have "inv_status (invoice_of ?ob) = Funded" by code_simp
  ultimately show ?thesis
    using default_views_disagree [OF page, of demo_card_env card_init] by blast
qed

text \<open>The text that is shared names the unit twice, and always as USDC.\<close>

lemma shareMessage_unit:
  "\<exists>p. shareMessage (Some iv) = p @ '' USDC USDC''"
  by (simp add: shareMessage_def share_amount_def formatAmount_def)

text \<open>The head of the page names every amount USDC as well, that of an XLM invoice too.\<close>

lemma detail_head_unit:
  "\<exists>n. formatAmount (Some (inv_faceValue iv)) USDC = n @ '' USDC'' \<and>
       formatAmount (Some (inv_faceValue iv)) XLM = n @ '' XLM''"
  by (simp add: formatAmount_def)

text \<open>Feedback on copying is about one control at a time and agrees with what is announced.\<close>

lemma copy_feedback:
  "reachable (\<lambda>c. c = copy_init) copy_step c \<Longrightarrow> cp_copied c = None \<or> cp_failed c = None"
  using copying.reachable_inv [of c] by (simp add: copy_inv_def)

end
