(* ===== verification/LpPage.thy ===== *)
theory LpPage
  imports Dialogs InvoiceCards
begin

text \<open>
  The page of a liquidity provider (\<open>app/lp/page.tsx\<close>) and the preview of a transaction
  (\<open>components/shared/SimulationPreview.tsx\<close>): checking the amounts, depositing, withdrawing after a
  confirmation, and the simulation that runs while the amount is typed. The simulation's effect is a
  state machine: of its runs only the latest is active, and what the others do at their end changes
  nothing, so that the state holds the active run alone.
\<close>

subsection \<open>The preview\<close>

definition SimulationPreview :: "SimulationResult option \<Rightarrow> string option \<Rightarrow> bool \<Rightarrow> bool \<Rightarrow> 'h el list" where
  "SimulationPreview details error isLoading isFallback =
     (if isLoading then [el ''div'' [el ''div'' [para ''span'' ''Simulating Transaction...'']]]
      else if present error then [el ''div'' [el ''div'' [para ''span'' ''Simulation Failed''], para ''p'' (the error)]]
      else case details of
        None \<Rightarrow> shown isFallback
          [el ''div'' [el ''div'' [para ''span'' ''Simulation Unavailable''],
             para ''p'' ''Live simulation data is currently unavailable. The fee shown at signing time may differ from this preview.'']]
      | Some d \<Rightarrow>
          [el ''div''
             [el ''div'' [el ''div'' [para ''span'' ''Transaction Preview''],
                          el ''div'' [para ''span'' (if isFallback then ''Estimate'' else ''Ready to Sign'')]],
              el ''div''
                [el ''div'' [para ''span'' ''Method'', para ''span'' (functionName d)],
                 el ''div'' [para ''span'' ''Footprint Size'',
                             para ''span'' (show_nat (footprintSize d) @ '' '' @
                               (if footprintSize d = 1 then ''ledger entry'' else ''ledger entries''))],
                 el ''div'' [para ''span'' ''Estimated network fee'', para ''span'' (estimatedFeeXlm d @ '' XLM'')]]]])"

subsection \<open>State and simulation\<close>

datatype sim_run = NoRun | Scheduled jsnum | Running jsnum | Settled

record lp_page =
  lp_depositAmount :: string
  lp_withdrawShares :: string
  lp_simDetails :: "SimulationResult option"
  lp_simError :: "string option"
  lp_isSimulating :: bool
  lp_depositError :: "string option"
  lp_withdrawError :: "string option"
  lp_run :: sim_run

definition lp_init :: lp_page where
  "lp_init = \<lparr>lp_depositAmount = [], lp_withdrawShares = [], lp_simDetails = None, lp_simError = None, lp_isSimulating = False,
     lp_depositError = None, lp_withdrawError = None, lp_run = NoRun\<rparr>"

definition amount_ok :: "jsnum \<Rightarrow> bool" where
  "amount_ok x \<longleftrightarrow> num_isFinite x \<and> \<not> num_le x (Fin 0)"

definition lp_stroops :: "jsnum \<Rightarrow> exn + int" where
  "lp_stroops x = bigint_of_num (num_floor (num_scale x 10000000))"

text \<open>The effect on the account and the amount; leaving the previous run makes it inactive.\<close>

definition lp_effect :: "string option \<Rightarrow> lp_page \<Rightarrow> lp_page" where
  "lp_effect address p =
     (let amount = num_of_string (lp_depositAmount p)
      in if \<not> present address \<or> \<not> amount_ok amount then p\<lparr>lp_simDetails := None, lp_simError := None, lp_run := NoRun\<rparr>
         else p\<lparr>lp_run := Scheduled amount\<rparr>)"

text \<open>The body of the timer up to its first \<open>await\<close>, the call it makes, and its end.\<close>

definition lp_fire :: "jsnum \<Rightarrow> lp_page \<Rightarrow> lp_page" where
  "lp_fire amount p = p\<lparr>lp_isSimulating := True, lp_simError := None, lp_run := Running amount\<rparr>"

definition simulateDeposit ::
  "('w, 'a, 't, 'v) dapp_env \<Rightarrow> string \<Rightarrow> jsnum \<Rightarrow> ('w, 'a, 't, 'v, SimulationResult) sdk_io" where
  "simulateDeposit D address amount =
     bindIO (liftE (lp_stroops amount)) (\<lambda>amountStroops.
     bindIO (getPoolClient D) (\<lambda>client.
     withArgs [addressScVal (d_sdk D) address, bigintArg (d_sdk D) amountStroops ''u128''] (\<lambda>args.
     simulateTransaction (d_sdk D) client ''deposit'' args address)))"

definition lp_simulated :: "exn + SimulationResult \<Rightarrow> lp_page \<Rightarrow> lp_page" where
  "lp_simulated r p =
     (case r of
        Inr result \<Rightarrow> p\<lparr>lp_simDetails := Some result\<rparr>
      | Inl e \<Rightarrow> p\<lparr>lp_simError := Some (message_or e ''Simulation failed'')\<rparr>)\<lparr>lp_isSimulating := False, lp_run := Settled\<rparr>"

definition lp_editDeposit :: "string option \<Rightarrow> string \<Rightarrow> lp_page \<Rightarrow> lp_page" where
  "lp_editDeposit address v p =
     (let q = p\<lparr>lp_depositAmount := v, lp_depositError := None\<rparr>
      in if v = lp_depositAmount p then q else lp_effect address q)"

definition lp_editWithdraw :: "string \<Rightarrow> lp_page \<Rightarrow> lp_page" where
  "lp_editWithdraw v p = p\<lparr>lp_withdrawShares := v, lp_withdrawError := None\<rparr>"

inductive lp_step :: "string option \<times> lp_page \<Rightarrow> string option \<times> lp_page \<Rightarrow> bool" where
  edit: "lp_step (ad, p) (ad, lp_editDeposit ad v p)"
| edit_shares: "lp_step (ad, p) (ad, lp_editWithdraw v p)"
| account: "ad' \<noteq> ad \<Longrightarrow> lp_step (ad, p) (ad', lp_effect ad' p)"
| fire: "lp_run p = Scheduled a \<Longrightarrow> lp_step (ad, p) (ad, lp_fire a p)"
| settle: "lp_run p = Running a \<Longrightarrow> lp_step (ad, p) (ad, lp_simulated r p)"

inductive_cases lp_stepE: "lp_step s t"

subsection \<open>Depositing and withdrawing\<close>

definition handleDeposit ::
  "(int \<Rightarrow> (exn, 's, string) io) \<Rightarrow> string option \<Rightarrow> (exn, lp_page \<times> 's, unit) io" where
  "handleDeposit deposit address = (\<lambda>(p, s).
     let amount = num_of_string (lp_depositAmount p) in
     if \<not> amount_ok amount then (Inr (), (p\<lparr>lp_depositError := Some ''Enter an amount greater than zero.''\<rparr>, s))
     else case lp_stroops amount of
       Inl e \<Rightarrow> (Inl e, (p\<lparr>lp_depositError := None\<rparr>, s))
     | Inr n \<Rightarrow>
         (case deposit n s of
            (Inl e, s') \<Rightarrow> (Inl e, (p\<lparr>lp_depositError := None\<rparr>, s'))
          | (Inr h, s') \<Rightarrow> (Inr (), (lp_effect address (p\<lparr>lp_depositError := None, lp_depositAmount := []\<rparr>), s'))))"

definition withdrawAction :: "(int \<Rightarrow> (exn, 's, string) io) \<Rightarrow> int \<Rightarrow> (exn, lp_page \<times> 's, unit) io" where
  "withdrawAction withdraw n = (\<lambda>(p, s).
     case withdraw n s of
       (Inl e, s') \<Rightarrow> (Inl e, (p, s'))
     | (Inr h, s') \<Rightarrow> (Inr (), (p\<lparr>lp_withdrawShares := []\<rparr>, s')))"

definition position_shares :: "LPPosition option \<Rightarrow> int" where
  "position_shares position = (case position of Some l \<Rightarrow> lp_shares l | None \<Rightarrow> 0)"

definition handleWithdraw ::
  "(int \<Rightarrow> 'f) \<Rightarrow> LPPosition option \<Rightarrow> string option \<Rightarrow> (exn, lp_page \<times> 'f ConfirmDialogState, unit) io" where
  "handleWithdraw action position address = (\<lambda>(p, st).
     let shares = num_of_string (lp_withdrawShares p) in
     case (if num_isFinite shares then lp_stroops shares else Inr 0) of
       Inl e \<Rightarrow> (Inl e, (p, st))
     | Inr shareAmount \<Rightarrow>
         if \<not> amount_ok shares then (Inr (), (p\<lparr>lp_withdrawError := Some ''Enter an amount greater than zero.''\<rparr>, st))
         else if position_shares position < shareAmount
              then (Inr (), (p\<lparr>lp_withdrawError := Some ''Amount exceeds your redeemable shares.''\<rparr>, st))
         else (Inr (), (p\<lparr>lp_withdrawError := None\<rparr>,
                dialog_request \<lparr>pa_label = ''Withdraw LP liquidity'',
                  pa_invoiceId = (if present address then the address else ''LP position''), pa_fn = action shareAmount\<rparr> st)))"

definition utilization :: "PoolStats option \<Rightarrow> jsnum" where
  "utilization stats =
     num_min (Fin 100) (num_max (Fin 0) (num_over (case stats of Some s \<Rightarrow> ps_utilizationRateBps s | None \<Rightarrow> Fin 0) 100))"

subsection \<open>The page\<close>

datatype lp_control = DepositInput | DepositSubmit | WithdrawInput | WithdrawSubmit

definition Stat :: "string \<Rightarrow> string \<Rightarrow> 'h el" where
  "Stat lab v = el ''div'' [para ''span'' lab, para ''span'' v]"

definition formatShareValue :: "int option \<Rightarrow> string" where
  "formatShareValue v = formatAmount (Some (case v of Some x \<Rightarrow> x | None \<Rightarrow> 0)) USDC"

definition lp_overview :: "bool \<Rightarrow> PoolStats option \<Rightarrow> 'h el" where
  "lp_overview isStatsLoading stats =
     El ''section'' [(''aria-labelledby'', ''pool-overview-heading'')] []
       (El ''h2'' [(''id'', ''pool-overview-heading'')] [] [Txt ''Pool Overview''] #
        shown (\<not> isStatsLoading)
          [el ''div''
             [el ''div'' [el ''div'' [para ''span'' (num_toFixed 1 (utilization stats) @ ''%''), para ''span'' ''Utilization'']],
              el ''div''
                [Stat ''Total Deposits'' (formatShareValue (map_option ps_totalDeposits stats)),
                 Stat ''Available Liquidity'' (formatShareValue (map_option ps_availableLiquidity stats)),
                 Stat ''Yield Distributed'' (formatShareValue (map_option ps_totalYieldDistributed stats)),
                 Stat ''Active Invoices'' (num_toString (case stats of Some s \<Rightarrow> ps_activeInvoiceCount s | None \<Rightarrow> Fin 0))]]])"

definition lp_position :: "bool \<Rightarrow> LPPosition option \<Rightarrow> 'h el" where
  "lp_position isPositionLoading position =
     El ''section'' [(''aria-labelledby'', ''position-heading'')] []
       (El ''h2'' [(''id'', ''position-heading'')] [] [Txt ''My Position''] #
        shown (\<not> isPositionLoading)
          [el ''div''
             [el ''div'' [para ''span'' ''Active LP Position'',
                para ''span'' (num_toString (case position of Some l \<Rightarrow> lp_depositCount l | None \<Rightarrow> Fin 0) @ '' deposits'')],
              el ''div''
                [Stat ''Current USDC Value'' (formatShareValue (map_option lp_usdcValue position)),
                 Stat ''Redeemable Shares'' (formatShareValue (map_option lp_shares position)),
                 Stat ''Accrued Yield'' (formatShareValue (map_option lp_yieldEarned position))]]])"

text \<open>A message under a field, when there is one to show.\<close>

definition field_error :: "string \<Rightarrow> string option \<Rightarrow> 'h el list" where
  "field_error errId err =
     shown (present err) [El ''p'' [(''id'', errId), (''role'', ''alert'')] [] [Txt (the err)]]"

definition lp_deposit_form :: "bool \<Rightarrow> lp_page \<Rightarrow> lp_control el" where
  "lp_deposit_form isDepositing p =
     El ''form'' [] [(''onSubmit'', DepositSubmit)]
       ([para ''h2'' ''Deposit USDC'',
         El ''label'' [(''htmlFor'', ''deposit-amount'')] [] [Txt ''Deposit amount''],
         El ''input'' ([(''id'', ''deposit-amount''), (''type'', ''number''), (''step'', ''any''), (''value'', lp_depositAmount p)] @
             attr ''aria-invalid'' (if present (lp_depositError p) then Some ''true'' else None) @
             attr ''aria-describedby'' (if present (lp_depositError p) then Some ''deposit-amount-error'' else None))
           [(''onChange'', DepositInput)] []] @
        field_error ''deposit-amount-error'' (lp_depositError p) @
        SimulationPreview (lp_simDetails p) (lp_simError p) (lp_isSimulating p) False @
        [El ''button'' ([(''type'', ''submit'')] @ flag ''disabled'' isDepositing) []
           [Txt (if isDepositing then ''Depositing...'' else ''Deposit USDC'')]])"

text \<open>The description of the second field lists two identifiers when there is an error.\<close>

definition lp_withdraw_form :: "bool \<Rightarrow> LPPosition option \<Rightarrow> lp_page \<Rightarrow> lp_control el" where
  "lp_withdraw_form isWithdrawing position p =
     El ''form'' [] [(''onSubmit'', WithdrawSubmit)]
       ([para ''h2'' ''Withdraw Liquidity'',
         El ''label'' [(''htmlFor'', ''withdraw-shares'')] [] [Txt ''Shares to redeem''],
         El ''input'' ([(''id'', ''withdraw-shares''), (''type'', ''number''), (''step'', ''any''), (''value'', lp_withdrawShares p)] @
             attr ''aria-invalid'' (if present (lp_withdrawError p) then Some ''true'' else None) @
             map (Pair ''aria-describedby'')
               (''withdraw-available'' # shown (present (lp_withdrawError p)) [''withdraw-shares-error'']))
           [(''onChange'', WithdrawInput)] []] @
        field_error ''withdraw-shares-error'' (lp_withdrawError p) @
        [El ''p'' [(''id'', ''withdraw-available'')] [] [Txt (''Available: '' @ formatShareValue (map_option lp_shares position))],
         El ''button'' ([(''type'', ''submit'')] @ flag ''disabled'' (isWithdrawing \<or> position_shares position = 0)) []
           [Txt (if isWithdrawing then ''Withdrawing...'' else ''Withdraw Shares'')]])"

record lp_env =
  le_connected :: bool
  le_isDepositing :: bool
  le_isWithdrawing :: bool
  le_stats :: "PoolStats option"
  le_isStatsLoading :: bool
  le_position :: "LPPosition option"
  le_isPositionLoading :: bool

definition LPDashboard :: "lp_env \<Rightarrow> lp_page \<Rightarrow> lp_control el" where
  "LPDashboard E p =
     (if \<not> le_connected E then el ''div'' [para ''h1'' ''Connect Your Wallet'']
      else el ''div''
        [el ''div'' [para ''h1'' ''Liquidity Provider Portal'',
                     para ''p'' ''Supply USDC liquidity, track pool performance, and manage your position.''],
         lp_overview (le_isStatsLoading E) (le_stats E), lp_position (le_isPositionLoading E) (le_position E),
         el ''div'' [lp_deposit_form (le_isDepositing E) p, lp_withdraw_form (le_isWithdrawing E) (le_position E) p]])"

subsection \<open>Properties\<close>

lemma fl_nonneg: "0 \<le> q \<Longrightarrow> fl q = PosInf \<or> (\<exists>r\<ge>0. fl q = Fin r)"
proof (cases "q = 0")
  case False
  assume "0 \<le> q"
  have "0 \<le> round_even x" if "0 \<le> x" for x :: rat
    using that by (auto simp: round_even_def Let_def)
  moreover have "0 \<le> \<bar>q\<bar> / pow2 (ulp_exp \<bar>q\<bar>)" by (simp add: less_imp_le)
  ultimately have "0 \<le> fl_abs \<bar>q\<bar>"
    by (simp add: fl_abs_def less_imp_le)
  then show ?thesis using \<open>0 \<le> q\<close> False by (auto simp: fl_def Let_def)
qed (simp add: fl_def)

lemma fl_not_nan: "fl q \<noteq> NaN"
  by (auto simp: fl_def Let_def)

lemma amount_ok_iff: "amount_ok x \<longleftrightarrow> (\<exists>q>0. x = Fin q)"
  by (cases x) (auto simp: amount_ok_def num_le_def num_eq_def)

lemma lp_stroops_nonneg:
  assumes "amount_ok x" and "lp_stroops x = Inr n"
  shows "0 \<le> n"
proof -
  obtain q where "x = Fin q" "0 < q" using assms(1) by (auto simp: amount_ok_iff)
  then show ?thesis
    using assms(2) fl_nonneg [of "q * 10000000"] by (auto simp: lp_stroops_def)
qed

lemma empty_amount: "\<not> amount_ok (num_of_string [])"
  by code_simp

lemma preview_loading:
  "SimulationPreview d e True fb = [el ''div'' [el ''div'' [para ''span'' ''Simulating Transaction...'']]]"
  by (simp add: SimulationPreview_def)


lemma lp_stroops_whole: "\<bar>i * 10000000\<bar> \<le> 2 ^ 53 \<Longrightarrow> lp_stroops (Fin (of_int i)) = Inr (i * 10000000)"
proof -
  assume "\<bar>i * 10000000\<bar> \<le> 2 ^ 53"
  then have "num_scale (Fin (of_int i)) 10000000 = Fin (of_int (i * 10000000))"
    using fl_of_int [of "i * 10000000"] by simp
  then show ?thesis by (simp only: lp_stroops_def num_floor.simps floor_of_int bigint_of_num.simps if_True refl)
qed

definition demo_position :: LPPosition where
  "demo_position = \<lparr>lp_shares = 80000000, lp_usdcValue = 81000000, lp_yieldEarned = 1000000, lp_depositCount = Fin 1\<rparr>"

lemma five_shares: "num_of_string ''5'' = Fin 5" "lp_stroops (Fin 5) = Inr 50000000"
proof -
  show "num_of_string ''5'' = Fin 5" by code_simp
  show "lp_stroops (Fin 5) = Inr 50000000" using lp_stroops_whole [of 5] by simp
qed


text \<open>
  What the states of the page have in common: the active run is that of the amount in the field, and
  the page says that it simulates while its run does.
\<close>

definition lp_inv :: "string option \<times> lp_page \<Rightarrow> bool" where
  "lp_inv = (\<lambda>(ad, p).
     (case lp_run p of
        NoRun \<Rightarrow> lp_simDetails p = None \<and> lp_simError p = None
      | Scheduled a \<Rightarrow> present ad \<and> amount_ok a \<and> a = num_of_string (lp_depositAmount p)
      | Running a \<Rightarrow> present ad \<and> amount_ok a \<and> a = num_of_string (lp_depositAmount p) \<and> lp_isSimulating p
      | Settled \<Rightarrow> present ad \<and> amount_ok (num_of_string (lp_depositAmount p)) \<and> \<not> lp_isSimulating p))"

lemma lp_inv_effect: "lp_inv (ad, lp_effect ad p)"
  by (simp add: lp_inv_def lp_effect_def Let_def)

interpretation lp_machine: invariant_system "\<lambda>(ad, p). p = lp_init" lp_step lp_inv
proof
  fix s t
  assume "lp_inv s" "lp_step s t"
  from this(2,1) show "lp_inv t"
  proof cases
    case (edit ad p v)
    then show ?thesis
      using \<open>lp_inv s\<close> lp_inv_effect by (auto simp: lp_editDeposit_def lp_inv_def Let_def split: sim_run.splits)
  next
    case account
    then show ?thesis by (simp add: lp_inv_effect)
  qed (auto simp: lp_inv_def lp_editWithdraw_def lp_fire_def lp_simulated_def split: sum.split sim_run.splits)
qed (auto simp: lp_inv_def lp_init_def)

text \<open>
  Clearing the amount while a simulation runs leaves the preview loading for ever. In every
  reachable state with a running simulation, emptying the field makes the run inactive without
  resetting the flag it had set: the preview still says that it simulates, no simulation is under
  way, none will be, and no step that keeps the amount out of range changes that.
\<close>

theorem preview_stuck:
  assumes "reachable (\<lambda>(ad, p). p = lp_init) lp_step (ad, p)" and "lp_run p = Running a"
  shows "let p' = lp_editDeposit ad [] p in
    lp_depositAmount p' = [] \<and> lp_run p' = NoRun \<and>
    SimulationPreview (lp_simDetails p') (lp_simError p') (lp_isSimulating p') False =
      [el ''div'' [el ''div'' [para ''span'' ''Simulating Transaction...'']]] \<and>
    (\<forall>ad' q. lp_step (ad, p') (ad', q) \<and> \<not> amount_ok (num_of_string (lp_depositAmount q)) \<longrightarrow>
       lp_run q = NoRun \<and> lp_isSimulating q)"
proof -
  have inv: "lp_inv (ad, p)" using lp_machine.reachable_inv [OF assms(1)] .
  then have "lp_depositAmount p \<noteq> []" "lp_isSimulating p"
    using assms(2) empty_amount by (auto simp: lp_inv_def)
  then have p': "lp_editDeposit ad [] p =
      p\<lparr>lp_depositAmount := [], lp_depositError := None, lp_simDetails := None, lp_simError := None, lp_run := NoRun\<rparr>"
    and sim: "lp_isSimulating p"
    using empty_amount by (auto simp: lp_editDeposit_def lp_effect_def Let_def)
  then show ?thesis
    unfolding p' Let_def
    by (auto simp: preview_loading lp_editDeposit_def lp_editWithdraw_def lp_effect_def Let_def elim!: lp_stepE split: if_splits)
qed

text \<open>Five is typed, the timer fires, and the field is emptied before the answer is there.\<close>

definition demo_typing :: lp_page where
  "demo_typing = lp_fire (Fin 5) (lp_editDeposit (Some ''G'') ''5'' lp_init)"

lemma demo_typing_run: "lp_run (lp_editDeposit (Some ''G'') ''5'' lp_init) = Scheduled (Fin 5)" "lp_run demo_typing = Running (Fin 5)"
  by (simp_all add: demo_typing_def lp_fire_def lp_editDeposit_def lp_effect_def lp_init_def Let_def five_shares amount_ok_iff)

theorem preview_stuck_witness:
  "let p' = lp_editDeposit (Some ''G'') [] demo_typing in
   SimulationPreview (lp_simDetails p') (lp_simError p') (lp_isSimulating p') False =
     [el ''div'' [el ''div'' [para ''span'' ''Simulating Transaction...'' :: unit el]]]"
proof -
  have "reachable (\<lambda>(ad, p). p = lp_init) lp_step (Some ''G'', lp_editDeposit (Some ''G'') ''5'' lp_init)"
    by (rule reachable.step [OF reachable.init [of _ "(Some ''G'', lp_init)"]]) (auto intro: lp_step.edit)
  then have "reachable (\<lambda>(ad, p). p = lp_init) lp_step (Some ''G'', demo_typing)"
    unfolding demo_typing_def by (rule reachable.step) (rule lp_step.fire, rule demo_typing_run)
  from preview_stuck [OF this demo_typing_run(2)]
  show ?thesis unfolding Let_def by blast
qed

text \<open>Once a simulation has settled the page is right again.\<close>

lemma settled_not_loading:
  assumes "reachable (\<lambda>(ad, p). p = lp_init) lp_step (ad, p)" and "lp_run p = Settled"
  shows "\<not> lp_isSimulating p"
  using lp_machine.reachable_inv [OF assms(1)] assms(2) by (simp add: lp_inv_def)

text \<open>The identifiers of the page: every label, description and heading finds its element.\<close>

lemma SimulationPreview_reads [simp]:
  "concat (map ids (SimulationPreview d e l fb)) = []" "concat (map idrefs (SimulationPreview d e l fb)) = []"
  by (auto simp: SimulationPreview_def shown_def split: option.split)

lemma Stat_reads [simp]: "ids (Stat l v) = []" "idrefs (Stat l v) = []"
  by (simp_all add: Stat_def)

lemma LPDashboard_labelled: "well_labelled (LPDashboard E p)"
  by (auto simp: well_labelled_def LPDashboard_def lp_overview_def lp_position_def lp_deposit_form_def lp_withdraw_form_def
      field_error_def shown_def)

end
