(* ===== verification/AccountPages.thy ===== *)
theory AccountPages
  imports Dialogs Storage JsMath
begin

text \<open>
  The pages on which a user looks after an account: settings (\<open>app/settings/page.tsx\<close>) and profile
  (\<open>app/profile/page.tsx\<close>). Both show the notification preferences of the connected wallet, with the
  same code. The settings also keep the display preferences in the browser and publish them on the
  document; the profile page registers a business, with a form of its own beside
  \<open>RegistrationModal\<close>, whose record of the form's state it shares here.
\<close>

subsection \<open>Notification preferences\<close>

text \<open>
  What was stored is whatever text parses; reading a property of \<open>null\<close> throws. A click writes the
  spread object with the category negated.
\<close>

definition pref_of :: "jsval \<Rightarrow> string \<Rightarrow> exn + jsval" where
  "pref_of prefs category =
     (if nullish prefs then Inl (JsTypeError ''Cannot read properties of null'')
      else Inr (obj_get (own_entries prefs) category))"

definition pref_checked :: "jsval \<Rightarrow> bool" where
  "pref_checked v \<longleftrightarrow> v \<noteq> JBool False"

definition toggleCategory :: "string \<Rightarrow> string \<Rightarrow> jsval \<times> local_storage \<Rightarrow> exn + jsval \<times> local_storage" where
  "toggleCategory address category = (\<lambda>(prefs, ls).
     bindE (pref_of prefs category) (\<lambda>v.
       let nextPrefs = JObj (obj_set category (JBool (\<not> truthy v)) (own_entries prefs))
       in Inr (nextPrefs, case JSON_stringify nextPrefs of Inr s \<Rightarrow> trySetItem (prefsStorageKey address) s ls | Inl e \<Rightarrow> ls)))"

datatype prefs_control = ToggleCategory string

definition prefs_row :: "jsval \<Rightarrow> string \<Rightarrow> exn + prefs_control el" where
  "prefs_row prefs category =
     bindE (pref_of prefs category) (\<lambda>v.
       Inr (el ''div''
         [para ''span'' category,
          el ''label''
            [El ''input'' ([(''type'', ''checkbox''), (''aria-label'', category @ '' notifications'')] @ flag ''checked'' (pref_checked v))
               [(''onChange'', ToggleCategory category)] []]]))"

definition NotificationPreferences :: "jsval \<Rightarrow> exn + prefs_control el" where
  "NotificationPreferences prefs = bindE (mapE (prefs_row prefs) NOTIFICATION_CATEGORIES) (\<lambda>rows. Inr (el ''div'' rows))"

text \<open>Mounting and switching accounts both read what is stored for the new key.\<close>

definition prefs_load :: "string \<Rightarrow> local_storage \<Rightarrow> jsval" where
  "prefs_load address ls = readStoredPrefs (prefsStorageKey address) ls"

subsection \<open>Display preferences\<close>

record display_prefs =
  dp_density :: jsval
  dp_animations :: bool
  dp_reducedMotion :: bool

definition DISPLAY_KEY :: string where
  "DISPLAY_KEY = ''trusttrove:display''"

definition display_init :: display_prefs where
  "display_init = \<lparr>dp_density = JStr ''comfortable'', dp_animations = True, dp_reducedMotion = False\<rparr>"

definition bool_or :: "jsval \<Rightarrow> bool \<Rightarrow> bool" where
  "bool_or v d = (case v of JBool b \<Rightarrow> b | _ \<Rightarrow> d)"

definition loadDisplayPrefs :: "local_storage \<Rightarrow> display_prefs \<Rightarrow> display_prefs" where
  "loadDisplayPrefs ls d =
     (case bindE (getItem DISPLAY_KEY ls) (\<lambda>stored.
             if present stored then bindE (JSON_parse (the stored)) (\<lambda>v. Inr (Some v)) else Inr None) of
        Inr (Some prefs) \<Rightarrow>
          if nullish prefs then d
          else let ob = own_entries prefs in
            \<lparr>dp_density = (if truthy (obj_get ob ''density'') then obj_get ob ''density'' else dp_density d),
             dp_animations = bool_or (obj_get ob ''animations'') (dp_animations d),
             dp_reducedMotion = bool_or (obj_get ob ''reducedMotion'') (dp_reducedMotion d)\<rparr>
      | _ \<Rightarrow> d)"

definition display_value :: "display_prefs \<Rightarrow> jsval" where
  "display_value d =
     JObj [(''density'', dp_density d), (''animations'', JBool (dp_animations d)), (''reducedMotion'', JBool (dp_reducedMotion d))]"

definition saveDisplayPrefs :: "display_prefs \<Rightarrow> local_storage \<Rightarrow> local_storage" where
  "saveDisplayPrefs d ls = (case JSON_stringify (display_value d) of Inr s \<Rightarrow> trySetItem DISPLAY_KEY s ls | Inl e \<Rightarrow> ls)"

text \<open>What the effect publishes on the document's root.\<close>

record display_root =
  dr_density :: string
  dr_animations :: string
  dr_reduceMotion :: bool

definition publish :: "display_prefs \<Rightarrow> display_root" where
  "publish d = \<lparr>dr_density = js_String (dp_density d), dr_animations = (if dp_animations d then ''on'' else ''off''),
                dr_reduceMotion = dp_reducedMotion d\<rparr>"

record settings =
  st_display :: display_prefs
  st_storage :: local_storage
  st_root :: display_root

definition display_effect :: "settings \<Rightarrow> settings" where
  "display_effect s = s\<lparr>st_storage := saveDisplayPrefs (st_display s) (st_storage s), st_root := publish (st_display s)\<rparr>"

text \<open>
  Mounting: both effects of the first render see the initial preferences, so the first one reads the
  stored text and the second one writes the defaults over it; the render with what was read writes
  it back. An effect runs again only when its preferences changed.
\<close>

definition display_set :: "display_prefs \<Rightarrow> settings \<Rightarrow> settings" where
  "display_set d s = (if d = st_display s then s else display_effect (s\<lparr>st_display := d\<rparr>))"

definition settings_mount :: "local_storage \<Rightarrow> settings" where
  "settings_mount ls =
     (let loaded = loadDisplayPrefs ls display_init
      in display_set loaded (display_effect \<lparr>st_display = display_init, st_storage = ls, st_root = publish display_init\<rparr>))"

text \<open>\<open>Clear All Local Data\<close>: what was alerted, and whether the page reloads.\<close>

definition clearData :: "bool \<Rightarrow> local_storage \<Rightarrow> local_storage \<times> string option \<times> bool" where
  "clearData agreed ls =
     (if \<not> agreed then (ls, None, False)
      else case clearAppStorage ls of
        Inl e \<Rightarrow> (ls, Some ''Failed to clear local data.'', False)
      | Inr (owned, ls') \<Rightarrow> (ls', Some ''Local data cleared. Page will reload.'', True))"

datatype settings_control =
    DensityRadio string | AnimationsBox | ReducedMotionBox | ClearData | OfPrefs prefs_control | ThemeControl

definition settings_edit :: "settings_control \<Rightarrow> bool \<Rightarrow> settings \<Rightarrow> settings" where
  "settings_edit c checked s =
     (let d = st_display s in
      case c of
        DensityRadio density \<Rightarrow> display_set (d\<lparr>dp_density := JStr density\<rparr>) s
      | AnimationsBox \<Rightarrow> display_set (d\<lparr>dp_animations := checked\<rparr>) s
      | ReducedMotionBox \<Rightarrow> display_set (d\<lparr>dp_reducedMotion := checked\<rparr>) s
      | _ \<Rightarrow> s)"

definition AppearanceSection :: "settings_control el \<Rightarrow> display_prefs \<Rightarrow> settings_control el" where
  "AppearanceSection themeToggle d =
     el ''div''
       [el ''div'' [para ''h4'' ''Theme'', para ''p'' ''Choose your preferred color scheme. System preference follows your OS setting.'', themeToggle],
        el ''div''
          [para ''h4'' ''Display Density'', para ''p'' ''Adjust the spacing and size of UI elements.'',
           el ''div''
             (map (\<lambda>density. el ''label''
                [El ''input'' ([(''type'', ''radio''), (''name'', ''density''), (''value'', density)] @ flag ''checked'' (dp_density d = JStr density))
                   [(''onChange'', DensityRadio density)] [],
                 para ''span'' density]) [''comfortable'', ''compact''])],
        el ''div''
          [para ''h4'' ''Motion & Animation'', para ''p'' ''Control UI animations and transitions.'',
           el ''label'' [el ''div'' [para ''span'' ''UI Animations'', para ''span'' ''Enable transitions, hover effects, and micro-interactions''],
                         El ''input'' ([(''type'', ''checkbox'')] @ flag ''checked'' (dp_animations d)) [(''onChange'', AnimationsBox)] []],
           el ''label'' [el ''div'' [para ''span'' ''Reduced Motion'', para ''span'' ''Minimize non-essential motion (respects OS preference)''],
                         El ''input'' ([(''type'', ''checkbox'')] @ flag ''checked'' (dp_reducedMotion d)) [(''onChange'', ReducedMotionBox)] []]]]"

definition short_address :: "string \<Rightarrow> string" where
  "short_address a = js_slice0 6 a @ ''...'' @ js_slice_last 4 a"

text \<open>The address of a connected session is printed with the word for a missing one when there is none.\<close>

definition NotificationsSection :: "bool \<Rightarrow> string option \<Rightarrow> jsval \<Rightarrow> exn + settings_control el" where
  "NotificationsSection con address prefs =
     bindE (if con \<and> present address then bindE (NotificationPreferences prefs) (\<lambda>e. Inr [map_el OfPrefs e]) else Inr []) (\<lambda>box.
       Inr (el ''div''
         ([para ''p'' (''Notification preferences are managed per connected wallet address.'' @
             (if con then '' Currently configured for '' @
                (case address of Some a \<Rightarrow> short_address a | None \<Rightarrow> ''undefined...undefined'') @ ''.''
              else '' Connect a wallet to manage notification preferences.''))] @ box @
          shown (\<not> con) [el ''div'' [para ''p'' ''Connect your wallet to configure notification preferences'']])))"

definition DataPrivacySection :: "settings_control el" where
  "DataPrivacySection =
     el ''div''
       [el ''div'' [para ''h4'' ''Local Storage'',
                    para ''p'' ''TrusTrove stores preferences locally in your browser. No personal data is sent to external servers without your consent.'',
                    button ClearData False ''Clear All Local Data''],
        el ''div'' [para ''h4'' ''Saved Marketplace Searches'',
                    para ''p'' ''Your saved filter presets are stored locally and scoped to your connected wallet address (or a generic key when not connected). Maximum of 10 presets per address.'',
                    el ''p'' [Txt ''Manage presets from the '', para ''strong'' ''Marketplace'', Txt '' page.'']]]"

definition settings_section :: "string \<Rightarrow> string \<Rightarrow> string \<Rightarrow> 'h el \<Rightarrow> 'h el" where
  "settings_section i title sub body =
     El ''section'' [(''aria-labelledby'', i)] []
       [el ''header'' [el ''div'' [El ''h2'' [(''id'', i)] [] [Txt title], para ''p'' sub]], el ''div'' [body]]"

definition SettingsPage :: "settings_control el \<Rightarrow> bool \<Rightarrow> string option \<Rightarrow> jsval \<Rightarrow> settings \<Rightarrow> exn + settings_control el" where
  "SettingsPage themeToggle con address prefs s =
     bindE (NotificationsSection con address prefs) (\<lambda>notifications.
       Inr (el ''div''
         ([el ''div'' [para ''h1'' ''Settings'',
             para ''p'' ''Manage your application preferences. Settings are stored locally in your browser and scoped to your connected wallet where applicable.'']] @
          shown (con \<and> present address)
            [el ''div'' [el ''div'' [para ''p'' ''Wallet Connected'', para ''p'' (short_address (the address))],
                         para ''span'' ''Settings scoped to this address'']] @
          [settings_section ''section-appearance'' ''Appearance'' ''Customize how TrusTrove looks on your device'' (AppearanceSection themeToggle (st_display s)),
           settings_section ''section-notifications'' ''Notifications'' ''Configure which events trigger notifications'' notifications,
           settings_section ''section-data-privacy'' ''Data & Privacy'' ''Manage local data storage and privacy settings'' DataPrivacySection])))"

subsection \<open>The profile page\<close>

text \<open>
  Registering from the profile page. The dialog of the transaction opens over the form, which closes
  when the registration succeeded.
\<close>

definition profile_start :: "reg_form \<Rightarrow> reg_form" where
  "profile_start f =
     f\<lparr>rg_pendingText := ''Registering business as verified '' @ (if rg_issuer f then ''SME / Issuer'' else ''Buyer'') @ ''...'',
       rg_pendingHash := None, rg_showPending := True\<rparr>"

definition profile_error :: "exn \<Rightarrow> string" where
  "profile_error err =
     (let message = (if is_Error err then exn_message err else case err of Thrown v \<Rightarrow> js_String v | _ \<Rightarrow> [])
      in if message \<noteq> [] then message else ''Registration transaction failed'')"

definition profile_settle :: "exn + string \<Rightarrow> reg_form \<Rightarrow> reg_form" where
  "profile_settle r f =
     (case r of
        Inr txHash \<Rightarrow> f\<lparr>rg_pendingHash := Some txHash, rg_isOpen := False\<rparr>
      | Inl err \<Rightarrow> f\<lparr>rg_localError := Some (profile_error err), rg_showPending := False\<rparr>)"

definition profile_submit ::
  "(bool \<Rightarrow> (string \<times> string) list \<Rightarrow> (exn, 's, string) io) \<Rightarrow> (exn, reg_form \<times> 's, unit) io" where
  "profile_submit register = (\<lambda>(f0, s).
     let f = f0\<lparr>rg_localError := None\<rparr>
     in case reg_missing f of
          Some m \<Rightarrow> (Inr (), (f\<lparr>rg_localError := Some m\<rparr>, s))
        | None \<Rightarrow> (case register (rg_issuer f) (reg_metadata f) s of
            (r, s') \<Rightarrow> (Inr (), (profile_settle r (profile_start f), s'))))"

definition profile_open :: "reg_form \<Rightarrow> reg_form" where
  "profile_open f = f\<lparr>rg_isOpen := True\<rparr>"

definition profile_pending_props :: "reg_form \<Rightarrow> pending_props" where
  "profile_pending_props f =
     \<lparr>pp_isOpen = rg_showPending f, pp_txHash = rg_pendingHash f, pp_statusText = rg_pendingText f, pp_onClose = True\<rparr>"

datatype profile_control = OpenRegistration | OfReg reg_control | OfProfilePrefs prefs_control

definition long_address :: "string \<Rightarrow> string" where
  "long_address a = js_slice0 10 a @ ''...'' @ js_slice_last 10 a"

text \<open>The bullet U+2022 between the two texts.\<close>

definition bullet :: string where
  "bullet = [char_of (149 :: nat)]"

definition profile_card :: "(jsnum \<Rightarrow> string) \<Rightarrow> string \<Rightarrow> string option \<Rightarrow> bool \<Rightarrow> Profile \<Rightarrow> 'h el" where
  "profile_card dateStr registryID address isVerified p =
     el ''div''
       [el ''div''
          [el ''div''
             [el ''div'' [para ''span'' ''Status:'', para ''span'' (if isVerified then ''Verified Corporate'' else ''Pending Review'')],
              para ''h2'' ((if pr_isIssuer p then ''SME / Issuer'' else ''Buyer'') @ '' Profile''),
              para ''p'' (''Registered on Registry Contract '' @ bullet @ '' Address: '' @
                (if present address then long_address (the address) else ''Address unavailable''))],
           el ''div''
             [El ''button'' ([(''aria-describedby'', ''metadata-update-note'')] @ flag ''disabled'' True) [] [Txt ''Update Metadata''],
              El ''p'' [(''id'', ''metadata-update-note'')] []
                [Txt ''Registration on the Registry contract is a one-time action and the stored profile has no metadata fields, so an existing profile cannot be updated from here.'']]],
        el ''div''
          [el ''div''
             [para ''h3'' ''Corporate Information'',
              el ''div'' [para ''span'' ''Role'', para ''span'' (if pr_isIssuer p then ''issuer'' else ''buyer'')],
              el ''div'' [para ''span'' ''Wallet Address'', para ''span'' (long_address (pr_address p))],
              el ''div'' [para ''span'' ''Registered At'', para ''span'' (dateStr (num_scale (pr_registeredAt p) 1000))]],
           el ''div''
             [para ''h3'' ''Verification Credentials'',
              el ''div'' [para ''span'' ''On-Chain Status'', para ''span'' (if isVerified then ''Verified'' else ''Unverified'')],
              el ''div'' [para ''span'' ''Registry Contract'',
                El ''span'' [(''title'', registryID)] [] [Txt (if registryID \<noteq> [] then long_address registryID else ''Not Configured'')]],
              el ''div'' [para ''span'' ''Network'', para ''span'' ''Stellar Testnet'']]]]"

definition profile_prompt :: "profile_control el" where
  "profile_prompt =
     el ''div''
       [el ''div'' [para ''h2'' ''No Business Profile Found'',
          para ''p'' ''Your connected wallet is not yet registered on the TrusTrove Registry contract. Register as an SME Issuer to tokenize invoices or as a Buyer to verify and settle them.''],
        button OpenRegistration False ''Register Business Profile'']"

definition profile_field :: "string \<Rightarrow> string \<Rightarrow> string \<Rightarrow> string \<Rightarrow> reg_control \<Rightarrow> profile_control el" where
  "profile_field lab ty ph v c =
     el ''div''
       [para ''label'' lab,
        El ''input'' [(''type'', ty), (''value'', v), (''placeholder'', ph)] [(''onChange'', OfReg c)] []]"

definition profile_dialog :: "bool \<Rightarrow> reg_form \<Rightarrow> profile_control el" where
  "profile_dialog registered f =
     El ''div'' [(''role'', ''dialog''), (''aria-modal'', ''true''), (''aria-labelledby'', ''registration-dialog-title''), (''tabIndex'', ''-1'')] []
       [el ''div''
          ([el ''div''
              [El ''h2'' [(''id'', ''registration-dialog-title'')] []
                 [Txt (if registered then ''Update Profile Metadata'' else ''Register Corporate Profile'')],
               El ''button'' [(''type'', ''button''), (''aria-label'', ''Close registration dialog'')] [(''onClick'', OfReg CloseRegistration)] []]] @
           shown (present (rg_localError f)) [el ''div'' [para ''span'' (the (rg_localError f))]] @
           [El ''form'' [] [(''onSubmit'', OfReg SubmitRegistration)]
              (shown (\<not> registered)
                 [el ''div''
                    [para ''label'' ''Role'',
                     el ''div''
                       [El ''button'' [(''type'', ''button'')] [(''onClick'', OfReg (RoleRadio True))] [Txt ''SME / Issuer''],
                        El ''button'' [(''type'', ''button'')] [(''onClick'', OfReg (RoleRadio False))] [Txt ''Buyer'']]]] @
               [profile_field ''Company Name *'' ''text'' ''e.g. Acme Corporation'' (rg_companyName f) CompanyInput,
                profile_field ''Tax ID / Registration Number *'' ''text'' ''e.g. REG-123456789'' (rg_taxId f) TaxInput,
                profile_field ''Country of Incorporation *'' ''text'' ''e.g. United States'' (rg_country f) CountryInput,
                el ''div''
                  [profile_field ''Website (Optional)'' ''text'' ''https://acme.com'' (rg_website f) WebsiteInput,
                   profile_field ''Email (Optional)'' ''email'' ''contact@acme.com'' (rg_email f) EmailInput],
                el ''div''
                  [El ''button'' [(''type'', ''button'')] [(''onClick'', OfReg CancelRegistration)] [Txt ''Cancel''],
                   El ''button'' [(''type'', ''submit'')] [] [Txt (if registered then ''Save Changes'' else ''Submit Registration'')]]])])]"

record profile_env =
  fe_connected :: bool
  fe_address :: "string option"
  fe_profile :: "Profile option"
  fe_isVerified :: bool
  fe_isLoading :: bool \<comment> \<open>of either query\<close>
  fe_registryID :: string
  fe_dateStr :: "jsnum \<Rightarrow> string"

text \<open>\<open>txs\<close> is what the transaction history renders.\<close>

definition ProfilePage :: "profile_env \<Rightarrow> jsval \<Rightarrow> profile_control el \<Rightarrow> pending_state \<Rightarrow> reg_form \<Rightarrow> exn + profile_control el" where
  "ProfilePage E prefs txs st f =
     (if \<not> fe_connected E
      then Inr (el ''div'' [para ''h1'' ''Connect Your Wallet'',
        para ''p'' ''Connect your Freighter wallet to check your on-chain verification credentials, register a new business profile, or update your metadata.''])
      else bindE (if present (fe_address E) then bindE (NotificationPreferences prefs) (\<lambda>e. Inr
            [el ''div'' [el ''div'' [para ''h2'' ''Notification Preferences'', para ''p'' ''Choose which on-chain events trigger in-app notifications.''],
                         map_el OfProfilePrefs e]]) else Inr []) (\<lambda>box.
        Inr (el ''div''
          ([el ''div'' [para ''h1'' ''Business profile & Verification'',
              para ''p'' ''Manage your on-chain corporate credentials and verification states on the TrusTrove Registry contract.''],
            if fe_isLoading E then El ''div'' [(''role'', ''status'')] [] [para ''span'' ''Loading profile credentials...'']
            else (case fe_profile E of
                    Some p \<Rightarrow> profile_card (fe_dateStr E) (fe_registryID E) (fe_address E) (fe_isVerified E) p
                  | None \<Rightarrow> profile_prompt)] @
           box @ shown (present (fe_address E)) [txs] @
           shown (rg_isOpen f) [profile_dialog (fe_profile E \<noteq> None) f] @
           map (map_el (OfReg \<circ> PendingControl)) (TransactionPending (profile_pending_props f) st)))))"

subsection \<open>Properties\<close>

text \<open>
  The state of a form is settled by the handlers only; between submitting and the answer it is
  \<open>profile_start\<close> of what was submitted.
\<close>

lemma prefs_row_dialogs: "prefs_row prefs c = Inr r \<Longrightarrow> dialogs r = []"
  by (auto simp: prefs_row_def bindE_def split: sum.splits)

lemma prefs_dialogs [simp]: "NotificationPreferences prefs = Inr e \<Longrightarrow> dialogs e = []"
proof -
  assume "NotificationPreferences prefs = Inr e"
  then obtain rows where rows: "mapE (prefs_row prefs) NOTIFICATION_CATEGORIES = Inr rows" and e: "e = el ''div'' rows"
    by (auto simp: NotificationPreferences_def bindE_def split: sum.splits)
  have "\<forall>r \<in> set rows. \<exists>c. prefs_row prefs c = Inr r" 
    using rows by (auto simp: mapE_eq_Inr list_all2_conv_all_nth in_set_conv_nth) metis
  then have "\<forall>r \<in> set rows. dialogs r = []" using prefs_row_dialogs by blast
  then show ?thesis using e by simp
qed

lemma profile_field_dialogs [simp]: "dialogs (profile_field l t ph v c) = []"
  by (simp add: profile_field_def)

lemma profile_card_dialogs [simp]: "dialogs (profile_card d r a v p) = []" "dialogs profile_prompt = []"
  by (simp_all add: profile_card_def profile_prompt_def)

lemma profile_dialog_dialogs: "dialogs (profile_dialog registered f) = [profile_dialog registered f]"
  by (simp add: profile_dialog_def shown_def)

lemma profile_pending_dialogs:
  "length (concat (map dialogs (map (map_el h) (TransactionPending (profile_pending_props f) st)))) = (if rg_showPending f then 1 else 0)"
  by (simp add: TransactionPending_def profile_pending_props_def shown_def)

text \<open>The parts of the page beside the two dialogs hold none.\<close>

lemma ProfilePage_dialogs:
  assumes "fe_connected E" and "dialogs txs = []" and "ProfilePage E prefs txs st f = Inr page"
  shows "length (dialogs page) = (if rg_isOpen f then 1 else 0) + (if rg_showPending f then 1 else 0)"
proof -
  obtain top box where page: "page = el ''div'' (top @ box @ shown (present (fe_address E)) [txs] @
      shown (rg_isOpen f) [profile_dialog (fe_profile E \<noteq> None) f] @
      map (map_el (OfReg \<circ> PendingControl)) (TransactionPending (profile_pending_props f) st))"
    and none: "concat (map dialogs top) = []" "concat (map dialogs box) = []"
    using assms(1,3) by (force simp: ProfilePage_def bindE_def split: if_splits sum.splits option.splits)
  have "length (dialogs page) =
      length (concat (map dialogs (shown (rg_isOpen f) [profile_dialog (fe_profile E \<noteq> None) f]))) +
      length (concat (map dialogs (map (map_el (OfReg \<circ> PendingControl)) (TransactionPending (profile_pending_props f) st))))"
    unfolding page using none assms(2) by simp
  then show ?thesis by (simp add: profile_pending_dialogs profile_dialog_dialogs del: map_map)
qed

text \<open>
  Registering on the profile page shows two modal dialogs at once. From the moment a complete form
  is submitted until the registration is answered, the form's dialog and the dialog of the
  transaction are both on the page, each modal and each with its own focus trap.
\<close>

theorem profile_two_dialogs:
  assumes "fe_connected E" and "rg_isOpen f" and "reg_missing f = None" and "dialogs txs = []"
    and "ProfilePage E prefs txs st (profile_start f) = Inr page"
  shows "length (dialogs page) = 2"
  using ProfilePage_dialogs [OF assms(1,4,5)] assms(2) by (simp add: profile_start_def)

text \<open>A complete form on the page of an account without a profile.\<close>

definition demo_reg :: reg_form where
  "demo_reg = reg_init\<lparr>rg_isOpen := True, rg_companyName := ''Acme'', rg_taxId := ''1'', rg_country := ''DE''\<rparr>"

definition demo_profile_env :: profile_env where
  "demo_profile_env = \<lparr>fe_connected = True, fe_address = None, fe_profile = None, fe_isVerified = False, fe_isLoading = False,
     fe_registryID = [], fe_dateStr = (\<lambda>_. [])\<rparr>"

lemma demo_reg_complete: "reg_missing demo_reg = None"
  by code_simp

theorem profile_two_dialogs_witness:
  "\<exists>page. ProfilePage demo_profile_env JNull (Txt []) pending_init (profile_start demo_reg) = Inr page \<and> length (dialogs page) = 2"
proof -
  obtain page where "ProfilePage demo_profile_env JNull (Txt []) pending_init (profile_start demo_reg) = Inr page"
    by (auto simp: ProfilePage_def demo_profile_env_def present_def)
  moreover from this have "length (dialogs page) = 2"
    by (rule profile_two_dialogs [rotated 4]) (simp_all add: demo_reg_complete, simp_all add: demo_profile_env_def demo_reg_def)
  ultimately show ?thesis by blast
qed

text \<open>
  A failed registration is told where the user is: the form stays open and shows the message.
\<close>

lemma profile_failure_shown:
  assumes "register (rg_issuer f) (reg_metadata f) s = (Inl err, s')" and "reg_missing (f\<lparr>rg_localError := None\<rparr>) = None" and "rg_isOpen f"
  shows "\<exists>f' m. profile_submit register (f, s) = (Inr (), (f', s')) \<and> rg_isOpen f' \<and> \<not> rg_showPending f' \<and>
     rg_localError f' = Some m \<and> m \<noteq> []"
  using assms by (auto simp: profile_submit_def profile_settle_def profile_start_def profile_error_def reg_metadata_def Let_def)

subsection \<open>Preferences\<close>

text \<open>Preferences as the program writes them: a boolean for every category.\<close>

definition prefs_ok :: "jsval \<Rightarrow> bool" where
  "prefs_ok prefs \<longleftrightarrow>
     (\<exists>ob. prefs = JObj ob \<and> distinct (map fst ob) \<and> (\<forall>v \<in> snd ` set ob. \<exists>b. v = JBool b) \<and>
           set NOTIFICATION_CATEGORIES \<subseteq> fst ` set ob)"

lemma pref_of_JObj [simp]: "pref_of (JObj ob) c = Inr (obj_get ob c)"
  by (simp add: pref_of_def nullish_def)

lemma default_prefs_ok: "prefs_ok default_prefs"
  unfolding prefs_ok_def default_prefs_def by (auto simp: NOTIFICATION_CATEGORIES_def)

lemma JSON_plain_prefs: "prefs_ok prefs \<Longrightarrow> json_plain prefs"
  by (force simp: prefs_ok_def)

lemma JSON_parse_empty: "JSON_parse [] \<noteq> Inr v"
proof -
  have "isl (JSON_parse [])" by code_simp
  then show ?thesis by (auto simp: isl_def)
qed

lemma prefs_load_saved:
  assumes "json_plain v" and "\<not> ls_blocked ls" and "\<not> ls_full ls" and "JSON_stringify v = Inr s"
  shows "prefs_load address (trySetItem (prefsStorageKey address) s ls) = v"
proof -
  obtain t where "JSON_stringify v = Inr t" "JSON_parse t = Inr v" using JSON_round_trip [OF assms(1)] by blast
  then have "JSON_parse s = Inr v" using assms(4) by simp
  moreover from this have "s \<noteq> []" using JSON_parse_empty by metis
  ultimately show ?thesis
    using assms(2,3) by (simp add: prefs_load_def readStoredPrefs_def getItem_trySetItem)
qed

lemma obj_get_in: "distinct (map fst ob) \<Longrightarrow> (k, v) \<in> set ob \<Longrightarrow> obj_get ob k = v"
  by (simp add: obj_get_def)

lemma prefs_ok_get:
  assumes "prefs_ok prefs" and "category \<in> set NOTIFICATION_CATEGORIES"
  shows "\<exists>b. pref_of prefs category = Inr (JBool b)"
proof -
  obtain ob where ob: "prefs = JObj ob" "distinct (map fst ob)" "\<forall>v \<in> snd ` set ob. \<exists>b. v = JBool b" "category \<in> fst ` set ob"
    using assms unfolding prefs_ok_def by blast
  then obtain v where v: "(category, v) \<in> set ob" by auto
  then obtain b where "v = JBool b" using ob(3) by (metis imageI snd_conv)
  then show ?thesis using ob(1) obj_get_in [OF ob(2) v] by simp
qed

text \<open>
  Muting a category of notifications works and lasts. With preferences as the program writes them
  and a browser that stores, a click flips the box of its category and of no other, and a later
  visit with the same wallet reads exactly what is then shown; what is stored for any other wallet
  stays as it is.
\<close>

theorem toggleCategory_survives:
  assumes "prefs_ok prefs" and "category \<in> set NOTIFICATION_CATEGORIES" and "\<not> ls_blocked ls" and "\<not> ls_full ls"
  shows "\<exists>prefs' ls'. toggleCategory address category (prefs, ls) = Inr (prefs', ls') \<and>
    prefs_ok prefs' \<and> prefs_load address ls' = prefs' \<and>
    (\<forall>c \<in> set NOTIFICATION_CATEGORIES. \<exists>b b'. pref_of prefs c = Inr (JBool b) \<and> pref_of prefs' c = Inr (JBool b') \<and>
       pref_checked (JBool b') = (pref_checked (JBool b) \<noteq> (c = category))) \<and>
    (\<forall>other. other \<noteq> address \<longrightarrow> prefs_load other ls' = prefs_load other ls)"
proof -
  obtain ob where ob: "prefs = JObj ob" "distinct (map fst ob)" "\<forall>v \<in> snd ` set ob. \<exists>b. v = JBool b"
      "set NOTIFICATION_CATEGORIES \<subseteq> fst ` set ob"
    using assms(1) by (auto simp: prefs_ok_def)
  obtain b where b: "pref_of prefs category = Inr (JBool b)" using prefs_ok_get [OF assms(1,2)] by blast
  let ?ob = "obj_set category (JBool (\<not> b)) ob"
  have ok: "prefs_ok (JObj ?ob)"
    using ob set_obj_set [of category "JBool (\<not> b)" ob]
    unfolding prefs_ok_def by (auto simp: distinct_obj_set keys_obj_set)
  obtain s where s: "JSON_stringify (JObj ?ob) = Inr s" using JSON_round_trip [OF JSON_plain_prefs [OF ok]] by blast
  have run: "toggleCategory address category (prefs, ls) = Inr (JObj ?ob, trySetItem (prefsStorageKey address) s ls)"
    using b ob(1) s by (simp add: toggleCategory_def Let_def)
  have "pref_of (JObj ?ob) c = Inr (if c = category then JBool (\<not> b) else obj_get ob c)" for c
    by simp
  moreover have "pref_of prefs c = Inr (obj_get ob c)" for c by (simp add: ob(1))
  moreover have "prefs_load address (trySetItem (prefsStorageKey address) s ls) = JObj ?ob"
    using prefs_load_saved [OF JSON_plain_prefs [OF ok] assms(3,4) s] .
  moreover have "prefs_load other (trySetItem (prefsStorageKey address) s ls) = prefs_load other ls" if "other \<noteq> address" for other
    using that by (simp add: prefs_load_def readStoredPrefs_def getItem_trySetItem prefsStorageKey_def)
  ultimately show ?thesis
    using run ok prefs_ok_get [OF assms(1)] b by (fastforce simp: pref_checked_def)
qed

theorem toggleCategory_survives_witness:
  "\<exists>prefs' ls'. toggleCategory ''G'' ''Invoice Funded'' (default_prefs, \<lparr>ls_items = [], ls_blocked = False, ls_full = False\<rparr>) =
     Inr (prefs', ls') \<and> prefs_load ''G'' ls' = prefs' \<and> pref_of prefs' ''Invoice Funded'' = Inr (JBool False)"
proof -
  let ?ls = "\<lparr>ls_items = [], ls_blocked = False, ls_full = False\<rparr>"
  have c: "''Invoice Funded'' \<in> set NOTIFICATION_CATEGORIES" by (simp add: NOTIFICATION_CATEGORIES_def)
  have "pref_of default_prefs ''Invoice Funded'' = Inr (JBool True)"
    by (simp add: default_prefs_def NOTIFICATION_CATEGORIES_def obj_get_def)
  then show ?thesis
    using toggleCategory_survives [OF default_prefs_ok c, of ?ls "''G''"] c by (fastforce simp: pref_checked_def)
qed

text \<open>
  Preferences that an earlier version stored without a category show its box checked, and the first
  click leaves it checked.
\<close>

lemma toggle_missing_category:
  assumes "pref_of prefs category = Inr JUndef" and "toggleCategory address category (prefs, ls) = Inr (prefs', ls')"
  shows "pref_checked JUndef \<and> pref_of prefs' category = Inr (JBool True) \<and> pref_checked (JBool True)"
  using assms by (auto simp: toggleCategory_def pref_checked_def Let_def)

text \<open>A stored \<open>null\<close> takes both pages down.\<close>

lemma prefs_null_crashes: "isl (NotificationPreferences JNull)"
  by (simp add: NotificationPreferences_def NOTIFICATION_CATEGORIES_def prefs_row_def pref_of_def bindE_def nullish_def)

text \<open>
  The display preferences survive leaving and reopening the settings page, although opening it
  writes the defaults over them first: with a browser that stores, what the page shows, publishes
  and leaves in the browser after mounting are the preferences that were saved.
\<close>

theorem display_prefs_survive:
  assumes "json_plain (dp_density d)" and "truthy (dp_density d)" and "\<not> ls_blocked ls" and "\<not> ls_full ls"
  shows "let s = settings_mount (saveDisplayPrefs d ls) in
    st_display s = d \<and> st_root s = publish d \<and> loadDisplayPrefs (st_storage s) display_init = d"
proof -
  have load: "loadDisplayPrefs (saveDisplayPrefs x l) y = x"
    if "json_plain (dp_density x)" "truthy (dp_density x)" "\<not> ls_blocked l" "\<not> ls_full l" for x y l
  proof -
    have "json_plain (display_value x)" using that(1) by (simp add: display_value_def)
    then obtain t where t: "JSON_stringify (display_value x) = Inr t" "JSON_parse t = Inr (display_value x)"
      using JSON_round_trip by blast
    then have "t \<noteq> []" using JSON_parse_empty by metis
    then show ?thesis
      using that t by (simp add: loadDisplayPrefs_def saveDisplayPrefs_def getItem_trySetItem present_def display_value_def bool_or_def nullish_def obj_get_def Let_def)
  qed
  have keeps: "ls_blocked (saveDisplayPrefs x l) = ls_blocked l" "ls_full (saveDisplayPrefs x l) = ls_full l" for x l
    by (auto simp: saveDisplayPrefs_def trySetItem_def setItem_def split: sum.split)
  have init: "json_plain (dp_density display_init)" "truthy (dp_density display_init)" by (simp_all add: display_init_def)
  show ?thesis
    using assms init
    by (auto simp: settings_mount_def display_set_def display_effect_def Let_def load keeps)
qed

theorem display_prefs_survive_witness:
  "st_display (settings_mount (saveDisplayPrefs \<lparr>dp_density = JStr ''compact'', dp_animations = False, dp_reducedMotion = True\<rparr>
     \<lparr>ls_items = [], ls_blocked = False, ls_full = False\<rparr>)) =
     \<lparr>dp_density = JStr ''compact'', dp_animations = False, dp_reducedMotion = True\<rparr>"
  using display_prefs_survive [of "\<lparr>dp_density = JStr ''compact'', dp_animations = False, dp_reducedMotion = True\<rparr>"
      "\<lparr>ls_items = [], ls_blocked = False, ls_full = False\<rparr>"]
  by (simp add: Let_def)

text \<open>
  Were the effects of the first render run twice before the next one, as a strict development mode does,
  the second reading would find the defaults.
\<close>

lemma mounted_twice_reads_defaults:
  assumes "\<not> ls_blocked ls" and "\<not> ls_full ls"
  shows "loadDisplayPrefs (st_storage (display_effect \<lparr>st_display = display_init, st_storage = ls, st_root = publish display_init\<rparr>)) display_init =
    display_init"
proof -
  obtain t where t: "JSON_stringify (display_value display_init) = Inr t" "JSON_parse t = Inr (display_value display_init)"
    using JSON_round_trip [of "display_value display_init"] by (auto simp: display_value_def display_init_def)
  then have "t \<noteq> []" using JSON_parse_empty by metis
  then show ?thesis
    using assms t
    by (simp add: display_effect_def loadDisplayPrefs_def saveDisplayPrefs_def getItem_trySetItem present_def)
      (simp add: display_value_def display_init_def bool_or_def nullish_def obj_get_def Let_def)
qed

text \<open>Clearing the data also forgets the display preferences.\<close>

lemma clearData_forgets:
  assumes "clearData True ls = (ls', m, True)"
  shows "map_of (ls_items ls') DISPLAY_KEY = None"
proof -
  obtain owned where clear: "clearAppStorage ls = Inr (owned, ls')"
    using assms by (auto simp: clearData_def split: sum.splits)
  then have "\<not> ls_blocked ls" by (auto simp: clearAppStorage_def)
  then have "ls_items ls' = filter (\<lambda>(k, v). \<not> isAppStorageKey k) (ls_items ls)"
    using clearAppStorage_exact [of ls] clear by auto
  moreover have "isAppStorageKey DISPLAY_KEY" by code_simp
  ultimately show ?thesis by (auto simp: map_of_eq_None_iff)
qed

end
