(* ===== verification/Dashboard.thy ===== *)
theory Dashboard
  imports InvoiceForm InvoiceCards
begin

text \<open>
  The dashboard of an SME (\<open>app/dashboard/page.tsx\<close>) and the list query it reads
  (\<open>useInvoicesList\<close> of \<open>hooks/useInvoices.ts\<close>): the page controls, the selected invoice, the
  dialog that creates an invoice, the activity log and the markup. The texts come from the
  translation library through the parameter \<open>t\<close>, a key and its arguments.

  The query library hands out the latest answer for the key of the render, \<open>None\<close> while there is
  none; the key is the issuer, the page and the page size.
\<close>

type_synonym translator = "string \<Rightarrow> (string \<times> string) list \<Rightarrow> string"

subsection \<open>The list query\<close>

record invoices_list =
  il_invoices :: "Invoice list"
  il_total :: int
  il_totalPages :: int
  il_isLoading :: bool

definition useInvoicesList :: "(Invoice list \<times> int \<times> int) option \<Rightarrow> bool \<Rightarrow> invoices_list" where
  "useInvoicesList answer isLoading =
     (case answer of
        Some (xs, n, pages) \<Rightarrow> \<lparr>il_invoices = xs, il_total = n, il_totalPages = pages, il_isLoading = isLoading\<rparr>
      | None \<Rightarrow> \<lparr>il_invoices = [], il_total = 0, il_totalPages = 1, il_isLoading = isLoading\<rparr>)"

subsection \<open>State\<close>

record dashboard =
  db_page :: int
  db_limit :: int
  db_selected :: "Invoice option"
  db_showCreate :: bool

definition db_init :: dashboard where
  "db_init = \<lparr>db_page = 1, db_limit = 20, db_selected = None, db_showCreate = False\<rparr>"

definition handlePageChange :: "int \<Rightarrow> dashboard \<Rightarrow> dashboard" where
  "handlePageChange page s = s\<lparr>db_page := page, db_selected := None\<rparr>"

definition handleLimitChange :: "int \<Rightarrow> dashboard \<Rightarrow> dashboard" where
  "handleLimitChange limit s = s\<lparr>db_limit := limit, db_page := 1, db_selected := None\<rparr>"

text \<open>The effect on page, page size and account.\<close>

definition db_reset :: "dashboard \<Rightarrow> dashboard" where
  "db_reset s = s\<lparr>db_selected := None\<rparr>"

definition selectInvoice :: "Invoice option \<Rightarrow> dashboard \<Rightarrow> dashboard" where
  "selectInvoice iv s = s\<lparr>db_selected := iv\<rparr>"

definition openCreate :: "bool \<Rightarrow> dashboard \<Rightarrow> dashboard" where
  "openCreate isVerified s = (if isVerified then s\<lparr>db_showCreate := True\<rparr> else s)"

text \<open>The action of the empty table.\<close>

definition emptyStateAction :: "dashboard \<Rightarrow> dashboard" where
  "emptyStateAction s = s\<lparr>db_showCreate := True\<rparr>"

definition closeCreate :: "dashboard \<Rightarrow> dashboard" where
  "closeCreate s = s\<lparr>db_showCreate := False\<rparr>"

definition onCreated :: "dashboard \<Rightarrow> dashboard" where
  "onCreated s = s\<lparr>db_showCreate := False, db_selected := None\<rparr>"

subsection \<open>Activity\<close>

definition db_typeMap :: "translator \<Rightarrow> (string \<times> string) list" where
  "db_typeMap t =
     [(''InvoiceCreated'', t ''activity.types.created'' []), (''create'', t ''activity.types.created'' []),
      (''InvoiceListed'', t ''activity.types.listed'' []), (''list_for_financing'', t ''activity.types.listed'' []),
      (''InvoiceFunded'', t ''activity.types.funded'' []), (''fund_invoice'', t ''activity.types.funded'' []),
      (''InvoiceShipped'', t ''activity.types.shipped'' []), (''mark_shipped'', t ''activity.types.shipped'' []),
      (''DeliveryConfirmed'', t ''activity.types.deliveryConfirmed'' []), (''confirm_delivery'', t ''activity.types.deliveryConfirmed'' []),
      (''InvoiceRepaid'', t ''activity.types.repaid'' []), (''repay'', t ''activity.types.repaid'' []),
      (''InvoiceDefaulted'', t ''activity.types.defaulted'' []), (''trigger_default'', t ''activity.types.defaulted'' [])]"

definition event_details :: "translator \<Rightarrow> string \<Rightarrow> string \<Rightarrow> string option \<Rightarrow> string" where
  "event_details t event_type invShort buyer =
     (if event_type = ''InvoiceCreated'' \<or> event_type = ''create''
      then t ''activity.details.created''
             [(''invoice'', invShort),
              (''buyer'', if present buyer then js_slice0 4 (the buyer) @ ''...'' else t ''activity.unknownBuyer'' [])]
      else if event_type = ''InvoiceListed'' \<or> event_type = ''list_for_financing'' then t ''activity.details.listed'' [(''invoice'', invShort)]
      else if event_type = ''InvoiceFunded'' \<or> event_type = ''fund_invoice'' then t ''activity.details.funded'' [(''invoice'', invShort)]
      else if event_type = ''InvoiceShipped'' \<or> event_type = ''mark_shipped'' then t ''activity.details.shipped'' [(''invoice'', invShort)]
      else if event_type = ''DeliveryConfirmed'' \<or> event_type = ''confirm_delivery''
        then t ''activity.details.deliveryConfirmed'' [(''invoice'', invShort)]
      else if event_type = ''InvoiceRepaid'' \<or> event_type = ''repay'' then t ''activity.details.repaid'' [(''invoice'', invShort)]
      else if event_type = ''InvoiceDefaulted'' \<or> event_type = ''trigger_default'' then t ''activity.details.defaulted'' [(''invoice'', invShort)]
      else if invShort \<noteq> [] then invShort else t ''activity.details.fallback'' [])"

definition event_time :: "translator \<Rightarrow> int \<Rightarrow> EventLog \<Rightarrow> string" where
  "event_time t now event =
     (let diff = num_sub (num_floor (num_over (num_int now) 1000)) (ev_ledger_closed_at event)
      in if num_less diff (Fin 60) then t ''activity.time.justNow'' []
         else if num_less diff (Fin 3600) then t ''activity.time.minutesAgo'' [(''minutes'', num_toString (num_floor (num_over diff 60)))]
         else if num_less diff (Fin 86400) then t ''activity.time.hoursAgo'' [(''hours'', num_toString (num_floor (num_over diff 3600)))]
         else t ''activity.time.daysAgo'' [(''days'', num_toString (num_floor (num_over diff 86400)))])"

text \<open>A member that the table of types inherits is a function, and React renders nothing for it.\<close>

definition formatEventDisplay :: "translator \<Rightarrow> int \<Rightarrow> EventLog \<Rightarrow> string \<times> string \<times> string" where
  "formatEventDisplay t now event =
     (let invId = (case getEventDataString event ''invoice_id'' of Some s \<Rightarrow> s | None \<Rightarrow> []);
          invShort = (if invId \<noteq> [] then t ''activity.invoiceRef'' [(''id'', js_slice0 4 invId)] else [])
      in (case table_or (db_typeMap t) (ev_event_type event) (ev_event_type event) of Text s \<Rightarrow> s | Member k \<Rightarrow> [],
          event_details t (ev_event_type event) invShort (getEventDataString event ''buyer''),
          event_time t now event))"

subsection \<open>The page\<close>

datatype db_control =
    OpenCreate | ClearConsole | CloseCreate | OfTable table_control | OfConsole card_control | OfForm form_control

definition db_header :: "translator \<Rightarrow> string option \<Rightarrow> string \<Rightarrow> bool \<Rightarrow> db_control el" where
  "db_header t address role isVerified =
     el ''div''
       [el ''div'' [para ''h1'' (t ''header.title'' []),
                    para ''p'' (t ''header.operator'' [(''address'', if present address then truncateAddress (the address) else []),
                                                       (''role'', js_toUpperCase role)])],
        el ''div''
          (El ''button'' (flag ''disabled'' (\<not> isVerified) @
               attr ''title'' (if isVerified then None else Some (t ''header.createInvoiceLocked'' [])) @
               attr ''aria-describedby'' (if isVerified then None else Some ''create-invoice-lock-reason''))
             [(''onClick'', OpenCreate)] [para ''span'' (t ''header.createInvoice'' [])] #
           shown (\<not> isVerified) [El ''p'' [(''id'', ''create-invoice-lock-reason'')] [] [Txt (t ''header.createInvoiceLocked'' [])]])]"

definition checklist_step :: "translator \<Rightarrow> string \<Rightarrow> 'h el" where
  "checklist_step t k =
     el ''div''
       [el ''div'' [para ''span'' (t (''checklist.'' @ k @ ''.title'') []), para ''p'' (t (''checklist.'' @ k @ ''.description'') [])],
        para ''span'' (t (''checklist.'' @ k @ ''.status'') [])]"

definition db_checklist :: "translator \<Rightarrow> 'h el" where
  "db_checklist t =
     el ''div''
       ([el ''div'' [para ''span'' ''!'', el ''div'' [para ''h3'' (t ''checklist.title'' []), para ''p'' (t ''checklist.description'' [])]]] @
        map (checklist_step t) [''connectWallet'', ''registerProfile'', ''createInvoice''] @
        [El ''a'' [(''href'', ''/profile'')] [] [para ''span'' (t ''checklist.cta'' [])]])"

definition stat_tile :: "translator \<Rightarrow> string \<Rightarrow> string \<Rightarrow> 'h el" where
  "stat_tile t k v =
     el ''div'' [para ''span'' (t (''stats.'' @ k @ ''.label'') []), para ''span'' v, para ''span'' (t (''stats.'' @ k @ ''.hint'') [])]"

definition db_stats :: "translator \<Rightarrow> InvoiceStats \<Rightarrow> 'h el" where
  "db_stats t stats =
     el ''div''
       [stat_tile t ''created'' (show_nat (totalInvoicesCreated stats)), stat_tile t ''listed'' (show_nat (totalListed stats)),
        stat_tile t ''fundedActive'' (show_nat (totalFundedActive stats)), stat_tile t ''repaid'' (show_nat (totalRepaid stats)),
        stat_tile t ''financed'' (formatAmount (Some (totalFunded stats)) USDC)]"

definition db_activity :: "translator \<Rightarrow> int \<Rightarrow> EventLog list \<Rightarrow> 'h el" where
  "db_activity t now events =
     el ''div''
       [para ''h3'' (t ''activity.title'' []),
        el ''div''
          (shown (events = []) [para ''p'' (t ''activity.empty'' [])] @
           map (\<lambda>event. case formatEventDisplay t now event of (ty, details, time) \<Rightarrow>
             el ''div'' [el ''div'' [para ''span'' ty, para ''p'' details], para ''span'' time]) events)]"

record db_env =
  be_t :: translator
  be_tCommon :: translator
  be_connected :: bool
  be_role :: string
  be_card :: card_env \<comment> \<open>account, verification and clock, shared with the cards\<close>
  be_list :: invoices_list
  be_stats :: InvoiceStats
  be_events :: "EventLog list"
  be_eventsLoading :: bool

definition db_table :: "db_env \<Rightarrow> (string \<Rightarrow> card_state) \<Rightarrow> string \<Rightarrow> nat list \<Rightarrow> nat \<Rightarrow> dashboard \<Rightarrow> table_control el" where
  "db_table E cards pageInput virtualRows focusedIndex s =
     InvoiceTable (be_card E) cards
       \<lparr>tp_activeId = map_option inv_id (db_selected s), tp_role = Some (be_role E), tp_selectable = False, tp_onSelect = True,
        tp_pagination = Some \<lparr>pg_page = db_page s, pg_limit = db_limit s, pg_total = il_total (be_list E),
                              pg_totalPages = il_totalPages (be_list E)\<rparr>,
        tp_pageInput = pageInput,
        tp_empty = InvoiceEmptyState (be_t E ''invoices.emptyState.title'' []) (be_t E ''invoices.emptyState.description'' [])
                     (be_t E ''invoices.emptyState.action'' []) None\<rparr>
       [] virtualRows focusedIndex (il_invoices (be_list E))"

definition db_console :: "db_env \<Rightarrow> card_state \<Rightarrow> dashboard \<Rightarrow> db_control el" where
  "db_console E c s =
     el ''div''
       [El ''h2'' [(''tabIndex'', ''-1'')] [] [Txt (be_t E ''console.title'' [])],
        El ''p'' [(''role'', ''status''), (''aria-live'', ''polite''), (''aria-atomic'', ''true'')] []
          [Txt (case db_selected s of Some iv \<Rightarrow> be_tCommon E ''invoiceSelected'' [(''id'', inv_id iv)] | None \<Rightarrow> [])],
        (case db_selected s of
           Some iv \<Rightarrow>
             el ''div''
               [el ''div'' [para ''span'' (be_t E ''console.selectedDetails'' []), button ClearConsole False (be_t E ''console.clear'' [])],
                map_el OfConsole (InvoiceCard ((be_card E)\<lparr>ce_role := Some (be_role E)\<rparr>) c iv),
                El ''a'' [(''href'', ''/invoice/'' @ inv_id iv)] [] [Txt (be_t E ''console.viewAuditLedger'' [])]]
         | None \<Rightarrow> para ''div'' (be_t E ''console.emptyState'' []))]"

definition db_modal :: "translator \<Rightarrow> form_control el \<Rightarrow> dashboard \<Rightarrow> db_control el list" where
  "db_modal t form s =
     shown (db_showCreate s)
       [El ''div'' [(''role'', ''dialog''), (''aria-modal'', ''true''), (''aria-label'', t ''createModal.label'' []), (''tabIndex'', ''-1'')]
          [(''onClick'', CloseCreate)]
          [el ''div''
             [el ''div'' [para ''span'' (t ''createModal.title'' []), button CloseCreate False (t ''createModal.close'' [])],
              el ''div'' [map_el OfForm form]]]]"

text \<open>\<open>table\<close> and \<open>form\<close> are what the two components render with their own state.\<close>

definition SMEDashboard :: "db_env \<Rightarrow> table_control el \<Rightarrow> form_control el \<Rightarrow> card_state \<Rightarrow> dashboard \<Rightarrow> db_control el" where
  "SMEDashboard E table form c s =
     (if \<not> be_connected E
      then el ''div'' [para ''h1'' (be_t E ''connectPrompt.title'' []), para ''p'' (be_t E ''connectPrompt.body'' [])]
      else el ''div''
        ([db_header (be_t E) (ce_address (be_card E)) (be_role E) (ce_isVerified (be_card E))] @
         shown (\<not> ce_isVerified (be_card E)) [db_checklist (be_t E)] @
         [db_stats (be_t E) (be_stats E),
          el ''div''
            ([el ''div'' (para ''h2'' (be_t E ''invoices.title'' []) #
                shown (\<not> il_isLoading (be_list E)) [map_el OfTable table] @
                shown (\<not> be_eventsLoading E) [db_activity (be_t E) (ce_now (be_card E)) (be_events E)]),
              db_console E c s])] @
         db_modal (be_t E) form s))"

subsection \<open>What the page reacts to\<close>

text \<open>All handlers of a tree, of whatever event, whether enabled or not.\<close>

fun handlers :: "'h el \<Rightarrow> 'h list" where
  "handlers (Txt s) = []"
| "handlers (El t as hs cs) = map snd hs @ concat (map handlers cs)"

lemma handlers_map_el [simp]: "handlers (map_el f e) = map f (handlers e)"
  by (induction e) (simp_all add: comp_def map_concat cong: map_cong)

lemma handlers_button [simp]: "handlers (button h dis l) = [h]"
  by (simp add: button_def)

lemma clicks_handlers: "set (clicks e) \<subseteq> set (handlers e)"
  by (induction e) (auto simp: values_of_def)

lemma db_parts [simp]:
  "handlers (db_checklist t :: 'h el) = []" "handlers (db_stats t st :: 'h el) = []" "handlers (db_activity t now es :: 'h el) = []"
  "handlers (db_header t a r v) = [OpenCreate]" "clicks (db_header t a r v) = shown v [OpenCreate]"
  by (auto simp: db_checklist_def checklist_step_def db_stats_def stat_tile_def db_activity_def db_header_def shown_def
      split: prod.split)

lemma db_parts_clicks [simp]:
  "clicks (db_checklist t :: 'h el) = []" "clicks (db_stats t st :: 'h el) = []" "clicks (db_activity t now es :: 'h el) = []"
  using clicks_handlers [of "db_checklist t :: 'h el"] clicks_handlers [of "db_stats t st :: 'h el"]
    clicks_handlers [of "db_activity t now es :: 'h el"]
  by simp_all

definition no_table :: "db_control \<Rightarrow> bool" where
  "no_table h \<longleftrightarrow> (\<forall>k. h \<noteq> OfTable k)"

lemma db_console_no_table: "list_all no_table (handlers (db_console E c s))"
  by (auto simp: db_console_def no_table_def list_all_iff split: option.split)

lemma db_modal_no_table: "list_all no_table (concat (map handlers (db_modal t form s)))"
  by (auto simp: db_modal_def no_table_def list_all_iff)

lemma dashboard_table_handlers:
  "OfTable k \<in> set (handlers (SMEDashboard E table form c s)) \<Longrightarrow> k \<in> set (handlers table)"
  using db_console_no_table [of E c s] db_modal_no_table [of "be_t E" form s]
  by (auto simp: SMEDashboard_def no_table_def list_all_iff split: if_splits)

lemma empty_table_handlers:
  "il_invoices (be_list E) = [] \<Longrightarrow> handlers (db_table E cards pageInput virtualRows focusedIndex s) = [EmptyAction]"
  by (simp add: db_table_def InvoiceTable_def InvoiceEmptyState_def)

text \<open>
  Switching accounts can lock a user out of the list. The page number survives the switch, and a
  page beyond the end of the new account's list has no rows; the table then shows its empty state
  without the page controls, although the account has invoices: of the controls of the table only
  the one that creates an invoice is left, and none of the page's other handlers moves the page.
\<close>

theorem account_switch_strands:
  assumes "il_invoices (be_list E) = []" and "0 < il_total (be_list E)"
  shows "db_page (db_reset s) = db_page s \<and> db_limit (db_reset s) = db_limit s \<and>
    (\<forall>k. OfTable k \<in> set (handlers (SMEDashboard E (db_table E cards pageInput virtualRows focusedIndex (db_reset s)) form c (db_reset s)))
       \<longrightarrow> k = EmptyAction) \<and>
    (\<forall>f \<in> {openCreate v, emptyStateAction, closeCreate, onCreated, selectInvoice iv}. db_page (f s) = db_page s)"
proof -
  have "k = EmptyAction"
    if "OfTable k \<in> set (handlers (SMEDashboard E (db_table E cards pageInput virtualRows focusedIndex (db_reset s)) form c (db_reset s)))"
    for k
    using dashboard_table_handlers [OF that] assms(1) by (simp add: empty_table_handlers)
  then show ?thesis
    by (auto simp: db_reset_def openCreate_def emptyStateAction_def closeCreate_def onCreated_def selectInvoice_def)
qed

definition demo_db_env :: db_env where
  "demo_db_env = \<lparr>be_t = (\<lambda>k as. k), be_tCommon = (\<lambda>k as. k), be_connected = True, be_role = ''issuer'', be_card = demo_card_env,
     be_list = useInvoicesList (Some ([], 3, 1)) False, be_stats = EMPTY_INVOICE_STATS, be_events = [], be_eventsLoading = False\<rparr>"

text \<open>An account with three invoices, seen at page 3 after the switch.\<close>

theorem account_switch_strands_witness:
  "OfTable PrevPage \<notin> set (handlers (SMEDashboard demo_db_env (db_table demo_db_env (\<lambda>_. card_init) ''3'' [] 0 (db_reset (handlePageChange 3 db_init)))
     (Txt []) card_init (db_reset (handlePageChange 3 db_init))))"
  using account_switch_strands [of demo_db_env "handlePageChange 3 db_init" "\<lambda>_. card_init" "''3''" "[]" 0 "Txt []" card_init]
  by (auto simp: demo_db_env_def useInvoicesList_def)

text \<open>
  The lock on creating invoices has a gap. For a user who is not verified the button of the header
  is disabled and the checklist calls the step locked; with an empty list the table offers the same
  dialog without asking, and there the form is on the page.
\<close>

theorem create_gate_bypassed:
  assumes "be_connected E" and "\<not> ce_isVerified (be_card E)" and "\<not> il_isLoading (be_list E)" and "il_invoices (be_list E) = []"
    and "\<not> db_showCreate s"
  shows "let page = (\<lambda>s. SMEDashboard E (db_table E cards pageInput virtualRows focusedIndex s) form c s) in
    openCreate False s = s \<and> OpenCreate \<notin> set (clicks (page s)) \<and> (\<forall>h. OfForm h \<notin> set (clicks (page s))) \<and>
    OfTable EmptyAction \<in> set (clicks (page s)) \<and>
    OfForm ` set (clicks form) \<subseteq> set (clicks (page (emptyStateAction s)))"
proof -
  have table: "clicks (db_table E cards pageInput virtualRows focusedIndex q) = [EmptyAction]" for q
    using assms(4) by (simp add: db_table_def InvoiceTable_def InvoiceEmptyState_def)
  have "OpenCreate \<notin> set (clicks (db_console E c q))" "OfForm h \<notin> set (clicks (db_console E c q))" for q h
    by (auto simp: db_console_def split: option.split)
  then show ?thesis
    using assms by (auto simp: table SMEDashboard_def db_modal_def openCreate_def emptyStateAction_def)
qed

text \<open>Nobody is verified here, and the list is empty.\<close>

theorem create_gate_bypassed_witness:
  "OfForm CreateButton \<in> set (clicks (let s = emptyStateAction db_init;
       E = demo_db_env\<lparr>be_card := demo_card_env\<lparr>ce_isVerified := False\<rparr>\<rparr>
     in SMEDashboard E (db_table E (\<lambda>_. card_init) ''1'' [] 0 s) (button CreateButton False []) card_init s))"
  using create_gate_bypassed [of "demo_db_env\<lparr>be_card := demo_card_env\<lparr>ce_isVerified := False\<rparr>\<rparr>" db_init "\<lambda>_. card_init" "''1''" "[]" 0
      "button CreateButton False []" card_init]
  by (simp add: demo_db_env_def db_init_def useInvoicesList_def Let_def)

subsection \<open>The selected invoice\<close>

text \<open>
  \<open>rows ad page limit iv\<close>: the table showed \<open>iv\<close> under this key. The user pages, resizes, switches
  accounts, selects a row that is shown, and opens and closes the dialog.
\<close>

inductive db_step ::
  "(string option \<Rightarrow> int \<Rightarrow> int \<Rightarrow> Invoice \<Rightarrow> bool) \<Rightarrow> string option \<times> dashboard \<Rightarrow> string option \<times> dashboard \<Rightarrow> bool" for rows where
  "db_step rows (ad, s) (ad, handlePageChange n s)"
| "db_step rows (ad, s) (ad, handleLimitChange n s)"
| "db_step rows (ad, s) (ad', db_reset s)"
| "rows ad (db_page s) (db_limit s) iv \<Longrightarrow> db_step rows (ad, s) (ad, selectInvoice (Some iv) s)"
| "db_step rows (ad, s) (ad, selectInvoice None s)"
| "db_step rows (ad, s) (ad, openCreate v s)"
| "db_step rows (ad, s) (ad, emptyStateAction s)"
| "db_step rows (ad, s) (ad, closeCreate s)"
| "db_step rows (ad, s) (ad, onCreated s)"

definition selection_current :: "(string option \<Rightarrow> int \<Rightarrow> int \<Rightarrow> Invoice \<Rightarrow> bool) \<Rightarrow> string option \<times> dashboard \<Rightarrow> bool" where
  "selection_current rows = (\<lambda>(ad, s). case db_selected s of Some iv \<Rightarrow> rows ad (db_page s) (db_limit s) iv | None \<Rightarrow> True)"

lemmas db_ops = handlePageChange_def handleLimitChange_def db_reset_def selectInvoice_def openCreate_def emptyStateAction_def
  closeCreate_def onCreated_def

interpretation selection: invariant_system "\<lambda>(ad, s). s = db_init" "db_step rows" "selection_current rows" for rows
proof
  fix s t
  assume "selection_current rows s" "db_step rows s t"
  from this(2,1) show "selection_current rows t"
    by cases (auto simp: selection_current_def db_ops split: option.splits)
qed (auto simp: selection_current_def db_init_def)

text \<open>
  The console never shows an invoice of another account, page or page size: whatever the user does,
  a selected invoice was in the table under the current account, page and page size.
\<close>

lemma console_shows_current:
  "reachable (\<lambda>(ad, s). s = db_init) (db_step rows) (ad, s) \<Longrightarrow> db_selected s = Some iv \<Longrightarrow> rows ad (db_page s) (db_limit s) iv"
  using selection.reachable_inv [of rows "(ad, s)"] by (simp add: selection_current_def)

end
