(* ===== verification/FeedViews.thy ===== *)
theory FeedViews
  imports TxHistory Dashboard
begin

text \<open>
  What is shown of the chain's events: the transactions of a wallet (\<open>components/shared/TxHistory.tsx\<close>
  over \<open>hooks/useTxHistory.ts\<close>), the feed of the home page (\<open>components/shared/InvoiceFeed.tsx\<close>) and the
  ticker above every page (\<open>components/shared/TopStatusBar.tsx\<close>).

  The characters U+2026 and U+1F30D are constants, one character each; \<open>timeStr\<close> prints a time in the
  language of the browser, \<open>loc\<close> a number.
\<close>

definition ellipsis :: string where
  "ellipsis = [char_of (133 :: nat)]"

definition globe :: string where
  "globe = [char_of (129 :: nat)]"

subsection \<open>Transactions\<close>

record tx_view =
  tv_transactions :: "TxHistoryItem list"
  tv_isLoading :: bool
  tv_error :: "exn option"
  tv_hasNext :: bool
  tv_hasPrev :: bool
  tv_page :: nat

text \<open>What the hook returns for the page that the query holds.\<close>

definition history_result :: "(TxHistoryItem list \<times> string option) option \<Rightarrow> bool \<Rightarrow> exn option \<Rightarrow> pager \<Rightarrow> tx_view" where
  "history_result loaded isLoading error p =
     \<lparr>tv_transactions = (case loaded of Some (items, c) \<Rightarrow> items | None \<Rightarrow> []), tv_isLoading = isLoading, tv_error = error,
      tv_hasNext = (case loaded of Some (items, c) \<Rightarrow> present c | None \<Rightarrow> False), tv_hasPrev = (0 < page p), tv_page = page p + 1\<rparr>"

datatype tx_control = TxRetry | TxCopy string | TxPrev | TxNext

text \<open>Copying a hash, where \<open>ok\<close> says whether the clipboard took it: the hash marked as copied and the timers
that are running. Each timer, when it ends, takes the mark away.\<close>

definition tx_copy :: "bool \<Rightarrow> string \<Rightarrow> string option \<times> nat \<Rightarrow> string option \<times> nat" where
  "tx_copy ok hash st = (if ok then (Some hash, snd st + 1) else st)"

definition tx_copy_timer :: "string option \<times> nat \<Rightarrow> string option \<times> nat" where
  "tx_copy_timer st = (if 0 < snd st then (None, snd st - 1) else st)"

definition tx_text :: "js_text \<Rightarrow> string" where
  "tx_text t = (case t of Text s \<Rightarrow> s | Member k \<Rightarrow> [])"

definition tx_row :: "(jsnum \<Rightarrow> string) \<Rightarrow> string option \<Rightarrow> TxHistoryItem \<Rightarrow> tx_control el" where
  "tx_row timeStr copiedHash tx =
     el ''div''
       [el ''div'' [el ''div'' [para ''span'' (tx_text (it_type tx)), para ''span'' (timeStr (num_scale (it_timestamp tx) 1000))]],
        el ''div''
          (shown (present (it_amount tx))
             [para ''span'' (the (it_amount tx) @ '' '' @ (if present (it_token tx) then the (it_token tx) else ''USDC''))] @
           [el ''div''
              [El ''button'' [(''type'', ''button''), (''title'', ''Copy transaction hash''), (''aria-label'', ''Copy transaction hash'')]
                 [(''onClick'', TxCopy (it_hash tx))] (shown (copiedHash = Some (it_hash tx)) [para ''span'' ''Copied!'']),
               El ''a'' [(''href'', ''https://stellar.expert/explorer/testnet/tx/'' @ it_hash tx), (''target'', ''_blank''),
                         (''rel'', ''noopener noreferrer'')] []
                 [Txt (js_slice0 6 (it_hash tx) @ ''...'' @ js_slice_last 4 (it_hash tx))]]])]"

definition TxHistory :: "(jsnum \<Rightarrow> string) \<Rightarrow> string \<Rightarrow> string option \<Rightarrow> tx_view \<Rightarrow> tx_control el" where
  "TxHistory timeStr headingId copiedHash v =
     (let ok = (tv_error v = None \<and> \<not> tv_isLoading v) in
      El ''section'' [(''aria-labelledby'', headingId)] []
        ([el ''div''
            (El ''h2'' [(''id'', headingId)] [] [Txt ''Transaction History''] #
             shown (1 < tv_page v) [para ''span'' (''Page '' @ show_nat (tv_page v))])] @
         (case tv_error v of
            Some e \<Rightarrow>
              [el ''div''
                 [para ''p'' (if isRateLimitError e then ''Horizon is rate limiting this request. Please wait a moment.''
                              else ''Failed to load transactions''),
                  El ''button'' [(''type'', ''button'')] [(''onClick'', TxRetry)] [Txt ''Try again'']]]
          | None \<Rightarrow> []) @
         shown (ok \<and> tv_transactions v = []) [para ''p'' ''No TrusTrove transactions found for this wallet.''] @
         shown (ok \<and> tv_transactions v \<noteq> [])
           [el ''div'' (map (tx_row timeStr copiedHash) (tv_transactions v)),
            el ''div''
              [El ''button'' ([(''type'', ''button'')] @ flag ''disabled'' (\<not> tv_hasPrev v)) [(''onClick'', TxPrev)] [Txt ''Previous''],
               para ''span'' (''Page '' @ show_nat (tv_page v)),
               El ''button'' ([(''type'', ''button'')] @ flag ''disabled'' (\<not> tv_hasNext v)) [(''onClick'', TxNext)] [Txt ''Next'']]]))"

subsection \<open>Feed\<close>

definition FEED_LIMIT :: nat where
  "FEED_LIMIT = 6"

definition EVENT_LABELS :: "(string \<times> string) list" where
  "EVENT_LABELS =
     [(''InvoiceCreated'', ''Invoice Created''), (''create'', ''Invoice Created''),
      (''InvoiceListed'', ''Invoice Listed''), (''list_for_financing'', ''Invoice Listed''),
      (''InvoiceFunded'', ''Invoice Funded''), (''fund_invoice'', ''Invoice Funded''),
      (''InvoiceShipped'', ''Invoice Shipped''), (''mark_shipped'', ''Invoice Shipped''),
      (''DeliveryConfirmed'', ''Delivery Confirmed''), (''confirm_delivery'', ''Delivery Confirmed''),
      (''InvoiceRepaid'', ''Invoice Repaid''), (''repay'', ''Invoice Repaid''),
      (''InvoiceDefaulted'', ''Invoice Defaulted''), (''trigger_default'', ''Invoice Defaulted'')]"

text \<open>The age of an event, with the word for minutes.\<close>

definition time_ago :: "string \<Rightarrow> int \<Rightarrow> jsnum \<Rightarrow> string" where
  "time_ago minutes now t =
     (let diff = num_sub (num_floor (num_over (num_int now) 1000)) t
      in if num_less diff (Fin 60) then ''just now''
         else if num_less diff (Fin 3600) then num_toString (num_floor (num_over diff 60)) @ minutes @ '' ago''
         else if num_less diff (Fin 86400) then num_toString (num_floor (num_over diff 3600)) @ ''h ago''
         else num_toString (num_floor (num_over diff 86400)) @ ''d ago'')"

record FeedEntry =
  fd_label :: js_text
  fd_details :: string
  fd_time :: string

definition toFeedEntry :: "int \<Rightarrow> EventLog \<Rightarrow> FeedEntry" where
  "toFeedEntry now event =
     (let invoiceId = (case getEventDataString event ''invoice_id'' of Some s \<Rightarrow> s | None \<Rightarrow> [])
      in \<lparr>fd_label = table_or EVENT_LABELS (ev_event_type event) (ev_event_type event),
          fd_details = (if invoiceId \<noteq> [] then ''INV#'' @ js_slice0 6 invoiceId @ ellipsis else ''On-chain event''),
          fd_time = time_ago '' min'' now (ev_ledger_closed_at event)\<rparr>)"

text \<open>A label that is a function prints its source in the announcement, which is \<open>''function''\<close> here.\<close>

definition InvoiceFeed :: "int \<Rightarrow> bool \<Rightarrow> EventLog list \<Rightarrow> 'h el" where
  "InvoiceFeed now isLoading events =
     (let items = map (toFeedEntry now) (take FEED_LIMIT events) in
      El ''section'' [(''aria-labelledby'', ''invoice-feed-heading'')] []
        [el ''div'' [El ''h2'' [(''id'', ''invoice-feed-heading'')] [] [Txt ''Live Financing Feed''], para ''span'' ''Realtime testnet activity''],
         el ''div''
           (if isLoading then []
            else case items of
              [] \<Rightarrow> [El ''div'' [(''role'', ''status'')] [] [para ''span'' ''Awaiting on-chain activity'']]
            | newest # _ \<Rightarrow>
                [el ''ul'' (map (\<lambda>i. el ''li''
                   [el ''div'' [para ''span'' (tx_text (fd_label i)), para ''span'' (fd_time i)], para ''span'' (fd_details i)]) items),
                 El ''p'' [(''role'', ''status''), (''aria-live'', ''polite'')] []
                   [Txt (show_nat (length items) @ '' recent events. Newest: '' @
                         (case fd_label newest of Text s \<Rightarrow> s | Member k \<Rightarrow> ''function'') @ '', '' @ fd_time newest @ ''.'')]])])"

subsection \<open>Ticker\<close>

record TickerItem =
  ti_id :: string
  ti_sme :: string
  ti_amount :: string
  ti_discount :: string
  ti_time :: string
  ti_country :: string

definition formatEventForTicker :: "(jsnum \<Rightarrow> string) \<Rightarrow> int \<Rightarrow> EventLog \<Rightarrow> TickerItem" where
  "formatEventForTicker loc now event =
     (let amount = (case getEventDataBigInt event ''funded_amount'' of
                      Some a \<Rightarrow> Some a | None \<Rightarrow> getEventDataBigInt event ''face_value'')
      in \<lparr>ti_id = num_toString (ev_id event),
          ti_sme = (if present (getEventDataString event ''buyer'') then js_slice0 8 (the (getEventDataString event ''buyer'')) @ ''...''
                    else if present (getEventDataString event ''issuer'') then js_slice0 8 (the (getEventDataString event ''issuer'')) @ ''...''
                    else ''Unknown SME''),
          ti_amount = (case amount of
             Some a \<Rightarrow> loc (num_round (num_of_int (bigint_div a 10000000))) @ '' USDC'' | None \<Rightarrow> ''0 USDC''),
          ti_discount = (case getEventDataNumber event ''discount_bps'' of
             Some b \<Rightarrow> num_toFixed 1 (num_over b 100) @ ''%'' | None \<Rightarrow> ''0.0%''),
          ti_time = time_ago ''m'' now (ev_ledger_closed_at event), ti_country = globe\<rparr>)"

definition placeholderItems :: "TickerItem list" where
  "placeholderItems =
     map (\<lambda>i. \<lparr>ti_id = i, ti_sme = ''Awaiting...'', ti_amount = ''0 USDC'', ti_discount = ''0.0%'', ti_time = ''live'', ti_country = globe\<rparr>)
       [''1'', ''2'', ''3'', ''4'', ''5'']"

text \<open>The effects of one render, in their order, on the items kept from the renders before.\<close>

definition ticker_effects ::
  "(jsnum \<Rightarrow> string) \<Rightarrow> int \<Rightarrow> bool \<Rightarrow> bool \<Rightarrow> bool \<Rightarrow> EventLog list \<Rightarrow> TickerItem list \<Rightarrow> TickerItem list" where
  "ticker_effects loc now isMobile isLoading isError rawEvents items =
     (let items = (if isMobile then [] else items);
          items = (if \<not> isMobile \<and> rawEvents \<noteq> [] then map (formatEventForTicker loc now) rawEvents else items);
          items = (if \<not> isMobile \<and> \<not> isLoading \<and> \<not> isError \<and> rawEvents = [] then placeholderItems else items)
      in if isMobile then [] else items)"

definition ticker_item :: "(string \<times> string) list \<Rightarrow> TickerItem \<Rightarrow> 'h el" where
  "ticker_item as i =
     El ''div'' as []
       [para ''span'' (ti_country i), para ''span'' (ti_sme i), para ''span'' (ti_amount i), para ''span'' ''at'',
        para ''span'' (ti_discount i @ '' discount''), para ''span'' (''('' @ ti_time i @ '')'')]"

datatype ticker_control = TogglePause

definition TopStatusBar :: "bool \<Rightarrow> bool \<Rightarrow> bool \<Rightarrow> bool \<Rightarrow> TickerItem list \<Rightarrow> ticker_control el" where
  "TopStatusBar isMobile isPaused isLoading isError items =
     el ''div''
       (el ''div'' [para ''span'' (''SOROBAN TESTNET '' @ em_dash @ '' PROTOCOL V1.0'')] #
        shown (\<not> isMobile)
          [El ''div'' [(''role'', ''status''), (''aria-live'', ''polite''), (''aria-label'', ''Recent network activity'')] []
             [El ''button'' [(''aria-label'', if isPaused then ''Play ticker'' else ''Pause ticker'')] [(''onClick'', TogglePause)] [],
              el ''div''
                [if isLoading then el ''div'' [para ''span'' ''Loading live network activity...'']
                 else if isError then el ''div'' [para ''span'' ''Live feed unavailable'']
                 else el ''div'' (map (ticker_item []) items @ map (ticker_item [(''aria-hidden'', ''true'')]) items)]]])"

subsection \<open>Lemmas\<close>

lemma page_without_ops:
  "length opss = length txs \<Longrightarrow> \<forall>ops \<in> set opss. filter (is_contract_op H) ops = [] \<Longrightarrow>
     page_items H address txs (map Inr opss) = []"
  by (induction txs opss rule: list_induct2') auto

lemma failures_fulfilled: "failures txs (map Inr opss) = ([], None)"
  by (induction txs opss rule: list_induct2') auto

lemma settle_without_ops:
  assumes "length opss = 10" and "length records = 10" and "\<forall>ops \<in> set opss. filter (is_contract_op H) ops = []"
  shows "settle_page H address records (map Inr opss) = Inr ([], Some (tx_paging_token (last records)))"
  using assms page_without_ops [of opss records H address]
  by (simp add: settle_page_def failures_fulfilled list_ex_iff)

text \<open>
  A history that starts with other business is cut short. When none of the ten newest transactions
  of a wallet calls a contract of the program, the page is read without an error and with the cursor of
  the next page, and \<open>goNext\<close> would move there; but the view says that the wallet has no transactions and
  offers nothing to click, so the older ones cannot be reached.
\<close>

theorem history_cut_short:
  assumes "transactions H address None s = (Inr records, s1)" and "length records = 10"
    and "fst (allSettled fetchOps (map tx_hash records) s1) = map Inr opss"
    and "\<forall>ops \<in> set opss. filter (is_contract_op H) ops = []" and "tx_paging_token (last records) \<noteq> []"
  shows "case fst (fetchPage H fetchOps address None s) of
      Inl e \<Rightarrow> False
    | Inr (items, nextCursor) \<Rightarrow>
        page (goNext nextCursor pager_init) = 1 \<and>
        (let v = history_result (Some (items, nextCursor)) False None pager_init in
         tv_hasNext v \<and> clicks (TxHistory timeStr headingId copied v) = [] \<and>
         text_content (TxHistory timeStr headingId copied v) =
           ''Transaction History'' @ ''No TrusTrove transactions found for this wallet.'')"
proof -
  have "length opss = 10"
    using allSettled_length [of fetchOps "map tx_hash records" s1] assms(2,3) by simp
  then have "fst (fetchPage H fetchOps address None s) = Inr ([], Some (tx_paging_token (last records)))"
    using assms settle_without_ops [of opss records H address]
    by (auto simp: fetchPage_def bindIO_def typed_429_run Let_def split: prod.split)
  then show ?thesis
    using assms(5) by (simp add: history_result_def TxHistory_def goNext_def pager_init_def present_def)
qed

definition busy_wallet :: "unit horizon_env" where
  "busy_wallet =
     \<lparr>transactions = (\<lambda>a c w. (Inr (replicate 10 \<lparr>tx_hash = ''h'', tx_created_at = [], tx_successful = True, tx_paging_token = ''p''\<rparr>), w)),
      operations = (\<lambda>h w. (Inr [], w)), dateTime = (\<lambda>t. Fin 0), contractIDs = [Some ''CP'']\<rparr>"

theorem history_cut_short_witness:
  "\<exists>items nextCursor. fst (fetchPage busy_wallet (operations busy_wallet) ''GA'' None ()) = Inr (items, nextCursor) \<and>
     tv_hasNext (history_result (Some (items, nextCursor)) False None pager_init) \<and>
     clicks (TxHistory (\<lambda>t. []) ''h'' None (history_result (Some (items, nextCursor)) False None pager_init)) = []"
proof -
  let ?txs = "replicate 10 \<lparr>tx_hash = ''h'', tx_created_at = [], tx_successful = True, tx_paging_token = ''p''\<rparr>"
  have "fst (allSettled (operations busy_wallet) (map tx_hash ?txs) ()) = map Inr (replicate 10 [])"
    by (simp add: busy_wallet_def numeral_eq_Suc)
  then show ?thesis
    using history_cut_short [of busy_wallet "''GA''" "()" ?txs "()" "operations busy_wallet" "replicate 10 []" "\<lambda>t. []" "''h''" None]
    by (auto simp: busy_wallet_def Let_def split: sum.splits)
qed

end
