(* ===== verification/MarketplacePage.thy ===== *)
theory MarketplacePage
  imports Dashboard
begin

text \<open>
  The marketplace page (\<open>app/marketplace/page.tsx\<close>) over the logic of \<open>Marketplace\<close>: its state, what each
  control does to it, what it keeps for the next visit, and the markup. The texts come from the
  translation library; \<open>rich\<close> is its \<open>t.rich\<close>: what stands before the tagged part, the part, and what
  stands behind it.

  The characters U+221E and U+2264 are constants, one character each. The label of the slider calls
  \<open>parseInt\<close> without a radix, which is radix 10 for the values of the slider.
\<close>

definition infinity_sign :: string where
  "infinity_sign = [char_of (157 :: nat)]"

definition at_most_sign :: string where
  "at_most_sign = [char_of (158 :: nat)]"

subsection \<open>State\<close>

record market_page =
  mp_market :: market_state
  mp_filters :: MarketplaceFilters
  mp_page :: int
  mp_limit :: int
  mp_selected :: "Invoice option"
  mp_selectedIds :: "string list"
  mp_showPresets :: bool
  mp_showCompare :: bool
  mp_newName :: string
  mp_editingId :: "string option"
  mp_editingName :: string

text \<open>
  Stored fields. The list calls \<open>trim\<close> on the two amounts, which throws for anything but a text; the
  discount goes through \<open>parseInt\<close>, which converts it to a text.
\<close>

definition amount_text :: "jsval \<Rightarrow> exn + string" where
  "amount_text v = (case v of JStr s \<Rightarrow> Inr s | _ \<Rightarrow> Inl (JsTypeError ''value.trim is not a function''))"

definition filters_of :: "jsval \<times> jsval \<times> jsval \<times> jsval \<Rightarrow> exn + MarketplaceFilters" where
  "filters_of = (\<lambda>(st, mn, mx, md).
     bindE (amount_text mn) (\<lambda>a. bindE (amount_text mx) (\<lambda>b.
       Inr \<lparr>statusFilter = st, minAmount = a, maxAmount = b, maxDiscount = js_String md\<rparr>)))"

definition default_filters :: MarketplaceFilters where
  "default_filters = \<lparr>statusFilter = JStr ''Listed'', minAmount = [], maxAmount = [], maxDiscount = ''500''\<rparr>"

definition filters_init :: "local_storage \<Rightarrow> exn + MarketplaceFilters" where
  "filters_init ls = (case readFiltersFromStorage ls of Some v \<Rightarrow> filters_of v | None \<Rightarrow> Inr default_filters)"

definition save_filters :: "MarketplaceFilters \<Rightarrow> market_state \<Rightarrow> market_state" where
  "save_filters f m = m\<lparr>mk_storage := writeFiltersToStorage f (mk_storage m)\<rparr>"

text \<open>The first render with its effects, which write the filters and the presets back.\<close>

definition market_mount :: "string option \<Rightarrow> local_storage \<Rightarrow> exn + market_page" where
  "market_mount address ls =
     bindE (filters_init ls) (\<lambda>f. Inr
       \<lparr>mp_market = persist_presets (save_filters f (market_init address ls)), mp_filters = f, mp_page = 1, mp_limit = 20,
        mp_selected = None, mp_selectedIds = [], mp_showPresets = False, mp_showCompare = False, mp_newName = [],
        mp_editingId = None, mp_editingName = []\<rparr>)"

text \<open>A change of the filters runs two effects: they are stored, and the list starts over.\<close>

definition mp_setFilters :: "MarketplaceFilters \<Rightarrow> market_page \<Rightarrow> market_page" where
  "mp_setFilters f s =
     (if f = mp_filters s then s
      else s\<lparr>mp_filters := f, mp_market := save_filters f (mp_market s), mp_page := 1, mp_selected := None\<rparr>)"

definition mp_status :: "string \<Rightarrow> market_page \<Rightarrow> market_page" where
  "mp_status v s = (mp_setFilters ((mp_filters s)\<lparr>statusFilter := JStr v\<rparr>) s)\<lparr>mp_selected := None\<rparr>"

definition mp_min :: "string \<Rightarrow> market_page \<Rightarrow> market_page" where
  "mp_min v s = mp_setFilters ((mp_filters s)\<lparr>minAmount := v\<rparr>) s"

definition mp_max :: "string \<Rightarrow> market_page \<Rightarrow> market_page" where
  "mp_max v s = mp_setFilters ((mp_filters s)\<lparr>maxAmount := v\<rparr>) s"

text \<open>The slider goes from 50 to 500 in steps of 50.\<close>

definition slider_values :: "string list" where
  "slider_values = map (\<lambda>k. show_nat (50 * k)) [1 ..< 11]"

definition mp_discount :: "string \<Rightarrow> market_page \<Rightarrow> market_page" where
  "mp_discount v s = mp_setFilters ((mp_filters s)\<lparr>maxDiscount := v\<rparr>) s"

definition mp_resetFilters :: "market_page \<Rightarrow> market_page" where
  "mp_resetFilters s =
     (let s' = (mp_setFilters default_filters s)\<lparr>mp_selected := None, mp_page := 1\<rparr>
      in s'\<lparr>mp_market := save_filters default_filters (mp_market s')\<rparr>)"

definition mp_select :: "Invoice option \<Rightarrow> market_page \<Rightarrow> market_page" where
  "mp_select iv s = s\<lparr>mp_selected := iv\<rparr>"

definition mp_pageChange :: "int \<Rightarrow> market_page \<Rightarrow> market_page" where
  "mp_pageChange page s = s\<lparr>mp_page := page, mp_selected := None\<rparr>"

definition mp_limitChange :: "int \<Rightarrow> market_page \<Rightarrow> market_page" where
  "mp_limitChange limit s = s\<lparr>mp_limit := limit, mp_page := 1, mp_selected := None\<rparr>"

definition mp_selectionChange :: "string list \<Rightarrow> market_page \<Rightarrow> market_page" where
  "mp_selectionChange xs s = s\<lparr>mp_selectedIds := handleSelectionChange xs\<rparr>"

definition mp_switch :: "string option \<Rightarrow> market_page \<Rightarrow> market_page" where
  "mp_switch address s = s\<lparr>mp_market := switch_account address (mp_market s)\<rparr>"

subsection \<open>Presets\<close>

text \<open>Reading a property of \<open>null\<close> or \<open>undefined\<close> throws.\<close>

definition prop_of :: "jsval \<Rightarrow> string \<Rightarrow> exn + jsval" where
  "prop_of v k =
     (if nullish v then Inl (JsTypeError (''Cannot read properties of '' @ js_String v))
      else Inr (obj_get (own_entries v) k))"

definition preset_filters :: "jsval \<Rightarrow> exn + jsval \<times> jsval \<times> jsval \<times> jsval" where
  "preset_filters preset =
     bindE (prop_of preset ''filters'') (\<lambda>f.
     bindE (prop_of f ''statusFilter'') (\<lambda>st. bindE (prop_of f ''minAmount'') (\<lambda>mn.
     bindE (prop_of f ''maxAmount'') (\<lambda>mx. bindE (prop_of f ''maxDiscount'') (\<lambda>md. Inr (st, mn, mx, md))))))"

text \<open>The render after the handler throws when an amount is not a text.\<close>

definition applyPreset :: "jsval \<Rightarrow> market_page \<Rightarrow> exn + market_page" where
  "applyPreset preset s =
     bindE (preset_filters preset) (\<lambda>v. bindE (filters_of v) (\<lambda>f.
       Inr ((mp_setFilters f s)\<lparr>mp_showPresets := False\<rparr>)))"

definition mp_savePreset :: "int \<Rightarrow> market_page \<Rightarrow> market_page" where
  "mp_savePreset now s =
     (if js_trim (mp_newName s) = [] \<or> 10 \<le> length (mk_presets (mp_market s)) then s
      else s\<lparr>mp_market := savePreset (mp_newName s) (mp_filters s) now (mp_market s), mp_newName := [], mp_showPresets := False\<rparr>)"

definition mp_deletePreset :: "string \<Rightarrow> market_page \<Rightarrow> market_page" where
  "mp_deletePreset i s = s\<lparr>mp_market := deletePreset i (mp_market s), mp_showPresets := False\<rparr>"

definition startEditingPreset :: "string \<Rightarrow> string \<Rightarrow> market_page \<Rightarrow> market_page" where
  "startEditingPreset i name s = s\<lparr>mp_editingId := Some i, mp_editingName := name\<rparr>"

definition mp_saveEdited :: "string \<Rightarrow> market_page \<Rightarrow> market_page" where
  "mp_saveEdited i s =
     (if js_trim (mp_editingName s) = [] then s
      else s\<lparr>mp_market := saveEditedPreset i (mp_editingName s) (mp_market s), mp_editingId := None, mp_editingName := []\<rparr>)"

subsection \<open>The comparison\<close>

definition mp_list :: "market_page \<Rightarrow> Invoice list \<Rightarrow> exn + Invoice list" where
  "mp_list s invoices =
     filteredAndSortedInvoices (minAmount (mp_filters s)) (maxAmount (mp_filters s)) (maxDiscount (mp_filters s)) invoices"

definition selectedInvoices :: "market_page \<Rightarrow> Invoice list \<Rightarrow> Invoice list" where
  "selectedInvoices s xs = filter (\<lambda>iv. inv_id iv \<in> set (mp_selectedIds s)) xs"

definition mp_compare :: "bool \<Rightarrow> market_page \<Rightarrow> market_page" where
  "mp_compare v s = s\<lparr>mp_showCompare := v\<rparr>"

subsection \<open>Markup\<close>

datatype mp_control =
    StatusSelect | MinField | MaxField | MpDiscount | TogglePresets | NewNameField | MpSavePreset | EditField nat | SaveEdited nat
  | MpApply nat | MpRename nat | MpDelete nat | MpTable table_control | CompareSelected | OfCompare compare_control | ClearSelect
  | MpCard card_control

record market_env =
  mv_t :: translator
  mv_tCommon :: translator
  mv_rich :: "string \<Rightarrow> (string \<times> string) list \<Rightarrow> string \<times> string \<times> string"
  mv_connected :: bool
  mv_role :: string
  mv_card :: card_env
  mv_timeStr :: "jsnum \<Rightarrow> string"
  mv_liquidity :: "int option"
  mv_statsLoading :: bool
  mv_list :: invoices_list

text \<open>A value between tags: texts and numbers are printed, the elements of an array one after the other, objects refused.\<close>

fun child_ok :: "jsval \<Rightarrow> bool" where
  "child_ok (JObj ob) \<longleftrightarrow> False"
| "child_ok (JArr xs) \<longleftrightarrow> list_all child_ok xs"
| "child_ok v \<longleftrightarrow> True"

fun child_text :: "jsval \<Rightarrow> string" where
  "child_text (JStr s) = s"
| "child_text (JNum x) = num_toString x"
| "child_text (JBigInt i) = show_int i"
| "child_text (JArr xs) = concat (map child_text xs)"
| "child_text v = []"

definition child :: "jsval \<Rightarrow> exn + string" where
  "child v = (if child_ok v then Inr (child_text v) else Inl (new_Error ''Objects are not valid as a React child''))"

definition preset_summary :: "jsval \<times> jsval \<times> jsval \<times> jsval \<Rightarrow> exn + string" where
  "preset_summary = (\<lambda>(st, mn, mx, md).
     bindE (child st) (\<lambda>a. bindE (child (js_or mn (JStr ''0''))) (\<lambda>b. bindE (child (js_or mx (JStr infinity_sign))) (\<lambda>c.
       Inr (''('' @ a @ '', '' @ b @ ''-'' @ c @ '' '' @ at_most_sign @ num_toString (num_over (js_Number md) 100) @ ''%)'')))))"

definition preset_row :: "string option \<Rightarrow> string \<Rightarrow> nat \<times> jsval \<Rightarrow> exn + mp_control el" where
  "preset_row editingId editingName = (\<lambda>(i, preset).
     if editingId = Some (show_nat i)
     then Inr (el ''li'' [el ''div''
       [El ''input'' [(''type'', ''text''), (''value'', editingName)] [(''onChange'', EditField i), (''onKeyDown'', SaveEdited i), (''onBlur'', SaveEdited i)] [],
        El ''button'' [(''type'', ''button'')] [(''onClick'', SaveEdited i)] [Txt ''Save'']]])
     else bindE (prop_of preset ''name'') (\<lambda>nm. bindE (child nm) (\<lambda>name.
          bindE (preset_filters preset) (\<lambda>v. bindE (preset_summary v) (\<lambda>sm.
       Inr (el ''li'' [el ''div''
         [El ''button'' [(''type'', ''button''), (''role'', ''option''), (''aria-selected'', ''false'')] [(''onClick'', MpApply i)]
            [para ''span'' name, para ''span'' sm],
          el ''div''
            [El ''button'' [(''type'', ''button''), (''aria-label'', ''Rename preset'')] [(''onClick'', MpRename i)] [],
             El ''button'' [(''type'', ''button''), (''aria-label'', ''Delete preset'')] [(''onClick'', MpDelete i)] []]]]))))))"

definition presets_panel :: "market_page \<Rightarrow> exn + mp_control el" where
  "presets_panel s =
     (let ps = mk_presets (mp_market s); n = length ps in
      bindE (if mp_showPresets s then mapE (preset_row (mp_editingId s) (mp_editingName s)) (enumerate 0 ps) else Inr []) (\<lambda>rows.
      Inr (el ''div''
        [para ''span'' ''Saved Searches'',
         el ''div''
           (El ''button'' [(''type'', ''button''), (''aria-haspopup'', ''listbox''), (''aria-expanded'', aria_bool (mp_showPresets s))]
              [(''onClick'', TogglePresets)]
              [para ''span'' (if n > 0 then show_nat n @ '' preset'' @ (if n \<noteq> 1 then ''s'' else []) @ '' saved'' else ''No saved searches'')] #
            shown (mp_showPresets s)
              [El ''div'' [(''role'', ''listbox'')] []
                 ([el ''div''
                     [El ''input'' [(''type'', ''text''), (''placeholder'', ''Preset name...''), (''value'', mp_newName s), (''aria-label'', ''New preset name'')]
                        [(''onChange'', NewNameField), (''onKeyDown'', MpSavePreset)] [],
                      El ''button'' ([(''type'', ''button'')] @ flag ''disabled'' (js_trim (mp_newName s) = [] \<or> 10 \<le> n))
                        [(''onClick'', MpSavePreset)] []],
                   if n = 0 then para ''p'' ''No saved searches yet'' else El ''ul'' [(''role'', ''listbox'')] [] rows] @
                  shown (10 \<le> n) [para ''p'' ''Maximum of 10 presets reached''])])])))"

definition status_options :: "translator \<Rightarrow> 'h el list" where
  "status_options t =
     map (\<lambda>(v, k). El ''option'' [(''value'', v)] [] [Txt (t (''filters.status.options.'' @ k) [])])
       [(''ALL'', ''all''), (''Created'', ''created''), (''Listed'', ''listed''), (''Funded'', ''funded''), (''Active'', ''active''),
        (''Confirmed'', ''confirmed''), (''Repaid'', ''repaid''), (''Defaulted'', ''defaulted'')]"

definition mp_filter_bar :: "translator \<Rightarrow> MarketplaceFilters \<Rightarrow> mp_control el \<Rightarrow> mp_control el" where
  "mp_filter_bar t f presets =
     el ''div''
       [el ''div''
          [El ''label'' [(''htmlFor'', ''marketplace-status'')] [] [Txt (t ''filters.status.label'' [])],
           El ''select'' [(''id'', ''marketplace-status''), (''value'', js_String (statusFilter f))] [(''onChange'', StatusSelect)] (status_options t)],
        el ''div''
          [El ''label'' [(''htmlFor'', ''marketplace-min-value'')] [] [Txt (t ''filters.minValue.label'' [])],
           El ''input'' [(''id'', ''marketplace-min-value''), (''type'', ''number''), (''placeholder'', t ''filters.minValue.placeholder'' []),
                         (''value'', minAmount f)] [(''onChange'', MinField)] []],
        el ''div''
          [El ''label'' [(''htmlFor'', ''marketplace-max-value'')] [] [Txt (t ''filters.maxValue.label'' [])],
           El ''input'' [(''id'', ''marketplace-max-value''), (''type'', ''number''), (''placeholder'', t ''filters.maxValue.placeholder'' []),
                         (''value'', maxAmount f)] [(''onChange'', MaxField)] []],
        el ''div''
          [el ''div'' [para ''span'' (t ''filters.maxDiscount.label'' []),
                       para ''span'' (num_toFixed 1 (num_over (js_parseInt (maxDiscount f)) 100) @ ''%'')],
           El ''input'' [(''type'', ''range''), (''min'', ''50''), (''max'', ''500''), (''step'', ''50''), (''value'', maxDiscount f),
                         (''aria-label'', t ''filters.maxDiscount.ariaLabel'' []), (''aria-valuenow'', num_toString (js_parseInt (maxDiscount f))),
                         (''aria-valuemin'', ''50''), (''aria-valuemax'', ''500'')] [(''onChange'', MpDiscount)] []],
        presets]"

definition mp_head :: "market_env \<Rightarrow> 'h el list" where
  "mp_head E =
     (let t = mv_t E; (before, part, behind) = mv_rich E ''verificationBanner.body'' [] in
      el ''div'' [el ''div''
        [el ''div'' [para ''h1'' (t ''header.title'' []), para ''p'' (t ''header.description'' [])],
         el ''div'' [para ''span'' (t ''header.liquidityLabel'' []),
                     para ''span'' (if mv_statsLoading E then t ''syncing'' [] else formatAmount (mv_liquidity E) USDC)]]] #
      shown (mv_connected E \<and> \<not> ce_isVerified (mv_card E))
        [el ''div'' [el ''div''
           [para ''span'' (t ''verificationBanner.title'' []),
            el ''p'' [Txt before, El ''a'' [(''href'', ''/profile'')] [] [Txt part], Txt behind]]]])"

definition mp_table ::
  "market_env \<Rightarrow> (string \<Rightarrow> card_state) \<Rightarrow> string \<Rightarrow> nat list \<Rightarrow> nat \<Rightarrow> market_page \<Rightarrow> Invoice list \<Rightarrow> table_control el" where
  "mp_table E cards pageInput virtualRows focusedIndex s xs =
     InvoiceTable (mv_card E) cards
       \<lparr>tp_activeId = map_option inv_id (mp_selected s), tp_role = Some (mv_role E), tp_selectable = True, tp_onSelect = True,
        tp_pagination = Some \<lparr>pg_page = mp_page s, pg_limit = mp_limit s, pg_total = il_total (mv_list E),
                              pg_totalPages = il_totalPages (mv_list E)\<rparr>,
        tp_pageInput = pageInput,
        tp_empty = InvoiceEmptyState (mv_t E ''invoices.emptyState.title'' []) (mv_t E ''invoices.emptyState.description'' [])
                     (mv_t E ''invoices.emptyState.action'' []) None\<rparr>
       (mp_selectedIds s) virtualRows focusedIndex xs"

definition mp_comparison :: "market_env \<Rightarrow> nat \<Rightarrow> market_page \<Rightarrow> Invoice list \<Rightarrow> mp_control el list" where
  "mp_comparison E offset s xs =
     shown (2 \<le> length (mp_selectedIds s))
       [el ''div''
          [el ''div'' [para ''span'' (show_nat (length (mp_selectedIds s)) @ '' selected''), para ''span'' ''(max 4 for comparison)''],
           El ''button'' ([(''type'', ''button'')] @ flag ''disabled'' (4 < length (mp_selectedIds s))) [(''onClick'', CompareSelected)]
             [Txt ''Compare Selected'']]] @
     shown (mp_showCompare s \<and> 2 \<le> length (selectedInvoices s xs))
       [map_el OfCompare (InvoiceCompareModal (ce_dateStr (mv_card E)) (mv_timeStr E) offset (selectedInvoices s xs))]"

definition funding_preview :: "translator \<Rightarrow> Invoice \<Rightarrow> exn + 'h el" where
  "funding_preview t iv =
     bindE (fundedValueStroops (inv_faceValue iv) (inv_discountBps iv)) (\<lambda>funded.
     Inr (el ''div''
       [para ''span'' (t ''console.fundingPreview.title'' []),
        el ''div'' [para ''span'' (t ''console.fundingPreview.faceValue'' []), para ''span'' (formatAmount (Some (inv_faceValue iv)) (inv_asset iv))],
        el ''div'' [para ''span'' (t ''console.fundingPreview.fundedCost'' [(''bps'', num_toString (inv_discountBps iv))]),
                    para ''span'' (formatAmount (Some funded) (inv_asset iv))],
        para ''div'' (t ''console.fundingPreview.note'' [])]))"

definition mp_console_body :: "market_env \<Rightarrow> card_state \<Rightarrow> market_page \<Rightarrow> exn + mp_control el" where
  "mp_console_body E c s =
     (let t = mv_t E in
      case mp_selected s of
        None \<Rightarrow> Inr (el ''div'' [para ''p'' (t ''console.emptyState.title'' []), para ''p'' (t ''console.emptyState.description'' [])])
      | Some iv \<Rightarrow>
          let (before, part, behind) =
                mv_rich E ''console.role'' [(''role'', if mv_connected E then mv_role E else t ''console.publicView'' [])]
          in bindE (if inv_status iv = Listed \<and> mv_role E = ''lp'' \<and> mv_connected E
                    then bindE (funding_preview t iv) (\<lambda>p. Inr [p]) else Inr []) (\<lambda>preview.
             Inr (el ''div''
               ([el ''div'' [el ''span'' [Txt before, para ''strong'' part, Txt behind], button ClearSelect False (t ''console.clear'' [])]] @
                preview @
                [map_el MpCard (InvoiceCard ((mv_card E)\<lparr>ce_role := (if mv_connected E then Some (mv_role E) else None)\<rparr>) c iv)]))))"

text \<open>The body stands in an error boundary, which shows \<open>fallback\<close> when it throws.\<close>

definition mp_console :: "market_env \<Rightarrow> card_state \<Rightarrow> (exn \<Rightarrow> mp_control el) \<Rightarrow> market_page \<Rightarrow> mp_control el" where
  "mp_console E c fallback s =
     el ''div''
       [El ''h2'' [(''tabIndex'', ''-1'')] [] [Txt (mv_t E ''console.title'' [])],
        El ''p'' [(''role'', ''status''), (''aria-live'', ''polite''), (''aria-atomic'', ''true'')] []
          [Txt (case mp_selected s of Some iv \<Rightarrow> mv_tCommon E ''invoiceSelected'' [(''id'', inv_id iv)] | None \<Rightarrow> [])],
        (case mp_console_body E c s of Inr e \<Rightarrow> e | Inl x \<Rightarrow> fallback x)]"

definition Marketplace :: "market_env \<Rightarrow> (string \<Rightarrow> card_state) \<Rightarrow> string \<Rightarrow> nat list \<Rightarrow> nat \<Rightarrow> nat \<Rightarrow> card_state \<Rightarrow>
    (exn \<Rightarrow> mp_control el) \<Rightarrow> market_page \<Rightarrow> exn + mp_control el" where
  "Marketplace E cards pageInput virtualRows focusedIndex offset c fallback s =
     bindE (mp_list s (il_invoices (mv_list E))) (\<lambda>xs.
     bindE (presets_panel s) (\<lambda>presets.
     Inr (el ''div''
       (mp_head E @
        [mp_filter_bar (mv_t E) (mp_filters s) presets,
         el ''div''
           [el ''div''
              ([el ''div''
                  (El ''h2'' [(''aria-live'', ''polite''), (''aria-atomic'', ''true'')] []
                     [Txt (mv_t E ''invoices.title'' [(''count'', show_nat (length xs))])] #
                   shown (il_isLoading (mv_list E)) [El ''span'' [(''role'', ''status'')] [] [Txt (mv_t E ''syncing'' [])]]),
                map_el MpTable (mp_table E cards pageInput virtualRows focusedIndex s xs)] @
               mp_comparison E offset s xs),
            mp_console E c fallback s]]))))"

subsection \<open>What a later visit finds\<close>

lemma plain_filters: "json_plain (statusFilter f) \<Longrightarrow> json_plain (filters_value f)"
  by (simp add: filters_value_def)

lemma text_not_empty: "JSON_parse doc = Inr v \<Longrightarrow> doc \<noteq> []"
proof -
  have "isl (JSON_parse [])" by code_simp
  then show "JSON_parse doc = Inr v \<Longrightarrow> doc \<noteq> []" by (auto simp: isl_def)
qed

lemma filters_survive:
  assumes "json_plain (statusFilter f)" and "statusFilter f \<noteq> JNull" and "\<not> ls_blocked ls" and "\<not> ls_full ls"
  shows "filters_init (writeFiltersToStorage f ls) = Inr f"
proof -
  obtain doc where "JSON_stringify (filters_value f) = Inr doc" "JSON_parse doc = Inr (filters_value f)"
    using JSON_round_trip plain_filters [OF assms(1)] by blast
  moreover from this have "doc \<noteq> []" using text_not_empty by blast
  moreover have "statusFilter f \<noteq> JUndef" using assms(1) by auto
  ultimately show ?thesis using assms(2-4)
    by (simp add: filters_init_def readFiltersFromStorage_def writeFiltersToStorage_def try_write_def getItem_trySetItem
        stored_field_def filters_value_def coalesce_def nullish_def obj_get_def filters_of_def amount_text_def)
qed

lemma apply_saved:
  "\<exists>s'. applyPreset (preset_value name f now) s = Inr s' \<and> mp_filters s' = f \<and> \<not> mp_showPresets s'"
proof -
  have "preset_filters (preset_value name f now) = Inr (statusFilter f, JStr (minAmount f), JStr (maxAmount f), JStr (maxDiscount f))"
    by (simp add: preset_filters_def preset_value_def prop_of_def nullish_def obj_get_def filters_value_def)
  then show ?thesis by (cases f) (auto simp: applyPreset_def filters_of_def amount_text_def mp_setFilters_def)
qed

lemma filters_key_apart: "MARKETPLACE_FILTERS_KEY \<noteq> presets_key address"
  by (simp add: MARKETPLACE_FILTERS_KEY_def MARKETPLACE_PRESETS_KEY_def presets_key_def split: option.split)

lemma try_write_flags [simp]: "ls_blocked (try_write k v ls) = ls_blocked ls" "ls_full (try_write k v ls) = ls_full ls"
  by (auto simp: try_write_def trySetItem_def setItem_def split: sum.split)

text \<open>Of the state, the filters a visit starts with depend on their own key, its presets on theirs.\<close>

lemma filters_init_cong:
  "getItem MARKETPLACE_FILTERS_KEY ls' = getItem MARKETPLACE_FILTERS_KEY ls \<Longrightarrow> filters_init ls' = filters_init ls"
  by (simp add: filters_init_def readFiltersFromStorage_def)

lemma mount_presets:
  "market_mount address ls = Inr s \<Longrightarrow> mk_presets (mp_market s) = readPresetsFromStorage address ls \<and> Inr (mp_filters s) = filters_init ls"
  by (cases "filters_init ls") (auto simp: market_mount_def persist_presets_def save_filters_def market_init_def)

lemma saved_storage:
  assumes "mk_loaded m = mk_address m" and "length (mk_presets m) < 10" and "js_trim name \<noteq> []"
  shows "mk_storage (savePreset name f now m) =
    writePresetsToStorage (mk_presets m @ [preset_value (js_trim name) f now]) (mk_address m) (mk_storage m)"
  using assms by (simp add: savePreset_def persist_presets_def)

text \<open>
  C36. What the user sets up in the marketplace is there on the next visit. When the filters are changed
  to \<open>f\<close> and saved as a preset, and the browser stores what it is given, the next visit by the same
  wallet starts with the filters \<open>f\<close> and shows the presets of before with the new one behind them; and
  applying that one restores \<open>f\<close> from whatever the filters are then.
\<close>

theorem marketplace_next_visit:
  assumes "mk_loaded (mp_market s) = mk_address (mp_market s)" and "f \<noteq> mp_filters s"
    and "\<not> ls_blocked (mk_storage (mp_market s))" and "\<not> ls_full (mk_storage (mp_market s))"
    and "json_plain (statusFilter f)" and "statusFilter f \<noteq> JNull" and "\<forall>p \<in> set (mk_presets (mp_market s)). json_plain p"
    and "length (mk_presets (mp_market s)) < 10" and "js_trim (mp_newName s) \<noteq> []" and "json_num_ok (num_int now)"
  shows "let saved = mp_savePreset now (mp_setFilters f s) in
    \<exists>later. market_mount (mk_address (mp_market s)) (mk_storage (mp_market saved)) = Inr later \<and> mp_filters later = f \<and>
      mk_presets (mp_market later) = mk_presets (mp_market s) @ [preset_value (js_trim (mp_newName s)) f now] \<and>
      (\<forall>w. \<exists>w'. applyPreset (last (mk_presets (mp_market later))) w = Inr w' \<and> mp_filters w' = f)"
proof -
  let ?m = "save_filters f (mp_market s)"
  let ?ps = "mk_presets (mp_market s) @ [preset_value (js_trim (mp_newName s)) f now]"
  let ?saved = "mp_savePreset now (mp_setFilters f s)"
  let ?ls = "mk_storage (mp_market ?saved)"
  have ls: "?ls = writePresetsToStorage ?ps (mk_address (mp_market s)) (mk_storage ?m)"
    using assms(1,2,8,9) saved_storage [of ?m "mp_newName s" f now]
    by (simp add: mp_savePreset_def mp_setFilters_def save_filters_def)
  have plain: "\<forall>p \<in> set ?ps. json_plain p"
    using assms(5,7,10) plain_filters [of f] by (auto simp: preset_value_def)
  have flags: "\<not> ls_blocked (mk_storage ?m)" "\<not> ls_full (mk_storage ?m)"
    using assms(3,4) by (simp_all add: save_filters_def writeFiltersToStorage_def)
  have presets: "readPresetsFromStorage (mk_address (mp_market s)) ?ls = ?ps"
    unfolding ls using flags by (intro read_write_presets plain) simp
  have "filters_init ?ls = filters_init (mk_storage ?m)"
    unfolding ls by (intro filters_init_cong) (simp add: writePresetsToStorage_def getItem_try_write filters_key_apart)
  also have "\<dots> = Inr f"
    using filters_survive [OF assms(5,6,3,4)] by (simp add: save_filters_def)
  finally have init: "filters_init ?ls = Inr f" .
  then obtain later where later: "market_mount (mk_address (mp_market s)) ?ls = Inr later" by (simp add: market_mount_def)
  then have "mp_filters later = f" "mk_presets (mp_market later) = ?ps" using mount_presets [OF later] init presets by simp_all
  then show ?thesis using later apply_saved [of _ f now] by (auto simp: Let_def)
qed

definition fresh_storage :: local_storage where
  "fresh_storage = \<lparr>ls_items = [], ls_blocked = False, ls_full = False\<rparr>"

definition fresh_market :: market_page where
  "fresh_market =
     \<lparr>mp_market = market_init (Some ''GA'') fresh_storage, mp_filters = default_filters, mp_page = 1, mp_limit = 20, mp_selected = None,
      mp_selectedIds = [], mp_showPresets = True, mp_showCompare = False, mp_newName = ''small'', mp_editingId = None, mp_editingName = []\<rparr>"

theorem marketplace_next_visit_witness:
  "let f = default_filters\<lparr>maxAmount := ''5000''\<rparr>; saved = mp_savePreset 5 (mp_setFilters f fresh_market) in
   \<exists>later. market_mount (Some ''GA'') (mk_storage (mp_market saved)) = Inr later \<and> mp_filters later = f \<and>
     mk_presets (mp_market later) = [preset_value ''small'' f 5]"
proof -
  have num: "json_num_ok (num_int 5)" by code_simp
  have trim: "js_trim ''small'' = ''small''" by code_simp
  have none: "mk_presets (market_init (Some ''GA'') fresh_storage) = []"
    by (simp add: market_init_def readPresetsFromStorage_def getItem_def fresh_storage_def)
  show ?thesis
    using marketplace_next_visit [of fresh_market "default_filters\<lparr>maxAmount := ''5000''\<rparr>" 5] num trim none
    by (auto simp: fresh_market_def default_filters_def market_init_def fresh_storage_def Let_def)
qed

subsection \<open>Discounts above the slider\<close>

definition preset_in_range :: "jsval \<Rightarrow> bool" where
  "preset_in_range p \<longleftrightarrow>
     (case preset_filters p of
        Inl e \<Rightarrow> True
      | Inr v \<Rightarrow> (case filters_of v of Inl e \<Rightarrow> True | Inr f \<Rightarrow> maxDiscount f \<in> set slider_values))"

text \<open>
  What a user can do on the page. A slider hands its own values to its handler; the presets that are
  read on a switch of the account are ones that were saved with such values.
\<close>

inductive mp_step :: "market_page \<Rightarrow> market_page \<Rightarrow> bool" where
  "mp_step s (mp_status v s)"
| "mp_step s (mp_min v s)"
| "mp_step s (mp_max v s)"
| "v \<in> set slider_values \<Longrightarrow> mp_step s (mp_discount v s)"
| "mp_step s (mp_resetFilters s)"
| "mp_step s (mp_select iv s)"
| "mp_step s (mp_pageChange n s)"
| "mp_step s (mp_limitChange n s)"
| "mp_step s (mp_selectionChange xs s)"
| "mp_step s (mp_compare b s)"
| "\<forall>p \<in> set (readPresetsFromStorage address (mk_storage (mp_market s))). preset_in_range p \<Longrightarrow> mp_step s (mp_switch address s)"
| "p \<in> set (mk_presets (mp_market s)) \<Longrightarrow> applyPreset p s = Inr s' \<Longrightarrow> mp_step s s'"
| "mp_step s (mp_savePreset now s)"
| "mp_step s (mp_deletePreset i s)"
| "mp_step s (startEditingPreset i name s)"
| "mp_step s (s\<lparr>mp_editingName := name\<rparr>)"
| "mp_step s (s\<lparr>mp_newName := name\<rparr>)"
| "mp_step s (s\<lparr>mp_showPresets := b\<rparr>)"
| "mp_step s (mp_saveEdited i s)"

definition mp_start :: "market_page \<Rightarrow> bool" where
  "mp_start s \<longleftrightarrow> (\<exists>address ls. market_mount address ls = Inr s \<and>
     (readFiltersFromStorage ls = None \<or> maxDiscount (mp_filters s) \<in> set slider_values) \<and>
     (\<forall>p \<in> set (readPresetsFromStorage address ls). preset_in_range p))"

definition slider_inv :: "market_page \<Rightarrow> bool" where
  "slider_inv s \<longleftrightarrow> maxDiscount (mp_filters s) \<in> set slider_values \<and> (\<forall>p \<in> set (mk_presets (mp_market s)). preset_in_range p)"

lemma default_in_range: "''500'' \<in> set slider_values"
  by code_simp

lemma persist_keeps [simp]: "mk_presets (persist_presets m) = mk_presets m"
  by (simp add: persist_presets_def)

lemma switch_presets [simp]: "mk_presets (switch_account a m) = readPresetsFromStorage a (mk_storage m)"
  by (simp add: switch_account_def Let_def)

lemma saved_in_range:
  assumes "maxDiscount f \<in> set slider_values" shows "preset_in_range (preset_value name f now)"
proof -
  have "preset_filters (preset_value name f now) = Inr (statusFilter f, JStr (minAmount f), JStr (maxAmount f), JStr (maxDiscount f))"
    by (simp add: preset_filters_def preset_value_def prop_of_def nullish_def obj_get_def filters_value_def)
  then show ?thesis using assms by (simp add: preset_in_range_def filters_of_def amount_text_def)
qed

lemma renamed_filters:
  "nullish p \<or> preset_filters (JObj (obj_set ''name'' v (own_entries p))) = preset_filters p"
  by (simp add: preset_filters_def prop_of_def) (simp add: nullish_def)

lemma renamed_in_range: "preset_in_range p \<Longrightarrow> preset_in_range (JObj (obj_set ''name'' v (own_entries p)))"
proof (cases "nullish p")
  case True
  then have "own_entries p = []" by (auto simp: nullish_def)
  then show ?thesis by (simp add: preset_in_range_def preset_filters_def prop_of_def nullish_def obj_get_def)
next
  case False
  then show "preset_in_range p \<Longrightarrow> preset_in_range (JObj (obj_set ''name'' v (own_entries p)))"
    using renamed_filters [of p v] by (simp add: preset_in_range_def)
qed

lemma setFilters_reads [simp]:
  "mp_filters (mp_setFilters f s) = f" "mk_presets (mp_market (mp_setFilters f s)) = mk_presets (mp_market s)"
  by (simp_all add: mp_setFilters_def save_filters_def)

lemma slider_apply:
  assumes "slider_inv s" and "p \<in> set (mk_presets (mp_market s))" and "applyPreset p s = Inr s'"
  shows "slider_inv s'"
proof -
  obtain v f where "preset_filters p = Inr v" "filters_of v = Inr f" "s' = (mp_setFilters f s)\<lparr>mp_showPresets := False\<rparr>"
    using assms(3) by (cases "preset_filters p"; cases "filters_of (projr (preset_filters p))") (auto simp: applyPreset_def)
  moreover from this have "maxDiscount f \<in> set slider_values"
    using assms(1,2) by (force simp: slider_inv_def preset_in_range_def)
  ultimately show ?thesis using assms(1) by (simp add: slider_inv_def)
qed

lemma enumerate_members: "(i, p) \<in> set (enumerate n ps) \<Longrightarrow> p \<in> set ps"
  by (simp add: enumerate_eq_zip) (rule set_zip_rightD)

interpretation slider: invariant_system mp_start mp_step slider_inv
proof
  fix s
  assume "mp_start s"
  then obtain address ls where m: "market_mount address ls = Inr s"
    "readFiltersFromStorage ls = None \<or> maxDiscount (mp_filters s) \<in> set slider_values"
    "\<forall>p \<in> set (readPresetsFromStorage address ls). preset_in_range p" by (auto simp: mp_start_def)
  then show "slider_inv s"
    using mount_presets [OF m(1)] default_in_range by (auto simp: slider_inv_def filters_init_def default_filters_def)
next
  fix s t
  assume inv: "slider_inv s" and "mp_step s t"
  from this(2) show "slider_inv t"
  proof cases
    case (12 p)
    then show ?thesis using slider_apply inv by simp
  next
    case (13 now)
    then show ?thesis using inv saved_in_range [of "mp_filters s"]
      by (auto simp: mp_savePreset_def savePreset_def slider_inv_def)
  next
    case (14 i)
    then show ?thesis using inv enumerate_members by (fastforce simp: mp_deletePreset_def deletePreset_def slider_inv_def)
  next
    case (19 i)
    then show ?thesis using inv enumerate_members renamed_in_range
      by (fastforce simp: mp_saveEdited_def saveEditedPreset_def slider_inv_def)
  qed (use inv default_in_range in
      \<open>auto simp: slider_inv_def mp_status_def mp_min_def mp_max_def mp_discount_def mp_resetFilters_def mp_select_def mp_pageChange_def
         mp_limitChange_def mp_selectionChange_def mp_compare_def mp_switch_def startEditingPreset_def default_filters_def save_filters_def Let_def\<close>)
qed

lemma parseInt_show_nat: "js_parseInt (show_nat n) = num_of_int (int n)"
proof -
  obtain c cs where s: "show_nat n = c # cs" by (cases "show_nat n") auto
  then have c: "is_digit c" using show_nat_digits [of n] by simp
  have "\<not> js_space c" "c \<noteq> CHR ''-''" "c \<noteq> CHR ''+''" using c by (auto simp: is_digit_def js_space_def)
  moreover have "takeWhile is_digit (show_nat n) = show_nat n"
    using show_nat_digits [of n] by (simp add: takeWhile_eq_all_conv)
  ultimately show ?thesis by (simp add: js_parseInt_def js_trimStart_def Let_def s) (metis read_show_nat s)
qed

lemma slider_number: "v \<in> set slider_values \<Longrightarrow> \<exists>n. js_parseInt v = Fin (of_int n) \<and> n \<le> 500"
proof -
  assume "v \<in> set slider_values"
  then obtain k where k: "v = show_nat (50 * k)" "k < 11" by (auto simp: slider_values_def)
  then have "js_parseInt v = Fin (of_int (int (50 * k)))"
    by (simp only: parseInt_show_nat) (rule num_of_int_exact, simp)
  moreover have "int (50 * k) \<le> 500" using k(2) by simp
  ultimately show ?thesis by blast
qed

text \<open>
  C37. An invoice with a discount above 500 basis points cannot be found in the marketplace. The invoice
  card lets its issuer list it at up to 5000, which is what the contract accepts, but the slider ends at
  500 and has no position for any discount: however the user sets, resets, saves and applies filters, the
  list the page computes never has the invoice, whatever the server answers.
\<close>

theorem high_discount_hidden:
  assumes "reachable mp_start mp_step s" and "validateDiscountBps (Fin d)" and "500 < d" and "inv_discountBps iv = Fin d"
  shows "\<exists>xs. mp_list s invoices = Inr xs \<and> iv \<notin> set xs"
proof -
  have "maxDiscount (mp_filters s) \<in> set slider_values"
    using slider.reachable_inv [OF assms(1)] by (simp add: slider_inv_def)
  then obtain n where n: "js_parseInt (maxDiscount (mp_filters s)) = Fin (of_int n)" "n \<le> 500" using slider_number by blast
  have "of_int n < d" using n(2) assms(3) by (meson le_less_trans of_int_le_numeral_iff)
  then have "\<not> discount_within (maxDiscount (mp_filters s)) iv"
    using n(1) assms(4) by (simp add: discount_within_def num_le_def num_eq_def Let_def)
  moreover obtain lo hi where "parseFilterStroops (minAmount (mp_filters s)) = Inr lo" "parseFilterStroops (maxAmount (mp_filters s)) = Inr hi"
    using parseFilterStroops_total by blast
  ultimately show ?thesis using filtered_eq by (simp add: mp_list_def passes_def)
qed

lemma fresh_start: "mp_start (fresh_market\<lparr>mp_market := persist_presets (save_filters default_filters (market_init (Some ''GA'') fresh_storage)),
    mp_showPresets := False, mp_newName := []\<rparr>)"
  unfolding mp_start_def
  by (rule exI [of _ "Some ''GA''"], rule exI [of _ fresh_storage])
    (simp add: market_mount_def filters_init_def readFiltersFromStorage_def readPresetsFromStorage_def getItem_def fresh_storage_def fresh_market_def)

theorem high_discount_hidden_witness:
  "\<exists>s xs. mp_filters s = default_filters \<and> mp_list s [(demo_card_invoice Listed)\<lparr>inv_discountBps := Fin 800\<rparr>] = Inr xs \<and>
     (demo_card_invoice Listed)\<lparr>inv_discountBps := Fin 800\<rparr> \<notin> set xs"
proof -
  let ?s = "mp_resetFilters (fresh_market\<lparr>mp_market := persist_presets (save_filters default_filters (market_init (Some ''GA'') fresh_storage)),
    mp_showPresets := False, mp_newName := []\<rparr>)"
  have "reachable mp_start mp_step ?s"
    by (rule reachable.step, rule reachable.init, rule fresh_start) (rule mp_step.intros(5))
  moreover have "validateDiscountBps (Fin 800)" by code_simp
  ultimately obtain xs where "mp_list ?s [(demo_card_invoice Listed)\<lparr>inv_discountBps := Fin 800\<rparr>] = Inr xs"
      "(demo_card_invoice Listed)\<lparr>inv_discountBps := Fin 800\<rparr> \<notin> set xs"
    using high_discount_hidden [of ?s 800 "(demo_card_invoice Listed)\<lparr>inv_discountBps := Fin 800\<rparr>"] by auto
  moreover have "mp_filters ?s = default_filters" by (simp add: mp_resetFilters_def Let_def)
  ultimately show ?thesis by blast
qed

subsection \<open>Comparing across pages\<close>

text \<open>
  The selection survives a change of the page, and the comparison takes only invoices of the list that is
  shown. After a change to a page without the selected invoices, the button is still enabled; clicking it
  shows no dialog, and the dialog opens by itself as soon as two of them are listed again.
\<close>

lemma compare_late:
  assumes "2 \<le> length (mp_selectedIds s)" and "length (mp_selectedIds s) \<le> 4" and "\<forall>iv \<in> set ys. inv_id iv \<notin> set (mp_selectedIds s)"
    and "2 \<le> length (selectedInvoices s xs)"
  shows "let s' = mp_pageChange n s; clicked = mp_compare True s' in
    CompareSelected \<in> set (concat (map clicks (mp_comparison E offset s' ys))) \<and>
    concat (map dialogs (mp_comparison E offset clicked ys)) = [] \<and>
    concat (map dialogs (mp_comparison E offset (mp_pageChange m clicked) xs)) \<noteq> []"
proof -
  have "selectedInvoices (mp_compare True (mp_pageChange n s)) ys = []"
    using assms(3) by (simp add: selectedInvoices_def mp_pageChange_def mp_compare_def)
  then show ?thesis using assms(1,2,4)
    by (simp add: mp_comparison_def mp_pageChange_def mp_compare_def selectedInvoices_def InvoiceCompareModal_def Let_def)
qed

text \<open>A stored preset without filters makes the open list throw, and the page has no boundary around it.\<close>

lemma broken_preset_throws:
  assumes "mp_showPresets s" and "JObj [] \<in> set (mk_presets (mp_market s))" and "mp_editingId s = None"
  shows "isl (presets_panel s)"
proof -
  have "isl (mapE (preset_row None nm) (enumerate k ps))" if "JObj [] \<in> set ps" for nm k ps
    using that
  proof (induction ps arbitrary: k)
    case (Cons p ps)
    have "isl (preset_row None nm (k, JObj []))"
      by (simp add: preset_row_def prop_of_def nullish_def obj_get_def child_def preset_filters_def isl_def)
    then show ?case using Cons.prems Cons.IH [of "Suc k"] by (cases "preset_row None nm (k, p)"; cases "mapE (preset_row None nm) (enumerate (Suc k) ps)") (auto simp: isl_def)
  qed simp
  then obtain e where "mapE (preset_row None (mp_editingName s)) (enumerate 0 (mk_presets (mp_market s))) = Inl e"
    using assms(2) unfolding isl_def by blast
  then show ?thesis using assms(1,3) by (simp add: presets_panel_def Let_def)
qed

end
