(* ===== verification/JsRounding.thy ===== *)
theory JsRounding
  imports JsMath
begin

text \<open>
  Rounding to a double keeps the order. With this, bounds on a formula of exact numbers become bounds
  on what the program computes: a result whose exact value lies between two doubles lies between them
  after rounding as well.
\<close>

lemma round_even_near: "\<lfloor>q\<rfloor> \<le> round_even q \<and> round_even q \<le> \<lfloor>q\<rfloor> + 1"
  by (simp add: round_even_def Let_def)

lemma round_even_mono: "p \<le> q \<Longrightarrow> round_even p \<le> round_even q"
proof (cases "\<lfloor>p\<rfloor> = \<lfloor>q\<rfloor>")
  case True
  moreover assume "p \<le> q"
  ultimately show ?thesis by (auto simp: round_even_def Let_def)
next
  case False
  moreover assume "p \<le> q"
  then have "\<lfloor>p\<rfloor> \<le> \<lfloor>q\<rfloor>" by (rule floor_mono)
  ultimately show ?thesis using round_even_near [of p] round_even_near [of q] by linarith
qed

lemma pow2_powi: "pow2 e = 2 powi e"
  by (simp add: pow2_def power_int_def inverse_eq_divide power_one_over)

lemma pow2_add: "pow2 (a + b) = pow2 a * pow2 b"
  by (simp add: pow2_powi power_int_add)

lemma pow2_mono: "a \<le> b \<Longrightarrow> pow2 a \<le> pow2 b"
  by (simp add: pow2_powi power_int_increasing)

lemma pow2_nat: "pow2 (int n) = 2 ^ n"
  by (simp add: pow2_def)

text \<open>A positive rational in terms of the lengths of its numerator and denominator.\<close>

lemma quotient_bounds:
  assumes "0 < q" and "quotient_of q = (n, d)"
  shows "pow2 (bitlen n - bitlen d - 1) \<le> q \<and> q < pow2 (bitlen n - bitlen d + 1)"
proof -
  have d: "0 < d" and q: "q = of_int n / of_int d" using assms(2) quotient_of_denom_pos quotient_of_div by auto
  then have n: "0 < n" using assms(1) by (simp add: zero_less_divide_iff)
  have len: "\<exists>i. bitlen m = int (Suc i)" if "0 < m" for m
  proof -
    have "0 < bitlen m" using bitlen_bounds [OF that] that by (cases "0 < bitlen m") auto
    then show ?thesis by (metis gr0_implies_Suc of_nat_0_less_iff zero_less_imp_eq_int)
  qed
  obtain i j where ij: "bitlen n = int (Suc i)" "bitlen d = int (Suc j)" using len [OF n] len [OF d] by blast
  have "2 ^ i \<le> n" "n < 2 ^ Suc i" "2 ^ j \<le> d" "d < 2 ^ Suc j"
    using bitlen_bounds [OF n] bitlen_bounds [OF d] by (simp_all add: ij nat_add_distrib)
  then have bounds: "(2 :: rat) ^ i \<le> of_int n" "of_int n < (2 :: rat) ^ Suc i" "(2 :: rat) ^ j \<le> of_int d" "of_int d < (2 :: rat) ^ Suc j"
    by (metis of_int_le_iff of_int_less_iff of_int_numeral of_int_power)+
  have pd: "(0 :: rat) < of_int d" using d by simp
  let ?lo = "pow2 (bitlen n - bitlen d - 1)" and ?hi = "pow2 (bitlen n - bitlen d + 1)"
  have "?lo * of_int d \<le> ?lo * 2 ^ Suc j"
    by (rule mult_left_mono [OF less_imp_le [OF bounds(4)] less_imp_le [OF pow2_pos]])
  also have "\<dots> = 2 ^ i"
    unfolding pow2_nat [symmetric] pow2_add [symmetric] ij by simp
  finally have "?lo * of_int d \<le> of_int n" using bounds(1) by (rule order_trans)
  moreover have "2 ^ Suc i = ?hi * 2 ^ j"
    unfolding pow2_nat [symmetric] pow2_add [symmetric] ij by (simp add: algebra_simps)
  moreover have "?hi * 2 ^ j \<le> ?hi * of_int d" by (rule mult_left_mono [OF bounds(3) less_imp_le [OF pow2_pos]])
  ultimately have "?lo * of_int d \<le> of_int n" "of_int n < ?hi * of_int d" using bounds(2) by (simp_all only:)
  then show ?thesis using pd by (simp add: q field_simps)
qed

lemma ulp_range:
  assumes "0 < q"
  shows "q < 2 ^ 53 * pow2 (ulp_exp q)" and "- 1074 < ulp_exp q \<Longrightarrow> 2 ^ 52 * pow2 (ulp_exp q) \<le> q"
proof -
  obtain n d where nd: "quotient_of q = (n, d)" by fastforce
  define e where "e = bitlen n - bitlen d - 53"
  define f where "f = (if 2 ^ 53 \<le> q / pow2 e then e + 1 else e)"
  have u: "ulp_exp q = max (- 1074) f" by (simp add: ulp_exp_def nd e_def f_def)
  have "pow2 (bitlen n - bitlen d - 1) = 2 ^ 52 * pow2 e" "pow2 (bitlen n - bitlen d + 1) = 2 ^ 54 * pow2 e"
    using pow2_add [of 52 e] pow2_add [of 54 e] pow2_nat [of 52] pow2_nat [of 54] by (simp_all add: e_def add.commute)
  then have q: "2 ^ 52 * pow2 e \<le> q" "q < 2 ^ 54 * pow2 e" using quotient_bounds [OF assms nd] by simp_all
  have two: "pow2 (e + 1) = 2 * pow2 e" using pow2_add [of e 1] pow2_nat [of 1] by simp
  have f: "2 ^ 52 * pow2 f \<le> q" "q < 2 ^ 53 * pow2 f"
    using q two pow2_pos [of e] by (auto simp: f_def field_simps)
  show "q < 2 ^ 53 * pow2 (ulp_exp q)"
    using f(2) pow2_mono [of f "ulp_exp q"] by (simp add: u)
  show "2 ^ 52 * pow2 (ulp_exp q) \<le> q" if "- 1074 < ulp_exp q"
    using f(1) that by (simp add: u)
qed

lemma ulp_mono:
  assumes "0 < p" and "p \<le> q"
  shows "ulp_exp p \<le> ulp_exp q"
proof (rule ccontr)
  assume "\<not> ulp_exp p \<le> ulp_exp q"
  moreover have "- 1074 \<le> ulp_exp q" by (simp add: ulp_exp_def Let_def split: prod.split)
  ultimately have "2 ^ 52 * pow2 (ulp_exp p) \<le> p" "pow2 (ulp_exp q + 1) \<le> pow2 (ulp_exp p)"
    using ulp_range(2) [OF assms(1)] pow2_mono [of "ulp_exp q + 1" "ulp_exp p"] by simp_all
  moreover have "pow2 (ulp_exp q + 1) = 2 * pow2 (ulp_exp q)" using pow2_add [of "ulp_exp q" 1] pow2_nat [of 1] by simp
  moreover have "q < 2 ^ 53 * pow2 (ulp_exp q)" using ulp_range(1) [of q] assms by simp
  ultimately show False using assms(2) by simp
qed

lemma fl_abs_mono:
  assumes "0 < p" and "p \<le> q"
  shows "fl_abs p \<le> fl_abs q"
proof (cases "ulp_exp p = ulp_exp q")
  case True
  have "p / pow2 (ulp_exp q) \<le> q / pow2 (ulp_exp q)"
    by (rule divide_right_mono [OF assms(2) less_imp_le [OF pow2_pos]])
  then show ?thesis
    unfolding fl_abs_def True by (intro mult_right_mono less_imp_le [OF pow2_pos]) (simp add: round_even_mono)
next
  case False
  define a b where "a = ulp_exp p" and "b = ulp_exp q"
  have ab: "a < b" using False ulp_mono [OF assms] by (simp add: a_def b_def)
  have low: "- 1074 \<le> a" by (simp add: a_def ulp_exp_def Let_def split: prod.split)
  have pos: "0 < pow2 a" "0 < pow2 b" by simp_all
  have "pow2 (a + 1) = 2 * pow2 a" using pow2_add [of a 1] pow2_nat [of 1] by simp
  then have double: "2 * pow2 a \<le> pow2 b" using pow2_mono [of "a + 1" b] ab by simp
  have "p / pow2 a \<le> of_int (2 ^ 53)"
    using ulp_range(1) [OF assms(1)] pos(1) by (simp add: a_def field_simps)
  then have "round_even (p / pow2 a) \<le> 2 ^ 53" using round_even_mono round_even_of_int by metis
  then have "of_int (round_even (p / pow2 a)) \<le> (2 ^ 53 :: rat)"
    by (metis of_int_le_iff of_int_numeral of_int_power)
  then have P: "fl_abs p \<le> 2 ^ 53 * pow2 a" using pos(1) by (simp add: fl_abs_def a_def)
  have "of_int (2 ^ 52) \<le> q / pow2 b"
    using ulp_range(2) [of q] assms ab low pos(2) by (simp add: b_def field_simps)
  then have "2 ^ 52 \<le> round_even (q / pow2 b)" using round_even_mono round_even_of_int by metis
  then have "(2 ^ 52 :: rat) \<le> of_int (round_even (q / pow2 b))"
    by (metis of_int_le_iff of_int_numeral of_int_power)
  then have "2 ^ 52 * pow2 b \<le> fl_abs q" using pos(2) by (simp add: fl_abs_def b_def)
  then show ?thesis using P double by simp
qed

lemma fl_abs_nonneg:
  assumes "0 < q" shows "0 \<le> fl_abs q"
proof -
  have "0 \<le> q / pow2 (ulp_exp q)" using assms less_imp_le [OF pow2_pos] by (intro divide_nonneg_nonneg) auto
  then have "0 \<le> round_even (q / pow2 (ulp_exp q))"
    using round_even_mono [of 0 "q / pow2 (ulp_exp q)"] round_even_of_int [of 0] by simp
  then show ?thesis unfolding fl_abs_def by (intro mult_nonneg_nonneg less_imp_le [OF pow2_pos]) simp
qed

text \<open>The order of the doubles, with the infinities at the ends.\<close>

lemma fl_neg: "fl (- q) = num_neg (fl q)"
  by (auto simp: fl_def Let_def)

lemma fl_mono:
  assumes "p \<le> q" and "fl p = Fin a" and "fl q = Fin b"
  shows "a \<le> b"
proof -
  have pos: "a \<le> b" if "0 < p" "p \<le> q" "fl p = Fin a" "fl q = Fin b" for p q a b
    using that fl_abs_mono [of p q] by (auto simp: fl_def Let_def split: if_splits)
  have sign: "0 \<le> b" if "0 \<le> q" "fl q = Fin b" for q b
    using that fl_abs_nonneg [of q] by (auto simp: fl_def Let_def split: if_splits)
  have sign': "a \<le> 0" if "p \<le> 0" "fl p = Fin a" for p a
    using sign [of "- p" "- a"] that by (simp add: fl_neg)
  consider "0 < p" | "p \<le> 0" "0 \<le> q" | "q < 0" by linarith
  then show ?thesis
  proof cases
    case 1
    then show ?thesis using pos assms by simp
  next
    case 2
    then show ?thesis using sign sign' assms by (meson order_trans)
  next
    case 3
    then show ?thesis using pos [of "- q" "- p" "- b" "- a"] assms by (simp add: fl_neg)
  qed
qed

lemma fl_not_NaN [simp]: "fl q \<noteq> NaN"
  by (simp add: fl_def Let_def)

lemma fl_finite:
  assumes "fl q = Fin b" and "0 \<le> p" and "p \<le> q"
  shows "\<exists>a. fl p = Fin a"
proof (cases "p = 0")
  case False
  then have "fl_abs p \<le> fl_abs q" using fl_abs_mono assms(2,3) by simp
  then show ?thesis using assms False by (auto simp: fl_def Let_def split: if_splits)
qed (simp add: fl_def)

text \<open>What lies between two doubles is rounded to a double between them.\<close>

lemma fl_between:
  assumes "fl a = Fin a" and "fl b = Fin b" and "a \<le> q" and "q \<le> b"
  shows "\<exists>c. fl q = Fin c \<and> a \<le> c \<and> c \<le> b"
proof -
  have "\<exists>c. fl q = Fin c"
  proof (cases "0 \<le> q")
    case True
    then show ?thesis using fl_finite [OF assms(2)] assms(4) by blast
  next
    case False
    then have "\<exists>c. fl (- q) = Fin c" using fl_finite [of "- a" "- a" "- q"] assms(1,3) by (simp add: fl_neg)
    then show ?thesis by (cases "fl q") (auto simp: fl_neg)
  qed
  then show ?thesis using fl_mono assms by blast
qed

lemma fl_between_ints:
  assumes "\<bar>i\<bar> \<le> 2 ^ 53" and "\<bar>j\<bar> \<le> 2 ^ 53" and "of_int i \<le> q" and "q \<le> of_int j"
  shows "\<exists>c. fl q = Fin c \<and> of_int i \<le> c \<and> c \<le> of_int j"
  using fl_between [of "of_int i" "of_int j" q] fl_of_int assms by blast

text \<open>The error of rounding, half a unit in the last place.\<close>

lemma round_even_error: "\<bar>of_int (round_even q) - q\<bar> \<le> 1 / 2"
proof -
  have "of_int \<lfloor>q\<rfloor> \<le> q" "q < of_int \<lfloor>q\<rfloor> + 1" by linarith+
  then show ?thesis by (simp add: round_even_def Let_def abs_le_iff)
qed

lemma fl_error:
  assumes "0 \<le> q" and "q \<le> m" and "0 < m" and "ulp_exp m \<le> e" and "m \<le> 2 ^ 53"
  shows "\<exists>c. fl q = Fin c \<and> \<bar>c - q\<bar> \<le> pow2 e / 2"
proof (cases "q = 0")
  case True
  then show ?thesis using pow2_pos [of e] by (simp add: fl_def less_imp_le)
next
  case False
  then have q: "0 < q" using assms(1) by simp
  let ?u = "pow2 (ulp_exp q)"
  have "?u \<le> pow2 e" using ulp_mono [OF q assms(2)] assms(4) by (intro pow2_mono) simp
  moreover have "\<bar>fl_abs q - q\<bar> \<le> ?u / 2"
  proof -
    have "fl_abs q - q = (of_int (round_even (q / ?u)) - q / ?u) * ?u"
      using pow2_pos [of "ulp_exp q"] by (simp add: fl_abs_def left_diff_distrib less_imp_neq [THEN not_sym])
    then have "\<bar>fl_abs q - q\<bar> = \<bar>of_int (round_even (q / ?u)) - q / ?u\<bar> * ?u"
      by (simp add: abs_mult abs_of_pos)
    also have "\<dots> \<le> 1 / 2 * ?u" by (rule mult_right_mono [OF round_even_error less_imp_le [OF pow2_pos]])
    finally show ?thesis by simp
  qed
  moreover obtain c where "fl q = Fin c" using fl_between_ints [of 0 "2 ^ 53" q] assms(1,2,5) by force
  moreover from this have "c = fl_abs q" using q by (auto simp: fl_def Let_def split: if_splits)
  ultimately show ?thesis by auto
qed

end
