(* ===== verification/Calculators.thy ===== *)
theory Calculators
  imports JsRounding InvoiceForm Marketplace
begin

text \<open>
  The calculators of the landing page (\<open>components/shared/DiscountCalculator.tsx\<close>, \<open>SmeCalculator.tsx\<close>,
  \<open>LpCalculator.tsx\<close>, \<open>LpYieldCalculator.tsx\<close>): the figures in the arithmetic of the language, the
  animated numbers, and the markup. \<open>loc\<close> prints a number in the language of the browser. The sliders
  hand decimal texts to \<open>parseInt\<close>, where leaving the radix out makes no difference.
\<close>

subsection \<open>Animated numbers\<close>

text \<open>
  A run of the animation has the value it starts from, the value it ends with and its start time; the
  times come from the browser. The effect on a new value cancels the run before; a frame shows the
  next value and asks for another one until the run is over.
\<close>

record animation =
  an_display :: jsnum
  an_run :: "(jsnum \<times> jsnum \<times> jsnum) option"

definition anim_init :: "jsnum \<Rightarrow> animation" where
  "anim_init v = \<lparr>an_display = v, an_run = None\<rparr>"

definition anim_effect :: "jsnum \<Rightarrow> jsnum \<Rightarrow> animation \<Rightarrow> animation" where
  "anim_effect v startTime a =
     (if num_eq (an_display a) v then a\<lparr>an_run := None\<rparr> else a\<lparr>an_run := Some (an_display a, v, startTime)\<rparr>)"

definition anim_progress :: "jsnum \<Rightarrow> jsnum \<Rightarrow> jsnum" where
  "anim_progress startTime now = num_min (num_over (num_sub now startTime) 400) (Fin 1)"

definition updateNumber :: "jsnum \<Rightarrow> animation \<Rightarrow> animation" where
  "updateNumber now a =
     (case an_run a of
        None \<Rightarrow> a
      | Some (start, fin, startTime) \<Rightarrow>
          let progress = anim_progress startTime now;
              easeProgress = num_mul progress (num_sub (Fin 2) progress);
              current = num_add start (num_mul (num_sub fin start) easeProgress)
          in \<lparr>an_display = current, an_run = (if num_less progress (Fin 1) then an_run a else None)\<rparr>)"

definition AnimatedValue :: "string \<Rightarrow> string \<Rightarrow> jsnum \<Rightarrow> 'h el" where
  "AnimatedValue prefix suffix displayValue = para ''span'' (prefix @ num_toLocale 0 0 displayValue @ suffix)"

subsection \<open>Financing\<close>

definition useSmeDerivedValues :: "jsnum \<Rightarrow> jsnum \<Rightarrow> jsnum \<times> jsnum" where
  "useSmeDerivedValues faceValue discountRate =
     (let discountPaid = num_mul faceValue (num_over discountRate 100)
      in (discountPaid, num_sub faceValue discountPaid))"

record sme_calc =
  sc_faceValue :: jsnum
  sc_paymentTerms :: jsnum
  sc_discountRate :: jsnum

definition sme_init :: sme_calc where
  "sme_init = \<lparr>sc_faceValue = Fin 50000, sc_paymentTerms = Fin 60, sc_discountRate = Fin 2\<rparr>"

definition handleFaceValueChange :: "string \<Rightarrow> sme_calc \<Rightarrow> sme_calc" where
  "handleFaceValueChange v s = s\<lparr>sc_faceValue := js_parseInt v\<rparr>"

definition handlePaymentTermsChange :: "string \<Rightarrow> sme_calc \<Rightarrow> sme_calc" where
  "handlePaymentTermsChange v s = s\<lparr>sc_paymentTerms := js_parseInt v\<rparr>"

definition handleDiscountRateChange :: "string \<Rightarrow> sme_calc \<Rightarrow> sme_calc" where
  "handleDiscountRateChange v s = s\<lparr>sc_discountRate := js_parseFloat v\<rparr>"

datatype calc_control = FaceSlider | TermsSelect | RateSlider | DepositSlider | UtilizationSlider | AvgDiscountSlider | MaturitySlider
  | DepositField | TabSme | TabLp

text \<open>A slider with its label, its value and the texts below it.\<close>

definition slider :: "string \<Rightarrow> string \<Rightarrow> calc_control \<Rightarrow> string \<Rightarrow> string \<times> string \<times> string \<Rightarrow> jsnum \<Rightarrow>
    string \<times> string \<Rightarrow> string \<times> string \<Rightarrow> calc_control el" where
  "slider i lab h shownValue = (\<lambda>(mn, mx, st) v (amn, amx) (lo, hi).
     el ''div''
       [el ''div'' [para ''span'' lab, para ''span'' shownValue],
        El ''input'' [(''id'', i), (''type'', ''range''), (''min'', mn), (''max'', mx), (''step'', st), (''value'', num_toString v),
                      (''aria-label'', lab), (''aria-valuenow'', num_toString v), (''aria-valuemin'', amn), (''aria-valuemax'', amx)]
          [(''onChange'', h)] [],
        el ''div'' [para ''span'' lo, para ''span'' hi]])"

definition rate_label :: "jsnum \<Rightarrow> string" where
  "rate_label r = num_toFixed 1 r @ ''% ('' @ num_toString (num_round (num_scale r 100)) @ '' bps)''"

definition sme_without :: "(jsnum \<Rightarrow> string) \<Rightarrow> sme_calc \<Rightarrow> 'h el" where
  "sme_without loc s =
     el ''div''
       [el ''div''
          [para ''div'' ''Without TrusTrove'',
           el ''div''
             [el ''div'' [para ''span'' ''You wait:'', para ''span'' (num_toString (sc_paymentTerms s) @ '' Days'')],
              el ''div'' [para ''span'' ''You receive:'', para ''span'' (loc (sc_faceValue s) @ '' USDC''),
                          para ''span'' ''Full payment received late, freezing working capital.'']]],
        el ''div''
          [el ''div'' [para ''span'' ''Opportunity cost:'', para ''span'' ''Lost production orders''],
           el ''div'' [para ''span'' ''Bank alternative:'', para ''span'' (''8'' @ en_dash @ ''15% APR, 3-week wait'')]]]"

text \<open>The animated numbers show their own displays: of the payout, and of the discount in three places.\<close>

definition sme_with :: "(jsnum \<Rightarrow> string) \<Rightarrow> jsnum \<Rightarrow> jsnum \<times> jsnum \<times> jsnum \<Rightarrow> sme_calc \<Rightarrow> 'h el" where
  "sme_with loc funded = (\<lambda>(d1, d2, d3) s.
     el ''div''
       [el ''div''
          [para ''div'' ''With TrusTrove'',
           el ''div''
             [el ''div'' [para ''span'' ''You wait:'', para ''span'' ''0 Days (Instant)''],
              el ''div'' [para ''span'' ''You receive today:'', el ''span'' [AnimatedValue [] '' USDC'' funded],
                          el ''span'' [Txt ''Face Value minus '', AnimatedValue ''-'' '' USDC'' d1, Txt '' discount fee.'']]]],
        el ''div''
          [el ''div'' [para ''span'' ''Discount paid:'', el ''span'' [AnimatedValue [] '' USDC'' d2]],
           el ''div'' [para ''span'' ''Yield distributed:'', el ''span'' [AnimatedValue [] '' USDC'' d3]],
           el ''div'' [para ''span'' ''Buyer obligation:'', para ''span'' (loc (sc_faceValue s) @ '' USDC'')]]])"

definition SmeCalculator :: "(jsnum \<Rightarrow> string) \<Rightarrow> string \<Rightarrow> jsnum \<Rightarrow> jsnum \<times> jsnum \<times> jsnum \<Rightarrow> sme_calc \<Rightarrow> calc_control el" where
  "SmeCalculator loc paymentTermsId funded discounts s =
     el ''div''
       [el ''div''
          [para ''h3'' ''Configure Invoice parameters'',
           slider ''discount-sme-face-value'' ''Invoice Face Value'' FaceSlider (loc (sc_faceValue s) @ '' USDC'') (''1000'', ''500000'', ''1000'')
             (sc_faceValue s) (''1000'', ''500000'') (''$1K USDC'', ''$500K USDC''),
           el ''div''
             [El ''label'' [(''htmlFor'', paymentTermsId)] [] [Txt ''Payment Due Terms''],
              El ''select'' [(''id'', paymentTermsId), (''value'', num_toString (sc_paymentTerms s))] [(''onChange'', TermsSelect)]
                (map (\<lambda>d. El ''option'' [(''value'', d)] [] [Txt (''Net '' @ d @ '' ('' @ d @ '' days maturity)'')]) [''30'', ''60'', ''90''])],
           slider ''discount-sme-discount-rate'' ''Financing Discount Rate'' RateSlider (rate_label (sc_discountRate s)) (''0.5'', ''5.0'', ''0.1'')
             (sc_discountRate s) (''0.5'', ''5'') (''0.5% (50 bps)'', ''5.0% (500 bps)'')],
        el ''div'' [sme_without loc s, sme_with loc funded discounts s]]"

subsection \<open>Yield\<close>

definition useLpDerivedValues :: "jsnum \<Rightarrow> jsnum \<Rightarrow> jsnum \<Rightarrow> jsnum \<Rightarrow> jsnum \<times> jsnum" where
  "useLpDerivedValues lpDeposit lpUtilization lpAvgDiscount lpAvgMaturity =
     (let lpProjectedApy = num_scale (num_mul (num_mul (num_over lpUtilization 100) (num_over lpAvgDiscount 100)) (num_div (Fin 365) lpAvgMaturity)) 100
      in (lpProjectedApy, num_mul lpDeposit (num_over lpProjectedApy 100)))"

record lp_calc =
  lc_deposit :: jsnum
  lc_utilization :: jsnum
  lc_avgDiscount :: jsnum
  lc_avgMaturity :: jsnum

definition lp_calc_init :: lp_calc where
  "lp_calc_init = \<lparr>lc_deposit = Fin 10000, lc_utilization = Fin 80, lc_avgDiscount = Fin 2, lc_avgMaturity = Fin 60\<rparr>"

definition handleDepositChange :: "string \<Rightarrow> lp_calc \<Rightarrow> lp_calc" where
  "handleDepositChange v s = s\<lparr>lc_deposit := js_parseInt v\<rparr>"

definition handleUtilizationChange :: "string \<Rightarrow> lp_calc \<Rightarrow> lp_calc" where
  "handleUtilizationChange v s = s\<lparr>lc_utilization := js_parseInt v\<rparr>"

definition handleAvgDiscountChange :: "string \<Rightarrow> lp_calc \<Rightarrow> lp_calc" where
  "handleAvgDiscountChange v s = s\<lparr>lc_avgDiscount := js_parseFloat v\<rparr>"

definition handleAvgMaturityChange :: "string \<Rightarrow> lp_calc \<Rightarrow> lp_calc" where
  "handleAvgMaturityChange v s = s\<lparr>lc_avgMaturity := js_parseInt v\<rparr>"

definition LpCalculator :: "(jsnum \<Rightarrow> string) \<Rightarrow> jsnum \<Rightarrow> lp_calc \<Rightarrow> calc_control el" where
  "LpCalculator loc earnings s =
     (let (apy, _) = useLpDerivedValues (lc_deposit s) (lc_utilization s) (lc_avgDiscount s) (lc_avgMaturity s) in
      el ''div''
       [el ''div''
          [para ''h3'' ''LP Yield projection inputs'',
           slider ''discount-lp-deposit'' ''Total USDC Deposit'' DepositSlider (loc (lc_deposit s) @ '' USDC'') (''500'', ''100000'', ''500'')
             (lc_deposit s) (''500'', ''100000'') (''$500 USDC'', ''$100K USDC''),
           slider ''discount-lp-utilization'' ''Target Pool Utilization'' UtilizationSlider (num_toString (lc_utilization s) @ ''%'') (''10'', ''100'', ''5'')
             (lc_utilization s) (''10'', ''100'') (''10% (Low)'', ''100% (Max)''),
           slider ''discount-lp-avg-discount'' ''Avg Invoice Discount Bps'' AvgDiscountSlider (rate_label (lc_avgDiscount s)) (''0.5'', ''5.0'', ''0.1'')
             (lc_avgDiscount s) (''0.5'', ''5'') (''0.5%'', ''5.0%''),
           slider ''discount-lp-avg-maturity'' ''Avg Days to Maturity'' MaturitySlider (num_toString (lc_avgMaturity s) @ '' Days'') (''15'', ''90'', ''5'')
             (lc_avgMaturity s) (''15'', ''90'') (''15 Days'', ''90 Days'')],
        el ''div''
          [el ''div''
             [para ''div'' ''Projected Yield Metrics'',
              el ''div''
                [el ''div''
                   [para ''span'' ''Estimated APR:'', para ''span'' (num_toFixed 2 apy @ ''%''),
                    para ''span'' (''Formula: Utilization ('' @ num_toString (lc_utilization s) @ ''%) '' @ times_sign @ '' Avg Discount ('' @
                      num_toString (lc_avgDiscount s) @ ''%) '' @ times_sign @ '' (365 / Avg Maturity ('' @ num_toString (lc_avgMaturity s) @ ''d))'')],
                 el ''div''
                   [para ''span'' ''Projected Annual Yield:'', el ''span'' [AnimatedValue [] '' USDC'' earnings],
                    para ''span'' (''Earnings generated annually based on '' @ loc (lc_deposit s) @ '' USDC principal.'')]]],
           el ''div''
             [para ''span'' ''PROTOCOL YIELD MECHANIC'',
              Txt (''USDC is never idle. Invoices listed by SMEs are funded automatically by the pool contract using liquid deposits, '' @
                   ''allocating discount fees to LPs proportionally.'')]]])"

datatype calc_tab = sme_tab | lp_tab

definition DiscountCalculator :: "calc_tab \<Rightarrow> calc_control el \<Rightarrow> calc_control el \<Rightarrow> calc_control el" where
  "DiscountCalculator activeTab sme lp =
     el ''div''
       [El ''div'' [(''role'', ''tablist''), (''aria-label'', ''Calculator type'')] []
          (map (\<lambda>(t, i, h, txt').
             El ''button'' [(''role'', ''tab''), (''id'', ''tab-'' @ i), (''aria-controls'', ''tabpanel-'' @ i),
                            (''aria-selected'', aria_bool (activeTab = t)), (''tabIndex'', if activeTab = t then ''0'' else ''-1'')]
               [(''onClick'', h)] [Txt txt'])
             [(sme_tab, ''sme'', TabSme, ''SME Financing Calculator''), (lp_tab, ''lp'', TabLp, ''LP Yield Estimator'')]),
        el ''div''
          [(if activeTab = sme_tab
            then El ''div'' [(''role'', ''tabpanel''), (''id'', ''tabpanel-sme''), (''aria-labelledby'', ''tab-sme'')] [] [sme]
            else El ''div'' [(''role'', ''tabpanel''), (''id'', ''tabpanel-lp''), (''aria-labelledby'', ''tab-lp'')] [] [lp]),
           el ''div'' [para ''span'' (''TrusTrove charges what the market sets. Discount rates are agreed '' @
                                      ''between the SME and the protocol. No hidden fees.'')]]]"

definition select_tab :: "calc_control \<Rightarrow> calc_tab \<Rightarrow> calc_tab" where
  "select_tab h t = (case h of TabSme \<Rightarrow> sme_tab | TabLp \<Rightarrow> lp_tab | _ \<Rightarrow> t)"

subsection \<open>The calculator beside the headline\<close>

definition SAVINGS_APY :: jsnum where
  "SAVINGS_APY = Fin 5"

definition TBILLS_APY :: jsnum where
  "TBILLS_APY = Fin (9 / 2)"

definition AVG_DISCOUNT_RATE :: jsnum where
  "AVG_DISCOUNT_RATE = Fin 2"

definition AVG_MATURITY_DAYS :: jsnum where
  "AVG_MATURITY_DAYS = Fin 60"

definition parseDeposit :: "string \<Rightarrow> jsnum" where
  "parseDeposit raw = num_or_zero (js_parseFloat (strip_commas raw))"

definition annualYieldPct :: "jsnum \<Rightarrow> jsnum" where
  "annualYieldPct utilization =
     num_scale (num_mul (num_mul (num_over utilization 100) (num_over AVG_DISCOUNT_RATE 100)) (num_div (Fin 365) AVG_MATURITY_DAYS)) 100"

definition monthlyEarnings :: "jsnum \<Rightarrow> jsnum \<Rightarrow> jsnum" where
  "monthlyEarnings parsedDeposit y = num_over (num_mul parsedDeposit (num_over y 100)) 12"

definition maxApy :: "jsnum \<Rightarrow> jsnum" where
  "maxApy y = num_max (num_max y SAVINGS_APY) TBILLS_APY"

definition trustroveWidth :: "jsnum \<Rightarrow> jsnum" where
  "trustroveWidth y = (if num_less (Fin 0) (maxApy y) then num_scale (num_div y (maxApy y)) 100 else Fin 0)"

definition savingsWidth :: "jsnum \<Rightarrow> jsnum" where
  "savingsWidth y = num_scale (num_div SAVINGS_APY (maxApy y)) 100"

definition tbillWidth :: "jsnum \<Rightarrow> jsnum" where
  "tbillWidth y = num_scale (num_div TBILLS_APY (maxApy y)) 100"

definition yield_bar :: "string \<Rightarrow> jsnum \<Rightarrow> jsnum \<Rightarrow> 'h el" where
  "yield_bar lab y width =
     el ''div'' [el ''div'' [para ''span'' lab, para ''span'' (num_toFixed 2 y @ ''%'')],
                 el ''div'' [El ''div'' [(''style'', ''width: '' @ num_toString width @ ''%'')] [] []]]"

definition LpYieldCalculator :: "string \<Rightarrow> (jsnum \<Rightarrow> string) \<Rightarrow> string \<Rightarrow> string \<Rightarrow> jsnum \<Rightarrow> calc_control el" where
  "LpYieldCalculator usdcIssuer loc inputId deposit utilization =
     (let y = annualYieldPct utilization in
      el ''div''
       [el ''h3'' [para ''span'' (''I'' @ [CHR 0x27] @ ''m an LP''), para ''span'' ''YIELD CALC''],
        el ''div''
          [AmountInput loc inputId
             \<lparr>am_value = deposit, am_change = DepositField, am_asset = ASSET_INFO usdcIssuer USDC, am_label = Some ''Deposit Amount (USDC)'', am_placeholder = ''10,000'',
              am_disabled = False, am_required = False, am_preview = None, am_previewLabel = None\<rparr>,
           slider ''lp-yield-utilization'' ''Pool Utilization'' UtilizationSlider (num_toString utilization @ ''%'') (''10'', ''100'', ''1'')
             utilization (''10'', ''100'') (''10%'', ''100%'')],
        el ''div''
          [el ''div'' [para ''span'' ''Estimated Annual Yield'', para ''span'' (num_toFixed 2 y @ ''%'')],
           el ''div'' [para ''span'' ''Monthly Earnings'', para ''span'' (num_toLocale 2 2 (monthlyEarnings (parseDeposit deposit) y) @ '' USDC'')]],
        el ''div''
          [para ''span'' ''Yield Comparison'',
           el ''div''
             [yield_bar ''TrusTrove LP'' y (num_min (trustroveWidth y) (Fin 100)),
              yield_bar ''Savings Account'' SAVINGS_APY (savingsWidth y),
              yield_bar ''T-Bills'' TBILLS_APY (tbillWidth y)]],
        el ''div'' [para ''span'' ''Yield depends on pool utilization and invoice repayment rate. Smart contract risk exists.'']])"

subsection \<open>Figures stay in their ranges\<close>

lemma over_100:
  assumes "0 \<le> q" and "q \<le> 100"
  shows "\<exists>c. num_over (Fin q) 100 = Fin c \<and> 0 \<le> c \<and> c \<le> 1"
  using fl_between_ints [of 0 1 "q / 100"] assms by (simp add: field_simps)

lemma fl_product:
  assumes "0 \<le> p" and "p \<le> of_int i" and "0 \<le> q" and "q \<le> of_int j" and "i * j \<le> 2 ^ 53" and "0 \<le> i"
  shows "\<exists>c. fl (p * q) = Fin c \<and> 0 \<le> c \<and> c \<le> of_int (i * j)"
proof -
  have "p * q \<le> of_int i * of_int j" using assms by (intro mult_mono) auto
  moreover have "0 \<le> i * j" using assms(3,4,6) by (metis of_int_0_le_iff order_trans zero_le_mult_iff)
  ultimately show ?thesis using fl_between_ints [of 0 "i * j" "p * q"] assms(1,3,5) by simp
qed

lemma annualYieldPct_range:
  assumes "0 \<le> u" and "u \<le> 100"
  shows "\<exists>y. annualYieldPct (Fin u) = Fin y \<and> 0 \<le> y \<and> y \<le> 700"
proof -
  obtain a where a: "num_over (Fin u) 100 = Fin a" "0 \<le> a" "a \<le> 1" using over_100 assms by blast
  obtain b where b: "num_over AVG_DISCOUNT_RATE 100 = Fin b" "0 \<le> b" "b \<le> 1" using over_100 [of 2] by (auto simp: AVG_DISCOUNT_RATE_def)
  obtain c where c: "num_div (Fin 365) AVG_MATURITY_DAYS = Fin c" "0 \<le> c" "c \<le> 7"
    using fl_between_ints [of 0 7 "365 / 60"] by (auto simp: AVG_MATURITY_DAYS_def)
  obtain ab where ab: "num_mul (Fin a) (Fin b) = Fin ab" "0 \<le> ab" "ab \<le> 1" using fl_product [of a 1 b 1] a b by auto
  obtain abc where abc: "num_mul (Fin ab) (Fin c) = Fin abc" "0 \<le> abc" "abc \<le> 7" using fl_product [of ab 1 c 7] ab c by auto
  obtain y where "num_scale (Fin abc) 100 = Fin y" "0 \<le> y" "y \<le> 700" using fl_product [of abc 7 100 100] abc by auto
  then show ?thesis by (simp add: annualYieldPct_def a(1) b(1) c(1) ab(1) abc(1) del: num_over.simps num_mul.simps num_div.simps num_scale.simps)
qed

lemma maxApy_Fin: "maxApy (Fin y) = Fin (max y 5)"
  by (simp add: maxApy_def num_max_def SAVINGS_APY_def TBILLS_APY_def max_def)

lemma width_range:
  assumes "0 \<le> x" and "x \<le> m" and "0 < m"
  shows "\<exists>w. num_scale (num_div (Fin x) (Fin m)) 100 = Fin w \<and> 0 \<le> w \<and> w \<le> 100 \<and> (x = m \<longrightarrow> w = 100)"
proof -
  obtain r where r: "num_div (Fin x) (Fin m) = Fin r" "0 \<le> r" "r \<le> 1"
    using fl_between_ints [of 0 1 "x / m"] assms by (auto simp: field_simps)
  have full: "x = m \<longrightarrow> r = 1" using r(1) fl_of_int [of 1] assms(3) by auto
  obtain w where "num_scale (Fin r) 100 = Fin w" "0 \<le> w" "w \<le> 100" using fl_product [of r 1 100 100] r by auto
  moreover have "x = m \<longrightarrow> w = 100" using full fl_of_int [of 100] calculation(1) by auto
  ultimately show ?thesis using r(1) by simp
qed

text \<open>
  C38. The bars of the yield comparison fit. For every position of the slider the three widths are
  between 0 and 100 percent, none is undefined, and the largest yield has the full width.
\<close>

theorem yield_bars_fit:
  assumes "0 \<le> u" and "u \<le> 100"
  shows "\<exists>a b c. trustroveWidth (annualYieldPct (Fin u)) = Fin a \<and> savingsWidth (annualYieldPct (Fin u)) = Fin b \<and>
    tbillWidth (annualYieldPct (Fin u)) = Fin c \<and> {a, b, c} \<subseteq> {0 .. 100} \<and> (a = 100 \<or> b = 100)"
proof -
  obtain y where y: "annualYieldPct (Fin u) = Fin y" "0 \<le> y" using annualYieldPct_range [OF assms] by blast
  have m: "0 < max y 5" "y \<le> max y 5" "5 \<le> max y 5" "9 / 2 \<le> max y 5" by auto
  obtain a where a: "num_scale (num_div (Fin y) (Fin (max y 5))) 100 = Fin a" "0 \<le> a" "a \<le> 100" "y = max y 5 \<longrightarrow> a = 100"
    using width_range [OF y(2) m(2,1)] by blast
  obtain b where b: "num_scale (num_div (Fin 5) (Fin (max y 5))) 100 = Fin b" "0 \<le> b" "b \<le> 100" "5 = max y 5 \<longrightarrow> b = 100"
    using width_range [OF _ m(3,1)] by fastforce
  obtain c where c: "num_scale (num_div (Fin (9 / 2)) (Fin (max y 5))) 100 = Fin c" "0 \<le> c" "c \<le> 100"
    using width_range [OF _ m(4,1)] by fastforce
  have "y = max y 5 \<or> 5 = max y 5" by (auto simp: max_def)
  then show ?thesis using a b c m
    by (simp add: y(1) trustroveWidth_def savingsWidth_def tbillWidth_def maxApy_Fin SAVINGS_APY_def TBILLS_APY_def
        del: num_div.simps num_scale.simps) blast
qed

theorem yield_bars_fit_witness:
  "\<exists>a. trustroveWidth (annualYieldPct (Fin 75)) = Fin a \<and> a \<le> 100"
  using yield_bars_fit [of 75] by auto

text \<open>The payout and the fee of the financing calculator lie between nothing and the face value.\<close>

lemma useSmeDerivedValues_range:
  assumes "0 \<le> f" and "f \<le> 2 ^ 53" and "0 \<le> r" and "r \<le> 100"
  shows "\<exists>d p. useSmeDerivedValues (num_int f) (Fin r) = (Fin d, Fin p) \<and> 0 \<le> d \<and> d \<le> of_int f \<and> 0 \<le> p \<and> p \<le> of_int f"
proof -
  obtain q where q: "num_over (Fin r) 100 = Fin q" "0 \<le> q" "q \<le> 1" using over_100 assms(3,4) by blast
  obtain d where d: "num_mul (num_int f) (Fin q) = Fin d" "0 \<le> d" "d \<le> of_int f"
    using fl_product [of "of_int f" f q 1] assms(1,2) q(2,3) by auto
  obtain p where "num_sub (num_int f) (Fin d) = Fin p" "0 \<le> p" "p \<le> of_int f"
    using fl_between_ints [of 0 f "of_int f - d"] assms(1,2) d(2,3) by (auto simp: num_sub_def)
  then show ?thesis using q(1) d
    by (simp add: useSmeDerivedValues_def del: num_over.simps num_mul.simps)
qed

text \<open>The two calculators project the same yield from the same figures.\<close>

lemma calculators_agree:
  "fst (useLpDerivedValues deposit utilization AVG_DISCOUNT_RATE AVG_MATURITY_DAYS) = annualYieldPct utilization"
  by (simp add: useLpDerivedValues_def annualYieldPct_def Let_def)

text \<open>The field of the calculator and its figure read one number.\<close>

lemma parseDeposit_parseAmount: "parseDeposit = parseAmount"
  by (simp add: parseDeposit_def parseAmount_def fun_eq_iff)

text \<open>A frame 400 milliseconds after the start, or later, ends the run; between whole numbers it shows the new value.\<close>

lemma animation_ends:
  assumes "an_run a = Some (num_int x, num_int y, num_int t)" and "t + 400 \<le> n" and "\<bar>t\<bar> \<le> 2 ^ 51" and "\<bar>n\<bar> \<le> 2 ^ 51"
    and "\<bar>x\<bar> \<le> 2 ^ 51" and "\<bar>y\<bar> \<le> 2 ^ 51"
  shows "an_run (updateNumber (num_int n) a) = None \<and> an_display (updateNumber (num_int n) a) = num_int y"
proof -
  have sub: "fl (of_int i - of_int j) = num_int (i - j)" if "\<bar>i\<bar> \<le> 2 ^ 52" "\<bar>j\<bar> \<le> 2 ^ 52" for i j
    using fl_of_int [of "i - j"] that by simp
  have e: "num_sub (num_int n) (num_int t) = num_int (n - t)" using sub [of n t] assms(3,4) by (simp add: num_sub_def)
  have "of_int 400 \<le> (of_int (n - t) :: rat)" using assms(2) by (simp only: of_int_le_iff)
  then have "1 \<le> (of_int (n - t) :: rat) / 400" "(of_int (n - t) :: rat) / 400 \<le> of_int (n - t)" by simp_all
  then obtain c where c: "num_over (num_int (n - t)) 400 = Fin c" "1 \<le> c"
    using fl_between_ints [of 1 "n - t" "of_int (n - t) / 400"] assms(3,4) by (auto simp: abs_le_iff)
  have p: "anim_progress (num_int t) (num_int n) = Fin 1"
    using c unfolding anim_progress_def e by (simp add: num_min_def del: num_over.simps)
  have "num_mul (Fin 1) (num_sub (Fin 2) (Fin 1)) = Fin 1" using fl_of_int [of 1] by (simp add: num_sub_def)
  moreover have "num_mul (num_sub (num_int y) (num_int x)) (Fin 1) = num_int (y - x)"
    using sub [of y x] assms(5,6) fl_of_int [of "y - x"] by (simp add: num_sub_def)
  moreover have "num_add (num_int x) (num_int (y - x)) = num_int y" using fl_of_int [of y] assms(6) by simp
  ultimately show ?thesis
    by (simp add: updateNumber_def assms(1) p Let_def del: num_add.simps num_mul.simps)
qed

end
