(* ===== verification/Charts.thy ===== *)
theory Charts
  imports JsRounding Schemas Views
begin

text \<open>
  What is shown of the pool and the protocol to everyone: the geometry of a line chart
  (\<open>hooks/usePoolChartData.ts\<close>), the history of the pool (\<open>components/shared/PoolPerformanceChart.tsx\<close>), the
  analytics page (\<open>app/analytics/AnalyticsClient.tsx\<close>) and the figures of the landing page
  (\<open>components/shared/StatValue.tsx\<close>, \<open>HeroStats.tsx\<close>, \<open>PillarStat.tsx\<close>). The drawing of the history belongs
  to the chart library. \<open>cn\<close> is the compact notation of the language's library, \<open>dateStr\<close> its short
  dates.
\<close>

subsection \<open>A line chart\<close>

record ChartDataItem =
  cd_label :: string
  cd_value :: jsnum

record chart_point =
  pt_x :: jsnum
  pt_y :: jsnum
  pt_label :: string
  pt_value :: jsnum

definition chart_min :: "jsnum list \<Rightarrow> jsnum" where
  "chart_min vs = foldl num_min PosInf vs"

definition chart_max :: "jsnum list \<Rightarrow> jsnum" where
  "chart_max vs = foldl num_max NegInf vs"

definition valRange :: "jsnum list \<Rightarrow> jsnum" where
  "valRange vs = (let d = num_sub (chart_max vs) (chart_min vs) in if d = Fin 0 then Fin 1 else d)"

definition chart_y :: "jsnum \<Rightarrow> jsnum \<Rightarrow> jsnum list \<Rightarrow> jsnum \<Rightarrow> jsnum" where
  "chart_y height padding vs v =
     (let chartHeight = num_sub height (num_scale padding 2)
      in num_sub (num_add padding chartHeight) (num_mul (num_div (num_sub v (chart_min vs)) (valRange vs)) chartHeight))"

definition chart_x :: "jsnum \<Rightarrow> jsnum \<Rightarrow> nat \<Rightarrow> nat \<Rightarrow> jsnum" where
  "chart_x width padding n i =
     (let chartWidth = num_sub width (num_scale padding 2)
      in if n = 1 then num_add padding (num_over chartWidth 2)
         else num_add padding (num_mul (num_div (num_int (int i)) (num_int (int n - 1))) chartWidth))"

definition chart_points :: "jsnum \<Rightarrow> jsnum \<Rightarrow> jsnum \<Rightarrow> ChartDataItem list \<Rightarrow> chart_point list" where
  "chart_points width height padding cs =
     map (\<lambda>(i, item). \<lparr>pt_x = chart_x width padding (length cs) i, pt_y = chart_y height padding (map cd_value cs) (cd_value item),
                        pt_label = cd_label item, pt_value = cd_value item\<rparr>) (enumerate 0 cs)"

definition point_text :: "chart_point \<Rightarrow> string" where
  "point_text p = num_toString (pt_x p) @ '' '' @ num_toString (pt_y p)"

definition linePath :: "chart_point list \<Rightarrow> string" where
  "linePath ps =
     foldl (\<lambda>acc (i, p). if i = (0 :: nat) then ''M '' @ point_text p else acc @ '' L '' @ point_text p) [] (enumerate 0 ps)"

definition areaPath :: "jsnum \<Rightarrow> jsnum \<Rightarrow> chart_point list \<Rightarrow> string" where
  "areaPath height padding ps =
     (if ps = [] then []
      else let base = num_toString (num_sub height padding)
           in linePath ps @ '' L '' @ num_toString (pt_x (last ps)) @ '' '' @ base @ '' L '' @ num_toString (pt_x (hd ps)) @ '' '' @ base @ '' Z'')"

definition usePoolChartData :: "jsnum \<Rightarrow> jsnum \<Rightarrow> jsnum \<Rightarrow> ChartDataItem list \<Rightarrow> string \<times> string \<times> chart_point list" where
  "usePoolChartData width height padding cs =
     (let ps = chart_points width height padding cs in (linePath ps, areaPath height padding ps, ps))"

subsection \<open>The history of the pool\<close>

record PoolSnapshot =
  sn_timestamp :: jsnum
  sn_utilizationRateBps :: jsnum
  sn_totalYieldDistributed :: string

record ChartPoint =
  cp_date :: string
  cp_utilizationPct :: jsnum
  cp_yieldUsdc :: jsnum

definition toMillis :: "jsnum \<Rightarrow> jsnum" where
  "toMillis ts = (if num_less (Fin (10 ^ 12)) ts then ts else num_scale ts 1000)"

definition formatSnapshotPoint :: "(jsnum \<Rightarrow> string) \<Rightarrow> PoolSnapshot \<Rightarrow> ChartPoint" where
  "formatSnapshotPoint dateStr s =
     (let yieldRaw = num_of_string (sn_totalYieldDistributed s)
      in \<lparr>cp_date = dateStr (toMillis (sn_timestamp s)), cp_utilizationPct = num_over (sn_utilizationRateBps s) 100,
          cp_yieldUsdc = (if num_isFinite yieldRaw then num_over yieldRaw 10000000 else Fin 0)\<rparr>)"

definition chart_direction :: "jsnum \<Rightarrow> string" where
  "chart_direction utilDelta =
     (if num_less (fl (5 / 1000)) utilDelta then ''up'' else if num_less utilDelta (fl (- 5 / 1000)) then ''down'' else ''flat'')"

definition chart_summary :: "ChartPoint list \<Rightarrow> string option" where
  "chart_summary points =
     (if points = [] then None
      else let first = hd points; latest = last points
           in Some (''Pool utilization is currently '' @ num_toFixed 1 (cp_utilizationPct latest) @ '' percent, '' @
                    chart_direction (num_sub (cp_utilizationPct latest) (cp_utilizationPct first)) @ '' from '' @
                    num_toFixed 1 (cp_utilizationPct first) @ '' percent across '' @ show_nat (length points) @
                    '' snapshots. Total yield distributed is '' @ num_toLocale 0 2 (cp_yieldUsdc latest) @ '' USDC.''))"

text \<open>
  Where the snapshots come from: the caller, or the query when the caller gives none. The query has its
  answer, whether it is loading and its error.
\<close>

record 'e chart_source =
  cs_snapshots :: "PoolSnapshot list option"
  cs_isLoading :: bool
  cs_error :: "'e option"

definition chart_state :: "'e chart_source \<Rightarrow> 'e chart_source \<Rightarrow> PoolSnapshot list \<times> bool \<times> 'e option" where
  "chart_state props query =
     (let own = (cs_snapshots props = None)
      in (case cs_snapshots props of Some xs \<Rightarrow> xs | None \<Rightarrow> (case cs_snapshots query of Some xs \<Rightarrow> xs | None \<Rightarrow> []),
          cs_isLoading props \<or> (own \<and> cs_isLoading query),
          case cs_error props of Some e \<Rightarrow> Some e | None \<Rightarrow> if own then cs_error query else None))"

definition chart_section :: "string \<Rightarrow> string \<Rightarrow> 'h el list \<Rightarrow> 'h el" where
  "chart_section lab title cs = El ''section'' [(''aria-label'', lab)] [] (para ''h2'' title # cs)"

text \<open>\<open>drawing\<close> is what the chart library renders from the points.\<close>

definition PoolPerformanceChart :: "(jsnum \<Rightarrow> string) \<Rightarrow> (ChartPoint list \<Rightarrow> 'h el) \<Rightarrow> string \<Rightarrow> 'e chart_source \<Rightarrow> 'e chart_source \<Rightarrow> 'h el" where
  "PoolPerformanceChart dateStr drawing title props query =
     (let (snapshots, isLoading, error) = chart_state props query; points = map (formatSnapshotPoint dateStr) snapshots in
      if error \<noteq> None
      then chart_section (title @ '' (error)'') title [para ''p'' ''Pool history is temporarily unavailable. Please try again later.'']
      else if isLoading then chart_section (title @ '' (loading)'') title [El ''div'' [(''data-testid'', ''pool-chart-skeleton'')] [] []]
      else if points = []
      then chart_section (title @ '' (empty)'') title
             [para ''p'' ''No pool snapshots yet. Performance history will appear here once the indexer records its first snapshot.'']
      else chart_section title title
             ((case chart_summary points of Some t \<Rightarrow> [El ''p'' [(''aria-live'', ''polite'')] [] [Txt t]] | None \<Rightarrow> []) @
              [El ''div'' [(''role'', ''img''), (''aria-label'', case chart_summary points of Some t \<Rightarrow> t | None \<Rightarrow> title @ '' chart'')] [] [drawing points]]))"

subsection \<open>Figures\<close>

definition formatCompactUsdc :: "(jsnum \<Rightarrow> string) \<Rightarrow> string option \<Rightarrow> string option" where
  "formatCompactUsdc cn v =
     (case v of
        None \<Rightarrow> None
      | Some s \<Rightarrow> let numeric = num_of_string s in if num_isFinite numeric then Some (''$'' @ cn numeric) else None)"

definition StatTile :: "bool \<Rightarrow> bool \<Rightarrow> string \<times> string option \<Rightarrow> 'h el" where
  "StatTile isLoading hasError = (\<lambda>(lab, v).
     el ''div'' (para ''span'' lab #
       (if isLoading then [] else case v of Some x \<Rightarrow> if hasError then [para ''span'' em_dash] else [para ''span'' x] | None \<Rightarrow> [para ''span'' em_dash])))"

record ProtocolStats =
  st_total_usdc_financed :: string
  st_active_invoice_count :: jsnum
  st_total_invoices :: jsnum
  st_total_repaid :: jsnum
  st_total_defaulted :: jsnum
  st_average_yield_bps :: jsnum
  st_pool_utilization_bps :: jsnum
  st_registered_issuers :: jsnum

definition analytics_tiles :: "(jsnum \<Rightarrow> string) \<Rightarrow> ProtocolStats option \<Rightarrow> (string \<times> string option) list" where
  "analytics_tiles cn stats =
     (let en = num_toLocale 0 3; of_stats = (\<lambda>f. map_option f stats) in
      [(''Total USDC Financed'', formatCompactUsdc cn (of_stats st_total_usdc_financed)),
       (''Pool Utilization'', of_stats (\<lambda>s. num_toFixed 1 (num_over (st_pool_utilization_bps s) 100) @ ''%'')),
       (''Average Yield'', of_stats (\<lambda>s. num_toFixed 2 (num_over (st_average_yield_bps s) 100) @ ''%'')),
       (''Registered Issuers'', of_stats (\<lambda>s. num_toString (st_registered_issuers s))),
       (''Total Invoices'', of_stats (\<lambda>s. en (st_total_invoices s))),
       (''Active Invoices'', of_stats (\<lambda>s. en (st_active_invoice_count s))),
       (''Invoices Repaid'', of_stats (\<lambda>s. en (st_total_repaid s))),
       (''Invoices Defaulted'', of_stats (\<lambda>s. en (st_total_defaulted s)))])"

definition AnalyticsClient :: "(jsnum \<Rightarrow> string) \<Rightarrow> 'h el \<Rightarrow> ProtocolStats option \<Rightarrow> bool \<Rightarrow> bool \<Rightarrow> 'h el" where
  "AnalyticsClient cn chart stats isLoading hasError =
     el ''div''
       [el ''div'' [para ''h1'' ''Protocol Analytics'',
                    para ''p'' ''Total value locked, funding volume, and pool utilization across the TrusTrove protocol.''],
        El ''section'' [(''aria-label'', ''Protocol statistics'')] []
          (el ''div'' (map (StatTile isLoading hasError) (analytics_tiles cn stats)) #
           shown hasError [para ''p'' (''Live stats are temporarily unavailable '' @ em_dash @ '' showing placeholders.'')]),
        chart]"

text \<open>An error, of whatever kind, and a missing value are shown as a dash.\<close>

definition StatValue :: "string option \<Rightarrow> bool \<Rightarrow> exn option \<Rightarrow> 'h el" where
  "StatValue v isLoading error =
     (if isLoading then el ''div'' []
      else case (error, v) of (None, Some x) \<Rightarrow> para ''span'' x | _ \<Rightarrow> para ''span'' em_dash)"

definition hero_usdc :: "(jsnum \<Rightarrow> string) \<Rightarrow> int option \<Rightarrow> string option" where
  "hero_usdc cn amount = map_option (\<lambda>a. cn (num_over (num_of_int a) 10000000)) amount"

definition HeroStats :: "(jsnum \<Rightarrow> string) \<Rightarrow> PoolStats option \<Rightarrow> 'h el" where
  "HeroStats cn stats =
     (let tile = (\<lambda>v lab. el ''div'' [StatValue v False None, para ''span'' lab]) in
      el ''div''
        [tile (hero_usdc cn (map_option ps_totalDeposits stats)) ''USDC POOL VALUE'',
         tile (map_option (\<lambda>s. num_toLocale 0 3 (ps_activeInvoiceCount s)) stats) ''INVOICES FUNDED'',
         tile (hero_usdc cn (map_option ps_totalYieldDistributed stats)) ''YIELD DISTRIBUTED''])"

datatype PillarStatKind = issuers_kind | invoices_kind | utilization_kind

definition PillarStat ::
  "(jsnum \<Rightarrow> string) \<Rightarrow> PillarStatKind \<Rightarrow> jsnum option \<times> bool \<times> exn option \<Rightarrow> ProtocolStats option \<times> bool \<times> exn option \<Rightarrow> 'h el" where
  "PillarStat loc kind = (\<lambda>(bps, isStatsLoading, statsError) (protocolStats, isLoading, error).
     case kind of
       utilization_kind \<Rightarrow>
         if isStatsLoading then para ''span'' ''--.-%''
         else if statsError \<noteq> None then para ''span'' ''--.-%''
         else para ''span'' (num_toString (num_over (num_or_zero (case bps of Some b \<Rightarrow> b | None \<Rightarrow> NaN)) 100) @ ''% capacity'')
     | issuers_kind \<Rightarrow> StatValue (map_option (\<lambda>s. num_toString (st_registered_issuers s) @ '' registered'') protocolStats) isLoading error
     | invoices_kind \<Rightarrow> StatValue (map_option (\<lambda>s. loc (st_total_invoices s) @ '' invoices'') protocolStats) isLoading error)"

subsection \<open>The chart stays in its box\<close>

lemma fold_min:
  "foldl num_min (Fin m) (map Fin vs) = Fin (foldl min m vs)"
  by (induction vs arbitrary: m) (auto simp: num_min_def min_def)

lemma fold_max:
  "foldl num_max (Fin m) (map Fin vs) = Fin (foldl max m vs)"
  by (induction vs arbitrary: m) (auto simp: num_max_def max_def)

lemma foldl_min_le: "foldl min m vs \<le> (m :: rat) \<and> (\<forall>v \<in> set vs. foldl min m vs \<le> v) \<and> foldl min m vs \<in> insert m (set vs)"
proof (induction vs arbitrary: m)
  case (Cons v vs)
  show ?case using Cons.IH [of "min m v"] min.cobounded1 [of m v] min.cobounded2 [of m v] by (auto simp del: min.bounded_iff dest: order_trans)
qed simp

lemma foldl_max_le: "(m :: rat) \<le> foldl max m vs \<and> (\<forall>v \<in> set vs. v \<le> foldl max m vs) \<and> foldl max m vs \<in> insert m (set vs)"
proof (induction vs arbitrary: m)
  case (Cons v vs)
  show ?case using Cons.IH [of "max m v"] max.cobounded1 [of m v] max.cobounded2 [of v m] by (auto simp del: max.bounded_iff dest: order_trans)
qed simp

lemma chart_extremes:
  assumes "vs \<noteq> []"
  obtains lo hi where "chart_min (map Fin vs) = Fin lo" "chart_max (map Fin vs) = Fin hi"
    "lo \<in> set vs" "hi \<in> set vs" "\<forall>v \<in> set vs. lo \<le> v \<and> v \<le> hi"
proof -
  obtain v ws where vs: "vs = v # ws" using assms by (cases vs) auto
  show ?thesis
    using that [of "foldl min v ws" "foldl max v ws"] foldl_min_le [of v ws] foldl_max_le [of v ws]
    by (auto simp: vs chart_min_def chart_max_def num_min_def num_max_def fold_min fold_max)
qed

lemma scaled_inside:
  assumes "0 \<le> r" and "r \<le> 1" and "0 \<le> p" and "0 \<le> c" and "p + c \<le> 2 ^ 53"
  shows "\<exists>x. num_mul (Fin r) (num_int c) = Fin x \<and> 0 \<le> x \<and> x \<le> of_int c \<and>
    (\<exists>y. num_add (num_int p) (Fin x) = Fin y \<and> of_int p \<le> y \<and> y \<le> of_int (p + c)) \<and>
    (\<exists>y. num_sub (num_int (p + c)) (Fin x) = Fin y \<and> of_int p \<le> y \<and> y \<le> of_int (p + c))"
proof -
  have "0 \<le> r * of_int c" "r * of_int c \<le> of_int c" using assms(1,2,4) mult_right_mono [of r 1 "of_int c"] by simp_all
  then obtain x where x: "fl (r * of_int c) = Fin x" "0 \<le> x" "x \<le> of_int c"
    using fl_between_ints [of 0 c "r * of_int c"] assms(3-5) by auto
  obtain y where "fl (of_int p + x) = Fin y" "of_int p \<le> y" "y \<le> of_int (p + c)"
    using fl_between_ints [of p "p + c" "of_int p + x"] x(2,3) assms(3-5) by auto
  moreover obtain z where "fl (of_int (p + c) - x) = Fin z" "of_int p \<le> z" "z \<le> of_int (p + c)"
    using fl_between_ints [of p "p + c" "of_int (p + c) - x"] x(2,3) assms(3-5) by auto
  ultimately show ?thesis using x by (simp add: num_sub_def)
qed

lemma chart_span:
  assumes "0 \<le> p" and "2 * p \<le> w" and "w \<le> 2 ^ 52"
  shows "num_sub (num_int w) (num_scale (num_int p) 2) = num_int (w - 2 * p)"
  using fl_of_int [of "2 * p"] fl_of_int [of "w - 2 * p"] assms by (simp add: num_sub_def mult.commute)

lemma ratio_inside:
  assumes "0 \<le> a" and "a \<le> b" and "0 < b"
  shows "\<exists>r. num_div (Fin a) (Fin b) = Fin r \<and> 0 \<le> r \<and> r \<le> 1"
  using fl_between_ints [of 0 1 "a / b"] assms by (simp add: field_simps)

lemma chart_y_inside:
  assumes "0 \<le> p" and "2 * p \<le> h" and "h \<le> 2 ^ 52" and "\<forall>v \<in> set vs. \<bar>v\<bar> \<le> 2 ^ 52" and "v \<in> set vs"
  shows "\<exists>y. chart_y (num_int h) (num_int p) (map Fin vs) (Fin v) = Fin y \<and> of_int p \<le> y \<and> y \<le> of_int (h - p)"
proof -
  obtain lo hi where m: "chart_min (map Fin vs) = Fin lo" "chart_max (map Fin vs) = Fin hi" "lo \<in> set vs" "hi \<in> set vs"
    "\<forall>v \<in> set vs. lo \<le> v \<and> v \<le> hi" using chart_extremes [of vs] assms(5) by (metis empty_iff list.set(1))
  have "\<bar>hi\<bar> \<le> 2 ^ 52" "\<bar>lo\<bar> \<le> 2 ^ 52" using assms(4) m(3,4) by blast+
  then have range: "hi - lo \<le> of_int (2 ^ 53)" by (simp add: abs_le_iff)
  then obtain d where d: "fl (hi - lo) = Fin d" "0 \<le> d" using fl_between_ints [of 0 "2 ^ 53" "hi - lo"] m(4,5) by auto
  obtain a where a: "fl (v - lo) = Fin a" "0 \<le> a" using fl_between_ints [of 0 "2 ^ 53" "v - lo"] range m(5) assms(5) by force
  have ad: "a \<le> d" using fl_mono [OF _ a(1) d(1)] m(5) assms(5) by simp
  have "\<exists>r. num_div (Fin a) (valRange (map Fin vs)) = Fin r \<and> 0 \<le> r \<and> r \<le> 1"
    using ratio_inside [of a "if d = 0 then 1 else d"] ad a(2) d by (auto simp: valRange_def m(1,2) num_sub_def)
  then obtain r where r: "num_div (Fin a) (valRange (map Fin vs)) = Fin r" "0 \<le> r" "r \<le> 1" by blast
  have "num_add (num_int p) (num_int (h - 2 * p)) = num_int (p + (h - 2 * p))" using fl_of_int [of "h - p"] assms(1-3) by simp
  then show ?thesis
    using scaled_inside [OF r(2,3) assms(1), of "h - 2 * p"] chart_span [OF assms(1-3)] assms(1-3) r(1) a(1)
    by (auto simp: chart_y_def Let_def m(1) num_sub_def simp del: num_mul.simps num_div.simps num_scale.simps)
qed

lemma chart_x_inside:
  assumes "0 \<le> p" and "2 * p \<le> w" and "w \<le> 2 ^ 52" and "i < n"
  shows "\<exists>x. chart_x (num_int w) (num_int p) n i = Fin x \<and> of_int p \<le> x \<and> x \<le> of_int (w - p)"
proof (cases "n = 1")
  case True
  obtain c where c: "num_over (num_int (w - 2 * p)) 2 = Fin c" "0 \<le> c" "c \<le> of_int (w - 2 * p)"
    using fl_between_ints [of 0 "w - 2 * p" "of_int (w - 2 * p) / 2"] assms(1-3) by auto
  obtain x where "num_add (num_int p) (Fin c) = Fin x" "of_int p \<le> x" "x \<le> of_int (w - p)"
    using fl_between_ints [of p "w - p" "of_int p + c"] c(2,3) assms(1-3) by auto
  then show ?thesis
    using True c(1) chart_span [OF assms(1-3)] by (simp add: chart_x_def Let_def del: num_add.simps num_over.simps num_scale.simps)
next
  case False
  then have "0 \<le> int i" "int i \<le> int n - 1" "0 < int n - 1" using assms(4) by auto
  then obtain r where r: "num_div (num_int (int i)) (num_int (int n - 1)) = Fin r" "0 \<le> r" "r \<le> 1"
    using ratio_inside [of "of_int (int i)" "of_int (int n - 1)"] assms(4) by (auto simp only: of_int_le_iff of_int_less_iff of_int_0_le_iff of_int_0_less_iff)
  then show ?thesis
    using False scaled_inside [OF r(2,3) assms(1), of "w - 2 * p"] chart_span [OF assms(1-3)] assms(1-3)
    by (auto simp: chart_x_def Let_def simp del: num_add.simps num_mul.simps num_div.simps num_scale.simps)
qed

lemma enumerate_snd: "map (\<lambda>x. f (snd x)) (enumerate n xs) = map f xs"
  by (induction xs arbitrary: n) auto

text \<open>
  C39. The chart stays in its box. For a canvas and a padding of whole pixels and values of an ordinary
  size, every point that \<open>usePoolChartData\<close> computes, in the rounded arithmetic of the language, lies within
  the padding on all four sides, also for a single value and for values that are all equal; there is one
  point for every value, in their order.
\<close>

theorem chart_inside:
  assumes "0 \<le> p" and "2 * p \<le> w" and "w \<le> 2 ^ 52" and "2 * p \<le> h" and "h \<le> 2 ^ 52"
    and "\<forall>c \<in> set cs. \<exists>v. cd_value c = Fin v \<and> \<bar>v\<bar> \<le> 2 ^ 52"
  shows "let (line, area, ps) = usePoolChartData (num_int w) (num_int h) (num_int p) cs in
    map pt_label ps = map cd_label cs \<and> map pt_value ps = map cd_value cs \<and>
    (\<forall>pt \<in> set ps. \<exists>x y. pt_x pt = Fin x \<and> pt_y pt = Fin y \<and> of_int p \<le> x \<and> x \<le> of_int (w - p) \<and> of_int p \<le> y \<and> y \<le> of_int (h - p))"
proof -
  obtain vs where vs: "map cd_value cs = map Fin vs" "\<forall>v \<in> set vs. \<bar>v\<bar> \<le> 2 ^ 52"
  proof
    let ?vs = "map (\<lambda>c. case cd_value c of Fin v \<Rightarrow> v | _ \<Rightarrow> 0) cs"
    show "map cd_value cs = map Fin ?vs" "\<forall>v \<in> set ?vs. \<bar>v\<bar> \<le> 2 ^ 52" using assms(6) by fastforce+
  qed
  have "\<exists>x y. chart_x (num_int w) (num_int p) (length cs) i = Fin x \<and> chart_y (num_int h) (num_int p) (map cd_value cs) (cd_value c) = Fin y \<and>
      of_int p \<le> x \<and> x \<le> of_int (w - p) \<and> of_int p \<le> y \<and> y \<le> of_int (h - p)"
    if "(i, c) \<in> set (enumerate 0 cs)" for i c
  proof -
    have ic: "i < length cs" "c \<in> set cs" using that by (auto simp: in_set_enumerate_eq)
    then obtain v where v: "cd_value c = Fin v" "v \<in> set vs" using vs(1) by (metis (no_types, lifting) imageE image_eqI set_map)
    show ?thesis using chart_x_inside [OF assms(1-3) ic(1)] chart_y_inside [OF assms(1,4,5) vs(2) v(2)] by (auto simp: vs(1) v(1))
  qed
  then show ?thesis
    by (auto simp: usePoolChartData_def chart_points_def Let_def comp_def case_prod_beta enumerate_snd)
qed

theorem chart_inside_witness:
  "let (line, area, ps) = usePoolChartData (num_int 500) (num_int 200) (num_int 20)
     [\<lparr>cd_label = ''Jan'', cd_value = Fin 3\<rparr>, \<lparr>cd_label = ''Feb'', cd_value = Fin 5\<rparr>, \<lparr>cd_label = ''Mar'', cd_value = Fin 7\<rparr>] in
   map pt_label ps = [''Jan'', ''Feb'', ''Mar''] \<and> (\<exists>x y. pt_x (hd ps) = Fin x \<and> pt_y (hd ps) = Fin y \<and> 20 \<le> x \<and> x \<le> 480 \<and> 20 \<le> y \<and> y \<le> 180)"
  using chart_inside [of 20 500 200
      "[\<lparr>cd_label = ''Jan'', cd_value = Fin 3\<rparr>, \<lparr>cd_label = ''Feb'', cd_value = Fin 5\<rparr>, \<lparr>cd_label = ''Mar'', cd_value = Fin 7\<rparr>]"]
  by (auto simp: usePoolChartData_def chart_points_def Let_def)

subsection \<open>The trend\<close>

lemma percent_error:
  assumes "0 \<le> b" and "b \<le> 10000"
  shows "\<exists>c. num_over (num_int b) 100 = Fin c \<and> \<bar>c - of_int b / 100\<bar> \<le> 1 / 1000"
proof -
  have "ulp_exp 100 \<le> - 11" by code_simp
  moreover have "of_int b / 100 \<le> (100 :: rat)" using assms(2) by (simp add: field_simps)
  ultimately obtain c where "fl (of_int b / 100) = Fin c" "\<bar>c - of_int b / 100\<bar> \<le> pow2 (- 11) / 2"
    using fl_error [of "of_int b / 100" 100 "- 11"] assms(1) by auto
  moreover have "pow2 (- 11) / 2 \<le> 1 / 1000" by (simp add: pow2_def)
  ultimately show ?thesis by auto
qed

lemma threshold: "\<exists>c. fl (- 5 / 1000) = Fin c \<and> - 6 / 1000 \<le> c" "\<exists>c. fl (5 / 1000) = Fin c \<and> 0 \<le> c"
proof -
  have "ulp_exp (5 / 1000) \<le> - 11" by code_simp
  then obtain c where c: "fl (5 / 1000) = Fin c" "\<bar>c - 5 / 1000\<bar> \<le> pow2 (- 11) / 2"
    using fl_error [of "5 / 1000" "5 / 1000" "- 11"] by auto
  have "pow2 (- 11) / 2 \<le> 1 / 1000" by (simp add: pow2_def)
  then have "0 \<le> c" "c \<le> 6 / 1000" using abs_le_D1 [OF c(2)] abs_le_D2 [OF c(2)] by linarith+
  then show "\<exists>c. fl (5 / 1000) = Fin c \<and> 0 \<le> c" "\<exists>c. fl (- 5 / 1000) = Fin c \<and> - 6 / 1000 \<le> c"
    using c(1) fl_neg [of "5 / 1000"] by auto
qed

lemma falls:
  assumes "0 \<le> b" and "b < a" and "a \<le> 10000"
  shows "chart_direction (num_sub (num_over (num_int b) 100) (num_over (num_int a) 100)) = ''down''"
proof -
  obtain p where p: "num_over (num_int a) 100 = Fin p" "\<bar>p - of_int a / 100\<bar> \<le> 1 / 1000" using percent_error [of a] assms by auto
  obtain q where q: "num_over (num_int b) 100 = Fin q" "\<bar>q - of_int b / 100\<bar> \<le> 1 / 1000" using percent_error [of b] assms by auto
  have ab: "of_int b + 1 \<le> (of_int a :: rat)" "0 \<le> (of_int b :: rat)" "of_int a \<le> (10000 :: rat)"
  proof -
    have "of_int (b + 1) \<le> (of_int a :: rat)" using assms(2) by (simp only: of_int_le_iff)
    then show "of_int b + 1 \<le> (of_int a :: rat)" by simp
  qed (use assms(1,3) in simp_all)
  have bounds: "q - p \<le> - 8 / 1000" "- 101 \<le> q - p"
    using abs_le_D1 [OF p(2)] abs_le_D2 [OF p(2)] abs_le_D1 [OF q(2)] abs_le_D2 [OF q(2)] ab by linarith+
  have "ulp_exp 101 \<le> - 11" by code_simp
  then obtain d where d: "fl (p - q) = Fin d" "\<bar>d - (p - q)\<bar> \<le> pow2 (- 11) / 2"
    using fl_error [of "p - q" 101 "- 11"] bounds by force
  have "pow2 (- 11) / 2 \<le> 1 / 1000" by (simp add: pow2_def)
  then have "- d < - 6 / 1000" using abs_le_D2 [OF d(2)] bounds(1) by linarith
  moreover have "num_sub (Fin q) (Fin p) = Fin (- d)" using d(1) fl_neg [of "p - q"] by (simp add: num_sub_def)
  ultimately show ?thesis using threshold by (auto simp: chart_direction_def p(1) q(1) simp del: num_over.simps)
qed

text \<open>
  The trend of the pool is told backwards. The indexer is documented to return its snapshots newest
  first, and the chart takes the last one of the list for the current state. With snapshots in that
  order and a utilization that has risen from \<open>b\<close> to \<open>a\<close>, the summary calls the oldest value the current
  one and says that the utilization went down from the newest.
\<close>

theorem trend_backwards:
  assumes "sorted_wrt (\<lambda>s t. num_less (sn_timestamp t) (sn_timestamp s)) (newest # older @ [oldest])"
    and "sn_utilizationRateBps newest = num_int a" and "sn_utilizationRateBps oldest = num_int b" and "0 \<le> b" and "b < a" and "a \<le> 10000"
  shows "\<exists>rest. chart_summary (map (formatSnapshotPoint dateStr) (newest # older @ [oldest])) =
    Some (''Pool utilization is currently '' @ num_toFixed 1 (num_over (num_int b) 100) @ '' percent, down from '' @
          num_toFixed 1 (num_over (num_int a) 100) @ '' percent across '' @ rest)"
  using assms(2,3) falls [OF assms(4-6)]
  by (simp add: chart_summary_def Let_def formatSnapshotPoint_def del: num_over.simps num_toFixed.simps)

theorem trend_backwards_witness:
  "\<exists>rest. chart_summary (map (formatSnapshotPoint (\<lambda>t. [])) [\<lparr>sn_timestamp = Fin 200, sn_utilizationRateBps = Fin 7500, sn_totalYieldDistributed = ''9''\<rparr>,
      \<lparr>sn_timestamp = Fin 100, sn_utilizationRateBps = Fin 2500, sn_totalYieldDistributed = ''5''\<rparr>]) =
    Some (''Pool utilization is currently '' @ num_toFixed 1 (num_over (Fin 2500) 100) @ '' percent, down from '' @
          num_toFixed 1 (num_over (Fin 7500) 100) @ '' percent across '' @ rest)"
  using trend_backwards [of "\<lparr>sn_timestamp = Fin 200, sn_utilizationRateBps = Fin 7500, sn_totalYieldDistributed = ''9''\<rparr>" "[]"
      "\<lparr>sn_timestamp = Fin 100, sn_utilizationRateBps = Fin 2500, sn_totalYieldDistributed = ''5''\<rparr>" 7500 2500 "\<lambda>t. []"]
  by (simp del: num_over.simps num_toFixed.simps)

end
