(* ===== verification/Shell.thy ===== *)
theory Shell
  imports FeedViews MarketplacePage Notifications JsRounding Wallet
begin

text \<open>
  What surrounds every page: the navigation bar (\<open>components/shared/Navbar.tsx\<close>) with the button of the
  wallet (\<open>WalletConnect.tsx\<close>), the bell (\<open>NotificationBell.tsx\<close>), the switch of the theme
  (\<open>ThemeToggle.tsx\<close>) and the tour (\<open>OnboardingTour.tsx\<close>), the banner of a missing configuration
  (\<open>ConfigBanner.tsx\<close>) and the boundary around parts that may throw (\<open>ErrorBoundary.tsx\<close>).
\<close>

subsection \<open>The tour\<close>

definition TOUR_STEPS :: "(string \<times> string option) list" where
  "TOUR_STEPS =
     [(''welcome'', None), (''role'', Some ''role-switcher''), (''balances'', Some ''balances''), (''dashboard'', Some ''nav-dashboard''),
      (''lp'', Some ''nav-lp''), (''marketplace'', Some ''nav-marketplace''), (''profile'', Some ''nav-profile''), (''done'', Some ''tour-launcher'')]"

definition CARD_WIDTH :: jsnum where "CARD_WIDTH = Fin 360"

definition GAP :: jsnum where "GAP = Fin 12"

definition EDGE :: jsnum where "EDGE = Fin 16"

definition HIGHLIGHT_PADDING :: jsnum where "HIGHLIGHT_PADDING = Fin 6"

record Rect =
  rc_top :: jsnum
  rc_left :: jsnum
  rc_width :: jsnum
  rc_height :: jsnum

text \<open>\<open>boxes\<close> gives the boxes of the elements that carry the attribute, in the order of the document.\<close>

definition findVisibleTarget :: "(string \<Rightarrow> Rect list) \<Rightarrow> string option \<Rightarrow> Rect option" where
  "findVisibleTarget boxes target =
     (case target of
        None \<Rightarrow> None
      | Some t \<Rightarrow> if t = [] then None
          else List.find (\<lambda>r. num_less (Fin 0) (rc_width r) \<and> num_less (Fin 0) (rc_height r)) (boxes t))"

text \<open>The effect of the tour when the wallet's state changes; it marks the tour as seen before it opens it.\<close>

definition tour_effect :: "bool \<Rightarrow> OnboardingState \<times> local_storage \<Rightarrow> OnboardingState \<times> local_storage" where
  "tour_effect isConnected = (\<lambda>(st, ls).
     if isConnected \<and> \<not> hasSeenOnboarding ls then (onboarding_start st, markOnboardingSeen ls) else (st, ls))"

text \<open>The dialog: its step, and whether the tour is open. It is mounted anew, at the first step, when the tour opens.\<close>

record tour =
  tr_open :: bool
  tr_step :: nat

definition tour_start :: "tour \<Rightarrow> tour" where
  "tour_start t = (if tr_open t then t else \<lparr>tr_open = True, tr_step = 0\<rparr>)"

definition tour_close :: "tour \<Rightarrow> tour" where
  "tour_close t = t\<lparr>tr_open := False\<rparr>"

definition tour_next :: "tour \<Rightarrow> tour" where
  "tour_next t = (if tr_step t = length TOUR_STEPS - 1 then tour_close t else t\<lparr>tr_step := tr_step t + 1\<rparr>)"

definition tour_back :: "tour \<Rightarrow> tour" where
  "tour_back t = t\<lparr>tr_step := tr_step t - 1\<rparr>"

text \<open>
  Keys. Escape is heard on the whole document, the arrows on the dialog; Tab is kept inside of it:
  \<open>focusable\<close> are the elements that take the focus, \<open>title\<close> the heading, and the result is the element to
  focus in place of what the browser would do.
\<close>

definition tour_key :: "string \<Rightarrow> tour \<Rightarrow> tour" where
  "tour_key k t =
     (if k = ''ArrowRight'' then tour_next t else if k = ''ArrowLeft'' then tour_back t
      else if k = ''Escape'' then tour_close t else t)"

definition tour_tab :: "bool \<Rightarrow> 'n list \<Rightarrow> 'n \<Rightarrow> 'n \<Rightarrow> 'n option" where
  "tour_tab shiftKey focusable title active =
     (if focusable = [] then None
      else if shiftKey \<and> (active = hd focusable \<or> active = title) then Some (last focusable)
      else if \<not> shiftKey \<and> active = last focusable then Some (hd focusable)
      else None)"

record card_style =
  cy_width :: jsnum
  cy_left :: jsnum
  cy_top :: "jsnum option"
  cy_bottom :: "jsnum option"

definition cardStyle :: "jsnum \<Rightarrow> jsnum \<Rightarrow> Rect \<Rightarrow> card_style" where
  "cardStyle vw vh r =
     (let width = num_min CARD_WIDTH (num_sub vw (num_scale EDGE 2));
          left = num_min (num_max (num_sub (num_add (rc_left r) (num_over (rc_width r) 2)) (num_over width 2)) EDGE)
                         (num_sub (num_sub vw width) EDGE);
          below = num_add (num_add (rc_top r) (rc_height r)) GAP
      in if num_less vh (num_add below (Fin 220))
         then \<lparr>cy_width = width, cy_left = left, cy_top = None, cy_bottom = Some (num_add (num_sub vh (rc_top r)) GAP)\<rparr>
         else \<lparr>cy_width = width, cy_left = left, cy_top = Some below, cy_bottom = None\<rparr>)"

datatype tour_control = SkipTour | TourBack | TourNext | TourKeys

definition px :: "string \<Rightarrow> jsnum \<Rightarrow> string" where
  "px k v = k @ '':'' @ num_toString v @ ''px;''"

definition card_css :: "card_style \<Rightarrow> string" where
  "card_css c =
     px ''width'' (cy_width c) @ px ''left'' (cy_left c) @ (case cy_bottom c of Some b \<Rightarrow> px ''bottom'' b | None \<Rightarrow> []) @
     (case cy_top c of Some t \<Rightarrow> px ''top'' t | None \<Rightarrow> [])"

definition highlight_css :: "Rect \<Rightarrow> string" where
  "highlight_css r =
     px ''top'' (num_sub (rc_top r) HIGHLIGHT_PADDING) @ px ''left'' (num_sub (rc_left r) HIGHLIGHT_PADDING) @
     px ''width'' (num_add (rc_width r) (num_scale HIGHLIGHT_PADDING 2)) @ px ''height'' (num_add (rc_height r) (num_scale HIGHLIGHT_PADDING 2))"

definition TourDialog :: "translator \<Rightarrow> (string \<Rightarrow> Rect list) \<Rightarrow> jsnum \<Rightarrow> jsnum \<Rightarrow> tour \<Rightarrow> tour_control el" where
  "TourDialog t boxes vw vh st =
     (let (i, target) = TOUR_STEPS ! tr_step st; r = findVisibleTarget boxes target; isLast = (tr_step st = length TOUR_STEPS - 1);
          titleId = ''onboarding-step-'' @ i @ ''-title''; bodyId = ''onboarding-step-'' @ i @ ''-body'' in
      El ''div'' [(''data-testid'', ''onboarding-tour'')] []
        [(case r of
            Some b \<Rightarrow> El ''div'' [(''aria-hidden'', ''true''), (''data-testid'', ''onboarding-highlight''), (''style'', highlight_css b)] [] []
          | None \<Rightarrow> El ''div'' [(''aria-hidden'', ''true'')] [] []),
         El ''div''
           ([(''role'', ''dialog''), (''aria-modal'', ''true''), (''aria-labelledby'', titleId), (''aria-describedby'', bodyId)] @
            attr ''style'' (map_option (card_css \<circ> cardStyle vw vh) r))
           [(''onKeyDown'', TourKeys)]
           [para ''p'' (t ''progress'' [(''current'', show_nat (tr_step st + 1)), (''total'', show_nat (length TOUR_STEPS))]),
            El ''h2'' [(''id'', titleId), (''tabIndex'', ''-1'')] [] [Txt (t (''steps.'' @ i @ ''.title'') [])],
            El ''p'' [(''id'', bodyId)] [] [Txt (t (''steps.'' @ i @ ''.body'') [])],
            el ''div''
              [(if isLast then el ''span'' [] else El ''button'' [(''type'', ''button'')] [(''onClick'', SkipTour)] [Txt (t ''skip'' [])]),
               el ''div''
                 (shown (tr_step st \<noteq> 0) [El ''button'' [(''type'', ''button'')] [(''onClick'', TourBack)] [Txt (t ''back'' [])]] @
                  [El ''button'' [(''type'', ''button'')] [(''onClick'', TourNext)] [Txt (if isLast then t ''finish'' [] else t ''next'' [])]])]]])"

definition OnboardingTour :: "translator \<Rightarrow> (string \<Rightarrow> Rect list) \<Rightarrow> jsnum \<Rightarrow> jsnum \<Rightarrow> tour \<Rightarrow> tour_control el list" where
  "OnboardingTour t boxes vw vh st = shown (tr_open st) [TourDialog t boxes vw vh st]"

subsection \<open>The bell\<close>

definition unreadCount :: "jsobj list \<Rightarrow> nat" where
  "unreadCount ns = length (filter (\<lambda>n. \<not> truthy (obj_get n ''read'')) ns)"

text \<open>Opening tells the owner of the notifications first; \<open>onOpen\<close> is optional.\<close>

definition toggleOpen :: "('s \<Rightarrow> 's) option \<Rightarrow> bool \<times> 's \<Rightarrow> bool \<times> 's" where
  "toggleOpen onOpen = (\<lambda>(isOpen, s).
     (\<not> isOpen, if \<not> isOpen then (case onOpen of Some f \<Rightarrow> f s | None \<Rightarrow> s) else s))"

definition handleClickOutside :: "bool \<Rightarrow> bool \<Rightarrow> bool \<Rightarrow> bool" where
  "handleClickOutside inDropdown inButton isOpen = (isOpen \<and> (inDropdown \<or> inButton))"

datatype bell_control = BellToggle

text \<open>The type and the message of a notification are texts, as \<open>mapEventToNotification\<close> makes them.\<close>

definition NotificationBell :: "int \<Rightarrow> bool \<Rightarrow> jsobj list \<Rightarrow> bell_control el" where
  "NotificationBell now isOpen ns =
     el ''div''
       (El ''button'' [(''type'', ''button''), (''aria-label'', ''Notifications''), (''aria-expanded'', aria_bool isOpen)] [(''onClick'', BellToggle)]
          (shown (0 < unreadCount ns) [el ''span'' []]) #
        shown isOpen
          [el ''div'' [El ''div'' [(''tabIndex'', ''-1'')] []
             [el ''div'' (para ''span'' ''Notifications'' # shown (0 < unreadCount ns) [para ''span'' (show_nat (unreadCount ns) @ '' new'')]),
              (if ns = [] then para ''div'' ''No notifications yet''
               else el ''div'' (map (\<lambda>n. el ''div''
                 [el ''div'' [para ''span'' (child_text (obj_get n ''type'')),
                              para ''span'' (time_ago ''m'' now (js_Number (obj_get n ''timestamp'')))],
                  para ''p'' (child_text (obj_get n ''message''))]) ns))]]])"

subsection \<open>The wallet's button\<close>

text \<open>The state of the component beside the session it works on.\<close>

record connect_ui =
  wc_installed :: "bool option"
  wc_copied :: bool
  wc_timers :: nat
  wc_copyError :: "string option"
  wc_switching :: bool
  wc_switchError :: "string option"

type_synonym ('w, 'f) connect_state = "('w, 'f) session_state \<times> connect_ui"

definition setUi :: "(connect_ui \<Rightarrow> connect_ui) \<Rightarrow> (exn, ('w, 'f) connect_state, unit) io" where
  "setUi g = modifyIO (\<lambda>(s, u). (s, g u))"

definition inSession :: "('w, 'f, unit, 'r) session_io \<Rightarrow> (exn, ('w, 'f) connect_state, 'r) io" where
  "inSession m = (\<lambda>(s, u). case m s of (r, s') \<Rightarrow> (r, (s', u)))"

text \<open>Copying the address, where \<open>ok\<close> says whether the clipboard took it; a timer takes the mark away.\<close>

definition wc_handleCopy :: "bool \<Rightarrow> string option \<Rightarrow> connect_ui \<Rightarrow> connect_ui" where
  "wc_handleCopy ok address u =
     (if \<not> present address then u
      else if ok then u\<lparr>wc_copyError := None, wc_copied := True, wc_timers := wc_timers u + 1\<rparr>
      else u\<lparr>wc_copied := False, wc_copyError := Some (''Couldn'' @ [CHR 0x27] @ ''t copy wallet address. Please try again.'')\<rparr>)"

definition wc_timer :: "connect_ui \<Rightarrow> connect_ui" where
  "wc_timer u = (if 0 < wc_timers u then u\<lparr>wc_copied := False, wc_timers := wc_timers u - 1\<rparr> else u)"

definition wc_detected :: "bool \<Rightarrow> connect_ui \<Rightarrow> connect_ui" where
  "wc_detected b u = u\<lparr>wc_installed := Some b\<rparr>"

text \<open>
  Asking the extension to change its network. Loading its library may fail; \<open>setNetwork\<close> is missing in
  some versions.
\<close>

definition handleSwitchToTestnet ::
  "'f freighter_env \<Rightarrow> exn + (string \<Rightarrow> 'f \<Rightarrow> (exn + jsval) \<times> 'f) option \<Rightarrow> (exn, ('w, 'f) connect_state, unit) io" where
  "handleSwitchToTestnet F api =
     bindIO (setUi (\<lambda>u. u\<lparr>wc_switching := True, wc_switchError := None\<rparr>)) (\<lambda>_.
     bindIO
       (catchIO
         (bindIO (liftE api) (\<lambda>setNetwork.
          case setNetwork of
            None \<Rightarrow> throwIO (new_Error ''Your Freighter version does not support network switching from this app.'')
          | Some call \<Rightarrow>
              bindIO (inSession (ask (call ''TESTNET''))) (\<lambda>response.
              if truthy response \<and> typeof_object response \<and> truthy (obj_get (own_entries response) ''error'')
              then throwIO (new_Error (js_String (obj_get (own_entries response) ''error'')))
              else inSession (connectWallet F))))
         (\<lambda>error. setUi (\<lambda>u. u\<lparr>wc_switchError := Some (getErrorMessage error UNEXPECTED)\<rparr>))) (\<lambda>_.
     setUi (\<lambda>u. u\<lparr>wc_switching := False\<rparr>)))"

datatype wallet_control = SwitchNetwork | CopyAddress | Disconnect | Connect

definition outside_link :: "string \<Rightarrow> 'h el list \<Rightarrow> 'h el" where
  "outside_link url cs = El ''a'' [(''href'', url), (''target'', ''_blank''), (''rel'', ''noopener noreferrer'')] [] cs"

definition network_badge :: "('w, 'f) connect_state \<Rightarrow> wallet_control el" where
  "network_badge st =
     el ''div''
       ([el ''div''
           [if w_network (wallet (fst st)) = Some ''testnet'' then para ''span'' ''Testnet''
            else if w_network (wallet (fst st)) = Some ''mainnet'' then para ''span'' ''Mainnet''
            else button SwitchNetwork (wc_switching (snd st)) (if wc_switching (snd st) then ''SWITCHING...'' else ''Switch to Testnet'')]] @
        shown (present (wc_switchError (snd st)))
          [el ''div''
             [el ''span'' [para ''span'' ''Open Freighter, switch its network to Testnet, then reconnect your wallet.''],
              El ''span'' [(''role'', ''alert'')] [] [Txt (the (wc_switchError (snd st)))],
              outside_link ''https://www.freighter.app/'' [para ''span'' ''Open Freighter'']]])"

definition wallet_button :: "('w, 'f) connect_state \<Rightarrow> wallet_control el" where
  "wallet_button st =
     el ''div''
       [if w_connected (wallet (fst st)) \<and> present (w_address (wallet (fst st)))
        then el ''div''
          [para ''span'' (truncateAddress (the (w_address (wallet (fst st))))),
           El ''button'' [(''title'', ''Copy Address''), (''aria-label'', ''Copy wallet address'')] [(''onClick'', CopyAddress)] [],
           El ''button'' [(''title'', ''Disconnect Wallet''), (''aria-label'', ''Disconnect wallet'')] [(''onClick'', Disconnect)] []]
        else button Connect (wh_loading (fst st)) (if wh_loading (fst st) then ''CONNECTING...'' else ''CONNECT WALLET'')]"

definition wallet_messages :: "('w, 'f) connect_state \<Rightarrow> wallet_control el list" where
  "wallet_messages st =
     (let failed = present (wh_error (fst st)); code = wh_errorCode (fst st) in
      shown (failed \<and> code = Some ''user_rejected'')
        [el ''div'' [El ''span'' [(''role'', ''status'')] [] [Txt ''You cancelled the connection request'']]] @
      shown (present (wc_copyError (snd st))) [El ''div'' [(''role'', ''alert'')] [] [para ''span'' (the (wc_copyError (snd st)))]] @
      shown (failed \<and> code = Some ''not_installed'')
        [outside_link ''https://www.freighter.app/'' [El ''span'' [(''role'', ''status'')] [] [Txt ''Install Freighter'']]] @
      shown (failed \<and> code \<noteq> Some ''user_rejected'' \<and> code \<noteq> Some ''not_installed'')
        [el ''div'' [El ''span'' [(''role'', ''alert'')] [] [Txt (the (wh_error (fst st)))]]])"

definition WalletConnect :: "('w, 'f) connect_state \<Rightarrow> wallet_control el" where
  "WalletConnect st =
     (if wc_installed (snd st) = Some False then outside_link ''https://www.freighter.app/'' [para ''span'' ''Install Freighter'']
      else el ''div''
        ([El ''div'' [(''role'', ''status''), (''aria-live'', ''polite'')] [] [Txt (if wc_copied (snd st) then ''Address copied'' else [])]] @
         shown (w_connected (wallet (fst st))) [network_badge st] @ [wallet_button st] @ wallet_messages st))"

subsection \<open>Theme and configuration\<close>

datatype theme_control = ToggleTheme

definition ThemeToggle :: "Theme \<Rightarrow> bool \<Rightarrow> theme_control el" where
  "ThemeToggle theme mounted =
     (let lab = (if theme = dark then ''Switch to light theme'' else ''Switch to dark theme'') in
      El ''button'' ([(''type'', ''button''), (''aria-label'', lab), (''title'', lab)] @
                     attr ''aria-pressed'' (if mounted then Some (aria_bool (theme \<noteq> dark)) else None)) [(''onClick'', ToggleTheme)] [])"

definition envVarLabels :: "(string \<times> string) list" where
  "envVarLabels =
     [(''NEXT_PUBLIC_INVOICE_CONTRACT_ID'', ''Invoice Contract''), (''NEXT_PUBLIC_POOL_CONTRACT_ID'', ''Pool Contract''),
      (''NEXT_PUBLIC_REGISTRY_CONTRACT_ID'', ''Registry Contract'')]"

definition ConfigBanner :: "ConfigValidation \<Rightarrow> 'h el list" where
  "ConfigBanner config =
     shown (\<not> isConfigured config)
       [el ''div'' [el ''div'' [el ''div''
          [para ''p'' ''Configuration Error'',
           el ''p'' [Txt (''Missing required environment variables: '' @
                          js_join '', '' (map (\<lambda>k. tx_text (table_or envVarLabels k k)) (missing config)) @
                          ''.. Contract interactions will fail until these are configured in ''),
                     para ''code'' ''.env.local'', Txt ''.'']]]]]"

subsection \<open>The boundary\<close>

text \<open>
  The state of a boundary is the error it caught. React hands it what a child threw while rendering; a
  thrown value that counts as false is not taken for an error by \<open>render\<close>.
\<close>

definition exn_truthy :: "exn \<Rightarrow> bool" where
  "exn_truthy e = (case e of Thrown v \<Rightarrow> truthy v | _ \<Rightarrow> True)"

definition boundary_catch :: "exn + 'c \<Rightarrow> exn option \<Rightarrow> exn option" where
  "boundary_catch kid st = (case kid of Inl e \<Rightarrow> Some e | Inr c \<Rightarrow> st)"

definition boundary_reset :: "exn option \<Rightarrow> exn option" where
  "boundary_reset st = None"

definition boundary_log :: "string option \<Rightarrow> string" where
  "boundary_log ctx = ''[ErrorBoundary'' @ (if present ctx then '':'' @ the ctx else []) @ '']''"

datatype boundary_control = TryAgain | ReloadPage

definition caught_message :: "string \<Rightarrow> exn \<Rightarrow> string" where
  "caught_message fallback e =
     (let m = (if is_Error e then exn_message e else case exn_prop e ''message'' of JStr m \<Rightarrow> m | _ \<Rightarrow> [])
      in if m \<noteq> [] then m else fallback)"

definition boundary_message :: "exn \<Rightarrow> string" where
  "boundary_message e = caught_message ''An unexpected error occurred.'' e"

definition DefaultErrorFallback :: "exn \<Rightarrow> boundary_control el" where
  "DefaultErrorFallback e =
     el ''div'' [para ''p'' ''Something went wrong loading this.'', para ''p'' (boundary_message e),
                 button TryAgain False ''Try again'', button ReloadPage False ''Reload page'']"

definition ErrorBoundary :: "(exn \<Rightarrow> 'h el) option \<Rightarrow> (boundary_control \<Rightarrow> 'h) \<Rightarrow> exn + 'h el \<Rightarrow> exn option \<Rightarrow> exn + 'h el" where
  "ErrorBoundary fallback h kid st =
     (case st of
        Some e \<Rightarrow> if exn_truthy e then Inr (case fallback of Some f \<Rightarrow> f e | None \<Rightarrow> map_el h (DefaultErrorFallback e)) else kid
      | None \<Rightarrow> kid)"

subsection \<open>The navigation bar\<close>

definition ROLES :: "string list" where
  "ROLES = [''issuer'', ''buyer'', ''lp'']"

definition isRole :: "string \<Rightarrow> bool" where
  "isRole v \<longleftrightarrow> v \<in> set ROLES"

definition NAV_ITEMS :: "(string \<times> string) list" where
  "NAV_ITEMS =
     [(''dashboard'', ''/dashboard''), (''lp'', ''/lp''), (''marketplace'', ''/marketplace''), (''analytics'', ''/analytics''),
      (''profile'', ''/profile''), (''settings'', ''/settings''), (''help'', ''/help'')]"

definition roleChange :: "string \<Rightarrow> WalletState \<Rightarrow> WalletState" where
  "roleChange v st = (if isRole v then wallet_setRole v st else st)"

text \<open>The parts of the bar keep their own handlers; the bell and the wallet's button are there twice while the menu is open.\<close>

datatype nav_control =
    HomeLink | MenuLink | RoleSelect | OfBell bell_control | MenuBell bell_control | LaunchTour | MenuTour | OfTheme theme_control
  | OfWallet wallet_control | MenuWallet wallet_control | ToggleMenu | OfTour tour_control

record nav_env =
  nv_t :: translator
  nv_loc2 :: "jsnum \<Rightarrow> string" \<comment> \<open>at most two decimals, in the language of the browser\<close>
  nv_usdc :: jsval
  nv_xlm :: jsval
  nv_balancesLoading :: bool
  nv_isVerified :: bool

definition nav_amount :: "nav_env \<Rightarrow> jsval \<Rightarrow> string" where
  "nav_amount E v = nv_loc2 E (js_parseFloat (js_String v))"

definition nav_link :: "nav_env \<Rightarrow> bool \<Rightarrow> (string \<times> string) list \<Rightarrow> (string \<times> nav_control) list \<Rightarrow> string \<times> string \<Rightarrow> nav_control el" where
  "nav_link E isConnected as hs = (\<lambda>(k, href).
     El ''a'' ([(''href'', href)] @ as) hs
       (para ''span'' (nv_t E (''nav.'' @ k) []) #
        shown (k = ''profile'' \<and> isConnected \<and> nv_isVerified E) [El ''span'' [(''title'', nv_t E ''verifiedProfile'' [])] [] []]))"

definition nav_balances :: "nav_env \<Rightarrow> nav_control el" where
  "nav_balances E =
     El ''div'' [(''data-tour'', ''balances'')] []
       [el ''div''
          (shown (\<not> nv_balancesLoading E)
             (para ''span'' (if nv_usdc E \<noteq> JNull then nv_t E ''balanceAmount'' [(''amount'', nav_amount E (nv_usdc E)), (''asset'', ''USDC'')]
                             else nv_t E ''balanceUnavailableUsdc'' []) #
              shown (nv_usdc E = JNull \<or> num_eq (js_parseFloat (js_String (nv_usdc E))) (Fin 0))
                [el ''div'' [outside_link ''https://demo.stellar.org'' [Txt (nv_t E ''getTestnetUsdc'' [])]]])),
        el ''div''
          (shown (\<not> nv_balancesLoading E)
             [para ''span'' (if nv_xlm E \<noteq> JNull then nv_t E ''balanceAmount'' [(''amount'', nav_amount E (nv_xlm E)), (''asset'', ''XLM'')]
                             else nv_t E ''balanceEmptyXlm'' [])])]"

definition nav_role :: "nav_env \<Rightarrow> jsval \<Rightarrow> nav_control el" where
  "nav_role E role =
     El ''div'' [(''data-tour'', ''role-switcher'')] []
       [para ''span'' (nv_t E ''roleLabel'' []),
        El ''select'' [(''aria-label'', nv_t E ''roleSelectLabel'' []), (''value'', js_String role)] [(''onChange'', RoleSelect)]
          (map (\<lambda>r. El ''option'' [(''value'', r)] [] [Txt (nv_t E (''roles.'' @ r) [])]) ROLES)]"

definition nav_menu :: "nav_env \<Rightarrow> bool \<Rightarrow> bell_control el \<Rightarrow> wallet_control el \<Rightarrow> nav_control el" where
  "nav_menu E isConnected bell walletEl =
     el ''div''
       [el ''div'' (map (nav_link E isConnected [] [(''onClick'', MenuLink)]) NAV_ITEMS @
          [El ''button'' [(''type'', ''button''), (''data-tour'', ''tour-launcher'')] [(''onClick'', MenuTour)] [Txt (nv_t E ''takeTour'' [])]]),
        el ''div'' [map_el MenuBell bell, map_el MenuWallet walletEl]]"

text \<open>\<open>bell\<close> and \<open>bell'\<close> are the two bells, each with its own state.\<close>

definition Navbar :: "nav_env \<Rightarrow> bool \<Rightarrow> bell_control el \<Rightarrow> bell_control el \<Rightarrow> theme_control el \<Rightarrow> wallet_control el \<Rightarrow> wallet_control el \<Rightarrow>
    tour_control el list \<Rightarrow> WalletState \<Rightarrow> nav_control el" where
  "Navbar E menuOpen bell bell' themeEl walletEl walletEl' tourEl st =
     el ''nav''
       ([el ''div'' [el ''div''
           [el ''div''
              [El ''a'' [(''href'', ''/'')] [(''onClick'', HomeLink)] [el ''span'' [Txt ''TRUST'', para ''span'' ''TROVE'']],
               el ''div'' (map (\<lambda>i. nav_link E (w_connected st) [(''data-tour'', ''nav-'' @ fst i)] [] i) NAV_ITEMS)],
            el ''div''
              (shown (w_connected st) [nav_balances E, nav_role E (w_role st)] @
               [el ''div''
                  [map_el OfBell bell,
                   El ''button'' [(''type'', ''button''), (''data-tour'', ''tour-launcher''), (''aria-label'', nv_t E ''takeTour'' []),
                                  (''title'', nv_t E ''takeTour'' [])] [(''onClick'', LaunchTour)] [],
                   map_el OfTheme themeEl],
                el ''div'' [map_el OfWallet walletEl],
                El ''button'' [(''type'', ''button''), (''aria-label'', nv_t E (if menuOpen then ''closeMenu'' else ''openMenu'') []),
                               (''aria-expanded'', aria_bool menuOpen)] [(''onClick'', ToggleMenu)] []])]]] @
        shown menuOpen [nav_menu E (w_connected st) bell' walletEl'] @
        map (map_el OfTour) tourEl)"

text \<open>What the bar's own handlers do to the menu and the tour.\<close>

definition nav_click :: "nav_control \<Rightarrow> bool \<times> tour \<Rightarrow> bool \<times> tour" where
  "nav_click h = (\<lambda>(menuOpen, t).
     case h of
       HomeLink \<Rightarrow> (False, t) | MenuLink \<Rightarrow> (False, t) | ToggleMenu \<Rightarrow> (\<not> menuOpen, t)
     | LaunchTour \<Rightarrow> (menuOpen, tour_start t) | MenuTour \<Rightarrow> (False, tour_start t)
     | OfTour TourNext \<Rightarrow> (menuOpen, tour_next t) | OfTour TourBack \<Rightarrow> (menuOpen, tour_back t) | OfTour SkipTour \<Rightarrow> (menuOpen, tour_close t)
     | _ \<Rightarrow> (menuOpen, t))"

subsection \<open>The tour\<close>

text \<open>
  The card of the tour stays in the window. For a window of at least 32 pixels and a highlighted
  element anywhere, of any size, the card is at most 360 pixels wide and both its edges keep 16 pixels
  from the edges of the window.
\<close>

theorem tour_card_inside:
  assumes "32 \<le> w" and "w \<le> 2 ^ 52" and "rc_left r = Fin l" and "rc_width r = Fin d"
  shows "\<exists>k x. cy_width (cardStyle (num_int w) vh r) = num_int k \<and> cy_left (cardStyle (num_int w) vh r) = Fin x \<and>
    0 \<le> k \<and> k \<le> 360 \<and> 16 \<le> x \<and> x + of_int k \<le> of_int (w - 16)"
proof -
  have edge: "num_scale EDGE 2 = num_int 32" using fl_of_int [of 32] by (simp add: EDGE_def)
  have sub: "num_sub (num_int i) (num_int j) = num_int (i - j)" if "\<bar>i - j\<bar> \<le> 2 ^ 53" for i j
    using fl_of_int [of "i - j"] that by (simp add: num_sub_def)
  define k where "k = min 360 (w - 32)"
  have k: "0 \<le> k" "k \<le> 360" "k \<le> w - 32" using assms(1) by (auto simp: k_def)
  have width: "num_min CARD_WIDTH (num_sub (num_int w) (num_int 32)) = num_int k"
    using sub [of w 32] assms(1,2) by (auto simp: CARD_WIDTH_def num_min_def k_def min_def simp flip: of_int_less_iff)
  have right: "num_sub (num_sub (num_int w) (num_int k)) EDGE = num_int (w - k - 16)"
    using sub [of w k] sub [of "w - k" 16] k assms(1,2) by (simp add: EDGE_def)
  define m where "m = num_sub (num_add (rc_left r) (num_over (rc_width r) 2)) (num_over (num_int k) 2)"
  obtain c where half: "num_over (num_int k) 2 = Fin c"
    using fl_between_ints [of 0 360 "of_int k / 2"] k(1,2) by (auto simp flip: of_int_le_iff)
  have fin: "num_over (rc_width r) 2 \<noteq> NaN" "num_add (Fin l) x \<noteq> NaN" "num_sub x (Fin c) \<noteq> NaN" if "x \<noteq> NaN" for x
    using that by (cases x; simp add: assms(4) num_sub_def)+
  have m: "m \<noteq> NaN" unfolding m_def half assms(3) using fin by blast
  have wk: "(16 :: rat) \<le> of_int (w - k - 16)" using k(3) by (simp flip: of_int_le_iff)
  have "\<exists>x. num_min (num_max m EDGE) (num_int (w - k - 16)) = Fin x \<and> 16 \<le> x \<and> x \<le> of_int (w - k - 16)"
    using m wk by (cases m) (auto simp: num_min_def num_max_def EDGE_def)
  then obtain x where "num_min (num_max m EDGE) (num_int (w - k - 16)) = Fin x" "16 \<le> x" "x \<le> of_int (w - k - 16)" by blast
  then show ?thesis
    using width right k(1,2) by (auto simp: cardStyle_def edge m_def Let_def algebra_simps)
qed

theorem tour_card_inside_witness:
  "\<exists>x. cy_left (cardStyle (num_int 320) (Fin 600) \<lparr>rc_top = Fin 0, rc_left = Fin 300, rc_width = Fin 40, rc_height = Fin 30\<rparr>) = Fin x \<and> 16 \<le> x \<and> x \<le> 304"
  using tour_card_inside [of 320 "\<lparr>rc_top = Fin 0, rc_left = Fin 300, rc_width = Fin 40, rc_height = Fin 30\<rparr>" 300 40 "Fin 600"] by auto

text \<open>Every step of the tour exists, whatever is clicked and typed.\<close>

inductive tour_move :: "tour \<Rightarrow> tour \<Rightarrow> bool" where
  "tour_move t (tour_start t)"
| "tr_open t \<Longrightarrow> tour_move t (tour_next t)"
| "tr_open t \<Longrightarrow> tour_move t (tour_back t)"
| "tr_open t \<Longrightarrow> tour_move t (tour_close t)"
| "tr_open t \<Longrightarrow> tour_move t (tour_key k t)"

definition on_a_step :: "tour \<Rightarrow> bool" where
  "on_a_step t \<longleftrightarrow> tr_step t < length TOUR_STEPS"

interpretation tour_steps: invariant_system "\<lambda>t. t = \<lparr>tr_open = False, tr_step = 0\<rparr>" tour_move on_a_step
proof
  fix s t
  have steps: "length TOUR_STEPS = 8" by (simp add: TOUR_STEPS_def)
  assume "on_a_step s" "tour_move s t"
  from this(2,1) show "on_a_step t"
    by cases (auto simp: on_a_step_def steps tour_start_def tour_next_def tour_back_def tour_close_def tour_key_def)
qed (simp add: on_a_step_def TOUR_STEPS_def)

text \<open>Eight times the next step from the start is the whole tour, which then is closed.\<close>

lemma tour_finishes: "\<not> tr_open t \<Longrightarrow> \<not> tr_open ((tour_next ^^ 8) (tour_start t)) \<and> tr_open ((tour_next ^^ 7) (tour_start t))"
  by (simp add: tour_start_def tour_next_def tour_close_def TOUR_STEPS_def numeral_eq_Suc)

lemma tour_labelled: "on_a_step st \<Longrightarrow> well_labelled (TourDialog t boxes vw vh st)"
  by (auto simp: TourDialog_def well_labelled_def Let_def split: prod.split option.split)

text \<open>
  The tour opens by itself at most once: when the browser kept the mark, or refuses every access, no
  later connection opens it. A browser that is full can be read but not written, and there it opens
  on every visit.
\<close>

lemma tour_once:
  assumes "\<not> ls_full ls" and "tour_effect c (st, ls) = (st', ls')"
  shows "(st', ls') \<noteq> (st, ls) \<Longrightarrow> tour_effect d (st'', ls') = (st'', ls')" and "ls_blocked ls \<Longrightarrow> (st', ls') = (st, ls)"
  using assms by (auto simp: tour_effect_def hasSeenOnboarding_def markOnboardingSeen_def getItem_trySetItem getItem_def split: if_splits)
    (auto simp: trySetItem_def setItem_def getItem_def)

lemma tour_again_when_full:
  "ls_full ls \<Longrightarrow> \<not> ls_blocked ls \<Longrightarrow> getItem ONBOARDING_SEEN_KEY ls = Inr None \<Longrightarrow> tour_effect True (st, ls) = (onboarding_start st, ls)"
  by (simp add: tour_effect_def hasSeenOnboarding_def markOnboardingSeen_def trySetItem_def setItem_def)

subsection \<open>The wallet's button\<close>

lemmas switch_defs = handleSwitchToTestnet_def setUi_def inSession_def bindIO_def catchIO_def modifyIO_def liftE_def ask_def throwIO_def

text \<open>
  C40. Switching the network never throws, and it ends in a definite state: the button is free again, and
  either the extension did not switch, which is said, and the session is as it was; or the wallet was
  connected again, on the test network; or that failed, and the session is closed with an error. The
  extension may answer whatever it likes.
\<close>

theorem switch_outcome:
  assumes "\<not> wh_connecting s"
  shows "\<exists>s' u'. handleSwitchToTestnet F api (s, u) = (Inr (), (s', u')) \<and> \<not> wc_switching u' \<and>
    (wallet s' = wallet s \<and> wc_switchError u' \<noteq> None \<or>
     wc_switchError u' = None \<and> (\<exists>a. wallet s' = wallet_connect a EXPECTED_NETWORK (wallet s)) \<and> wh_error s' = None \<or>
     wc_switchError u' = None \<and> wallet s' = wallet_disconnect (wallet s) \<and> wh_error s' \<noteq> None)"
proof (cases "\<exists>call r f. api = Inr (Some call) \<and> call ''TESTNET'' (freighter s) = (Inr r, f) \<and>
    \<not> (truthy r \<and> typeof_object r \<and> truthy (obj_get (own_entries r) ''error''))")
  case True
  then obtain call r f where c: "api = Inr (Some call)" "call ''TESTNET'' (freighter s) = (Inr r, f)"
    "\<not> (truthy r \<and> typeof_object r \<and> truthy (obj_get (own_entries r) ''error''))" by blast
  have "\<not> wh_connecting (s\<lparr>freighter := f\<rparr>)" using assms by simp
  from connectWallet_settles [OF this, of F] obtain s1 where s1: "connectWallet F (s\<lparr>freighter := f\<rparr>) = (Inr (), s1)"
    "(\<exists>a. wallet s1 = wallet_connect a EXPECTED_NETWORK (wallet s)) \<and> wh_error s1 = None \<or> wallet s1 = wallet_disconnect (wallet s) \<and> wh_error s1 \<noteq> None"
    by auto
  have "handleSwitchToTestnet F api (s, u) = (Inr (), (s1, u\<lparr>wc_switching := False, wc_switchError := None\<rparr>))"
    using c s1(1) by (auto simp: switch_defs)
  then show ?thesis using s1(2) by auto
next
  case False
  then show ?thesis
    by (cases api; cases "projr api"; cases "the (projr api) ''TESTNET'' (freighter s)"; cases "fst (the (projr api) ''TESTNET'' (freighter s))")
      (auto simp: switch_defs)
qed

definition ui_init :: connect_ui where
  "ui_init = \<lparr>wc_installed = None, wc_copied = False, wc_timers = 0, wc_copyError = None, wc_switching = False, wc_switchError = None\<rparr>"

text \<open>An extension without the call.\<close>

theorem switch_outcome_witness:
  "\<exists>s' u'. handleSwitchToTestnet demo_freighter (Inr None) (demo_session (wallet_connect ''GA'' ''futurenet'' wallet_init), ui_init) = (Inr (), (s', u')) \<and>
     \<not> wc_switching u'"
  using switch_outcome [of "demo_session (wallet_connect ''GA'' ''futurenet'' wallet_init)" demo_freighter "Inr None" ui_init]
  by (auto simp: demo_session_def)

text \<open>
  A failed switch stays on the page: connecting again by other means does not take the message away, so
  a wallet on the test network is still asked to switch to it.
\<close>

lemma switch_error_stays:
  assumes "wc_switchError u = Some m" and "m \<noteq> []" and "wc_installed u \<noteq> Some False" and "\<not> wh_connecting s"
    and "connectWallet F s = (Inr (), s')" and "w_connected (wallet s')"
  shows "w_network (wallet s') = Some EXPECTED_NETWORK \<and> m \<in> set (alerts (WalletConnect (s', u)))"
proof -
  have "\<exists>a. wallet s' = wallet_connect a EXPECTED_NETWORK (wallet s)"
    using connectWallet_settles [OF assms(4), of F] assms(5,6) by (auto simp: wallet_disconnect_def)
  then show ?thesis
    using assms(1-3,6) by (auto simp: WalletConnect_def network_badge_def present_def wallet_connect_def)
qed

subsection \<open>The bell and the boundary\<close>

text \<open>
  The count of new notifications cannot be read: opening the list marks everything as read before the
  list is shown.
\<close>

lemma unread_never_shown:
  assumes "present address" and "toggleOpen (Some (markAllAsRead address)) (False, st) = (isOpen, st')"
  shows "isOpen \<and> unreadCount (notifications st') = 0"
proof -
  have "notifications st' = map mark_read (notifications st)"
    using assms by (auto simp: toggleOpen_def markAllAsRead_def Let_def split: if_splits)
  then show ?thesis using assms(2) by (auto simp: toggleOpen_def unreadCount_def mark_read_def filter_empty_conv)
qed

text \<open>
  A boundary shows its child or the fallback, as long as what is thrown counts as true; after a new try it
  shows the child again if that renders.
\<close>

lemma boundary_renders:
  assumes "\<forall>e. kid = Inl e \<longrightarrow> exn_truthy e"
  shows "\<exists>e. ErrorBoundary fallback h kid (boundary_catch kid None) = Inr e"
    and "ErrorBoundary fallback h (Inr c) (boundary_reset st) = Inr c"
  using assms by (auto simp: ErrorBoundary_def boundary_catch_def boundary_reset_def split: sum.split)

lemma fallback_controls: "clicks (DefaultErrorFallback e) = [TryAgain, ReloadPage]"
  by (simp add: DefaultErrorFallback_def)

lemma roleChange_known: "w_role st \<in> JStr ` set ROLES \<Longrightarrow> w_role (roleChange v st) \<in> JStr ` set ROLES"
  by (auto simp: roleChange_def isRole_def wallet_setRole_def)

end
