(* ===== verification/Queries.thy ===== *)
theory Queries
  imports Dashboard TxHistory Charts Actions InvoiceViews
begin

text \<open>
  The queries of the application: what every hook asks the query library for, and what it makes of
  the library's answer (\<open>useInvoices.ts\<close>, \<open>usePool.ts\<close>, \<open>useProfile.ts\<close>, \<open>useBalances.ts\<close>,
  \<open>useEvents.ts\<close>, \<open>useStats.ts\<close>, \<open>useTxHistory.ts\<close> and \<open>PoolPerformanceChart.tsx\<close> under \<open>apps/web\<close>), with
  the defaults of \<open>app/providers.tsx\<close>.

  The cache of the library is a parameter. Documented of it and assumed in \<open>query_law\<close>:
  \<open>invalidateQueries\<close> marks every query whose key starts with the given one and changes nothing else;
  a hook that is mounted shows what the cache has for its key and, when it is enabled, asks the server
  if there is nothing, if the entry is marked, or if it is older than the stale time; initial data is
  used only when the cache has nothing, and counts as fetched at that moment.
\<close>

subsection \<open>Options and results\<close>

record 'd query_options =
  qo_key :: "jsval list"
  qo_enabled :: bool
  qo_staleTime :: "int option"
  qo_refetchInterval :: "int option"
  qo_retry :: "(nat \<Rightarrow> exn \<Rightarrow> bool) option" \<comment> \<open>failures so far and the last of them\<close>
  qo_initialData :: "'d option"

record ('d, 'f) use_query = "'d query_options" +
  qo_fn :: 'f

record 'd query_result =
  qr_data :: "'d option"
  qr_isLoading :: bool
  qr_error :: "exn option"

definition query :: "jsval list \<Rightarrow> 'f \<Rightarrow> ('d, 'f) use_query" where
  "query key f = \<lparr>qo_key = key, qo_enabled = True, qo_staleTime = None, qo_refetchInterval = None, qo_retry = None,
                  qo_initialData = None, qo_fn = f\<rparr>"

text \<open>The default of the application's client.\<close>

definition DEFAULT_STALE_TIME :: int where
  "DEFAULT_STALE_TIME = 4000"

definition staleTime :: "('d, 'f) query_options_scheme \<Rightarrow> int" where
  "staleTime q = (case qo_staleTime q of Some t \<Rightarrow> t | None \<Rightarrow> DEFAULT_STALE_TIME)"

definition key_text :: "string option \<Rightarrow> jsval" where
  "key_text a = (case a of Some s \<Rightarrow> JStr s | None \<Rightarrow> JNull)"

definition key_optional :: "('x \<Rightarrow> jsval) \<Rightarrow> 'x option \<Rightarrow> jsval" where
  "key_optional f v = (case v of Some x \<Rightarrow> f x | None \<Rightarrow> JUndef)"

subsection \<open>Invoices\<close>

definition useInvoiceStats_query where
  "useInvoiceStats_query api zparse iss =
     (query [JStr ''invoiceStats'', key_optional JStr iss] (invoiceStats_query api zparse iss))
       \<lparr>qo_enabled := present iss, qo_refetchInterval := Some 15000, qo_staleTime := Some 15000\<rparr>"

definition useInvoiceStats :: "InvoiceStats query_result \<Rightarrow> InvoiceStats \<times> bool \<times> exn option" where
  "useInvoiceStats r =
     ((case qr_data r of Some d \<Rightarrow> d | None \<Rightarrow> EMPTY_INVOICE_STATS), qr_isLoading r, qr_error r)"

definition filters_key :: "InvoiceFilters \<Rightarrow> bool option \<Rightarrow> jsval" where
  "filters_key f isEnabled = JObj
     [(''status'', key_optional JStr (f_status f)), (''issuer'', key_optional JStr (f_issuer f)),
      (''page'', key_optional JNum (f_page f)), (''limit'', key_optional JNum (f_limit f)),
      (''enabled'', key_optional JBool isEnabled)]"

definition useInvoicesList_query where
  "useInvoicesList_query api zparse isEnabled f =
     (query [JStr ''invoices'', filters_key f isEnabled] (getInvoices api zparse f))
       \<lparr>qo_refetchInterval := Some 15000, qo_staleTime := Some 15000,
        qo_enabled := (case isEnabled of Some b \<Rightarrow> b | None \<Rightarrow> True)\<rparr>"

definition useInvoiceList_query where
  "useInvoiceList_query api zparse f = useInvoicesList_query api zparse None f"

definition useInvoice_query where
  "useInvoice_query api zparse i initialData =
     (query [JStr ''invoice'', JStr i] (getInvoiceByID api zparse i))
       \<lparr>qo_enabled := i \<noteq> [], qo_staleTime := Some 60000, qo_initialData := initialData\<rparr>"

subsection \<open>The pool\<close>

definition poolStats_query where
  "poolStats_query api =
     (query [JStr ''poolStats''] (getPoolStats api))\<lparr>qo_refetchInterval := Some 45000, qo_staleTime := Some 45000\<rparr>"

text \<open>The query function is called only when the query is enabled, so with an address.\<close>

definition lpPosition_query where
  "lpPosition_query api address =
     (query [JStr ''lpPosition'', key_text address] (getLPPosition api (the address)))\<lparr>qo_enabled := present address\<rparr>"

definition poolSnapshots_query where
  "poolSnapshots_query api given =
     (query [JStr ''poolSnapshots''] (getPoolSnapshots api))
       \<lparr>qo_enabled := \<not> given, qo_staleTime := Some 60000, qo_retry := Some (\<lambda>n e. n < 2)\<rparr>"

subsection \<open>The account\<close>

definition useProfile_query where
  "useProfile_query D address =
     (query [JStr ''profile'', key_text address] (profile_query D address))\<lparr>qo_enabled := present address\<rparr>"

definition useVerified_query where
  "useVerified_query D address =
     (query [JStr ''isVerified'', key_text address] (isVerified_query D address))\<lparr>qo_enabled := present address\<rparr>"

definition useProfile :: "jsval query_result \<Rightarrow> bool query_result \<Rightarrow> jsval \<times> bool \<times> bool" where
  "useProfile p v =
     ((case qr_data p of Some d \<Rightarrow> d | None \<Rightarrow> JNull), (case qr_data v of Some b \<Rightarrow> b | None \<Rightarrow> False), qr_isLoading p)"

definition useBalances_query where
  "useBalances_query loadAccount usdcIssuer address conn =
     (query [JStr ''balances'', key_text address, JBool conn] (fetchBalancesFromHorizon loadAccount usdcIssuer (the address) conn))
       \<lparr>qo_enabled := present address \<and> conn, qo_refetchInterval := Some 30000\<rparr>"

definition useBalances :: "(jsval \<times> jsval) query_result \<Rightarrow> (jsval \<times> jsval) \<times> bool \<times> string option" where
  "useBalances r =
     ((case qr_data r of Some d \<Rightarrow> d | None \<Rightarrow> (JNull, JNull)), qr_isLoading r,
      (if qr_error r \<noteq> None then Some ''Failed to fetch balances'' else None))"

definition useTxHistory_query where
  "useTxHistory_query H fetchOps address cur =
     (query [JStr ''txHistory'', JStr address, key_optional JStr cur] (fetchPage H fetchOps address cur))
       \<lparr>qo_enabled := address \<noteq> [], qo_staleTime := Some 10000,
        qo_retry := Some (\<lambda>failureCount err. \<not> isRateLimitError err \<and> failureCount < 2)\<rparr>"

subsection \<open>The protocol\<close>

definition useRecentEvents_query where
  "useRecentEvents_query api limit iss interval isEnabled =
     (query [JStr ''recentEvents'', key_optional JNum limit, key_optional JStr iss] (getRecentEvents api limit iss))
       \<lparr>qo_refetchInterval := interval, qo_enabled := (case isEnabled of Some b \<Rightarrow> b | None \<Rightarrow> True)\<rparr>"

definition useRecentEvents :: "EventLog list query_result \<Rightarrow> EventLog list \<times> bool \<times> exn option" where
  "useRecentEvents r = ((case qr_data r of Some d \<Rightarrow> d | None \<Rightarrow> []), qr_isLoading r, qr_error r)"

definition useStats_query where
  "useStats_query api =
     (query [JStr ''protocolStats''] (getProtocolStats api))
       \<lparr>qo_refetchInterval := Some 60000, qo_staleTime := Some 30000, qo_retry := Some (\<lambda>n e. n < 3)\<rparr>"

subsection \<open>The cache\<close>

record 'd query_entry =
  qe_data :: 'd
  qe_at :: int \<comment> \<open>when it was fetched\<close>
  qe_marked :: bool

record ('c, 'd) query_lib =
  ql_entry :: "'c \<Rightarrow> jsval list \<Rightarrow> 'd query_entry option"
  ql_invalidate :: "string list \<Rightarrow> 'c \<Rightarrow> 'c"
  ql_mount :: "'d query_options \<Rightarrow> int \<Rightarrow> 'c \<Rightarrow> 'd option \<times> bool" \<comment> \<open>what is shown, and whether the server is asked\<close>

definition starts_with :: "string list \<Rightarrow> jsval list \<Rightarrow> bool" where
  "starts_with k key \<longleftrightarrow> take (length k) key = map JStr k"

definition query_law :: "('c, 'd) query_lib \<Rightarrow> bool" where
  "query_law L \<longleftrightarrow>
     (\<forall>k c key. ql_entry L (ql_invalidate L k c) key =
        map_option (\<lambda>e. if starts_with k key then e\<lparr>qe_marked := True\<rparr> else e) (ql_entry L c key)) \<and>
     (\<forall>q now c. ql_mount L q now c =
        (case ql_entry L c (qo_key q) of
           Some e \<Rightarrow> (Some (qe_data e), qo_enabled q \<and> (qe_marked e \<or> staleTime q \<le> now - qe_at e))
         | None \<Rightarrow> (qo_initialData q, qo_enabled q \<and> (qo_initialData q = None \<or> staleTime q \<le> 0))))"

definition used :: "('c, 'd) query_lib \<Rightarrow> ('d, 'f) use_query \<Rightarrow> int \<Rightarrow> 'c \<Rightarrow> 'd option \<times> bool" where
  "used L q now c = ql_mount L (query_options.truncate q) now c"

text \<open>What the handlers of a mutation did to the cache: one call for every key they recorded.\<close>

definition refreshed :: "('c, 'd) query_lib \<Rightarrow> ('h, 'w, 'a, 't, 'v, 'z) dapp_state_scheme \<Rightarrow>
    ('h, 'w, 'a, 't, 'v, 'z) dapp_state_scheme \<Rightarrow> 'c \<Rightarrow> 'c" where
  "refreshed L s s' c = foldl (\<lambda>c k. ql_invalidate L k c) c (drop (length (invalidated s)) (invalidated s'))"

text \<open>The six actions on an existing invoice.\<close>

definition invoice_actions where
  "invoice_actions run D api address i bps s =
     [mutate_listInvoice run D address i bps s, mutate_fundInvoice run D address i s, mutate_shipInvoice run D address i s,
      mutate_confirmDelivery run D api address i s, mutate_repayInvoice run D address i s, mutate_defaultInvoice run D address i s]"

subsection \<open>What a mutation refreshes\<close>

lemma starts_with_simps [simp]:
  "starts_with [] key" "starts_with (a # k) (v # key) \<longleftrightarrow> v = JStr a \<and> starts_with k key" "\<not> starts_with (a # k) []"
  by (auto simp: starts_with_def)

lemma invalidated_entry:
  assumes "query_law L"
  shows "ql_entry L (foldl (\<lambda>c k. ql_invalidate L k c) c ks) key =
    map_option (\<lambda>e. if \<exists>k \<in> set ks. starts_with k key then e\<lparr>qe_marked := True\<rparr> else e) (ql_entry L c key)"
proof (induction ks arbitrary: c)
  case Nil
  show ?case by (simp add: option.map_id [unfolded id_def])
next
  case (Cons k ks)
  have "ql_entry L (ql_invalidate L k c) key =
      map_option (\<lambda>e. if starts_with k key then e\<lparr>qe_marked := True\<rparr> else e) (ql_entry L c key)"
    using assms by (simp add: query_law_def)
  then show ?case by (cases "ql_entry L c key") (simp_all add: Cons.IH)
qed

text \<open>The next use of a query after invalidating some keys.\<close>

lemma used_after:
  assumes "query_law L" and "qo_enabled q" and "qo_initialData q = None" and "\<exists>k \<in> set ks. starts_with k (qo_key q)"
  shows "snd (used L q now (foldl (\<lambda>c k. ql_invalidate L k c) c ks))"
proof -
  have "snd (ql_mount L (query_options.truncate q) now c')" if "\<forall>e. ql_entry L c' (qo_key q) = Some e \<longrightarrow> qe_marked e" for c'
    using assms(1-3) that by (auto simp: query_law_def query_options.truncate_def split: option.split)
  moreover have "\<forall>e. ql_entry L (foldl (\<lambda>c k. ql_invalidate L k c) c ks) (qo_key q) = Some e \<longrightarrow> qe_marked e"
    using assms(4) by (cases "ql_entry L c (qo_key q)") (auto simp: invalidated_entry [OF assms(1)])
  ultimately show ?thesis by (simp add: used_def)
qed

lemma used_fresh:
  assumes "query_law L" and "ql_entry L c (qo_key q) = Some e" and "\<not> qe_marked e" and "now - qe_at e < staleTime q"
    and "\<forall>k \<in> set ks. \<not> starts_with k (qo_key q)"
  shows "used L q now (foldl (\<lambda>c k. ql_invalidate L k c) c ks) = (Some (qe_data e), False)"
proof -
  have "ql_entry L (foldl (\<lambda>c k. ql_invalidate L k c) c ks) (qo_key q) = Some e"
    using assms(2,5) by (auto simp: invalidated_entry [OF assms(1)])
  moreover have "staleTime (query_options.truncate q) = staleTime q"
    by (simp add: staleTime_def query_options.truncate_def)
  ultimately show ?thesis using assms(1,3,4) by (simp add: used_def query_law_def query_options.truncate_def)
qed

text \<open>The keys that an action on an invoice invalidates.\<close>

definition action_keys :: "string option \<Rightarrow> string list list" where
  "action_keys address =
     [[''invoices''], [''invoiceStats''], [''poolStats'']] @ (if present address then [[''lpPosition'', the address]] else [])"

lemma action_invalidates:
  assumes "mutation_law run" and "out \<in> set (invoice_actions run D api address i bps s)"
  shows "drop (length (invalidated s)) (invalidated (snd out)) = (case fst out of Inl e \<Rightarrow> [] | Inr x \<Rightarrow> action_keys address)"
proof -
  have "\<exists>good bad. invoice_outcome address good bad s out"
    using assms(2) unfolding invoice_actions_def mutate_listInvoice_def mutate_fundInvoice_def mutate_shipInvoice_def
      mutate_confirmDelivery_def mutate_repayInvoice_def mutate_defaultInvoice_def
    by (auto intro: sdk_mutation_outcome [OF assms(1)] confirm_outcome [OF assms(1)])
  then show ?thesis by (auto simp: invoice_outcome_def action_keys_def split: sum.split)
qed

lemmas query_defs = useInvoiceList_query_def useInvoicesList_query_def useInvoiceStats_query_def poolStats_query_def lpPosition_query_def
  useInvoice_query_def query_def

text \<open>
  C15. What an action changed is fetched again. After an action on an invoice that succeeded, the next use
  of any list of invoices, of the statistics of any issuer, of the pool's statistics and of the user's
  position asks the server, however fresh the cache is; after one that failed, the cache is as it was.
\<close>

theorem action_refreshes:
  assumes "query_law L" and "mutation_law run" and "out \<in> set (invoice_actions run D api address i bps s)"
  shows "case fst out of
      Inl e \<Rightarrow> refreshed L s (snd out) c = c
    | Inr x \<Rightarrow>
        (\<forall>f. snd (used L (useInvoiceList_query api zparse f) now (refreshed L s (snd out) c))) \<and>
        (\<forall>iss. present iss \<longrightarrow> snd (used L (useInvoiceStats_query api zparse iss) now (refreshed L s (snd out) c))) \<and>
        snd (used L (poolStats_query api) now (refreshed L s (snd out) c)) \<and>
        (present address \<longrightarrow> snd (used L (lpPosition_query api address) now (refreshed L s (snd out) c)))"
proof (cases "fst out")
  case (Inl e)
  then show ?thesis using action_invalidates [OF assms(2,3)] by (simp add: refreshed_def)
next
  case (Inr x)
  then have c: "refreshed L s (snd out) c = foldl (\<lambda>c k. ql_invalidate L k c) c (action_keys address)"
    using action_invalidates [OF assms(2,3)] by (simp add: refreshed_def)
  show ?thesis unfolding Inr sum.case c
    by (intro conjI allI impI; rule used_after [OF assms(1)]) (auto simp: query_defs action_keys_def key_text_def present_def)
qed

text \<open>A cache that keeps the law: a function from keys to entries.\<close>

definition ref_lib :: "(jsval list \<Rightarrow> 'd query_entry option, 'd) query_lib" where
  "ref_lib =
     \<lparr>ql_entry = (\<lambda>c. c),
      ql_invalidate = (\<lambda>k c key. map_option (\<lambda>e. if starts_with k key then e\<lparr>qe_marked := True\<rparr> else e) (c key)),
      ql_mount = (\<lambda>q now c. case c (qo_key q) of
           Some e \<Rightarrow> (Some (qe_data e), qo_enabled q \<and> (qe_marked e \<or> staleTime q \<le> now - qe_at e))
         | None \<Rightarrow> (qo_initialData q, qo_enabled q \<and> (qo_initialData q = None \<or> staleTime q \<le> 0)))\<rparr>"

lemma ref_lib_law: "query_law ref_lib"
  by (simp add: query_law_def ref_lib_def)

text \<open>A shipment that succeeds, with the entries of a pool and of an invoice fetched one second ago.\<close>

definition demo_ship where
  "demo_ship = mutate_shipInvoice ref_mutate demo_dapp (Some ''G'') ''00ab'' demo_dapp_state"

definition demo_cache :: "jsval list \<Rightarrow> string query_entry option" where
  "demo_cache key = (if key \<in> {[JStr ''poolStats''], [JStr ''invoice'', JStr ''00ab'']}
     then Some \<lparr>qe_data = ''old'', qe_at = 1000, qe_marked = False\<rparr> else None)"

lemma demo_ship_ok: "fst demo_ship = Inr True"
  by code_simp

lemma demo_ship_action: "demo_ship \<in> set (invoice_actions ref_mutate demo_dapp demo_api (Some ''G'') ''00ab'' (Fin 500) demo_dapp_state)"
  by (simp add: invoice_actions_def demo_ship_def)

theorem action_refreshes_witness:
  "snd (used ref_lib (poolStats_query demo_api) 2000 (refreshed ref_lib demo_dapp_state (snd demo_ship) demo_cache)) \<and>
   \<not> snd (used ref_lib (poolStats_query demo_api) 2000 demo_cache)"
proof
  show "snd (used ref_lib (poolStats_query demo_api) 2000 (refreshed ref_lib demo_dapp_state (snd demo_ship) demo_cache))"
    by (rule action_refreshes [OF ref_lib_law ref_mutate_law demo_ship_action, unfolded demo_ship_ok sum.case,
          THEN conjunct2, THEN conjunct2, THEN conjunct1])
  show "\<not> snd (used ref_lib (poolStats_query demo_api) 2000 demo_cache)"
    by (simp add: used_def ref_lib_def demo_cache_def query_defs query_options.truncate_def staleTime_def)
qed

text \<open>
  The page of an invoice is not among them. A page that was visited within the last minute shows the
  invoice as it was before the action and does not ask the server, also when the server rendered the
  page anew and hands its answer over as initial data: the keys of the lists start with \<open>invoices\<close>, the
  key of the page with \<open>invoice\<close>.
\<close>

theorem invoice_page_stays_old:
  assumes "query_law L" and "mutation_law run" and "out \<in> set (invoice_actions run D api address i bps s)"
    and "ql_entry L c [JStr ''invoice'', JStr i] = Some e" and "\<not> qe_marked e" and "now - qe_at e < 60000"
  shows "used L (useInvoice_query api zparse i initial) now (refreshed L s (snd out) c) = (Some (qe_data e), False)"
proof -
  have "\<forall>k \<in> set (drop (length (invalidated s)) (invalidated (snd out))). \<not> starts_with k [JStr ''invoice'', JStr i]"
    unfolding action_invalidates [OF assms(2,3)] by (auto simp: action_keys_def split: sum.split)
  then show ?thesis unfolding refreshed_def
    by (intro used_fresh [OF assms(1)]) (use assms(4-6) in \<open>simp_all add: query_defs staleTime_def\<close>)
qed

theorem invoice_page_stays_old_witness:
  "used ref_lib (useInvoice_query demo_api ref_zparse ''00ab'' (Some ''new'')) 2000 (refreshed ref_lib demo_dapp_state (snd demo_ship) demo_cache) =
     (Some ''old'', False)"
proof -
  have "ql_entry ref_lib demo_cache [JStr ''invoice'', JStr ''00ab''] = Some \<lparr>qe_data = ''old'', qe_at = 1000, qe_marked = False\<rparr>"
    by (simp add: ref_lib_def demo_cache_def)
  from invoice_page_stays_old [OF ref_lib_law ref_mutate_law demo_ship_action this, of 2000 ref_zparse "Some ''new''"] show ?thesis by simp
qed

text \<open>Nor are the balances in the navigation bar after a deposit; they follow at the next tick of their interval.\<close>

lemma deposit_leaves_balances:
  assumes "query_law L" and "ql_entry L c [JStr ''balances'', JStr a, JBool True] = Some e" and "\<not> qe_marked e" and "now - qe_at e < 4000"
  shows "used L (useBalances_query load usdcKey (Some a) True) now
      (refreshed L s (snd (pool_onSuccess (Some a) ''Deposit Complete'' h s)) c) = (Some (qe_data e), False)"
  unfolding refreshed_def pool_onSuccess_run
  by (intro used_fresh [OF assms(1)]) (use assms(2-4) in \<open>simp_all add: useBalances_query_def query_def staleTime_def DEFAULT_STALE_TIME_def key_text_def\<close>)

end
