(* ===== verification/Pages.thy ===== *)
theory Pages
  imports Shell Calculators Charts
begin

text \<open>
  The frame of the pages and the pages without data of their own (\<open>app/layout.tsx\<close>,
  \<open>components/shared/PageLayout.tsx\<close>, \<open>app/page.tsx\<close> with \<open>HomePanels.tsx\<close>, \<open>app/docs/page.tsx\<close>,
  \<open>app/help/page.tsx\<close>, \<open>app/error.tsx\<close>, \<open>app/global-error.tsx\<close>, \<open>app/not-found.tsx\<close>, the placeholders of
  \<open>SkeletonLoader.tsx\<close> and the \<open>loading.tsx\<close> files). What matters of them is their outline: where the link
  that skips the navigation leads, which headings a reader finds, and what is read aloud of a placeholder.
\<close>

subsection \<open>Outline of a page\<close>

definition heading_level :: "string \<Rightarrow> nat option" where
  "heading_level tag = map_of [(''h1'', 1), (''h2'', 2), (''h3'', 3), (''h4'', 4), (''h5'', 5), (''h6'', 6)] tag"

fun headings :: "'h el \<Rightarrow> nat list" where
  "headings (Txt s) = []"
| "headings (El t as hs cs) = (case heading_level t of Some n \<Rightarrow> [n] | None \<Rightarrow> []) @ concat (map headings cs)"

text \<open>No heading is more than one level below the one before it.\<close>

fun no_skip :: "nat list \<Rightarrow> bool" where
  "no_skip (a # b # ns) \<longleftrightarrow> b \<le> Suc a \<and> no_skip (b # ns)"
| "no_skip ns \<longleftrightarrow> True"

text \<open>The elements that the link leads to, and whether they take the focus.\<close>

fun skip_targets :: "'h el \<Rightarrow> bool list" where
  "skip_targets (Txt s) = []"
| "skip_targets (El t as hs cs) =
     (if ''main-content'' \<in> set (values_of ''id'' as) then [values_of ''tabIndex'' as \<noteq> []] else []) @ concat (map skip_targets cs)"

text \<open>What is read aloud: the text outside of hidden parts.\<close>

fun heard :: "'h el \<Rightarrow> string" where
  "heard (Txt s) = s"
| "heard (El t as hs cs) = (if ''true'' \<in> set (values_of ''aria-hidden'' as) then [] else concat (map heard cs))"

fun status_labels :: "'h el \<Rightarrow> string list" where
  "status_labels (Txt s) = []"
| "status_labels (El t as hs cs) =
     (if ''status'' \<in> set (values_of ''role'' as) then values_of ''aria-label'' as else []) @ concat (map status_labels cs)"

lemma map_el_outline [simp]: "headings (map_el f e) = headings e" "skip_targets (map_el f e) = skip_targets e"
  by (induction e) (simp_all add: comp_def cong: map_cong)

subsection \<open>The frame\<close>

definition copyright_sign :: string where
  "copyright_sign = [char_of (169 :: nat)]"

text \<open>The signs U+2713, U+2212, U+201C and U+201D.\<close>

definition check_sign :: string where
  "check_sign = [char_of (143 :: nat)]"

definition minus_sign :: string where
  "minus_sign = [char_of (144 :: nat)]"

definition quoted :: "string \<Rightarrow> string" where
  "quoted s = [char_of (147 :: nat)] @ s @ [char_of (148 :: nat)]"

definition main_content :: "'h el list \<Rightarrow> 'h el" where
  "main_content kids = El ''main'' [(''id'', ''main-content''), (''tabIndex'', ''-1'')] [] kids"

definition PageLayout :: "int \<Rightarrow> 'h el \<Rightarrow> 'h el list \<Rightarrow> 'h el" where
  "PageLayout year navbar kids =
     el ''div''
       [el ''div'' [], el ''div'' [], navbar, main_content kids,
        el ''footer'' [el ''div'' [para ''p'' (copyright_sign @ '' '' @ show_int year @ '' TrusTrove. Built on Stellar Soroban Smart Contracts.'')]]]"

text \<open>The bootstrap script is text for the browser; the banner, the dialog and the page are the parts of \<open>Providers\<close> that show something.\<close>

definition Providers :: "'h el list \<Rightarrow> 'h el list \<Rightarrow> 'h el list \<Rightarrow> 'h el list" where
  "Providers banner kids confirmation = banner @ kids @ confirmation"

definition RootLayout :: "string option \<Rightarrow> string \<Rightarrow> 'h el list \<Rightarrow> 'h el" where
  "RootLayout nonce script kids =
     El ''html'' [(''lang'', ''en''), (''className'', ''dark'')] []
       [el ''head'' [El ''script'' (attr ''nonce'' nonce) [] [Txt script]],
        el ''body'' (El ''a'' [(''href'', ''#main-content'')] [] [Txt ''Skip to main content''] # kids)]"

subsection \<open>Errors\<close>

datatype page_error_control = ResetPage

definition RootError :: "exn \<Rightarrow> page_error_control el" where
  "RootError e =
     main_content [El ''div'' [(''role'', ''alert''), (''aria-live'', ''assertive'')] []
       [para ''h1'' ''Something went wrong.'',
        para ''p'' (caught_message ''An unexpected error occurred while loading this page.'' e),
        button ResetPage False ''Try again'']]"

definition GlobalError :: "exn \<Rightarrow> page_error_control el" where
  "GlobalError e =
     El ''html'' [(''lang'', ''en'')] [] [el ''body''
       [main_content [El ''div'' [(''role'', ''alert''), (''aria-live'', ''assertive'')] []
          [para ''h1'' ''The app crashed.'', para ''p'' (caught_message ''An unexpected error occurred.'' e),
           button ResetPage False ''Reload'']]]]"

definition NotFound :: "'h el" where
  "NotFound =
     main_content [el ''div''
       [el ''div'' [el ''div'' []], para ''h1'' ''404'', para ''p'' (''This page doesn'' @ [CHR 0x27] @ ''t exist.''),
        para ''p'' (''The route you tried to reach isn'' @ [CHR 0x27] @ ''t part of TrusTrove.''),
        el ''div'' [El ''a'' [(''href'', ''/'')] [] [Txt ''Go Home''], El ''a'' [(''href'', ''/marketplace'')] [] [Txt ''View Invoices'']]]]"

subsection \<open>Placeholders\<close>

definition SkeletonShimmer :: "'h el" where
  "SkeletonShimmer = El ''div'' [(''aria-hidden'', ''true'')] [] [el ''div'' []]"

definition status_region :: "string \<Rightarrow> 'h el list \<Rightarrow> 'h el" where
  "status_region lab kids = El ''div'' [(''role'', ''status''), (''aria-busy'', ''true''), (''aria-label'', lab)] [] kids"

abbreviation two_lines :: "'h el" where
  "two_lines \<equiv> el ''div'' [SkeletonShimmer, SkeletonShimmer]"

definition InvoiceCardSkeleton :: "'h el" where
  "InvoiceCardSkeleton = status_region ''Loading invoices''
     [el ''div'' [two_lines, SkeletonShimmer], el ''div'' [two_lines, two_lines], el ''div'' [two_lines, two_lines], SkeletonShimmer]"

definition PoolStatsPanelSkeleton :: "'h el" where
  "PoolStatsPanelSkeleton = status_region ''Loading pool statistics''
     [el ''div'' [el ''div'' [], two_lines], el ''div'' (replicate 4 two_lines)]"

definition InvoiceFeedSkeleton :: "'h el" where
  "InvoiceFeedSkeleton = status_region ''Loading recent activity''
     (replicate 3 (el ''div'' [el ''div'' [SkeletonShimmer, two_lines], two_lines]))"

definition InvoiceTableSkeleton :: "'h el" where
  "InvoiceTableSkeleton = status_region ''Loading invoices''
     [el ''div'' [el ''table''
        [el ''thead'' [el ''tr'' (map (para ''th'') [''Invoice ID'', ''Buyer'', ''Face Value'', ''Discount'', ''Due Date'', ''Status''])],
         el ''tbody'' (replicate 5 (el ''tr'' (replicate 6 (el ''td'' [SkeletonShimmer]))))]]]"

definition LPPositionCardSkeleton :: "'h el" where
  "LPPositionCardSkeleton = status_region ''Loading your position''
     [two_lines, el ''div'' [two_lines, el ''div'' [two_lines, two_lines]]]"

definition ActivityTimelineSkeleton :: "'h el" where
  "ActivityTimelineSkeleton = status_region ''Loading activity timeline''
     [el ''div'' [SkeletonShimmer], el ''div'' (replicate 5 (el ''div'' [two_lines, SkeletonShimmer]))]"

definition InvoiceFormLoader :: "'h el" where
  "InvoiceFormLoader = El ''div'' [(''role'', ''status''), (''aria-busy'', ''true'')] []
     [El ''div'' [(''aria-hidden'', ''true'')] [] [], para ''span'' ''Loading invoice form'']"

text \<open>What stands in for a page while its code is loaded.\<close>

definition DocsLoading :: "'h el" where
  "DocsLoading = el ''div''
     [two_lines,
      main_content [el ''div''
        [two_lines, SkeletonShimmer, el ''div'' [two_lines, two_lines], SkeletonShimmer, two_lines, SkeletonShimmer]]]"

definition DashboardLoading :: "'h el" where
  "DashboardLoading = el ''div''
     [el ''div'' [two_lines, SkeletonShimmer],
      el ''div'' (replicate 5 (el ''div'' (replicate 3 SkeletonShimmer))),
      el ''div''
        [el ''div''
           [SkeletonShimmer,
            el ''div'' [el ''div'' [el ''table''
              [el ''thead'' [el ''tr'' (replicate 6 (el ''th'' [SkeletonShimmer]))],
               el ''tbody'' (replicate 5 (el ''tr'' (replicate 6 (el ''td'' [SkeletonShimmer]))))]]],
            el ''div'' [el ''div'' [SkeletonShimmer], el ''div'' (replicate 5 (el ''div'' [two_lines, SkeletonShimmer]))]],
         el ''div'' [SkeletonShimmer, el ''div'' [two_lines]]]]"

definition SkeletonCardSkeleton :: "'h el" where
  "SkeletonCardSkeleton = el ''div'' [el ''div'' [SkeletonShimmer, two_lines], two_lines]"

definition MarketplaceLoading :: "'h el" where
  "MarketplaceLoading = el ''div''
     [el ''div'' [el ''div'' [two_lines, SkeletonShimmer]],
      el ''div'' (replicate 4 two_lines),
      el ''div''
        [el ''div'' [SkeletonShimmer, InvoiceTableSkeleton, el ''div'' (replicate 3 SkeletonCardSkeleton)],
         el ''div'' [SkeletonShimmer, el ''div'' (SkeletonShimmer # replicate 3 SkeletonShimmer)]]]"

definition LPLoading :: "'h el" where
  "LPLoading = el ''div''
     [SkeletonShimmer, SkeletonShimmer, PoolStatsPanelSkeleton, LPPositionCardSkeleton,
      el ''div'' (replicate 2 (el ''div'' (replicate 5 SkeletonShimmer)))]"

definition ProfileLoading :: "'h el" where
  "ProfileLoading = el ''div''
     [two_lines,
      el ''div'' [el ''div'' [SkeletonShimmer, el ''div'' (replicate 3 SkeletonShimmer)], el ''div'' (replicate 4 two_lines), SkeletonShimmer]]"

definition SmeLoading :: "'h el" where
  "SmeLoading = el ''div''
     [two_lines, el ''div'' (replicate 4 two_lines),
      el ''div''
        [el ''div'' (replicate 3 (el ''div''
           [el ''div'' [two_lines, SkeletonShimmer], el ''div'' [two_lines, two_lines], SkeletonShimmer])),
         el ''div'' (replicate 4 SkeletonCardSkeleton)]]"

definition InvoiceLoading :: "int \<Rightarrow> 'h el \<Rightarrow> 'h el" where
  "InvoiceLoading year navbar = PageLayout year navbar
     [el ''div'' [el ''div'' [el ''div'' (replicate 3 SkeletonShimmer), el ''div'' (replicate 2 SkeletonShimmer), el ''div'' (replicate 4 SkeletonShimmer)]]]"

subsection \<open>The landing page\<close>

text \<open>The calculators are loaded after the page, behind a placeholder and a boundary; \<open>chunk\<close> is how far that is.\<close>

definition loaded :: "(exn + unit) option \<Rightarrow> 'h el \<Rightarrow> 'h el \<Rightarrow> exn + 'h el" where
  "loaded chunk placeholder component =
     (case chunk of None \<Rightarrow> Inr placeholder | Some (Inl e) \<Rightarrow> Inl e | Some (Inr u) \<Rightarrow> Inr component)"

definition lp_placeholder :: "'h el" where
  "lp_placeholder = el ''div''
     [SkeletonShimmer, el ''div'' [SkeletonShimmer, two_lines], el ''div'' (replicate 4 SkeletonShimmer)]"

definition HomeLpCalculator :: "(boundary_control \<Rightarrow> 'h) \<Rightarrow> (exn + unit) option \<Rightarrow> 'h el \<Rightarrow> exn option \<Rightarrow> exn + 'h el" where
  "HomeLpCalculator h chunk calculator st = ErrorBoundary None h (loaded chunk lp_placeholder calculator) st"

definition discount_placeholder :: "'h el" where
  "discount_placeholder = el ''div''
     [two_lines,
      el ''div'' [el ''div'' [el ''div'' (replicate 3 SkeletonShimmer), el ''div'' (replicate 2 SkeletonShimmer)]]]"

definition HomeDiscountCalculator :: "(boundary_control \<Rightarrow> 'h) \<Rightarrow> (exn + unit) option \<Rightarrow> 'h el \<Rightarrow> exn option \<Rightarrow> exn + 'h el" where
  "HomeDiscountCalculator h chunk calculator st = ErrorBoundary None h (loaded chunk discount_placeholder calculator) st"

text \<open>The parts of the page that other components render.\<close>

record 'h home_parts =
  hm_topBar :: "'h el"
  hm_navbar :: "'h el"
  hm_feed :: "'h el"
  hm_hero :: "'h el"
  hm_lp :: "'h el"
  hm_pillar :: "PillarStatKind \<Rightarrow> 'h el"
  hm_calculator :: "'h el"

definition specificationUrl :: string where
  "specificationUrl = ''https://k1ngd4vid.gitbook.io/trustrove/''"

definition stellarExpertUrl :: "string option \<Rightarrow> string" where
  "stellarExpertUrl poolId =
     (if present poolId then ''https://stellar.expert/explorer/testnet/contract/'' @ the poolId
      else ''https://stellar.expert/explorer/testnet'')"

definition home_section :: "string \<Rightarrow> string \<Rightarrow> 'h el" where
  "home_section eyebrow title = el ''div'' [El ''p'' [(''aria-hidden'', ''true'')] [] [Txt eyebrow], para ''h2'' title]"

definition home_step :: "string \<times> string \<Rightarrow> 'h el" where
  "home_step = (\<lambda>(title, txt). el ''div'' [el ''div'' [], para ''h3'' title, para ''p'' txt])"

definition home_pillar :: "(PillarStatKind \<Rightarrow> 'h el) \<Rightarrow> string \<times> string \<times> string \<times> PillarStatKind \<Rightarrow> 'h el" where
  "home_pillar pillar = (\<lambda>(title, txt, lab, kind).
     el ''div'' [el ''div'' [para ''h3'' title], para ''p'' txt, el ''div'' [para ''span'' lab, pillar kind]])"

definition home_hero :: "'h el \<Rightarrow> 'h el" where
  "home_hero hero = el ''div''
     [el ''div''
        [para ''span'' ''DECENTRALIZED TRADE FINANCE'',
         el ''h1'' [Txt ''ELIMINATE THE '', el ''br'' [], para ''span'' ''$2.5 TRILLION'', Txt '' '', el ''br'' [], Txt ''TRADE FINANCE GAP''],
         para ''p'' (''TrusTrove tokenizes outstanding trade obligations on Stellar. SMEs secure immediate working '' @
                     ''capital at fair rates, and liquidity providers earn direct yield.'')],
      hero, para ''div'' (quoted ''From invoice to USDC in minutes. Not weeks.'')]"

definition home_footer :: "string option \<Rightarrow> 'h el" where
  "home_footer poolId = el ''footer'' [el ''div''
     [para ''span'' (copyright_sign @ '' 2026 TRUSTROVE PROTOCOL '' @ em_dash @ '' VERIFIED TRADE FINANCE''),
      el ''div'' [outside_link specificationUrl [Txt ''SPECIFICATION''], outside_link (stellarExpertUrl poolId) [Txt ''STELLAR EXPERT''],
                  El ''a'' [(''href'', ''/docs'')] [] [Txt ''DOCUMENTATION'']]]]"

definition Home :: "string option \<Rightarrow> 'h home_parts \<Rightarrow> 'h el" where
  "Home poolId P = el ''div''
     [hm_topBar P, hm_navbar P,
      El ''main'' [(''id'', ''main-content'')] []
        [el ''div'' [],
         el ''div''
           [el ''div''
              [hm_feed P,
               el ''div'' [para ''span'' ''STELLAR INTEGRATION'',
                 Txt (''Every entry represents a cryptographically secure, on-chain event emitted by the Soroban network and '' @
                      ''synced by our indexer.'')]],
            home_hero (hm_hero P), el ''div'' [hm_lp P]],
         el ''div''
           [home_section ''PROTOCOL WORKFLOW'' ''HOW TRUSTROVE ELIMINATES MIDDLEMEN'',
            el ''div'' (map home_step
              [(''1. REGISTER AS SME'', ''Verify your business identity on-chain via the registry contract to establish trusted credentials.''),
               (''2. TOKENIZE INVOICE'', ''Generate a unique invoice cryptographic hash on-chain representing your commercial shipment.''),
               (''3. RECEIVE USDC LIQUIDITY'',
                ''Pool contract immediately funds the invoice at the agreed discount rate directly into your wallet.''),
               (''4. BUYER MATURITY SETTLEMENT'',
                ''Buyer pays full invoice face value to the pool upon due date, releasing escrow and yielding LP interest.'')])],
         el ''div''
           [home_section ''SYSTEM ARCHITECTURE'' ''SOROBAN SMART CONTRACT PIPELINE'',
            el ''div'' (map (home_pillar (hm_pillar P))
              [(''REGISTRY_CONTRACT'', ''Manages decentralized profiles and KYC verification status for issuers and buyers.'',
                ''VERIFIED ISSUERS:'', issuers_kind),
               (''INVOICE_CONTRACT'', ''Stores tokenized invoices, discount rates, status lifecycle events, and compliance signatures.'',
                ''TOTAL OBLIGATIONS:'', invoices_kind),
               (''POOL & ESCROW'',
                ''Controls USDC liquidity deposits, share-based yield parameters, and locks obligations securely in escrow.'',
                ''UTILIZATION RATE:'', utilization_kind)])],
         el ''div'' [home_section ''FINANCIAL FEASIBILITY'' ''INTERACTIVE ECONOMIC COMPILER'', hm_calculator P]],
      home_footer poolId]"

subsection \<open>The documentation page\<close>

text \<open>
  The lines appear one by one. The state's updater reads the counter when React runs it, and the counter is
  advanced at the end of the tick: \<open>late\<close> tells whether React ran the updater after that, with the next
  render, as it is documented to, or at once, as it also may. A line that is not there is undefined.
\<close>

definition logMessages :: "string list" where
  "logMessages =
     [''INITIATING SECURE DOCS DISPATCH ROUTER...'', ''RESOLVING SYSTEM ROUTE: /docs'', ''ESTABLISHING CONNECTION WITH GITBOOK PROTOCOL...'',
      ''FEDERATED SPACE IDENTIFIED: TrusTrove Docs'', ''EXTERNAL GATEWAY SECURED: k1ngd4vid.gitbook.io'',
      ''DELEGATING TRAFFIC TO SECURE SOURCE...'']"

record docs =
  dc_logs :: "string option list"
  dc_bootFinished :: bool
  dc_index :: nat
  dc_running :: bool

definition docs_mount :: "bool \<Rightarrow> docs" where
  "docs_mount reduced =
     (if reduced then \<lparr>dc_logs = map Some logMessages, dc_bootFinished = True, dc_index = 0, dc_running = False\<rparr>
      else \<lparr>dc_logs = [], dc_bootFinished = False, dc_index = 0, dc_running = True\<rparr>)"

definition docs_line :: "nat \<Rightarrow> string option" where
  "docs_line i = (if i < length logMessages then Some (logMessages ! i) else None)"

definition docs_tick :: "bool \<Rightarrow> docs \<Rightarrow> docs" where
  "docs_tick late s =
     (if \<not> dc_running s then s
      else if dc_index s < length logMessages
      then s\<lparr>dc_logs := dc_logs s @ [docs_line (if late then Suc (dc_index s) else dc_index s)], dc_index := Suc (dc_index s)\<rparr>
      else s\<lparr>dc_running := False, dc_bootFinished := True\<rparr>)"

definition DocsPage :: "'h el \<Rightarrow> 'h el \<Rightarrow> docs \<Rightarrow> 'h el" where
  "DocsPage topBar navbar s = el ''div''
     [topBar, navbar,
      main_content
        [el ''div'' [],
         el ''div''
           [el ''div'' [el ''div'' [para ''span'' ''SYSTEM MODULE: ROUTING_GATEWAY''], el ''div'' (replicate 3 (el ''span'' []))],
            el ''div''
              (El ''div'' [(''role'', ''status''), (''aria-live'', ''polite'')] []
                 (map (\<lambda>(i, line). el ''div'' [para ''span'' (''[LOG_'' @ show_nat i @ '']''),
                                                para ''span'' (case line of Some l \<Rightarrow> l | None \<Rightarrow> [])]) (enumerate 0 (dc_logs s))) #
               shown (\<not> dc_bootFinished s)
                 [el ''div'' [para ''span'' ''RESOLVING...''], el ''div'' [outside_link specificationUrl [Txt ''[Skip to Docs]'']]] @
               shown (dc_bootFinished s) [para ''div'' (check_sign @ '' HANDSHAKE RESOLVED. READY WHEN YOU ARE.'')]),
            el ''div''
              [el ''div''
                 [el ''div'' [],
                  el ''div'' [para ''h1'' ''TrusTrove GitBook'',
                              para ''p'' ''Protocol mechanics, economic modeling, smart contracts, and developer references.'']],
               outside_link specificationUrl [para ''span'' ''Access Docs'']],
            el ''div'' [para ''span'' ''SECURE GATEWAY ENFORCED'', para ''span'' ''STATUS: ACTIVE'']]]]"

subsection \<open>The help page\<close>

definition faqItems :: "(string \<times> string \<times> string) list" where
  "faqItems =
     [
      (''what-is-trusttrove'', ''What is TrusTrove?'',
        ''TrusTrove is a decentralized invoice factoring platform that connects small and medium enterprises '' @
        ''(SMEs) with liquidity providers (LPs).''),
      (''verify-profile'', ''How do I verify my profile?'',
        ''You can verify your profile by navigating to the Profile page and completing the required identity '' @
        ''and business verification steps.''),
      (''wallet-freighter'', ''How do I set up a Wallet and Freighter basics?'',
        ''To interact with TrusTrove, you need a Stellar-compatible wallet like Freighter. Install the '' @
        ''Freighter browser extension, secure your seed phrase, and connect it to TrusTrove to manage your '' @
        ''identity, sign transactions, and hold your funds.''),
      (''invoice-tokenization'', ''How does invoice tokenization work?'',
        ''TrusTrove converts traditional invoices into digital tokens on the stellar blockchain. Each token '' @
        ''represents a fractional ownership in the invoice, allowing multiple liquidity providers to fund a '' @
        ''single invoice.''),
      (''discount-rate-bps'', ''What is the discount rate and BPS?'',
        ''The discount rate is the fee charged to the SME for early financing, typically expressed in basis '' @
        ''points (BPS). For example, 100 BPS equals 1%. This rate determines the return for Liquidity '' @
        ''Providers.''),
      (''funding-flow'', ''How does the funding flow work?'',
        ''Once an SME lists a tokenized invoice, LPs can fund it using stablecoins. Funds are held in a smart '' @
        ''contract escrow until the invoice target is met. Then, funds are released to the SME minus the '' @
        ''discount rate.''),
      (''delivery-confirmation'', ''How does delivery confirmation work?'',
        ''Before funds are fully settled, the buyer must confirm receipt of goods or services. This delivery '' @
        ''confirmation triggers the final stages of the smart contract to ensure all parties have fulfilled '' @
        ''their obligations.''),
      (''lp-yield'', ''How do LPs earn yield?'',
        ''Liquidity Providers earn yield from the discount rate applied to the invoices they fund. When the '' @
        ''buyer repays the full invoice amount at maturity, the LP receives their principal plus their '' @
        ''proportional share of the discount fee.''),
      (''default-handling'', ''What happens in case of a default?'',
        ''If the buyer fails to pay the invoice by the due date, the smart contract initiates default '' @
        ''handling procedures. This may include locking collateral, applying late penalties, or routing the '' @
        ''issue to a decentralized arbitration protocol.'')]"

datatype help_control = ToggleQuestion string

definition help_click :: "help_control \<Rightarrow> string option \<Rightarrow> string option" where
  "help_click h openId = (case h of ToggleQuestion i \<Rightarrow> if openId = Some i then None else Some i)"

definition AccordionItem :: "bool \<Rightarrow> string \<times> string \<times> string \<Rightarrow> help_control el" where
  "AccordionItem isOpen = (\<lambda>(i, question, answer).
     el ''div''
       [El ''button'' [(''type'', ''button''), (''aria-expanded'', aria_bool isOpen), (''aria-controls'', ''faq-content-'' @ i),
                       (''id'', ''faq-header-'' @ i)] [(''onClick'', ToggleQuestion i)]
          [Txt question, El ''span'' [(''aria-hidden'', ''true'')] [] [Txt (if isOpen then minus_sign else ''+'')]],
        El ''div'' [(''id'', ''faq-content-'' @ i), (''role'', ''region''), (''aria-labelledby'', ''faq-header-'' @ i),
                    (''className'', if isOpen then ''block'' else ''hidden'')] [] [Txt answer]])"

definition faq :: "string option \<Rightarrow> help_control el" where
  "faq openId = el ''div'' (map (\<lambda>item. AccordionItem (openId = Some (fst item)) item) faqItems)"

definition HelpPage :: "int \<Rightarrow> help_control el \<Rightarrow> string option \<Rightarrow> help_control el" where
  "HelpPage year navbar openId = PageLayout year navbar
     [el ''div''
        [para ''h1'' ''Help & FAQ'', faq openId,
         el ''section'' [para ''h2'' ''Need more help?'',
           para ''p'' ''If you have additional questions, please reach out to our support team at support@trusttrove.com.'']]]"

subsection \<open>Where the skip link leads\<close>

lemma skip_main [simp]: "skip_targets (main_content kids) = True # concat (map skip_targets kids)"
  by (simp add: main_content_def)

lemma skip_shimmer [simp]: "skip_targets SkeletonShimmer = []"
  by (simp add: SkeletonShimmer_def)

lemma skip_button [simp]: "skip_targets (button h dis lab) = []"
  by (simp add: button_def flag_def)

lemma skip_outside_link [simp]: "skip_targets (outside_link href kids) = concat (map skip_targets kids)"
  by (simp add: outside_link_def)

text \<open>
  On every page with the common frame, on the documentation, help and error pages and while the
  documentation loads there is exactly one target, and it takes the focus.
\<close>

lemma skip_layout:
  "skip_targets navbar = [] \<Longrightarrow> concat (map skip_targets kids) = [] \<Longrightarrow> skip_targets (PageLayout year navbar kids) = [True]"
  by (simp add: PageLayout_def)

lemma skip_answers:
  "skip_targets (RootError e) = [True]" "skip_targets (GlobalError e) = [True]" "skip_targets NotFound = [True]" "skip_targets DocsLoading = [True]"
  by (simp_all add: RootError_def GlobalError_def NotFound_def DocsLoading_def)

lemma skip_docs: "skip_targets topBar = [] \<Longrightarrow> skip_targets navbar = [] \<Longrightarrow> skip_targets (DocsPage topBar navbar s) = [True]"
  by (auto simp: DocsPage_def comp_def case_prod_beta)

lemma skip_help: "skip_targets navbar = [] \<Longrightarrow> skip_targets (HelpPage year navbar openId) = [True]"
  by (auto simp: HelpPage_def faq_def AccordionItem_def comp_def case_prod_beta intro!: skip_layout)

text \<open>
  The landing page has the target without the attribute that lets it take the focus, which the comment in
  \<open>PageLayout\<close> says is needed. While the dashboard, the marketplace, the page of the providers or the profile
  loads there is none.
\<close>

definition plain_parts :: "'h home_parts \<Rightarrow> bool" where
  "plain_parts P \<longleftrightarrow> (\<forall>e \<in> {hm_topBar P, hm_navbar P, hm_feed P, hm_hero P, hm_lp P, hm_calculator P} \<union> range (hm_pillar P). skip_targets e = [])"

lemma skip_home: "plain_parts P \<Longrightarrow> skip_targets (Home poolId P) = [False]"
  by (simp add: plain_parts_def Home_def home_hero_def home_section_def home_step_def home_pillar_def home_footer_def)

lemmas loading_defs = DashboardLoading_def MarketplaceLoading_def LPLoading_def ProfileLoading_def SmeLoading_def InvoiceTableSkeleton_def
  PoolStatsPanelSkeleton_def LPPositionCardSkeleton_def SkeletonCardSkeleton_def status_region_def

lemma skip_loading:
  "skip_targets DashboardLoading = []" "skip_targets MarketplaceLoading = []" "skip_targets LPLoading = []"
  "skip_targets ProfileLoading = []" "skip_targets SmeLoading = []"
  by (simp_all add: loading_defs)

subsection \<open>Headings of the landing page\<close>

lemma headings_shimmer [simp]: "headings SkeletonShimmer = []"
  by (simp add: SkeletonShimmer_def heading_level_def)

lemma headings_shown [simp]: "concat (map headings (shown b xs)) = (if b then concat (map headings xs) else [])"
  by simp

lemma headings_feed: "headings (InvoiceFeed now isLoading events) = [2]"
  by (simp add: InvoiceFeed_def Let_def heading_level_def comp_def split: list.split)

lemma headings_yield: "headings (LpYieldCalculator usdcKey loc inputId deposit u) = [3]"
  by (simp add: LpYieldCalculator_def AmountInput_def slider_def yield_bar_def Let_def heading_level_def flag_def attr_def shown_def)

text \<open>
  The page is meant not to skip a level, and its test finds none: the test renders it without the feed and
  the calculators. With them, the heading of the calculator follows the title of the page two levels down.
\<close>

theorem landing_heading_skipped:
  assumes "\<forall>e \<in> {hm_topBar P, hm_navbar P, hm_hero P} \<union> range (hm_pillar P). headings e = []"
    and "hm_feed P = map_el f (InvoiceFeed now isLoading events)" and "hm_lp P = map_el g (LpYieldCalculator usdcKey loc inputId deposit u)"
  shows "headings (Home poolId P) = [2, 1, 3, 2, 3, 3, 3, 3, 2, 3, 3, 3, 2] @ headings (hm_calculator P) \<and>
    \<not> no_skip (headings (Home poolId P)) \<and>
    no_skip (headings (Home poolId (P\<lparr>hm_feed := el ''div'' [], hm_lp := el ''div'' [], hm_calculator := el ''div'' []\<rparr>)))"
proof -
  have "headings (Home poolId P) = [2, 1, 3, 2, 3, 3, 3, 3, 2, 3, 3, 3, 2] @ headings (hm_calculator P)"
    using assms
    by (simp add: Home_def home_hero_def home_section_def home_step_def home_pillar_def home_footer_def outside_link_def heading_level_def
        headings_feed headings_yield)
  moreover have "headings (Home poolId (P\<lparr>hm_feed := el ''div'' [], hm_lp := el ''div'' [], hm_calculator := el ''div'' []\<rparr>)) =
      [1, 2, 3, 3, 3, 3, 2, 3, 3, 3, 2]"
    using assms(1)
    by (simp add: Home_def home_hero_def home_section_def home_step_def home_pillar_def home_footer_def outside_link_def heading_level_def)
  ultimately show ?thesis by simp
qed

subsection \<open>Placeholders\<close>

text \<open>
  Of a placeholder only its label is read aloud, as its comment says; the one of the table has the titles of
  the columns as well. The pages' own placeholders say nothing on the dashboard and the profile.
\<close>

lemma heard_shimmer [simp]: "heard SkeletonShimmer = []" "status_labels SkeletonShimmer = []"
  by (simp_all add: SkeletonShimmer_def)

lemma heard_skeletons:
  "heard InvoiceCardSkeleton = []" "heard PoolStatsPanelSkeleton = []" "heard InvoiceFeedSkeleton = []" "heard LPPositionCardSkeleton = []"
  "heard ActivityTimelineSkeleton = []" "heard InvoiceTableSkeleton \<noteq> []"
  by (simp_all add: loading_defs InvoiceCardSkeleton_def InvoiceFeedSkeleton_def ActivityTimelineSkeleton_def)

lemma announced_loading:
  "status_labels DashboardLoading = []" "status_labels ProfileLoading = []" "status_labels MarketplaceLoading = [''Loading invoices'']"
  "status_labels LPLoading = [''Loading pool statistics'', ''Loading your position'']"
  by (simp_all add: loading_defs)

subsection \<open>The lines of the documentation page\<close>

text \<open>
  The animation ends after seven ticks however React runs the updaters. When they run at once, the lines are
  those of a user who prefers no motion; when they run with the render, the first line is never shown and the
  last one is empty.
\<close>

lemma docs_finishes: "length lates = 7 \<Longrightarrow> dc_bootFinished (foldl (\<lambda>s late. docs_tick late s) (docs_mount False) lates)"
  by (auto simp: length_Suc_conv numeral_eq_Suc docs_tick_def docs_mount_def logMessages_def)

lemma docs_lines_at_once: "dc_logs ((docs_tick False ^^ 7) (docs_mount False)) = dc_logs (docs_mount True)"
  by (simp add: numeral_eq_Suc docs_tick_def docs_mount_def logMessages_def docs_line_def)

lemma docs_lines_late: "dc_logs ((docs_tick True ^^ 7) (docs_mount False)) = map Some (tl logMessages) @ [None]"
  by (simp add: numeral_eq_Suc docs_tick_def docs_mount_def logMessages_def docs_line_def)

subsection \<open>The questions\<close>

lemma faq_labelled: "well_labelled (faq openId)"
  by (simp add: well_labelled_def faq_def faqItems_def AccordionItem_def)

text \<open>A click on a question opens it alone, a second one closes it.\<close>

lemma faq_toggles: "help_click (ToggleQuestion i) (help_click (ToggleQuestion i) s) = (if s = Some i then Some i else None)"
  by (simp add: help_click_def)

end
